(* ===== verification/Prelude.thy ===== *)
theory Prelude
  imports Main "HOL-Library.Char_ord" "HOL-Library.List_Lexorder" "HOL-Library.Sublist" "HOL-Library.Multiset"
begin

text \<open>
  The shared vocabulary of the development: operations that thread a state and may fail
  (\<open>op\<close>), the combinators they are written with, a small program logic for them
  (\<open>hoare\<close>, \<open>keeps\<close>) whose rules are collected in \<open>op_rules\<close>, and the part of Go's
  standard library the operator uses on strings and slices.
\<close>

section \<open>Operations\<close>

text \<open>
  A Go function that returns \<open>(T, error)\<close> and mutates what its pointers reach is an
  \<open>op\<close>: it takes the state and returns \<open>Inl\<close> of an error or \<open>Inr\<close> of a result,
  together with the state it leaves behind. The state survives an error, as a pointer does.
\<close>

type_synonym ('s, 'e, 'a) op = "'s \<Rightarrow> ('e + 'a) \<times> 's"

definition ret :: "'a \<Rightarrow> ('s, 'e, 'a) op" where
  "ret x = (\<lambda>s. (Inr x, s))"

definition fail :: "'e \<Rightarrow> ('s, 'e, 'a) op" where
  "fail e = (\<lambda>s. (Inl e, s))"

text \<open>\<open>attempt\<close> hands the error to the continuation (\<open>if err != nil { ... }\<close> with a
  body of its own); \<open>bnd\<close> returns it at once (\<open>if err != nil { return err }\<close>).\<close>

definition attempt :: "('s, 'e, 'a) op \<Rightarrow> ('e + 'a \<Rightarrow> ('s, 'f, 'b) op) \<Rightarrow> ('s, 'f, 'b) op" where
  "attempt m k = (\<lambda>s. case m s of (r, s') \<Rightarrow> k r s')"

definition bnd :: "('s, 'e, 'a) op \<Rightarrow> ('a \<Rightarrow> ('s, 'e, 'b) op) \<Rightarrow> ('s, 'e, 'b) op" where
  "bnd m f = attempt m (case_sum fail f)"

definition liftE :: "'e + 'a \<Rightarrow> ('s, 'e, 'a) op" where
  "liftE r = case_sum fail ret r"

definition gets :: "('s \<Rightarrow> 'a) \<Rightarrow> ('s, 'e, 'a) op" where
  "gets g = (\<lambda>s. (Inr (g s), s))"

definition modify :: "('s \<Rightarrow> 's) \<Rightarrow> ('s, 'e, unit) op" where
  "modify g = (\<lambda>s. (Inr (), g s))"

text \<open>\<open>for _, x := range xs { ... }\<close> with an accumulator, left by the first error.\<close>

fun foldM :: "('b \<Rightarrow> 'a \<Rightarrow> ('s, 'e, 'b) op) \<Rightarrow> 'b \<Rightarrow> 'a list \<Rightarrow> ('s, 'e, 'b) op" where
  "foldM f b [] = ret b"
| "foldM f b (x # xs) = bnd (f b x) (\<lambda>b'. foldM f b' xs)"

definition forM :: "('a \<Rightarrow> ('s, 'e, unit) op) \<Rightarrow> 'a list \<Rightarrow> ('s, 'e, unit) op" where
  "forM f xs = foldM (\<lambda>_. f) () xs"

text \<open>The same loops over pure bodies that may fail.\<close>

fun foldE :: "('b \<Rightarrow> 'a \<Rightarrow> 'e + 'b) \<Rightarrow> 'b \<Rightarrow> 'a list \<Rightarrow> 'e + 'b" where
  "foldE f b [] = Inr b"
| "foldE f b (x # xs) = (case f b x of Inl e \<Rightarrow> Inl e | Inr b' \<Rightarrow> foldE f b' xs)"

definition forE :: "('a \<Rightarrow> 'e + unit) \<Rightarrow> 'a list \<Rightarrow> 'e + unit" where
  "forE f xs = foldE (\<lambda>_. f) () xs"

definition bindE :: "'e + 'a \<Rightarrow> ('a \<Rightarrow> 'e + 'b) \<Rightarrow> 'e + 'b" where
  "bindE r f = case_sum Inl f r"

section \<open>A logic for operations\<close>

text \<open>\<open>hoare P m Q E\<close>: from a state with \<open>P\<close>, a result satisfies \<open>Q\<close> and an error
  satisfies \<open>E\<close>. \<open>keeps P m\<close>: \<open>m\<close> preserves \<open>P\<close> however it ends.\<close>

definition hoare ::
  "('s \<Rightarrow> bool) \<Rightarrow> ('s, 'e, 'a) op \<Rightarrow> ('a \<Rightarrow> 's \<Rightarrow> bool) \<Rightarrow> ('e \<Rightarrow> 's \<Rightarrow> bool) \<Rightarrow> bool" where
  "hoare P m Q E \<longleftrightarrow> (\<forall>s. P s \<longrightarrow> (case m s of (Inl e, s') \<Rightarrow> E e s' | (Inr x, s') \<Rightarrow> Q x s'))"

definition keeps :: "('s \<Rightarrow> bool) \<Rightarrow> ('s, 'e, 'a) op \<Rightarrow> bool" where
  "keeps P m \<longleftrightarrow> (\<forall>s. P s \<longrightarrow> P (snd (m s)))"

named_theorems op_simps "unfolding of the operation combinators on a state"
named_theorems keeps_rules "structural rules for keeps"

section \<open>Go strings and slices\<close>

text \<open>\<open>strings.Join\<close>.\<close>

fun join :: "string \<Rightarrow> string list \<Rightarrow> string" where
  "join sep [] = []"
| "join sep [x] = x"
| "join sep (x # y # ys) = x @ sep @ join sep (y # ys)"

text \<open>\<open>strings.CutPrefix\<close>: the rest after the prefix, \<open>None\<close> for \<open>ok = false\<close>.\<close>

definition cutPrefix :: "string \<Rightarrow> string \<Rightarrow> string option" where
  "cutPrefix s p = (if take (length p) s = p then Some (drop (length p) s) else None)"

definition trimPrefix :: "string \<Rightarrow> string \<Rightarrow> string" where
  "trimPrefix s p = (case cutPrefix s p of Some r \<Rightarrow> r | None \<Rightarrow> s)"

text \<open>\<open>strings.Trim(s, "c")\<close> for a one-character cutset.\<close>

definition trimChar :: "char \<Rightarrow> string \<Rightarrow> string" where
  "trimChar c s = rev (dropWhile (\<lambda>x. x = c) (rev (dropWhile (\<lambda>x. x = c) s)))"

text \<open>\<open>%d\<close> of a non-negative integer.\<close>

definition digit_char :: "nat \<Rightarrow> char" where
  "digit_char n = char_of (48 + n)"

fun itoa :: "nat \<Rightarrow> string" where
  "itoa n = (if n < 10 then [digit_char n] else itoa (n div 10) @ [digit_char (n mod 10)])"

declare itoa.simps [simp del]

definition is_digit :: "char \<Rightarrow> bool" where
  "is_digit c \<longleftrightarrow> CHR ''0'' \<le> c \<and> c \<le> CHR ''9''"

text \<open>Go's \<open>append\<close> of the elements of \<open>ys\<close> not yet in \<open>xs\<close>, in order: the loop
  \<open>if !slices.Contains(xs, y) { xs = append(xs, y) }\<close>.\<close>

definition append_new :: "'a list \<Rightarrow> 'a \<Rightarrow> 'a list" where
  "append_new xs y = (if y \<in> set xs then xs else xs @ [y])"

definition append_missing :: "'a list \<Rightarrow> 'a list \<Rightarrow> 'a list" where
  "append_missing xs ys = fold (\<lambda>y acc. append_new acc y) ys xs"

text \<open>\<open>int32\<close> arithmetic: the value a 32-bit two's complement result holds.\<close>

definition i32 :: "int \<Rightarrow> int" where
  "i32 x = (x + 2 ^ 31) mod 2 ^ 32 - 2 ^ 31"

section \<open>Lemmas on operations\<close>

lemma ret_app [simp, op_simps]: "ret x s = (Inr x, s)"
  by (simp add: ret_def)

lemma fail_app [simp, op_simps]: "fail e s = (Inl e, s)"
  by (simp add: fail_def)

lemma gets_app [simp, op_simps]: "gets g s = (Inr (g s), s)"
  by (simp add: gets_def)

lemma modify_app [simp, op_simps]: "modify g s = (Inr (), g s)"
  by (simp add: modify_def)

lemma attempt_app [op_simps]: "attempt m k s = (case m s of (r, s') \<Rightarrow> k r s')"
  by (simp add: attempt_def)

lemma bnd_app [op_simps]:
  "bnd m f s = (case m s of (Inl e, s') \<Rightarrow> (Inl e, s') | (Inr x, s') \<Rightarrow> f x s')"
  by (simp add: bnd_def attempt_def split: prod.splits sum.splits)

lemma liftE_app [simp, op_simps]: "liftE r s = (r, s)"
  by (simp add: liftE_def split: sum.splits)

lemma bnd_Inr: "bnd m f s = (Inr y, s') \<longleftrightarrow> (\<exists>x t. m s = (Inr x, t) \<and> f x t = (Inr y, s'))"
  by (auto simp: bnd_app split: prod.splits sum.splits)

lemma bnd_ret [simp]: "bnd (ret x) f = f x"
  by (rule ext) (simp add: bnd_app)

lemma bnd_fail [simp]: "bnd (fail e) f = fail e"
  by (rule ext) (simp add: bnd_app)

lemma bnd_assoc: "bnd (bnd m f) g = bnd m (\<lambda>x. bnd (f x) g)"
  by (rule ext) (simp add: bnd_app split: prod.splits sum.splits)

lemma bindE_Inr [simp]: "bindE r f = Inr y \<longleftrightarrow> (\<exists>x. r = Inr x \<and> f x = Inr y)"
  by (cases r) (auto simp: bindE_def)

lemma bindE_Inl: "bindE r f = Inl e \<longleftrightarrow> r = Inl e \<or> (\<exists>x. r = Inr x \<and> f x = Inl e)"
  by (cases r) (auto simp: bindE_def)

lemma forE_Nil [simp]: "forE f [] = Inr ()"
  by (simp add: forE_def)

lemma forE_Cons [simp]: "forE f (x # xs) = bindE (f x) (\<lambda>_. forE f xs)"
  by (simp add: forE_def bindE_def split: sum.splits)

lemma forE_ok: "forE f xs = Inr () \<longleftrightarrow> (\<forall>x\<in>set xs. f x = Inr ())"
  by (induction xs) auto

lemma forE_unit: "forE f xs = Inr u \<longleftrightarrow> (\<forall>x\<in>set xs. f x = Inr ())"
  using forE_ok [of f xs] by simp

lemma forM_Nil [simp]: "forM f [] = ret ()"
  by (simp add: forM_def)

lemma forM_Cons [simp]: "forM f (x # xs) = bnd (f x) (\<lambda>_. forM f xs)"
  by (simp add: forM_def)

subsection \<open>Rules for \<open>keeps\<close>\<close>

lemma keepsI: "(\<And>s. P s \<Longrightarrow> P (snd (m s))) \<Longrightarrow> keeps P m"
  by (simp add: keeps_def)

lemma keepsD: "keeps P m \<Longrightarrow> P s \<Longrightarrow> m s = (r, s') \<Longrightarrow> P s'"
  by (auto simp: keeps_def dest: spec [of _ s])

lemma keeps_ret [keeps_rules]: "keeps P (ret x)"
  by (simp add: keeps_def)

lemma keeps_fail [keeps_rules]: "keeps P (fail e)"
  by (simp add: keeps_def)

lemma keeps_gets [keeps_rules]: "keeps P (gets g)"
  by (simp add: keeps_def)

lemma keeps_liftE [keeps_rules]: "keeps P (liftE r)"
  by (simp add: keeps_def)

lemma keeps_attempt [keeps_rules]:
  assumes "keeps P m" and "\<And>r. keeps P (k r)"
  shows "keeps P (attempt m k)"
  using assms by (auto simp: keeps_def attempt_app split: prod.splits)

lemma keeps_bnd [keeps_rules]:
  assumes "keeps P m" and "\<And>x. keeps P (f x)"
  shows "keeps P (bnd m f)"
  unfolding bnd_def
  by (rule keeps_attempt [OF assms(1)]) (simp add: assms(2) keeps_fail split: sum.split)

lemma keeps_liftE_bnd:
  assumes "\<And>x. r = Inr x \<Longrightarrow> keeps P (f x)"
  shows "keeps P (bnd (liftE r) f)"
  using assms by (cases r) (auto simp: keeps_def bnd_app)

text \<open>When the continuation depends on what the first operation can return.\<close>

lemma keeps_bnd_res:
  assumes "keeps P m" and "\<And>s x s'. m s = (Inr x, s') \<Longrightarrow> keeps P (f x)"
  shows "keeps P (bnd m f)"
proof (rule keepsI)
  fix s
  assume s: "P s"
  obtain r t where r: "m s = (r, t)" by fastforce
  show "P (snd (bnd m f s))"
    using keepsD [OF assms(1) s r] assms(2) [of s _ t] r by (cases r) (auto simp: bnd_app keeps_def)
qed

lemma keeps_if [keeps_rules]: "keeps P a \<Longrightarrow> keeps P b \<Longrightarrow> keeps P (if c then a else b)"
  by simp

lemma keeps_option [keeps_rules]:
  "keeps P a \<Longrightarrow> (\<And>x. keeps P (b x)) \<Longrightarrow> keeps P (case m of None \<Rightarrow> a | Some x \<Rightarrow> b x)"
  by (cases m) auto

lemma keeps_sum [keeps_rules]:
  "(\<And>x. keeps P (a x)) \<Longrightarrow> (\<And>x. keeps P (b x)) \<Longrightarrow> keeps P (case m of Inl x \<Rightarrow> a x | Inr x \<Rightarrow> b x)"
  by (cases m) auto

lemma keeps_prod [keeps_rules]:
  "(\<And>x y. keeps P (a x y)) \<Longrightarrow> keeps P (case m of (x, y) \<Rightarrow> a x y)"
  by (cases m) auto

lemma keeps_list [keeps_rules]:
  "keeps P a \<Longrightarrow> (\<And>x xs. keeps P (b x xs)) \<Longrightarrow> keeps P (case m of [] \<Rightarrow> a | x # xs \<Rightarrow> b x xs)"
  by (cases m) auto

lemma keeps_foldM [keeps_rules]:
  assumes "\<And>b x. keeps P (f b x)"
  shows "keeps P (foldM f b xs)"
  by (induction xs arbitrary: b) (auto intro: keeps_ret keeps_bnd assms)

lemma keeps_forM [keeps_rules]: "(\<And>x. keeps P (f x)) \<Longrightarrow> keeps P (forM f xs)"
  unfolding forM_def by (rule keeps_foldM)

text \<open>A loop whose body is only run on the elements of the list.\<close>

lemma keeps_foldM_mem:
  assumes "\<And>b x. x \<in> set xs \<Longrightarrow> keeps P (f b x)"
  shows "keeps P (foldM f b xs)"
  using assms by (induction xs arbitrary: b) (auto intro!: keeps_ret keeps_bnd)

lemma keeps_snd: "keeps P m \<Longrightarrow> P s \<Longrightarrow> P (snd (m s))"
  by (simp add: keeps_def)

lemma bnd_gets [simp]: "bnd (gets g) f s = f (g s) s"
  by (simp add: bnd_app)

lemma keeps_modify: "(\<And>s. P s \<Longrightarrow> P (g s)) \<Longrightarrow> keeps P (modify g)"
  by (simp add: keeps_def)

subsection \<open>Rules for \<open>hoare\<close>\<close>

lemma hoareI:
  assumes "\<And>s x s'. P s \<Longrightarrow> m s = (Inr x, s') \<Longrightarrow> Q x s'"
    and "\<And>s e s'. P s \<Longrightarrow> m s = (Inl e, s') \<Longrightarrow> E e s'"
  shows "hoare P m Q E"
  using assms by (auto simp: hoare_def split: prod.splits sum.splits)

lemma hoare_runI:
  assumes "\<And>s r t. P s \<Longrightarrow> m s = (r, t) \<Longrightarrow> (case r of Inl e \<Rightarrow> E e t | Inr x \<Rightarrow> Q x t)"
  shows "hoare P m Q E"
  using assms by (fastforce simp: hoare_def split: prod.splits sum.splits)

lemma hoareD: "hoare P m Q E \<Longrightarrow> P s \<Longrightarrow> m s = (Inr x, s') \<Longrightarrow> Q x s'"
  by (auto simp: hoare_def dest: spec [of _ s])

lemma hoareD_err: "hoare P m Q E \<Longrightarrow> P s \<Longrightarrow> m s = (Inl e, s') \<Longrightarrow> E e s'"
  by (auto simp: hoare_def dest: spec [of _ s])

lemma hoare_ret: "(\<And>s. P s \<Longrightarrow> Q x s) \<Longrightarrow> hoare P (ret x) Q E"
  by (simp add: hoare_def)

lemma hoare_fail: "(\<And>s. P s \<Longrightarrow> E e s) \<Longrightarrow> hoare P (fail e) Q E"
  by (simp add: hoare_def)

lemma hoare_bnd:
  assumes "hoare P m R E" and "\<And>x. hoare (R x) (f x) Q E"
  shows "hoare P (bnd m f) Q E"
proof (rule hoareI)
  fix s y s'
  assume "P s" and "bnd m f s = (Inr y, s')"
  then obtain x t where "m s = (Inr x, t)" and "f x t = (Inr y, s')"
    by (auto simp: bnd_Inr)
  with assms \<open>P s\<close> show "Q y s'" by (blast dest: hoareD)
next
  fix s e s'
  assume "P s" and "bnd m f s = (Inl e, s')"
  then show "E e s'"
    using hoareD [OF assms(1)] hoareD_err [OF assms(1)] hoareD_err [OF assms(2)]
    by (fastforce simp: bnd_app split: prod.splits sum.splits)
qed

lemma hoare_foldM:
  assumes "\<And>b x. x \<in> set xs \<Longrightarrow> hoare (I b) (f b x) I E"
  shows "hoare (I b) (foldM f b xs) I E"
  using assms
proof (induction xs arbitrary: b)
  case (Cons x xs)
  show ?case unfolding foldM.simps
    by (rule hoare_bnd [where R = I]) (use Cons in simp_all)
qed (simp add: hoare_ret)

lemma keeps_hoare: "keeps P m \<Longrightarrow> hoare P m (\<lambda>_. P) (\<lambda>_. P)"
  by (rule hoareI) (auto dest: keepsD)

section \<open>Lemmas on strings and slices\<close>

lemma cutPrefix_Some [simp]: "cutPrefix s p = Some r \<longleftrightarrow> s = p @ r"
  unfolding cutPrefix_def by (metis append_eq_conv_conj option.inject option.discI)

lemma cutPrefix_None [simp]: "cutPrefix s p = None \<longleftrightarrow> \<not> prefix p s"
  by (auto simp: cutPrefix_def prefix_def) (metis append_take_drop_id)

lemma trimChar_hd: "trimChar c s \<noteq> [] \<Longrightarrow> hd (trimChar c s) \<noteq> c"
proof -
  assume ne: "trimChar c s \<noteq> []"
  let ?d = "dropWhile (\<lambda>x. x = c) s"
  have "prefix (trimChar c s) ?d"
    unfolding trimChar_def
    by (metis rev_rev_ident suffix_dropWhile suffix_to_prefix)
  with ne have "?d \<noteq> []" and "hd (trimChar c s) = hd ?d"
    by (auto simp: prefix_def simp del: dropWhile_eq_Nil_conv)
  then show ?thesis
    using hd_dropWhile [of "\<lambda>x. x = c" s] by simp
qed

lemma trimChar_last: "trimChar c s \<noteq> [] \<Longrightarrow> last (trimChar c s) \<noteq> c"
  unfolding trimChar_def
  by (metis (mono_tags, lifting) hd_dropWhile last_rev rev_is_Nil_conv)

lemma set_trimChar: "set (trimChar c s) \<subseteq> set s"
  unfolding trimChar_def by (auto dest!: set_dropWhileD)

lemma length_trimChar: "length (trimChar c s) \<le> length s"
  unfolding trimChar_def
  by (metis le_trans length_dropWhile_le length_rev)

lemma append_new_mem [simp]: "set (append_new xs y) = insert y (set xs)"
  by (auto simp: append_new_def)

lemma append_missing_Nil [simp]: "append_missing xs [] = xs"
  by (simp add: append_missing_def)

lemma append_missing_Cons [simp]:
  "append_missing xs (y # ys) = append_missing (append_new xs y) ys"
  by (simp add: append_missing_def)

lemma set_append_missing [simp]: "set (append_missing xs ys) = set xs \<union> set ys"
  by (induction ys arbitrary: xs) auto

lemma prefix_append_new: "prefix xs (append_new xs y)"
  by (auto simp: append_new_def)

lemma prefix_append_missing: "prefix xs (append_missing xs ys)"
  by (induction ys arbitrary: xs) (auto intro: prefix_order.trans [OF prefix_append_new])

lemma append_missing_absorb: "set ys \<subseteq> set xs \<Longrightarrow> append_missing xs ys = xs"
  by (induction ys) (auto simp: append_new_def)

lemma distinct_append_new [simp]: "distinct (append_new xs y) \<longleftrightarrow> distinct xs"
  by (auto simp: append_new_def)

lemma distinct_append_missing: "distinct xs \<Longrightarrow> distinct (append_missing xs ys)"
  by (induction ys arbitrary: xs) auto

lemma i32_id: "- (2 ^ 31) \<le> x \<Longrightarrow> x < 2 ^ 31 \<Longrightarrow> i32 x = x"
  by (simp add: i32_def)

lemma i32_bounds: "- (2 ^ 31) \<le> i32 x" "i32 x < 2 ^ 31"
proof -
  have "0 \<le> (x + 2 ^ 31) mod (2 ^ 32)" by simp
  then show "- (2 ^ 31) \<le> i32 x" by (simp add: i32_def)
  have "(x + 2 ^ 31) mod (2 ^ 32) < 2 ^ 32" by (rule pos_mod_bound) simp
  then show "i32 x < 2 ^ 31" by (simp add: i32_def)
qed

end
