(* ===== verification/Types.thy ===== *)
theory Types
  imports Prelude
begin

text \<open>
  The data of the operator: errors, the \<open>VmwareCloudFoundationMigration\<close> resource
  (\<open>api/v1alpha1\<close>), and the fields of the Kubernetes and OpenShift objects that the code
  reads or writes. A Go enum is a datatype with the source's constants as constructors,
  a struct is a record, a pointer that may be nil is an \<open>option\<close>, an \<open>int32\<close> or
  \<open>int64\<close> is an \<open>int\<close> (with \<open>i32\<close> written where 32-bit sums are formed), a
  \<open>time.Time\<close> is the number of nanoseconds since the zero time, so that \<open>IsZero\<close> is
  \<open>= 0\<close>.
\<close>

section \<open>Errors\<close>

text \<open>
  A Go error is a text (\<open>fmt.Errorf\<close> without \<open>%w\<close>), a text around a cause (with
  \<open>%w\<close>), a failure that the Kubernetes or vSphere API reported, the sentinel
  \<open>errExecutionStopped\<close>, a \<open>transientError\<close>, or two errors joined
  (\<open>errors.Join\<close>). The code inspects errors with
  \<open>errors.Is\<close>, \<open>errors.As\<close> and the \<open>apierrors\<close> predicates, all of which follow the
  chain of causes. A run-time panic, which the controller runtime recovers into an error of the
  reconcile, is an \<open>Errorf\<close> with the run-time's text.
\<close>

datatype api_reason = ReasonNotFound | ReasonConflict | ReasonNoMatch | ReasonAlreadyExists | ReasonUnknown

datatype error =
    Errorf string
  | Wrapf string error
  | ApiErr api_reason string
  | ErrExecutionStopped
  | TransientErr error
  | JoinErr error error

fun error_text :: "error \<Rightarrow> string" where
  "error_text (Errorf t) = t"
| "error_text (Wrapf t e) = t @ '': '' @ error_text e"
| "error_text (ApiErr r t) = t"
| "error_text ErrExecutionStopped = ''stopping new migration actions''"
| "error_text (TransientErr e) = error_text e"
| "error_text (JoinErr e f) = error_text e @ [char_of (10::nat)] @ error_text f"

fun api_reason_of :: "error \<Rightarrow> api_reason option" where
  "api_reason_of (Errorf t) = None"
| "api_reason_of (Wrapf t e) = api_reason_of e"
| "api_reason_of (ApiErr r t) = Some r"
| "api_reason_of ErrExecutionStopped = None"
| "api_reason_of (TransientErr e) = api_reason_of e"
| "api_reason_of (JoinErr e f) = (case api_reason_of e of Some r \<Rightarrow> Some r | None \<Rightarrow> api_reason_of f)"

definition IsNotFound :: "error \<Rightarrow> bool" where
  "IsNotFound e \<longleftrightarrow> api_reason_of e = Some ReasonNotFound"

definition IsConflict :: "error \<Rightarrow> bool" where
  "IsConflict e \<longleftrightarrow> api_reason_of e = Some ReasonConflict"

definition IsNoMatchError :: "error \<Rightarrow> bool" where
  "IsNoMatchError e \<longleftrightarrow> api_reason_of e = Some ReasonNoMatch"

fun is_stopped :: "error \<Rightarrow> bool" where
  "is_stopped (Wrapf t e) = is_stopped e"
| "is_stopped (TransientErr e) = is_stopped e"
| "is_stopped (JoinErr e f) \<longleftrightarrow> is_stopped e \<or> is_stopped f"
| "is_stopped ErrExecutionStopped = True"
| "is_stopped _ = False"

fun isTransientError :: "error \<Rightarrow> bool" where
  "isTransientError (TransientErr e) = True"
| "isTransientError (Wrapf t e) = isTransientError e"
| "isTransientError (JoinErr e f) \<longleftrightarrow> isTransientError e \<or> isTransientError f"
| "isTransientError _ = False"

text \<open>\<open>%q\<close>: a double-quoted string with Go's escapes for quotes, backslashes and ASCII
  control characters. Bytes of multi-byte characters are copied.\<close>

definition hex_digit :: "nat \<Rightarrow> char" where
  "hex_digit n = (if n < 10 then char_of (48 + n) else char_of (87 + n))"

definition quote_char :: "char \<Rightarrow> string" where
  "quote_char c = (let n = of_char c :: nat in
     if n = 34 then [char_of (92::nat), c]
     else if n = 92 then [c, c]
     else if n = 7 then [char_of (92::nat), CHR ''a'']
     else if n = 8 then [char_of (92::nat), CHR ''b'']
     else if n = 9 then [char_of (92::nat), CHR ''t'']
     else if n = 10 then [char_of (92::nat), CHR ''n'']
     else if n = 11 then [char_of (92::nat), CHR ''v'']
     else if n = 12 then [char_of (92::nat), CHR ''f'']
     else if n = 13 then [char_of (92::nat), CHR ''r'']
     else if n < 32 \<or> n = 127
       then [char_of (92::nat), CHR ''x'', hex_digit (n div 16), hex_digit (n mod 16)]
     else [c])"

definition quote :: "string \<Rightarrow> string" where
  "quote s = [char_of (34::nat)] @ concat (map quote_char s) @ [char_of (34::nat)]"

definition itoa_int :: "int \<Rightarrow> string" where
  "itoa_int i = (if i < 0 then ''-'' @ itoa (nat (- i)) else itoa (nat i))"

section \<open>The migration resource\<close>

type_synonym time = int

datatype migration_state = MigrationStatePending | MigrationStateRunning | MigrationStatePaused

datatype condition_type =
    ConditionInfrastructurePrepared
  | ConditionDestinationInitialized
  | ConditionMultiSiteConfigured
  | ConditionWorkloadMigrated
  | ConditionSourceCleaned
  | ConditionReady
  | ConditionAccepted
  | ConditionOther string

datatype condition_status = ConditionTrue | ConditionFalse | ConditionUnknown

datatype reason =
    ReasonProgressing
  | ReasonCompleted
  | ReasonFailed
  | ReasonMappingRejected
  | ReasonPaused
  | ReasonRetrying
  | ReasonUnsupportedName
  | ReasonUnsupportedNamespace
  | ReasonDeletionBlocked
  | ReasonWaitingForVSpherePods
  | ReasonOther string

record condition =
  cond_type :: condition_type
  cond_status :: condition_status
  observedGeneration :: int
  lastTransitionTime :: time
  cond_reason :: reason
  cond_message :: string

record topology =
  datacenter :: string
  computeCluster :: string
  networks :: "string list"
  datastore :: string
  resourcePool :: string
  folder :: string
  template :: string

text \<open>\<open>configv1.VSpherePlatformFailureDomainSpec\<close>; of the affinities only the type is read.\<close>

record failureDomain =
  fd_name :: string
  fd_region :: string
  fd_zone :: string
  fd_server :: string
  regionAffinity :: "string option"
  zoneAffinity :: "string option"
  fd_topology :: topology

record fdMapping =
  map_source :: string
  map_destination :: string

record secretReference =
  secret_name :: string
  secret_namespace :: string

record workerProgress =
  targetMachinesTotal :: int
  targetMachinesReady :: int
  targetNodesReady :: int
  sourceMachinesRemaining :: int

record controlPlaneProgress =
  cp_replicas :: int
  cp_updatedReplicas :: int
  cp_readyReplicas :: int

record migrationProgress =
  workers :: "workerProgress option"
  controlPlane :: "controlPlaneProgress option"

text \<open>The node migration block of the spec: the reconciler carries it (it is part of the
  completion hash and of the spec comparison) and never reads inside it.\<close>

datatype node_migration_type = NodeMigrationTypeVMotion | NodeMigrationTypeRecreate

datatype vmotion_mode = VMotionModeHot | VMotionModeCold

record roleMigrationSpec =
  role_type :: node_migration_type
  role_vmotion :: "vmotion_mode option"
  role_maxUnavailable :: int

record recoveryRequest =
  rr_requestID :: string
  rr_executionID :: string
  rr_actionID :: string
  rr_reason :: string

record nodeMigrationSpec =
  nm_workers :: roleMigrationSpec
  nm_controlPlane :: roleMigrationSpec
  nm_recoveryRequest :: "recoveryRequest option"

record migrationSpec =
  spec_state :: migration_state
  targetCredentialsSecret :: secretReference
  spec_failureDomains :: "failureDomain list"
  spec_mappings :: "fdMapping list"
  nodeMigration :: "nodeMigrationSpec option"

record migrationStatus =
  progress :: "migrationProgress option"
  conditions :: "condition list"
  status_mappings :: "fdMapping list"
  workerMachineSetNames :: "string list"
  sourceVCenter :: string
  startTime :: "time option"
  lastUpdateTime :: "time option"
  completionTime :: "time option"
  completionSpecHash :: string

record migration =
  name :: string
  namespace :: string
  uid :: string
  generation :: int
  deletionTimestamp :: "time option"
  finalizers :: "string list"
  annotations :: "string \<Rightarrow> string option"
  spec :: migrationSpec
  status :: migrationStatus

definition SingletonName :: string where
  "SingletonName = ''cluster''"

definition SingletonNamespace :: string where
  "SingletonNamespace = ''openshift-vcf-migration''"

definition FinalizerName :: string where
  "FinalizerName = ''migration.openshift.io/record-retention''"

definition AnnotationAllowDeletion :: string where
  "AnnotationAllowDeletion = ''migration.openshift.io/allow-deletion''"

section \<open>Machine API objects\<close>

record workspace =
  ws_server :: string
  ws_datacenter :: string
  ws_folder :: string
  ws_datastore :: string
  ws_resourcePool :: string

text \<open>\<open>machinev1beta1.VSphereMachineProviderSpec\<close>; \<open>ps_hardware\<close> stands for the fields
  (CPUs, memory, disk, credentials, ...) that the operator copies and never reads.\<close>

record providerSpec =
  ps_workspace :: "workspace option"
  ps_template :: string
  ps_networks :: "string list"
  ps_hardware :: string

text \<open>The raw JSON in \<open>spec.template.spec.providerSpec.value\<close>: absent, without raw bytes,
  bytes that do not decode (with the
  decoder's complaint), or the encoding of a provider spec. \<open>json.Marshal\<close> of a
  provider spec followed by \<open>json.Unmarshal\<close> gives it back.\<close>

datatype providerValue = ValueNil | RawNil | RawMalformed string | RawJSON providerSpec

record machineSet =
  ms_name :: string
  ms_namespace :: string
  ms_resourceVersion :: string
  ms_uid :: string
  ms_creationTimestamp :: time
  ms_annotations :: "string \<Rightarrow> string option"
  ms_replicas :: "int option"
  ms_matchLabels :: "string \<Rightarrow> string option"
  ms_templateLabels :: "string \<Rightarrow> string option"
  ms_providerValue :: providerValue
  ms_statusReplicas :: int

record machine =
  mc_name :: string
  mc_phase :: "string option"
  mc_nodeRef :: "string option"
  mc_errorReason :: "string option"
  mc_errorMessage :: "string option"
  mc_creationTimestamp :: time

record nodeObj =
  node_name :: string
  node_conditions :: "(string \<times> string) list"

datatype cpms_state = CPMSActive | CPMSInactive

record genericCondition =
  gc_type :: string
  gc_status :: string
  gc_reason :: string
  gc_message :: string

record cpmsFailureDomains =
  cfd_platform :: string
  cfd_vsphere :: "string list"

record cpms =
  cpms_generation :: int
  cpms_stateField :: cpms_state
  cpms_strategyType :: string
  cpms_template :: "cpmsFailureDomains option option"
  cpms_observedGeneration :: int
  cpms_replicas :: int
  cpms_updatedReplicas :: int
  cpms_readyReplicas :: int
  cpms_conditions :: "genericCondition list"

section \<open>Cluster configuration objects\<close>

record vcenterSpec =
  vc_server :: string
  vc_port :: int
  vc_datacenters :: "string list"

record vspherePlatform =
  vcenters :: "vcenterSpec list"
  infra_failureDomains :: "failureDomain list"

record infrastructure =
  infra_objName :: string
  infra_uid :: string
  vsphere :: "vspherePlatform option"
  infrastructureName :: string

record clusterOperator =
  co_name :: string
  co_conditions :: "(string \<times> string \<times> string) list"

record machineConfigPool =
  mcp_name :: string
  mcp_generation :: int
  mcp_observedGeneration :: int
  mcp_specConfiguration :: string
  mcp_statusConfiguration :: string
  mcp_machineCount :: int
  mcp_updatedMachineCount :: int
  mcp_conditions :: "(string \<times> string) list"

record secretObj =
  sec_namespace :: string
  sec_name :: string
  sec_data :: "string \<Rightarrow> string option"
  sec_labels :: "string \<Rightarrow> string option"
  sec_ownerReferences :: "string list"
  sec_type :: string

record configMapObj =
  cm_namespace :: string
  cm_name :: string
  cm_data :: "string \<Rightarrow> string option"

record podObj =
  pod_name :: string
  pod_conditions :: "(string \<times> string) list"

section \<open>vSphere objects\<close>

text \<open>A managed object as govmomi hands it out: its reference and the inventory path under which
  it was found, empty for an object built from a reference alone.\<close>

record vsObj =
  vs_ref :: string
  vs_path :: string

text \<open>What a connection to a vCenter is used for: the host and user it was opened with, the
  datacenter of its finder and the key the server gave it.\<close>

record vSession =
  sess_server :: string
  sess_datacenter :: string
  sess_user :: string
  sess_key :: string

text \<open>Devices of a virtual machine; \<open>dev_other\<close> stands for the fields of the concrete device
  that are passed on unread.\<close>

datatype ethernetBacking = StandardBacking "string option" string | OtherBacking string

record device =
  dev_key :: int
  dev_ethernet :: bool
  dev_backing :: "ethernetBacking option"
  dev_other :: string

datatype deviceChange = DeviceEdit device | DeviceRemove device | DeviceAdd device

record cloneSpec =
  clone_folder :: string
  clone_datastore :: string
  clone_pool :: string
  clone_diskMoveType :: string
  clone_powerOn :: bool
  clone_name :: string
  clone_extraConfig :: "(string \<times> string) list"
  clone_deviceChange :: "deviceChange list"

record guestNic =
  nic_connected :: bool
  nic_ipConfig :: "(string \<times> int) list option"
  nic_ipAddress :: "string list"

record guestRoute =
  route_network :: string
  route_prefix :: int
  route_gateway :: string

record guestInfo =
  guest_tools :: string
  guest_net :: "guestNic list"
  guest_ipStack :: "guestRoute list option list"

record tagCategory =
  cat_id :: string
  cat_name :: string
  cat_description :: string
  cat_cardinality :: string
  cat_associableTypes :: "string list"

record tagObj =
  tag_id :: string
  tag_name :: string
  tag_description :: string
  tag_categoryID :: string

text \<open>The calls that change a vCenter, with what they send.\<close>

datatype vsphere_call =
    CloneVM vsObj cloneSpec
  | PowerOffVM vsObj
  | DestroyVM vsObj
  | CreateFolder vsObj string
  | DestroyFolder vsObj
  | CreateCategory tagCategory
  | CreateTag tagObj
  | AttachTagCall string string

section \<open>Lemmas on errors and texts\<close>

lemma IsNotFound_Wrapf [simp]: "IsNotFound (Wrapf t e) = IsNotFound e"
  by (simp add: IsNotFound_def)

lemma IsNotFound_ApiErr [simp]: "IsNotFound (ApiErr r t) \<longleftrightarrow> r = ReasonNotFound"
  by (simp add: IsNotFound_def)

lemma IsNotFound_simple [simp]: "\<not> IsNotFound (Errorf t)" "\<not> IsNotFound ErrExecutionStopped"
  by (simp_all add: IsNotFound_def)

end
