(* ===== verification/Conditions.thy ===== *)
theory Conditions
  imports Types
begin

text \<open>
  The status condition list of a resource: the helpers of
  \<open>k8s.io/apimachinery/pkg/api/meta/conditions.go\<close> that the operator calls, and the
  interface \<open>condition_store\<close> that the reconciler's proofs use. The current time is an
  argument where Go calls \<open>time.Now()\<close>.
\<close>

section \<open>Definitions\<close>

definition FindStatusCondition :: "condition list \<Rightarrow> condition_type \<Rightarrow> condition option" where
  "FindStatusCondition cs t = find (\<lambda>c. cond_type c = t) cs"

definition stampCondition :: "time \<Rightarrow> condition \<Rightarrow> condition" where
  "stampCondition now c = (if lastTransitionTime c = 0 then c\<lparr>lastTransitionTime := now\<rparr> else c)"

definition updateCondition :: "time \<Rightarrow> condition \<Rightarrow> condition \<Rightarrow> condition" where
  "updateCondition now existing new =
     existing\<lparr>cond_status := cond_status new,
       lastTransitionTime :=
         (if cond_status existing \<noteq> cond_status new
          then lastTransitionTime (stampCondition now new) else lastTransitionTime existing),
       cond_reason := cond_reason new,
       cond_message := cond_message new,
       observedGeneration := observedGeneration new\<rparr>"

fun SetStatusCondition :: "time \<Rightarrow> condition list \<Rightarrow> condition \<Rightarrow> condition list" where
  "SetStatusCondition now [] new = [stampCondition now new]"
| "SetStatusCondition now (c # cs) new =
     (if cond_type c = cond_type new then updateCondition now c new # cs
      else c # SetStatusCondition now cs new)"

definition RemoveStatusCondition :: "condition list \<Rightarrow> condition_type \<Rightarrow> condition list" where
  "RemoveStatusCondition cs t = filter (\<lambda>c. cond_type c \<noteq> t) cs"

text \<open>\<open>statusConditionChanged\<close> of the controller.\<close>

definition statusConditionChanged :: "condition \<Rightarrow> condition \<Rightarrow> bool" where
  "statusConditionChanged prev next \<longleftrightarrow>
     cond_status prev \<noteq> cond_status next \<or> cond_reason prev \<noteq> cond_reason next \<or>
     cond_message prev \<noteq> cond_message next \<or>
     observedGeneration prev \<noteq> observedGeneration next \<or>
     lastTransitionTime prev \<noteq> lastTransitionTime next"

text \<open>\<open>isConditionTrue\<close> on the condition list.\<close>

definition conditionTrue :: "condition list \<Rightarrow> condition_type \<Rightarrow> bool" where
  "conditionTrue cs t =
     (case FindStatusCondition cs t of None \<Rightarrow> False | Some c \<Rightarrow> cond_status c = ConditionTrue)"

section \<open>The interface\<close>

text \<open>What a client of the condition list relies on. \<open>agrees\<close> says that a stored condition
  carries what was set (the store chooses the transition time).\<close>

definition agrees :: "condition \<Rightarrow> condition \<Rightarrow> bool" where
  "agrees c d \<longleftrightarrow> cond_type c = cond_type d \<and> cond_status c = cond_status d \<and>
     cond_reason c = cond_reason d \<and> cond_message c = cond_message d \<and>
     observedGeneration c = observedGeneration d"

locale condition_store =
  fixes lookup :: "'l \<Rightarrow> condition_type \<Rightarrow> condition option"
    and store :: "time \<Rightarrow> 'l \<Rightarrow> condition \<Rightarrow> 'l"
    and remove :: "'l \<Rightarrow> condition_type \<Rightarrow> 'l"
  assumes lookup_type: "lookup l t = Some c \<Longrightarrow> cond_type c = t"
    and lookup_store_same: "\<exists>d. lookup (store now l c) (cond_type c) = Some d \<and> agrees d c"
    and lookup_store_other: "t \<noteq> cond_type c \<Longrightarrow> lookup (store now l c) t = lookup l t"
    and lookup_remove_same: "lookup (remove l t) t = None"
    and lookup_remove_other: "t \<noteq> u \<Longrightarrow> lookup (remove l u) t = lookup l t"
begin

lemma lookup_store:
  "lookup (store now l c) t =
     (if t = cond_type c then lookup (store now l c) (cond_type c) else lookup l t)"
  by (simp add: lookup_store_other)

lemma store_agrees: "lookup (store now l c) (cond_type c) = Some d \<Longrightarrow> agrees d c"
  using lookup_store_same [of now l c] by auto

lemma fold_store_other:
  assumes "\<forall>c\<in>set cs. cond_type c \<noteq> t"
  shows "lookup (fold (\<lambda>c l. store (now c) l c) cs l) t = lookup l t"
  using assms by (induction cs arbitrary: l) (auto simp: lookup_store_other)

lemma last_store_wins:
  assumes "\<forall>c\<in>set cs. cond_type c \<noteq> cond_type d"
  shows "\<exists>e. lookup (fold (\<lambda>c l. store (now c) l c) (d # cs) l) (cond_type d) = Some e \<and> agrees e d"
  using fold_store_other [OF assms, of now "store (now d) l d"] lookup_store_same [of "now d" l d]
  by auto

end

section \<open>The list implements it\<close>

lemma agrees_stamp: "agrees (stampCondition now c) c"
  by (simp add: agrees_def stampCondition_def)

lemma cond_type_stamp [simp]: "cond_type (stampCondition now c) = cond_type c"
  by (simp add: stampCondition_def)

lemma cond_type_update [simp]: "cond_type (updateCondition now c d) = cond_type c"
  by (simp add: updateCondition_def)

lemma agrees_update: "cond_type c = cond_type d \<Longrightarrow> agrees (updateCondition now c d) d"
  by (simp add: agrees_def updateCondition_def)

lemma Find_Cons [simp]:
  "FindStatusCondition (c # cs) t = (if cond_type c = t then Some c else FindStatusCondition cs t)"
  by (simp add: FindStatusCondition_def)

lemma Find_Nil [simp]: "FindStatusCondition [] t = None"
  by (simp add: FindStatusCondition_def)

lemma Find_type: "FindStatusCondition cs t = Some c \<Longrightarrow> cond_type c = t"
  by (auto simp: FindStatusCondition_def find_Some_iff)

lemma Find_in_set: "FindStatusCondition cs t = Some c \<Longrightarrow> c \<in> set cs"
  by (auto simp: FindStatusCondition_def find_Some_iff)

lemma Find_None_iff: "FindStatusCondition cs t = None \<longleftrightarrow> (\<forall>c\<in>set cs. cond_type c \<noteq> t)"
  by (auto simp: FindStatusCondition_def find_None_iff)

lemma Find_Set_same:
  "\<exists>d. FindStatusCondition (SetStatusCondition now cs c) (cond_type c) = Some d \<and> agrees d c"
  by (induction cs) (auto simp: agrees_stamp agrees_update)

lemma Find_Set_other:
  "t \<noteq> cond_type c \<Longrightarrow>
     FindStatusCondition (SetStatusCondition now cs c) t = FindStatusCondition cs t"
  by (induction cs) auto

lemma Find_Remove_same: "FindStatusCondition (RemoveStatusCondition cs t) t = None"
  by (induction cs) (auto simp: RemoveStatusCondition_def)

lemma Find_Remove_other:
  "t \<noteq> u \<Longrightarrow> FindStatusCondition (RemoveStatusCondition cs u) t = FindStatusCondition cs t"
  by (induction cs) (auto simp: RemoveStatusCondition_def)

interpretation cs: condition_store FindStatusCondition SetStatusCondition RemoveStatusCondition
  by unfold_locales
    (auto simp: Find_Set_same Find_Set_other Find_Remove_same Find_Remove_other dest: Find_type)

section \<open>Consequences\<close>

lemma conditionTrue_Set:
  "conditionTrue (SetStatusCondition now cs c) t =
     (if t = cond_type c then cond_status c = ConditionTrue else conditionTrue cs t)"
  using Find_Set_same [of now cs c]
  by (auto simp: conditionTrue_def agrees_def Find_Set_other)

lemma conditionTrue_Remove:
  "conditionTrue (RemoveStatusCondition cs u) t \<longleftrightarrow> t \<noteq> u \<and> conditionTrue cs t"
  by (cases "t = u") (auto simp: conditionTrue_def Find_Remove_same Find_Remove_other)

text \<open>A condition list without duplicate types stays so: the list is a map keyed by type.\<close>

lemma types_Set: "cond_type ` set (SetStatusCondition now cs c) = insert (cond_type c) (cond_type ` set cs)"
  by (induction cs) auto

lemma distinct_Set:
  "distinct (map cond_type cs) \<Longrightarrow> distinct (map cond_type (SetStatusCondition now cs c))"
  by (induction cs) (auto simp: types_Set)

lemma distinct_Remove:
  "distinct (map cond_type cs) \<Longrightarrow> distinct (map cond_type (RemoveStatusCondition cs t))"
  by (simp add: RemoveStatusCondition_def distinct_map_filter)

lemma unchanged_transition: "\<lbrakk>FindStatusCondition cs (cond_type c) = Some d; cond_status d = cond_status c;
    FindStatusCondition (SetStatusCondition now cs c) (cond_type c) = Some e\<rbrakk>
  \<Longrightarrow> lastTransitionTime e = lastTransitionTime d"
  by (induction cs) (auto simp: updateCondition_def split: if_splits)

end
