(* ===== verification/Execution.thy ===== *)
theory Execution
  imports Conditions
begin

text \<open>
  The effects of the operator and the permission that every mutation needs. The Kubernetes and
  vSphere APIs are parameters: a client is a record of functions on a world of any type, so a
  call may fail in any way and the world may change between any two calls. Each call is
  recorded in a trace, newest first, which is what the safety theorems are about.
  \<open>Check\<close> is \<open>internal/execution/permission.go\<close>, \<open>executionContext\<close> is
  \<open>internal/controller/execution.go\<close>, \<open>reasonForError\<close> is \<open>errors.go\<close>.
\<close>

section \<open>Calls and traces\<close>

text \<open>The mutating calls, with what they send.\<close>

datatype mutation =
    CreateMachineSetCall machineSet
  | UpdateMachineSetCall machineSet
  | DeleteMachineSetCall string
  | UpdateCPMSCall cpms
  | UpdateInfrastructureCall infrastructure
  | UpdateSecretCall secretObj
  | CreateSecretCall secretObj
  | UpdateConfigMapCall configMapObj
  | DeletePodCall string string
  | VSphereCall vSession vsphere_call

datatype event_type = EventNormal | EventWarning

datatype action =
    PermissionRead "migration option"
  | MigrationRead "migration option"
  | ReadCall
  | MutateCall mutation
  | StatusUpdateCall migration
  | FinalizerPatchCall migration
  | EventCall event_type string string

type_synonym ('w, 'a) apiCall = "'w \<Rightarrow> (api_reason \<times> string + 'a) \<times> 'w"

record 'w exec =
  world :: 'w
  trace :: "action list"

definition apiResult :: "api_reason \<times> string + 'a \<Rightarrow> error + 'a" where
  "apiResult r = (case r of Inl (k, t) \<Rightarrow> Inl (ApiErr k t) | Inr x \<Rightarrow> Inr x)"

definition request :: "action \<Rightarrow> ('w, 'a) apiCall \<Rightarrow> (('w, 'z) exec_scheme, error, 'a) op" where
  "request a c = (\<lambda>s. case c (world s) of
     (r, w) \<Rightarrow> (apiResult r, s\<lparr>world := w, trace := a # trace s\<rparr>))"

text \<open>A read of the migration object itself; the trace keeps what was found.\<close>

definition readMigration :: "('w, migration) apiCall \<Rightarrow> (('w, 'z) exec_scheme, error, migration) op" where
  "readMigration c = (\<lambda>s. case c (world s) of (r, w) \<Rightarrow>
     (apiResult r, s\<lparr>world := w,
        trace := MigrationRead (case r of Inl _ \<Rightarrow> None | Inr m \<Rightarrow> Some m) # trace s\<rparr>))"

text \<open>\<open>fmt.Errorf("...: %w", err)\<close>.\<close>

definition wrapErr :: "string \<Rightarrow> ('s, error, 'a) op \<Rightarrow> ('s, error, 'a) op" where
  "wrapErr t m = attempt m (case_sum (\<lambda>e. fail (Wrapf t e)) ret)"

definition wrapE :: "string \<Rightarrow> error + 'a \<Rightarrow> error + 'a" where
  "wrapE t r = (case r of Inl e \<Rightarrow> Inl (Wrapf t e) | Inr x \<Rightarrow> Inr x)"

text \<open>\<open>r.Recorder.Eventf\<close>.\<close>

definition Eventf :: "event_type \<Rightarrow> string \<Rightarrow> string \<Rightarrow> (('w, 'z) exec_scheme, error, unit) op" where
  "Eventf t why note = modify (\<lambda>s. s\<lparr>trace := EventCall t why note # trace s\<rparr>)"

text \<open>\<open>retry.RetryOnConflict(retry.DefaultRetry, fn)\<close>: one attempt and four retries on
  conflict; the last attempt's error is returned as it is.\<close>

fun retryOnConflict :: "nat \<Rightarrow> ('s, error, 'a) op \<Rightarrow> ('s, error, 'a) op" where
  "retryOnConflict 0 f = f"
| "retryOnConflict (Suc n) f =
     attempt f (\<lambda>r. case r of
        Inl e \<Rightarrow> if IsConflict e then retryOnConflict n f else fail e
      | Inr x \<Rightarrow> ret x)"

definition defaultRetry :: nat where
  "defaultRetry = 4"

section \<open>Error classification\<close>

definition newTransientError :: "error \<Rightarrow> error" where
  "newTransientError e = TransientErr e"

definition reasonForError :: "error \<Rightarrow> reason" where
  "reasonForError e = (if isTransientError e then ReasonRetrying else ReasonFailed)"

section \<open>The execution permission\<close>

type_synonym 's ctx = "('s, error, unit) op option"

definition WithCheck :: "'s ctx \<Rightarrow> ('s, error, unit) op \<Rightarrow> 's ctx" where
  "WithCheck ctx chk = Some chk"

definition Check :: "'s ctx \<Rightarrow> ('s, error, unit) op" where
  "Check ctx = (case ctx of None \<Rightarrow> ret () | Some chk \<Rightarrow> chk)"

text \<open>The controller-runtime client of the migration resource: the cached reader, the uncached
  \<open>APIReader\<close>, the status and metadata writers, and the clock.\<close>

record 'w migrationClient =
  mig_get :: "string \<Rightarrow> string \<Rightarrow> ('w, migration) apiCall"
  mig_read :: "string \<Rightarrow> string \<Rightarrow> ('w, migration) apiCall"
  mig_statusUpdate :: "migration \<Rightarrow> ('w, unit) apiCall"
  mig_patch :: "migration \<Rightarrow> ('w, unit) apiCall"
  clock :: "'w \<Rightarrow> time \<times> 'w"

definition timeNow :: "'w migrationClient \<Rightarrow> (('w, 'z) exec_scheme, error, time) op" where
  "timeNow cl = (\<lambda>s. case clock cl (world s) of (t, w) \<Rightarrow> (Inr t, s\<lparr>world := w\<rparr>))"

text \<open>Whether the object just read still permits the actions of the reconcile of \<open>m\<close>.\<close>

definition stillRunning :: "migration \<Rightarrow> migration \<Rightarrow> bool" where
  "stillRunning m latest \<longleftrightarrow>
     \<not> (deletionTimestamp latest \<noteq> None \<or> uid latest \<noteq> uid m \<or>
        generation latest \<noteq> generation m \<or> spec_state (spec latest) \<noteq> MigrationStateRunning)"

definition checkPermission :: "'w migrationClient \<Rightarrow> migration \<Rightarrow> (('w, 'z) exec_scheme, error, unit) op" where
  "checkPermission cl m = (\<lambda>s. case mig_read cl (namespace m) (name m) (world s) of
     (Inl (k, t), w) \<Rightarrow>
        ((if k = ReasonNotFound then Inl ErrExecutionStopped
          else Inl (Wrapf ''reading migration execution permission'' (ApiErr k t))),
         s\<lparr>world := w, trace := PermissionRead None # trace s\<rparr>)
   | (Inr latest, w) \<Rightarrow>
        ((if stillRunning m latest then Inr () else Inl ErrExecutionStopped),
         s\<lparr>world := w, trace := PermissionRead (Some latest) # trace s\<rparr>))"

definition executionContext ::
  "('w, 'z) exec_scheme ctx \<Rightarrow> 'w migrationClient \<Rightarrow> migration \<Rightarrow> ('w, 'z) exec_scheme ctx" where
  "executionContext ctx cl m = WithCheck ctx (checkPermission cl m)"

section \<open>Guarded traces\<close>

text \<open>\<open>status_ext\<close>: a condition that was True is still True, a recorded mapping, source vCenter
  and start time are as recorded, and the recorded worker machine set names are extended at the
  end only, without duplicates.\<close>

definition status_ext :: "migrationStatus \<Rightarrow> migrationStatus \<Rightarrow> bool" where
  "status_ext old new \<longleftrightarrow>
     (\<forall>t. conditionTrue (conditions old) t \<longrightarrow> conditionTrue (conditions new) t) \<and>
     (status_mappings old \<noteq> [] \<longrightarrow> status_mappings new = status_mappings old) \<and>
     (sourceVCenter old \<noteq> [] \<longrightarrow> sourceVCenter new = sourceVCenter old) \<and>
     (startTime old \<noteq> None \<longrightarrow> startTime new = startTime old) \<and>
     prefix (workerMachineSetNames old) (workerMachineSetNames new) \<and>
     (distinct (workerMachineSetNames old) \<longrightarrow> distinct (workerMachineSetNames new))"

text \<open>\<open>permits m a\<close>: the action is a permission read that found the migration object of
  \<open>m\<close> itself, not deleted, at the same generation and still in state Running.
  \<open>trace_ok m A tr\<close>: every mutation in the trace satisfies \<open>A\<close> and was sent
  directly after such a read, and every status write extends the status of the object that was
  read directly before it.\<close>

fun permits :: "migration \<Rightarrow> action \<Rightarrow> bool" where
  "permits m (PermissionRead (Some latest)) = stillRunning m latest"
| "permits m _ = False"

fun trace_ok :: "migration \<Rightarrow> (mutation \<Rightarrow> bool) \<Rightarrow> action list \<Rightarrow> bool" where
  "trace_ok m A [] = True"
| "trace_ok m A (MutateCall x # tr) =
     (A x \<and> tr \<noteq> [] \<and> permits m (hd tr) \<and> trace_ok m A tr)"
| "trace_ok m A (StatusUpdateCall k # tr) =
     (tr \<noteq> [] \<and> (\<exists>l. hd tr = MigrationRead (Some l) \<and> status_ext (status l) (status k) \<and> uid k = uid l) \<and>
      trace_ok m A tr)"
| "trace_ok m A (_ # tr) = trace_ok m A tr"

definition safe :: "migration \<Rightarrow> (mutation \<Rightarrow> bool) \<Rightarrow> ('w, 'z) exec_scheme \<Rightarrow> bool" where
  "safe m A s = trace_ok m A (trace s)"

fun is_write :: "action \<Rightarrow> bool" where
  "is_write (MutateCall x) = True"
| "is_write (StatusUpdateCall k) = True"
| "is_write _ = False"

text \<open>Every call of the trace satisfies \<open>P\<close>.\<close>

definition only :: "(action \<Rightarrow> bool) \<Rightarrow> ('w, 'z) exec_scheme \<Rightarrow> bool" where
  "only P s = list_all P (trace s)"

section \<open>Rules for effects\<close>

lemma request_app [op_simps]:
  "request a c s = (case c (world s) of (r, w) \<Rightarrow> (apiResult r, s\<lparr>world := w, trace := a # trace s\<rparr>))"
  by (simp add: request_def)

lemma Eventf_app [simp, op_simps]: "Eventf t why note s = (Inr (), s\<lparr>trace := EventCall t why note # trace s\<rparr>)"
  by (simp add: Eventf_def)

lemma wrapErr_Inr [simp]: "wrapErr t m s = (Inr x, s') \<longleftrightarrow> m s = (Inr x, s')"
  by (auto simp: wrapErr_def attempt_app split: prod.splits sum.splits)

lemma snd_wrapErr [simp]: "snd (wrapErr t m s) = snd (m s)"
  by (auto simp: wrapErr_def attempt_app split: prod.splits sum.splits)

lemma snd_bnd_wrapErr: "snd (bnd m (\<lambda>x. wrapErr t (f x)) s) = snd (bnd m f s)"
  by (simp add: bnd_app split: prod.splits sum.splits)

lemma wrapE_Inr [simp]: "wrapE t r = Inr x \<longleftrightarrow> r = Inr x"
  by (auto simp: wrapE_def split: sum.splits)

lemma keeps_wrapErr [keeps_rules]: "keeps P m \<Longrightarrow> keeps P (wrapErr t m)"
  by (simp add: keeps_def)

lemma keeps_retry [keeps_rules]: "keeps P f \<Longrightarrow> keeps P (retryOnConflict n f)"
  by (induction n) (auto intro!: keeps_rules split: sum.split)

lemma retry_Inr:
  "retryOnConflict n f s = (Inr x, s') \<Longrightarrow> \<exists>t. f t = (Inr x, s')"
proof (induction n arbitrary: s)
  case (Suc n)
  show ?case
  proof (cases "f s")
    case (Pair r t)
    with Suc show ?thesis
      by (cases r) (auto simp: attempt_app split: if_splits)
  qed
qed auto

lemma trace_ok_other [simp]: "\<not> is_write a \<Longrightarrow> trace_ok m A (a # tr) = trace_ok m A tr"
  by (cases a) auto

lemma not_write:
  "\<not> is_write ReadCall" "\<not> is_write (PermissionRead l)" "\<not> is_write (MigrationRead l)"
  "\<not> is_write (FinalizerPatchCall k)" "\<not> is_write (EventCall t w n)"
  by simp_all

lemma safe_world [simp]: "safe m A (s\<lparr>world := w\<rparr>) = safe m A s"
  by (simp add: safe_def)

lemma safe_trace [simp]: "safe m A (s\<lparr>trace := tr\<rparr>) = trace_ok m A tr"
  by (simp add: safe_def)

lemma keeps_request [keeps_rules]: "\<not> is_write a \<Longrightarrow> keeps (safe m A) (request a c)"
  by (auto simp: keeps_def request_app safe_def split: prod.splits)

lemma keeps_readMigration [keeps_rules]: "keeps (safe m A) (readMigration c)"
  by (auto simp: keeps_def readMigration_def safe_def split: prod.splits)

lemma keeps_timeNow [keeps_rules]: "keeps (safe m A) (timeNow cl)"
  by (auto simp: keeps_def timeNow_def safe_def split: prod.splits)

lemma keeps_Eventf [keeps_rules]: "keeps (safe m A) (Eventf t why note)"
  by (simp add: keeps_def safe_def)

lemma only_request [keeps_rules]: "P a \<Longrightarrow> keeps (only P) (request a c)"
  by (auto simp: keeps_def request_app only_def split: prod.splits)

lemma only_readMigration [keeps_rules]: "(\<And>x. P (MigrationRead x)) \<Longrightarrow> keeps (only P) (readMigration c)"
  by (auto simp: keeps_def readMigration_def only_def split: prod.splits)

lemma only_timeNow [keeps_rules]: "keeps (only P) (timeNow cl)"
  by (auto simp: keeps_def timeNow_def only_def split: prod.splits)

lemma only_Eventf [keeps_rules]: "P (EventCall t why note) \<Longrightarrow> keeps (only P) (Eventf t why note)"
  by (simp add: keeps_def only_def)

lemma trace_ok_mem: "trace_ok m A tr \<Longrightarrow> MutateCall z \<in> set tr \<Longrightarrow> A z"
  by (induction m A tr rule: trace_ok.induct) auto

section \<open>Traces that grow\<close>

text \<open>\<open>since tr\<close>: the calls in \<open>tr\<close> came first.\<close>

definition since :: "action list \<Rightarrow> ('w, 'z) exec_scheme \<Rightarrow> bool" where
  "since tr s \<longleftrightarrow> suffix tr (trace s)"

lemma since_prims [keeps_rules]:
  "keeps (since tr) (request a c)"
  "keeps (since tr) (readMigration d)"
  "keeps (since tr) (timeNow cl)"
  "keeps (since tr) (Eventf t why note)"
  "keeps (since tr) (checkPermission cl m)"
  by (auto simp: keeps_def since_def request_app readMigration_def timeNow_def checkPermission_def
      intro: suffix_ConsI split: prod.splits sum.splits)

text \<open>Calls that are no mutations.\<close>

fun is_mutation :: "action \<Rightarrow> bool" where
  "is_mutation (MutateCall x) = True"
| "is_mutation _ = False"

abbreviation quiet :: "('w, 'z) exec_scheme \<Rightarrow> bool" where
  "quiet \<equiv> only (\<lambda>a. \<not> is_mutation a)"

lemma quiet_prims [keeps_rules]: "\<not> is_mutation a \<Longrightarrow> keeps quiet (request a c)" "keeps quiet (readMigration d)"
  by (intro keeps_rules; simp)+

text \<open>A sequence that does more than \<open>P\<close> allows got past its first operation, if that one stays
  within \<open>P\<close>.\<close>

lemma only_bndE:
  assumes "bnd f g s = (x, s')" and "\<not> only P s'" and "keeps (only P) f" and "only P s"
  obtains y t where "f s = (Inr y, t)" and "only P t" and "g y t = (x, s')"
proof (cases "f s")
  case (Pair r t)
  have t: "only P t" by (rule keepsD [OF assms(3,4) Pair])
  show thesis
  proof (cases r)
    case (Inl e)
    with Pair assms(1,2) t show thesis by (simp add: bnd_app)
  next
    case (Inr y)
    with Pair assms(1) t that show thesis by (simp add: bnd_app)
  qed
qed

section \<open>Contexts that guard\<close>

text \<open>The contract of a context that carries the permission check: a successful check leaves a
  permitting read as the newest action, and a check never spoils the trace. The managers'
  operations are shown safe once, for every such context.\<close>

locale guarded_ctx =
  fixes ctx :: "('w, 'z) exec_scheme ctx"
    and m :: migration
  assumes check_ok: "Check ctx s = (Inr u, s') \<Longrightarrow> \<exists>l. trace s' = PermissionRead (Some l) # trace s \<and> stillRunning m l"
    and check_err: "Check ctx s = (Inl e, s') \<Longrightarrow> \<exists>l. trace s' = PermissionRead l # trace s"
begin

lemma keeps_Check: "keeps (safe m A) (Check ctx)"
proof (rule keepsI)
  fix s :: "('w, 'z) exec_scheme"
  assume "safe m A s"
  then show "safe m A (snd (Check ctx s))"
    using check_ok [of s] check_err [of s]
    by (cases "Check ctx s"; cases "fst (Check ctx s)") (fastforce simp: safe_def)+
qed

lemma keeps_checked:
  assumes "A x"
  shows "keeps (safe m A) (bnd (Check ctx) (\<lambda>_. request (MutateCall x) c))"
proof (rule keepsI)
  fix s :: "('w, 'z) exec_scheme"
  assume s: "safe m A s"
  show "safe m A (snd (bnd (Check ctx) (\<lambda>_. request (MutateCall x) c) s))"
  proof (cases "Check ctx s")
    case (Pair r t)
    show ?thesis
    proof (cases r)
      case (Inl e)
      with Pair check_err [of s e t] s show ?thesis by (auto simp: bnd_app safe_def)
    next
      case (Inr u)
      with Pair check_ok [of s u t] s assms show ?thesis
        by (auto simp: bnd_app request_app safe_def split: prod.splits)
    qed
  qed
qed

lemma keeps_checked_wrap:
  "A x \<Longrightarrow> keeps (safe m A) (bnd (Check ctx) (\<lambda>_. wrapErr t (request (MutateCall x) c)))"
  using keeps_checked [of A x c] by (simp add: keeps_def snd_bnd_wrapErr)

lemma keeps_checked_bnd:
  assumes "A x" and "\<And>y. keeps (safe m A) (f y)"
  shows "keeps (safe m A) (bnd (Check ctx) (\<lambda>_. bnd (request (MutateCall x) c) f))"
  using keeps_bnd [OF keeps_checked [of A x c] assms(2)] assms(1) by (simp add: bnd_assoc)

lemma keeps_checked_wrap_bnd:
  assumes "A x" and "\<And>y. keeps (safe m A) (f y)"
  shows "keeps (safe m A) (bnd (Check ctx) (\<lambda>_. bnd (wrapErr t (request (MutateCall x) c)) f))"
  using keeps_bnd [OF keeps_checked_wrap [of A x t c] assms(2)] assms(1) by (simp add: bnd_assoc)

lemma keeps_checked_attempt:
  assumes "A x" and "\<And>r. keeps (safe m A) (f r)"
  shows "keeps (safe m A) (bnd (Check ctx) (\<lambda>_. attempt (request (MutateCall x) c) f))"
proof (rule keepsI)
  fix s :: "('w, 'z) exec_scheme"
  assume s: "safe m A s"
  note k = keeps_checked [of A x c, OF assms(1)]
  show "safe m A (snd (bnd (Check ctx) (\<lambda>_. attempt (request (MutateCall x) c) f) s))"
    using keepsD [OF k s] assms(2)
    by (auto simp: bnd_app attempt_app keeps_def split: prod.splits sum.splits)
qed

lemmas checked_rules =
  keeps_checked keeps_checked_wrap keeps_checked_bnd keeps_checked_wrap_bnd keeps_checked_attempt

end

interpretation ec: guarded_ctx "executionContext ctx cl m" m for ctx cl m
proof unfold_locales
  fix s :: "('a, 'b) exec_scheme" and u s'
  assume "Check (executionContext ctx cl m) s = (Inr u, s')"
  then show "\<exists>l. trace s' = PermissionRead (Some l) # trace s \<and> stillRunning m l"
    by (auto simp: Check_def executionContext_def WithCheck_def checkPermission_def
        split: prod.splits sum.splits if_splits)
next
  fix s :: "('a, 'b) exec_scheme" and e s'
  assume "Check (executionContext ctx cl m) s = (Inl e, s')"
  then show "\<exists>l. trace s' = PermissionRead l # trace s"
    by (auto simp: Check_def executionContext_def WithCheck_def checkPermission_def
        split: prod.splits sum.splits if_splits)
qed

lemma since_Check [keeps_rules]: "keeps (since tr) (Check (executionContext ctx cl m))"
  unfolding Check_def executionContext_def WithCheck_def by (simp add: since_prims)

section \<open>The permission check\<close>


definition sampleMigration :: migration where
  "sampleMigration = \<lparr>name = SingletonName, namespace = SingletonNamespace, uid = ''u-1'',
     generation = 3, deletionTimestamp = None, finalizers = [FinalizerName],
     annotations = (\<lambda>_. None),
     spec = \<lparr>spec_state = MigrationStateRunning,
       targetCredentialsSecret = \<lparr>secret_name = ''creds'', secret_namespace = ''openshift-vcf-migration''\<rparr>,
       spec_failureDomains = [], spec_mappings = [], nodeMigration = None\<rparr>,
     status = \<lparr>progress = None, conditions = [], status_mappings = [], workerMachineSetNames = [],
       sourceVCenter = [], startTime = None, lastUpdateTime = None, completionTime = None,
       completionSpecHash = []\<rparr>\<rparr>"

text \<open>A client whose world is the stored migration object, updated by its own writes.\<close>

definition sampleClient :: "migration migrationClient" where
  "sampleClient = \<lparr>mig_get = (\<lambda>ns n w. (Inr w, w)), mig_read = (\<lambda>ns n w. (Inr w, w)),
     mig_statusUpdate = (\<lambda>m w. (Inr (), w\<lparr>status := status m\<rparr>)),
     mig_patch = (\<lambda>m w. (Inr (), w\<lparr>finalizers := finalizers m\<rparr>)),
     clock = (\<lambda>w. (1, w))\<rparr>"


end
