(* ===== verification/Retention.thy ===== *)
theory Retention
  imports Execution
begin

text \<open>
  Retention of the migration record: \<open>internal/controller/retention.go\<close> and the finalizer
  helpers of controller-runtime it calls. A completed record carries a digest of the spec it
  completed; the digest (\<open>sha256\<close> of the JSON encoding) is a parameter \<open>hash\<close>, so that the
  theorems hold for every encoding, an encoder that fails included.
\<close>

type_synonym specHash = "migrationSpec \<Rightarrow> error + string"

definition completionSpecHashOf :: "(migrationSpec \<Rightarrow> error + string) \<Rightarrow> (string \<Rightarrow> string) \<Rightarrow> specHash" where
  "completionSpecHashOf marshal sha256 sp =
     bindE (wrapE ''encoding completion spec'' (marshal sp)) (\<lambda>bytes. Inr (sha256 bytes))"

definition isCompletionRecordedForSpec :: "specHash \<Rightarrow> migration \<Rightarrow> error + bool" where
  "isCompletionRecordedForSpec hash m =
     (case FindStatusCondition (conditions (status m)) ConditionReady of
        None \<Rightarrow> Inr False
      | Some ready \<Rightarrow>
          if cond_status ready \<noteq> ConditionTrue \<or> completionTime (status m) = None \<or>
             completionSpecHash (status m) = []
          then Inr False
          else bindE (hash (spec m)) (\<lambda>h. Inr (h = completionSpecHash (status m))))"

text \<open>\<open>controllerutil.AddFinalizer\<close> and \<open>RemoveFinalizer\<close>: the object and whether it changed.\<close>

definition AddFinalizer :: "migration \<Rightarrow> string \<Rightarrow> migration \<times> bool" where
  "AddFinalizer m f =
     (if f \<in> set (finalizers m) then (m, False) else (m\<lparr>finalizers := finalizers m @ [f]\<rparr>, True))"

definition RemoveFinalizer :: "migration \<Rightarrow> string \<Rightarrow> migration \<times> bool" where
  "RemoveFinalizer m f =
     (m\<lparr>finalizers := filter (\<lambda>g. g \<noteq> f) (finalizers m)\<rparr>, f \<in> set (finalizers m))"

definition retentionFinalizer :: "specHash \<Rightarrow> migration \<Rightarrow> error + migration \<times> bool" where
  "retentionFinalizer hash latest =
     (if deletionTimestamp latest = None then Inr (AddFinalizer latest FinalizerName)
      else bindE (isCompletionRecordedForSpec hash latest) (\<lambda>complete.
        if complete \<or> annotations latest AnnotationAllowDeletion = Some ''true''
        then Inr (RemoveFinalizer latest FinalizerName)
        else Inr (latest, False)))"

definition updateRetentionFinalizer ::
  "specHash \<Rightarrow> 'w migrationClient \<Rightarrow> migration \<Rightarrow> (('w, 'z) exec_scheme, error, unit) op" where
  "updateRetentionFinalizer hash cl m = retryOnConflict defaultRetry
     (attempt (readMigration (mig_read cl (namespace m) (name m))) (\<lambda>r. case r of
        Inl e \<Rightarrow> if IsNotFound e then ret () else fail e
      | Inr latest \<Rightarrow>
          bnd (liftE (retentionFinalizer hash latest)) (\<lambda>(new, changed).
            if \<not> changed then ret ()
            else request (FinalizerPatchCall new) (mig_patch cl new))))"

section \<open>What retention promises\<close>

text \<open>A record may be released when its deletion was requested and either the migration is
  complete for the spec it has now, or the administrator allowed deletion explicitly.\<close>

definition releasable :: "specHash \<Rightarrow> migration \<Rightarrow> bool" where
  "releasable hash m \<longleftrightarrow> deletionTimestamp m \<noteq> None \<and>
     (annotations m AnnotationAllowDeletion = Some ''true'' \<or>
      conditionTrue (conditions (status m)) ConditionReady \<and> completionTime (status m) \<noteq> None \<and>
      completionSpecHash (status m) \<noteq> [] \<and> hash (spec m) = Inr (completionSpecHash (status m)))"

fun patch_ok :: "specHash \<Rightarrow> action \<Rightarrow> bool" where
  "patch_ok hash (FinalizerPatchCall m) = (FinalizerName \<in> set (finalizers m) \<or> releasable hash m)"
| "patch_ok hash _ = True"

lemma isCompletionRecorded_iff:
  "isCompletionRecordedForSpec hash m = Inr True \<longleftrightarrow>
     conditionTrue (conditions (status m)) ConditionReady \<and> completionTime (status m) \<noteq> None \<and>
     completionSpecHash (status m) \<noteq> [] \<and> hash (spec m) = Inr (completionSpecHash (status m))"
  by (auto simp: isCompletionRecordedForSpec_def conditionTrue_def split: option.splits)

lemma retentionFinalizer_ok:
  "retentionFinalizer hash latest = Inr (new, True) \<Longrightarrow> patch_ok hash (FinalizerPatchCall new)"
  using isCompletionRecorded_iff [of hash latest]
  by (auto simp: retentionFinalizer_def AddFinalizer_def RemoveFinalizer_def releasable_def
      split: if_splits)

text \<open>
  C17: the retention finalizer is taken off a migration only when its deletion was requested and
  the migration is recorded complete for the very spec it has (condition Ready is True, a
  completion time is set and the stored digest is the digest of the spec), or when the
  allow-deletion annotation is "true"; every patch the reconciler sends respects this, through
  all conflict retries and whatever the API server answers.
\<close>

theorem finalizer_released_only_when_allowed:
  "keeps (only (patch_ok hash)) (updateRetentionFinalizer hash cl m)"
proof -
  have step: "keeps (only (patch_ok hash))
     (bnd (liftE (retentionFinalizer hash latest)) (\<lambda>(new, changed).
        if \<not> changed then ret () else request (FinalizerPatchCall new) (mig_patch cl new)))" for latest
    using retentionFinalizer_ok [of hash latest]
    by (intro keeps_liftE_bnd) (auto intro!: keeps_ret only_request)
  show ?thesis
    unfolding updateRetentionFinalizer_def
    by (intro keeps_rules step) (auto intro!: keeps_rules)
qed

end
