(* ===== verification/Clients.thy ===== *)
theory Clients
  imports Execution
begin

text \<open>
  The API clients of the managers, as parameters, and Go's \<open>path\<close> package. A client is a
  record of functions on the world; nothing is assumed of what they return.
\<close>

section \<open>Clients\<close>

record clusterVersion =
  desiredVersion :: string
  cv_conditions :: "(string \<times> string) list"

record featureGateVersion =
  fg_version :: string
  fg_enabled :: "string list"

text \<open>Of a persistent volume, its name and the CSI driver, if it has one.\<close>

record 'w kubeClient =
  nodes_get :: "string \<Rightarrow> ('w, nodeObj) apiCall"
  nodes_list :: "('w, nodeObj list) apiCall"
  persistentVolumes_list :: "('w, (string \<times> string option) list) apiCall"
  pods_list :: "string \<Rightarrow> string \<Rightarrow> ('w, podObj list) apiCall"
  pods_delete :: "string \<Rightarrow> string \<Rightarrow> ('w, unit) apiCall"
  secrets_get :: "string \<Rightarrow> string \<Rightarrow> ('w, secretObj) apiCall"
  secrets_update :: "secretObj \<Rightarrow> ('w, secretObj) apiCall"
  secrets_create :: "secretObj \<Rightarrow> ('w, secretObj) apiCall"
  configMaps_get :: "string \<Rightarrow> string \<Rightarrow> ('w, configMapObj) apiCall"
  configMaps_update :: "configMapObj \<Rightarrow> ('w, configMapObj) apiCall"

record 'w configClient =
  infrastructures_get :: "string \<Rightarrow> ('w, infrastructure) apiCall"
  infrastructures_update :: "infrastructure \<Rightarrow> ('w, infrastructure) apiCall"
  clusterOperators_list :: "('w, clusterOperator list) apiCall"
  clusterOperators_get :: "string \<Rightarrow> ('w, clusterOperator) apiCall"
  clusterVersions_get :: "string \<Rightarrow> ('w, clusterVersion) apiCall"
  featureGates_get :: "string \<Rightarrow> ('w, featureGateVersion list) apiCall"

record 'w machineConfigClient =
  machineConfigPools_list :: "('w, machineConfigPool list) apiCall"

text \<open>All machine API calls are in the namespace \<open>openshift-machine-api\<close>; \<open>machines_list\<close>
  takes the label selector.\<close>

record 'w machineClient =
  machineSets_get :: "string \<Rightarrow> ('w, machineSet) apiCall"
  machineSets_list :: "('w, machineSet list) apiCall"
  machineSets_create :: "machineSet \<Rightarrow> ('w, machineSet) apiCall"
  machineSets_update :: "machineSet \<Rightarrow> ('w, machineSet) apiCall"
  machineSets_delete :: "string \<Rightarrow> ('w, unit) apiCall"
  controlPlaneMachineSets_get :: "string \<Rightarrow> ('w, cpms) apiCall"
  controlPlaneMachineSets_update :: "cpms \<Rightarrow> ('w, cpms) apiCall"
  machines_list :: "string \<Rightarrow> ('w, machine list) apiCall"

text \<open>The dynamic client: for a resource and a name the nested string
  \<open>spec.managementState\<close> (\<open>Inl\<close> the complaint when it is no string, \<open>None\<close> when it
  is absent), and for a resource the namespace and name of every object.\<close>

record 'w dynamicClient =
  dyn_managementState :: "string \<Rightarrow> string \<Rightarrow> ('w, string + string option) apiCall"
  dyn_list :: "string \<Rightarrow> ('w, (string \<times> string) list) apiCall"

text \<open>govmomi. A finder's \<open>find.NotFoundError\<close> and a REST status 404 are
  \<open>ReasonNotFound\<close>. A task is known by its reference; \<open>task_result\<close> waits for it and
  returns the managed object reference it produced, if its result is one. \<open>wait_ticks\<close> is
  the number of ticks that a polling loop receives before its context is done.\<close>

record 'w vsphereClient =
  vim_connect :: "string \<Rightarrow> bool \<Rightarrow> ('w, unit) apiCall"
  vim_login :: "string \<Rightarrow> string \<Rightarrow> string \<Rightarrow> ('w, string) apiCall"
  rest_login :: "string \<Rightarrow> string \<Rightarrow> string \<Rightarrow> ('w, unit) apiCall"
  vim_logout :: "vSession \<Rightarrow> ('w, unit) apiCall"
  rest_logout :: "vSession \<Rightarrow> ('w, unit) apiCall"
  vim_userSession :: "vSession \<Rightarrow> ('w, string option) apiCall"
  vim_rootFolder :: "vSession \<Rightarrow> string"
  find_datacenter :: "vSession \<Rightarrow> string \<Rightarrow> ('w, vsObj) apiCall"
  find_datacenters :: "vSession \<Rightarrow> string \<Rightarrow> ('w, vsObj list) apiCall"
  find_cluster :: "vSession \<Rightarrow> string \<Rightarrow> ('w, vsObj) apiCall"
  find_datastore :: "vSession \<Rightarrow> string \<Rightarrow> ('w, vsObj) apiCall"
  find_network :: "vSession \<Rightarrow> string \<Rightarrow> ('w, vsObj) apiCall"
  find_resourcePool :: "vSession \<Rightarrow> string \<Rightarrow> ('w, vsObj) apiCall"
  find_folder :: "vSession \<Rightarrow> string \<Rightarrow> ('w, vsObj) apiCall"
  find_vm :: "vSession \<Rightarrow> string \<Rightarrow> ('w, vsObj) apiCall"
  find_vms :: "vSession \<Rightarrow> string \<Rightarrow> ('w, vsObj list) apiCall"
  dc_vmFolder :: "vSession \<Rightarrow> vsObj \<Rightarrow> ('w, vsObj option) apiCall"
  vm_devices :: "vSession \<Rightarrow> vsObj \<Rightarrow> ('w, device list) apiCall"
  net_backing :: "vSession \<Rightarrow> vsObj \<Rightarrow> ('w, ethernetBacking) apiCall"
  vm_guest :: "vSession \<Rightarrow> vsObj \<Rightarrow> ('w, guestInfo option) apiCall"
  vm_config :: "vSession \<Rightarrow> vsObj \<Rightarrow> ('w, (string \<times> string) list option) apiCall"
  vm_powerState :: "vSession \<Rightarrow> vsObj \<Rightarrow> ('w, string) apiCall"
  vsphere_do :: "vSession \<Rightarrow> vsphere_call \<Rightarrow> ('w, string) apiCall"
  task_result :: "vSession \<Rightarrow> string \<Rightarrow> ('w, string option) apiCall"
  wait_ticks :: "'w \<Rightarrow> nat \<times> 'w"
  tags_getCategory :: "vSession \<Rightarrow> string \<Rightarrow> ('w, tagCategory option) apiCall"
  tags_listForCategory :: "vSession \<Rightarrow> string \<Rightarrow> ('w, string list) apiCall"
  tags_listAttached :: "vSession \<Rightarrow> string \<Rightarrow> ('w, string list) apiCall"
  tags_getTag :: "vSession \<Rightarrow> string \<Rightarrow> string \<Rightarrow> ('w, tagObj option) apiCall"
  auth_hasPrivileges :: "vSession \<Rightarrow> string \<Rightarrow> string \<Rightarrow> string list \<Rightarrow> ('w, (string \<times> bool) list list) apiCall"

text \<open>A read whose failure is wrapped, \<open>fmt.Errorf("<t>: %w", err)\<close>.\<close>

definition readCall :: "string \<Rightarrow> ('w, 'a) apiCall \<Rightarrow> (('w, 'z) exec_scheme, error, 'a) op" where
  "readCall t c = wrapErr t (request ReadCall c)"

lemma readCall_Inr:
  "readCall t c s = (Inr x, s') \<longleftrightarrow>
     (\<exists>w. c (world s) = (Inr x, w) \<and> s' = s\<lparr>world := w, trace := ReadCall # trace s\<rparr>)"
  by (auto simp: readCall_def request_app apiResult_def split: prod.splits sum.splits)

lemma keeps_readCall [keeps_rules]: "keeps (safe m A) (readCall t c)"
  unfolding readCall_def by (intro keeps_rules) simp

lemma only_readCall [keeps_rules]: "P ReadCall \<Longrightarrow> keeps (only P) (readCall t c)"
  unfolding readCall_def by (intro keeps_rules)

text \<open>A small cluster for the witnesses: every read of a named object finds nothing, lists are
  empty, writes succeed and leave the world alone.\<close>

definition sampleKubeClient :: "'w kubeClient" where
  "sampleKubeClient = \<lparr>
     nodes_get = (\<lambda>_ w. (Inl (ReasonNotFound, ''not found''), w)),
     nodes_list = (\<lambda>w. (Inr [], w)),
     persistentVolumes_list = (\<lambda>w. (Inr [], w)),
     pods_list = (\<lambda>_ _ w. (Inr [], w)),
     pods_delete = (\<lambda>_ _ w. (Inr (), w)),
     secrets_get = (\<lambda>_ _ w. (Inl (ReasonNotFound, ''not found''), w)),
     secrets_update = (\<lambda>x w. (Inr x, w)),
     secrets_create = (\<lambda>x w. (Inr x, w)),
     configMaps_get = (\<lambda>_ _ w. (Inl (ReasonNotFound, ''not found''), w)),
     configMaps_update = (\<lambda>x w. (Inr x, w))\<rparr>"

definition sampleDynamicClient :: "'w dynamicClient" where
  "sampleDynamicClient = \<lparr>dyn_managementState = (\<lambda>_ _ w. (Inr (Inr (Some ''Removed'')), w)), dyn_list = (\<lambda>_ w. (Inr [], w))\<rparr>"

text \<open>A vCenter in which every path leads to an object of that path, nothing is tagged, and
  every call succeeds at once.\<close>

definition sampleVSphereClient :: "'w vsphereClient" where
  "sampleVSphereClient = (let obj = (\<lambda>_ p w. (Inr \<lparr>vs_ref = p, vs_path = p\<rparr>, w)) in \<lparr>
     vim_connect = (\<lambda>_ _ w. (Inr (), w)), vim_login = (\<lambda>_ _ _ w. (Inr ''k'', w)), rest_login = (\<lambda>_ _ _ w. (Inr (), w)),
     vim_logout = (\<lambda>_ w. (Inr (), w)), rest_logout = (\<lambda>_ w. (Inr (), w)),
     vim_userSession = (\<lambda>s w. (Inr (Some (sess_user s)), w)), vim_rootFolder = (\<lambda>_. ''group-d1''),
     find_datacenter = obj, find_datacenters = (\<lambda>_ _ w. (Inr [], w)), find_cluster = obj, find_datastore = obj,
     find_network = obj, find_resourcePool = obj, find_folder = obj, find_vm = obj, find_vms = (\<lambda>_ _ w. (Inr [], w)),
     dc_vmFolder = (\<lambda>_ d w. (Inr (Some \<lparr>vs_ref = ''group-v1'', vs_path = vs_path d @ ''/vm''\<rparr>), w)),
     vm_devices = (\<lambda>_ _ w. (Inr [], w)), net_backing = (\<lambda>_ n w. (Inr (OtherBacking (vs_ref n)), w)),
     vm_guest = (\<lambda>_ _ w. (Inr None, w)), vm_config = (\<lambda>_ _ w. (Inr None, w)), vm_powerState = (\<lambda>_ _ w. (Inr ''poweredOff'', w)),
     vsphere_do = (\<lambda>_ _ w. (Inr ''task-1'', w)), task_result = (\<lambda>_ t w. (Inr (Some t), w)), wait_ticks = (\<lambda>w. (0, w)),
     tags_getCategory = (\<lambda>_ _ w. (Inr None, w)), tags_listForCategory = (\<lambda>_ _ w. (Inr [], w)),
     tags_listAttached = (\<lambda>_ _ w. (Inr [], w)), tags_getTag = (\<lambda>_ _ _ w. (Inr None, w)),
     auth_hasPrivileges = (\<lambda>_ _ _ ps w. (Inr [map (\<lambda>p. (p, True)) ps], w))\<rparr>)"

section \<open>Go's path package\<close>

fun splitOn :: "char \<Rightarrow> string \<Rightarrow> string \<Rightarrow> string list" where
  "splitOn c cur [] = [rev cur]"
| "splitOn c cur (x # xs) = (if x = c then rev cur # splitOn c [] xs else splitOn c (x # cur) xs)"

text \<open>\<open>path.Clean\<close> over the components, with the output as a stack. A \<open>..\<close> removes the
  last output component unless that is itself a leading \<open>..\<close>; a rooted path drops it.\<close>

fun cleanParts :: "bool \<Rightarrow> string list \<Rightarrow> string list \<Rightarrow> string list" where
  "cleanParts rooted out [] = rev out"
| "cleanParts rooted out (p # ps) =
     (if p = [] \<or> p = ''.'' then cleanParts rooted out ps
      else if p = ''..'' then
        (case out of
           q # qs \<Rightarrow> if q \<noteq> ''..'' then cleanParts rooted qs ps
                     else if rooted then cleanParts rooted out ps
                     else cleanParts rooted (p # out) ps
         | [] \<Rightarrow> if rooted then cleanParts rooted out ps else cleanParts rooted (p # out) ps)
      else cleanParts rooted (p # out) ps)"

definition path_Clean :: "string \<Rightarrow> string" where
  "path_Clean p =
     (if p = [] then ''.''
      else let rooted = (hd p = CHR ''/''); out = cleanParts rooted [] (splitOn CHR ''/'' [] p) in
        if rooted then ''/'' @ join ''/'' out
        else if out = [] then ''.'' else join ''/'' out)"

definition path_Join :: "string list \<Rightarrow> string" where
  "path_Join es = (case filter (\<lambda>e. e \<noteq> []) es of [] \<Rightarrow> [] | xs \<Rightarrow> path_Clean (join ''/'' xs))"

definition path_Base :: "string \<Rightarrow> string" where
  "path_Base p =
     (if p = [] then ''.''
      else let q = rev (dropWhile (\<lambda>c. c = CHR ''/'') (rev p));
               b = rev (takeWhile (\<lambda>c. c \<noteq> CHR ''/'') (rev q)) in
        if b = [] then ''/'' else b)"

end
