(* ===== verification/Machines.thy ===== *)
theory Machines
  imports Clients
begin

text \<open>
  The machine manager, \<open>internal/openshift/machines.go\<close>: worker machine sets (create, list
  by vCenter and by failure domain, scale, annotate, delete), the control plane machine set,
  and the readiness and deletion checks. What is computed from the objects is a function of
  its own; what calls the API is an operation over the clients. An error return drops the
  partial counts some of the checks return beside it; no caller reads them.
\<close>

section \<open>Definitions\<close>

definition MachineAPINamespace :: string where
  "MachineAPINamespace = ''openshift-machine-api''"

definition SourceMachineSetAnnotation :: string where
  "SourceMachineSetAnnotation = ''migration.openshift.io/source-machineset''"

definition LegacyAggregateAnnotation :: string where
  "LegacyAggregateAnnotation = ''migration.openshift.io/legacy-aggregate''"

definition LegacyAggregateAnnotationValue :: string where
  "LegacyAggregateAnnotationValue = ''true''"

definition machineSetLabelKey :: string where
  "machineSetLabelKey = ''machine.openshift.io/cluster-api-machineset''"

definition clusterLabelKey :: string where
  "clusterLabelKey = ''machine.openshift.io/cluster-api-cluster''"

definition machinePhaseRunning :: string where
  "machinePhaseRunning = ''Running''"

definition machinePhaseFailed :: string where
  "machinePhaseFailed = ''Failed''"

record 'w machineManager =
  mm_kubeClient :: "'w kubeClient"
  mm_machineClient :: "'w machineClient"

definition NewMachineManager :: "'w kubeClient \<Rightarrow> 'w machineClient \<Rightarrow> 'w machineManager" where
  "NewMachineManager kc mc = \<lparr>mm_kubeClient = kc, mm_machineClient = mc\<rparr>"

subsection \<open>Provider specs\<close>

definition ExtractVSphereProviderSpec :: "machineSet \<Rightarrow> error + providerSpec" where
  "ExtractVSphereProviderSpec ms =
     (case ms_providerValue ms of
        ValueNil \<Rightarrow> Inl (Errorf (''machineset '' @ quote (ms_name ms) @ '' has no provider spec''))
      | RawNil \<Rightarrow> Inl (Errorf (''machineset '' @ quote (ms_name ms) @ '' provider spec has no raw value''))
      | RawMalformed t \<Rightarrow>
          Inl (Wrapf (''unmarshalling provider spec from machineset '' @ quote (ms_name ms)) (Errorf t))
      | RawJSON ps \<Rightarrow> Inr ps)"

definition emptyWorkspace :: workspace where
  "emptyWorkspace = \<lparr>ws_server = [], ws_datacenter = [], ws_folder = [], ws_datastore = [], ws_resourcePool = []\<rparr>"

definition targetWorkspace :: "workspace option \<Rightarrow> failureDomain \<Rightarrow> string \<Rightarrow> workspace" where
  "targetWorkspace w fd infraID =
     (case w of None \<Rightarrow> emptyWorkspace | Some v \<Rightarrow> v)
       \<lparr>ws_server := fd_server fd,
        ws_datacenter := datacenter (fd_topology fd),
        ws_datastore := datastore (fd_topology fd),
        ws_resourcePool := resourcePool (fd_topology fd),
        ws_folder := (if folder (fd_topology fd) \<noteq> [] then folder (fd_topology fd)
                      else ''/'' @ datacenter (fd_topology fd) @ ''/vm/'' @ infraID)\<rparr>"

definition targetNetworks :: "string list \<Rightarrow> string list \<Rightarrow> string list" where
  "targetNetworks old nets =
     (case nets of [] \<Rightarrow> old
      | n # _ \<Rightarrow> [if CHR ''/'' \<in> set n then path_Base n else n])"

definition targetProviderSpec :: "providerSpec \<Rightarrow> failureDomain \<Rightarrow> string \<Rightarrow> providerSpec" where
  "targetProviderSpec ps fd infraID =
     ps\<lparr>ps_workspace := Some (targetWorkspace (ps_workspace ps) fd infraID),
        ps_template := (if template (fd_topology fd) \<noteq> [] then template (fd_topology fd) else ps_template ps),
        ps_networks := targetNetworks (ps_networks ps) (networks (fd_topology fd))\<rparr>"

definition updateMachineSetProviderSpec :: "machineSet \<Rightarrow> failureDomain \<Rightarrow> string \<Rightarrow> error + machineSet" where
  "updateMachineSetProviderSpec ms fd infraID =
     (case ms_providerValue ms of
        ValueNil \<Rightarrow> Inl (Errorf (''machineset '' @ quote (ms_name ms) @ '' has no provider spec''))
      | RawNil \<Rightarrow> Inl (Errorf (''machineset '' @ quote (ms_name ms) @ '' provider spec has no raw value''))
      | RawMalformed t \<Rightarrow> Inl (Wrapf ''unmarshalling provider spec'' (Errorf t))
      | RawJSON ps \<Rightarrow> Inr (ms\<lparr>ms_providerValue := RawJSON (targetProviderSpec ps fd infraID)\<rparr>))"

subsection \<open>Creating a worker machine set\<close>

text \<open>The object that is sent: a copy of the template under the new name.\<close>

definition copyTemplate :: "string \<Rightarrow> int \<Rightarrow> machineSet \<Rightarrow> string \<Rightarrow> machineSet" where
  "copyTemplate nm n tmpl infraID =
     tmpl\<lparr>ms_name := nm,
        ms_namespace := MachineAPINamespace,
        ms_resourceVersion := [],
        ms_uid := [],
        ms_creationTimestamp := 0,
        ms_statusReplicas := 0,
        ms_replicas := Some n,
        ms_annotations := (ms_annotations tmpl)(SourceMachineSetAnnotation \<mapsto> ms_name tmpl,
                                               LegacyAggregateAnnotation := None),
        ms_matchLabels := (ms_matchLabels tmpl)(machineSetLabelKey \<mapsto> nm),
        ms_templateLabels := (ms_templateLabels tmpl)(machineSetLabelKey \<mapsto> nm, clusterLabelKey \<mapsto> infraID)\<rparr>"

definition newWorkerMachineSet :: "string \<Rightarrow> int \<Rightarrow> failureDomain \<Rightarrow> machineSet \<Rightarrow> string \<Rightarrow> error + machineSet" where
  "newWorkerMachineSet nm n fd tmpl infraID =
     wrapE (''updating provider spec for machineset '' @ quote nm)
       (updateMachineSetProviderSpec (copyTemplate nm n tmpl infraID) fd infraID)"

definition CreateWorkerMachineSet ::
  "('w, 'z) exec_scheme ctx \<Rightarrow> 'w machineManager \<Rightarrow> string \<Rightarrow> int \<Rightarrow> failureDomain option \<Rightarrow> machineSet option \<Rightarrow> string
   \<Rightarrow> (('w, 'z) exec_scheme, error, machineSet) op" where
  "CreateWorkerMachineSet ctx mm nm n fdp tmplp infraID =
     (case tmplp of
        None \<Rightarrow> fail (Errorf ''template MachineSet must not be nil'')
      | Some tmpl \<Rightarrow>
        (case fdp of
           None \<Rightarrow> fail (Errorf ''failureDomain must not be nil'')
         | Some fd \<Rightarrow>
           bnd (liftE (newWorkerMachineSet nm n fd tmpl infraID)) (\<lambda>newMS.
           bnd (Check ctx) (\<lambda>_.
           wrapErr (''creating machineset '' @ quote nm)
             (request (MutateCall (CreateMachineSetCall newMS))
                (machineSets_create (mm_machineClient mm) newMS))))))"

subsection \<open>Reading machine sets\<close>

definition GetMachineSet ::
  "'w machineManager \<Rightarrow> string \<Rightarrow> (('w, 'z) exec_scheme, error, machineSet) op" where
  "GetMachineSet mm nm =
     readCall (''getting machineset '' @ quote nm) (machineSets_get (mm_machineClient mm) nm)"

definition ListMachineSets ::
  "'w machineManager \<Rightarrow> (('w, 'z) exec_scheme, error, machineSet list) op" where
  "ListMachineSets mm = readCall ''listing machinesets'' (machineSets_list (mm_machineClient mm))"

definition onVCenter :: "string \<Rightarrow> machineSet \<Rightarrow> bool" where
  "onVCenter server ms =
     (case ExtractVSphereProviderSpec ms of
        Inl _ \<Rightarrow> False
      | Inr ps \<Rightarrow> (case ps_workspace ps of None \<Rightarrow> False | Some w \<Rightarrow> ws_server w = server))"

definition GetMachineSetsByVCenter ::
  "'w machineManager \<Rightarrow> string \<Rightarrow> (('w, 'z) exec_scheme, error, machineSet list) op" where
  "GetMachineSetsByVCenter mm server =
     (if server = [] then fail (Errorf ''vcenter server must not be empty'')
      else bnd (readCall ''listing machinesets'' (machineSets_list (mm_machineClient mm)))
        (\<lambda>l. ret (filter (onVCenter server) l)))"

definition EffectiveResourcePool :: "failureDomain \<Rightarrow> string" where
  "EffectiveResourcePool fd =
     (if resourcePool (fd_topology fd) \<noteq> [] then resourcePool (fd_topology fd)
      else if computeCluster (fd_topology fd) \<noteq> []
        then path_Join [computeCluster (fd_topology fd), ''Resources'']
      else [])"

definition inFailureDomain :: "failureDomain \<Rightarrow> machineSet \<Rightarrow> bool" where
  "inFailureDomain fd ms =
     (case ExtractVSphereProviderSpec ms of
        Inl _ \<Rightarrow> False
      | Inr ps \<Rightarrow> (case ps_workspace ps of
           None \<Rightarrow> False
         | Some w \<Rightarrow> ws_datacenter w = datacenter (fd_topology fd) \<and>
             (EffectiveResourcePool fd = [] \<or> ws_resourcePool w = EffectiveResourcePool fd)))"

definition GetMachineSetsByFailureDomain ::
  "'w machineManager \<Rightarrow> string \<Rightarrow> failureDomain option \<Rightarrow> (('w, 'z) exec_scheme, error, machineSet list) op" where
  "GetMachineSetsByFailureDomain mm server fdp =
     (case fdp of
        None \<Rightarrow> fail (Errorf ''failure domain must not be nil'')
      | Some fd \<Rightarrow> bnd (GetMachineSetsByVCenter mm server) (\<lambda>l. ret (filter (inFailureDomain fd) l)))"

subsection \<open>Changing machine sets\<close>

definition ScaleMachineSet ::
  "('w, 'z) exec_scheme ctx \<Rightarrow> 'w machineManager \<Rightarrow> string \<Rightarrow> int \<Rightarrow> (('w, 'z) exec_scheme, error, unit) op" where
  "ScaleMachineSet ctx mm nm n =
     bnd (readCall (''getting machineset '' @ quote nm @ '' for scaling'')
            (machineSets_get (mm_machineClient mm) nm)) (\<lambda>ms.
     bnd (Check ctx) (\<lambda>_.
     bnd (wrapErr (''scaling machineset '' @ quote nm @ '' to '' @ itoa_int n)
            (request (MutateCall (UpdateMachineSetCall (ms\<lparr>ms_replicas := Some n\<rparr>)))
               (machineSets_update (mm_machineClient mm) (ms\<lparr>ms_replicas := Some n\<rparr>)))) (\<lambda>_.
     ret ())))"

definition legacyAnnotated :: "machineSet \<Rightarrow> machineSet" where
  "legacyAnnotated ms =
     ms\<lparr>ms_annotations := (ms_annotations ms)(LegacyAggregateAnnotation \<mapsto> LegacyAggregateAnnotationValue)\<rparr>"

definition AnnotateMachineSetLegacyAggregate ::
  "('w, 'z) exec_scheme ctx \<Rightarrow> 'w machineManager \<Rightarrow> string \<Rightarrow> (('w, 'z) exec_scheme, error, unit) op" where
  "AnnotateMachineSetLegacyAggregate ctx mm nm =
     bnd (GetMachineSet mm nm) (\<lambda>ms.
       if ms_annotations ms LegacyAggregateAnnotation = Some LegacyAggregateAnnotationValue then ret ()
       else
         bnd (Check ctx) (\<lambda>_.
         bnd (wrapErr (''annotating machineset '' @ quote nm @ '' as legacy aggregate'')
                (request (MutateCall (UpdateMachineSetCall (legacyAnnotated ms)))
                   (machineSets_update (mm_machineClient mm) (legacyAnnotated ms)))) (\<lambda>_.
         ret ())))"

definition DeleteMachineSet ::
  "('w, 'z) exec_scheme ctx \<Rightarrow> 'w machineManager \<Rightarrow> string \<Rightarrow> (('w, 'z) exec_scheme, error, unit) op" where
  "DeleteMachineSet ctx mm nm =
     bnd (Check ctx) (\<lambda>_.
     attempt (request (MutateCall (DeleteMachineSetCall nm)) (machineSets_delete (mm_machineClient mm) nm))
       (\<lambda>r. case r of
          Inl e \<Rightarrow> if IsNotFound e then ret () else fail (Wrapf (''deleting machineset '' @ quote nm) e)
        | Inr _ \<Rightarrow> ret ()))"

definition refuseReplicas :: "machineSet \<Rightarrow> error + unit" where
  "refuseReplicas ms =
     (case ms_replicas ms of
        None \<Rightarrow> Inl (Errorf (''refusing to delete machineset '' @ quote (ms_name ms) @ '' with replicas -1''))
      | Some n \<Rightarrow>
          if n > 0
          then Inl (Errorf (''refusing to delete machineset '' @ quote (ms_name ms) @ '' with replicas '' @ itoa_int n))
          else Inr ())"

definition DeleteMachineSetsByVCenter ::
  "('w, 'z) exec_scheme ctx \<Rightarrow> 'w machineManager \<Rightarrow> string \<Rightarrow> (('w, 'z) exec_scheme, error, string list) op" where
  "DeleteMachineSetsByVCenter ctx mm server =
     (if server = [] then fail (Errorf ''vcenter server must not be empty'')
      else
        bnd (GetMachineSetsByVCenter mm server) (\<lambda>sets.
        bnd (liftE (forE refuseReplicas sets)) (\<lambda>_.
        foldM (\<lambda>deleted ms.
            bnd (DeleteMachineSet ctx mm (ms_name ms)) (\<lambda>_. ret (deleted @ [ms_name ms])))
          [] sets)))"

subsection \<open>The control plane machine set\<close>

definition GetControlPlaneMachineSet ::
  "'w machineManager \<Rightarrow> (('w, 'z) exec_scheme, error, cpms) op" where
  "GetControlPlaneMachineSet mm =
     readCall ''getting ControlPlaneMachineSet'' (controlPlaneMachineSets_get (mm_machineClient mm) ''cluster'')"

definition VSpherePlatformType :: string where
  "VSpherePlatformType = ''VSphere''"

definition RollingUpdate :: string where
  "RollingUpdate = ''RollingUpdate''"

text \<open>The change \<open>UpdateCPMSFailureDomain\<close> makes to the object it read.\<close>

definition retargetCPMS :: "cpms \<Rightarrow> string list \<Rightarrow> error + cpms" where
  "retargetCPMS c names =
     (if cpms_template c = None
      then Inl (Errorf ''CPMS has no machines_v1beta1_machine_openshift_io template'')
      else if cpms_strategyType c \<noteq> [] \<and> cpms_strategyType c \<noteq> RollingUpdate
      then Inl (Errorf (''CPMS strategy '' @ quote (cpms_strategyType c) @
             '' is not RollingUpdate; the control plane rollout would not proceed''))
      else Inr (c\<lparr>cpms_template := Some (Some \<lparr>cfd_platform = VSpherePlatformType, cfd_vsphere = names\<rparr>),
                  cpms_stateField := CPMSActive\<rparr>))"

definition UpdateCPMSFailureDomain ::
  "('w, 'z) exec_scheme ctx \<Rightarrow> 'w machineManager \<Rightarrow> string list \<Rightarrow> (('w, 'z) exec_scheme, error, unit) op" where
  "UpdateCPMSFailureDomain ctx mm names =
     bnd (GetControlPlaneMachineSet mm) (\<lambda>c.
     bnd (liftE (retargetCPMS c names)) (\<lambda>new.
     bnd (Check ctx) (\<lambda>_.
     bnd (wrapErr ''updating ControlPlaneMachineSet''
            (request (MutateCall (UpdateCPMSCall new))
               (controlPlaneMachineSets_update (mm_machineClient mm) new))) (\<lambda>_.
     ret ()))))"

record controlPlaneRolloutStatus =
  rs_complete :: bool
  rs_replicas :: int
  rs_updatedReplicas :: int
  rs_readyReplicas :: int
  rs_holdReason :: string
  rs_holdMessage :: string

definition cpmsConditionDegraded :: string where
  "cpmsConditionDegraded = ''Degraded''"

definition cpmsConditionError :: string where
  "cpmsConditionError = ''Error''"

definition cpmsReasonUnmanagedNodes :: string where
  "cpmsReasonUnmanagedNodes = ''UnmanagedNodes''"

definition findGeneric :: "genericCondition list \<Rightarrow> string \<Rightarrow> genericCondition option" where
  "findGeneric cs t = find (\<lambda>c. gc_type c = t) cs"

text \<open>One turn of the loop over the two condition types; the accumulator is whether the
  rollout is held, with the reason and message of the last holding condition.\<close>

definition rolloutCondition ::
  "genericCondition list \<Rightarrow> bool \<times> string \<times> string \<Rightarrow> string \<Rightarrow> error + bool \<times> string \<times> string" where
  "rolloutCondition cs acc t =
     (case findGeneric cs t of
        None \<Rightarrow> Inr acc
      | Some c \<Rightarrow>
          if gc_status c \<noteq> ''True'' then Inr acc
          else if gc_reason c = cpmsReasonUnmanagedNodes then Inr (True, gc_reason c, gc_message c)
          else Inl (Errorf (''waiting for control plane rollout: CPMS condition '' @ gc_type c @ ''='' @
                 gc_status c @ '' ('' @ gc_reason c @ ''): '' @ gc_message c)))"

definition rolloutStatus :: "cpms \<Rightarrow> error + controlPlaneRolloutStatus" where
  "rolloutStatus c =
     bindE (foldE (rolloutCondition (cpms_conditions c)) (False, [], [])
              [cpmsConditionDegraded, cpmsConditionError])
       (\<lambda>(hold, why, note). Inr \<lparr>
          rs_complete = (\<not> hold \<and> cpms_replicas c > 0 \<and> cpms_updatedReplicas c = cpms_replicas c \<and>
                         cpms_readyReplicas c = cpms_replicas c),
          rs_replicas = cpms_replicas c, rs_updatedReplicas = cpms_updatedReplicas c,
          rs_readyReplicas = cpms_readyReplicas c, rs_holdReason = why, rs_holdMessage = note\<rparr>)"

definition CheckControlPlaneRolloutStatus ::
  "'w machineManager \<Rightarrow> (('w, 'z) exec_scheme, error, controlPlaneRolloutStatus) op" where
  "CheckControlPlaneRolloutStatus mm = bnd (GetControlPlaneMachineSet mm) (\<lambda>c. liftE (rolloutStatus c))"

definition cpmsTargets :: "cpms \<Rightarrow> string list \<Rightarrow> bool" where
  "cpmsTargets c names =
     (if cpms_stateField c \<noteq> CPMSActive then False
      else case cpms_template c of
        Some (Some fds) \<Rightarrow> sort (cfd_vsphere fds) = sort names
      | _ \<Rightarrow> False)"

definition IsCPMSUpdatedForFailureDomains ::
  "'w machineManager \<Rightarrow> string list \<Rightarrow> (('w, 'z) exec_scheme, error, bool) op" where
  "IsCPMSUpdatedForFailureDomains mm names =
     bnd (GetControlPlaneMachineSet mm) (\<lambda>c. ret (cpmsTargets c names))"

definition IsCPMSGenerationObserved ::
  "'w machineManager \<Rightarrow> (('w, 'z) exec_scheme, error, bool \<times> int \<times> int) op" where
  "IsCPMSGenerationObserved mm =
     bnd (GetControlPlaneMachineSet mm) (\<lambda>c.
       ret (cpms_generation c = cpms_observedGeneration c, cpms_generation c, cpms_observedGeneration c))"

subsection \<open>Machines and nodes\<close>

definition ListControlPlaneMachines ::
  "'w machineManager \<Rightarrow> (('w, 'z) exec_scheme, error, machine list) op" where
  "ListControlPlaneMachines mm =
     readCall ''listing control plane machines'' (machines_list (mm_machineClient mm)
       ''machine.openshift.io/cluster-api-machine-role in (master,control-plane)'')"

definition selectorLabel :: "machineSet \<Rightarrow> string \<Rightarrow> string" where
  "selectorLabel ms nm =
     (case ms_matchLabels ms machineSetLabelKey of Some v \<Rightarrow> if v \<noteq> [] then v else nm | None \<Rightarrow> nm)"

definition machinesetSelectorLabel ::
  "'w machineManager \<Rightarrow> string \<Rightarrow> (('w, 'z) exec_scheme, error, string) op" where
  "machinesetSelectorLabel mm nm =
     bnd (readCall (''getting machineset '' @ quote nm) (machineSets_get (mm_machineClient mm) nm))
       (\<lambda>ms. ret (selectorLabel ms nm))"

definition ListMachinesForMachineSet ::
  "'w machineManager \<Rightarrow> string \<Rightarrow> (('w, 'z) exec_scheme, error, machine list) op" where
  "ListMachinesForMachineSet mm nm =
     bnd (machinesetSelectorLabel mm nm) (\<lambda>v.
     readCall (''listing machines for machineset '' @ quote nm)
       (machines_list (mm_machineClient mm) (machineSetLabelKey @ ''='' @ v)))"

definition phaseOf :: "machine \<Rightarrow> string" where
  "phaseOf mc = (case mc_phase mc of None \<Rightarrow> [] | Some p \<Rightarrow> p)"

definition deref :: "string option \<Rightarrow> string" where
  "deref p = (case p of None \<Rightarrow> [] | Some t \<Rightarrow> t)"

definition countMachine :: "string \<Rightarrow> int \<Rightarrow> machine \<Rightarrow> error + int" where
  "countMachine nm ready mc =
     (if phaseOf mc = machinePhaseFailed
      then Inl (Errorf (''waiting for machineset '' @ quote nm @ '': machine '' @ quote (mc_name mc) @
             '' is Failed ('' @ deref (mc_errorReason mc) @ ''): '' @ deref (mc_errorMessage mc)))
      else if phaseOf mc = machinePhaseRunning \<and> mc_nodeRef mc \<noteq> None then Inr (i32 (ready + 1))
      else Inr ready)"

text \<open>Complete, ready and total.\<close>

definition machinesReady :: "string \<Rightarrow> machine list \<Rightarrow> error + bool \<times> int \<times> int" where
  "machinesReady nm ms =
     (let total = i32 (int (length ms)) in
      bindE (foldE (countMachine nm) 0 ms) (\<lambda>ready. Inr (total > 0 \<and> ready = total, ready, total)))"

definition CheckMachinesReady ::
  "'w machineManager \<Rightarrow> string \<Rightarrow> (('w, 'z) exec_scheme, error, bool \<times> int \<times> int) op" where
  "CheckMachinesReady mm nm = bnd (ListMachinesForMachineSet mm nm) (\<lambda>ms. liftE (machinesReady nm ms))"

definition nodeReady :: "nodeObj \<Rightarrow> bool" where
  "nodeReady n = list_ex (\<lambda>(t, st). t = ''Ready'' \<and> st = ''True'') (node_conditions n)"

definition countNode ::
  "'w machineManager \<Rightarrow> (nodeObj \<Rightarrow> bool) \<Rightarrow> int \<Rightarrow> machine \<Rightarrow> (('w, 'z) exec_scheme, error, int) op" where
  "countNode mm counts n mc =
     (case mc_nodeRef mc of
        None \<Rightarrow> ret n
      | Some nd \<Rightarrow>
          attempt (request ReadCall (nodes_get (mm_kubeClient mm) nd)) (\<lambda>r. case r of
             Inl _ \<Rightarrow> ret n
           | Inr node \<Rightarrow> ret (if counts node then i32 (n + 1) else n)))"

definition CheckNodesReady ::
  "'w machineManager \<Rightarrow> string \<Rightarrow> (('w, 'z) exec_scheme, error, bool \<times> int \<times> int) op" where
  "CheckNodesReady mm nm =
     bnd (ListMachinesForMachineSet mm nm) (\<lambda>ms.
     bnd (foldM (countNode mm nodeReady) 0 ms) (\<lambda>ready.
     let total = i32 (int (length ms)) in ret (total > 0 \<and> ready = total, ready, total)))"

definition CheckMachinesDeleted ::
  "'w machineManager \<Rightarrow> string \<Rightarrow> (('w, 'z) exec_scheme, error, bool \<times> int) op" where
  "CheckMachinesDeleted mm nm =
     bnd (ListMachinesForMachineSet mm nm) (\<lambda>ms.
     let remaining = i32 (int (length ms)) in ret (remaining = 0, remaining))"

definition CheckNodesDeletedForMachines ::
  "'w machineManager \<Rightarrow> string \<Rightarrow> (('w, 'z) exec_scheme, error, bool \<times> int) op" where
  "CheckNodesDeletedForMachines mm nm =
     bnd (ListMachinesForMachineSet mm nm) (\<lambda>ms.
     bnd (foldM (countNode mm (\<lambda>_. True)) 0 ms) (\<lambda>remaining. ret (remaining = 0, remaining)))"

section \<open>Every operation is guarded\<close>

text \<open>Reads leave the trace safe for every context; changes leave it safe when the mutation they
  send satisfies \<open>A\<close>. The facts are used through \<open>ec\<close>.\<close>

lemmas read_ops =
  GetMachineSet_def ListMachineSets_def GetMachineSetsByVCenter_def GetMachineSetsByFailureDomain_def
  GetControlPlaneMachineSet_def CheckControlPlaneRolloutStatus_def IsCPMSUpdatedForFailureDomains_def
  IsCPMSGenerationObserved_def ListControlPlaneMachines_def machinesetSelectorLabel_def
  ListMachinesForMachineSet_def CheckMachinesReady_def CheckNodesReady_def CheckMachinesDeleted_def
  CheckNodesDeletedForMachines_def countNode_def Let_def

lemma keeps_reads [keeps_rules]:
  "keeps (safe m A) (GetMachineSet mm nm)"
  "keeps (safe m A) (ListMachineSets mm)"
  "keeps (safe m A) (GetMachineSetsByVCenter mm server)"
  "keeps (safe m A) (GetMachineSetsByFailureDomain mm server fdp)"
  "keeps (safe m A) (GetControlPlaneMachineSet mm)"
  "keeps (safe m A) (CheckControlPlaneRolloutStatus mm)"
  "keeps (safe m A) (IsCPMSUpdatedForFailureDomains mm names)"
  "keeps (safe m A) (IsCPMSGenerationObserved mm)"
  "keeps (safe m A) (ListControlPlaneMachines mm)"
  "keeps (safe m A) (ListMachinesForMachineSet mm nm)"
  "keeps (safe m A) (CheckMachinesReady mm nm)"
  "keeps (safe m A) (CheckNodesReady mm nm)"
  "keeps (safe m A) (CheckMachinesDeleted mm nm)"
  "keeps (safe m A) (CheckNodesDeletedForMachines mm nm)"
  unfolding read_ops by (intro keeps_rules not_write)+

context guarded_ctx
begin

lemma keeps_CreateWorkerMachineSet:
  assumes "\<And>fd tmpl ms. \<lbrakk>fdp = Some fd; tmplp = Some tmpl; newWorkerMachineSet nm n fd tmpl infraID = Inr ms\<rbrakk>
    \<Longrightarrow> A (CreateMachineSetCall ms)"
  shows "keeps (safe m A) (CreateWorkerMachineSet ctx mm nm n fdp tmplp infraID)"
  using assms unfolding CreateWorkerMachineSet_def
  by (cases fdp; cases tmplp) (auto intro!: keeps_fail keeps_liftE_bnd keeps_checked_wrap)

lemma keeps_ScaleMachineSet:
  assumes "\<And>ms. A (UpdateMachineSetCall (ms\<lparr>ms_replicas := Some n\<rparr>))"
  shows "keeps (safe m A) (ScaleMachineSet ctx mm nm n)"
  unfolding ScaleMachineSet_def
  by (rule keeps_bnd [OF keeps_readCall], rule keeps_checked_wrap_bnd) (auto intro: assms keeps_ret)

lemma keeps_AnnotateMachineSetLegacyAggregate:
  assumes "\<And>ms. A (UpdateMachineSetCall (legacyAnnotated ms))"
  shows "keeps (safe m A) (AnnotateMachineSetLegacyAggregate ctx mm nm)"
  unfolding AnnotateMachineSetLegacyAggregate_def
  by (rule keeps_bnd [OF keeps_reads(1)], rule keeps_if [OF keeps_ret], rule keeps_checked_wrap_bnd)
    (auto intro: assms keeps_ret)

lemma keeps_DeleteMachineSet:
  assumes "A (DeleteMachineSetCall nm)"
  shows "keeps (safe m A) (DeleteMachineSet ctx mm nm)"
  unfolding DeleteMachineSet_def
  by (rule keeps_checked_attempt, rule assms) (intro keeps_rules)

lemma keeps_delete_loop:
  assumes "\<And>ms. ms \<in> set sets \<Longrightarrow> A (DeleteMachineSetCall (ms_name ms))"
  shows "keeps (safe m A) (foldM (\<lambda>deleted ms.
     bnd (DeleteMachineSet ctx mm (ms_name ms)) (\<lambda>_. ret (deleted @ [ms_name ms]))) b sets)"
  using assms
  by (induction sets arbitrary: b) (auto intro!: keeps_bnd keeps_ret keeps_DeleteMachineSet)

lemma keeps_UpdateCPMSFailureDomain:
  assumes "\<And>c new. retargetCPMS c names = Inr new \<Longrightarrow> A (UpdateCPMSCall new)"
  shows "keeps (safe m A) (UpdateCPMSFailureDomain ctx mm names)"
  unfolding UpdateCPMSFailureDomain_def
  by (rule keeps_bnd [OF keeps_reads(5)], rule keeps_liftE_bnd, rule keeps_checked_wrap_bnd)
    (auto intro: assms keeps_ret)

end

section \<open>Worker machine sets\<close>

lemma updateMachineSetProviderSpec_Inr:
  "updateMachineSetProviderSpec ms fd infraID = Inr new \<longleftrightarrow>
     (\<exists>ps. ms_providerValue ms = RawJSON ps \<and>
           new = ms\<lparr>ms_providerValue := RawJSON (targetProviderSpec ps fd infraID)\<rparr>)"
  by (auto simp: updateMachineSetProviderSpec_def split: providerValue.splits)

lemma newWorkerMachineSet_Inr:
  "newWorkerMachineSet nm n fd tmpl infraID = Inr new \<longleftrightarrow>
     (\<exists>ps. ms_providerValue tmpl = RawJSON ps \<and>
           new = (copyTemplate nm n tmpl infraID)
                   \<lparr>ms_providerValue := RawJSON (targetProviderSpec ps fd infraID)\<rparr>)"
  by (simp add: newWorkerMachineSet_def updateMachineSetProviderSpec_Inr copyTemplate_def)

lemma newWorkerMachineSet_onVCenter:
  "newWorkerMachineSet nm n fd tmpl infraID = Inr new \<Longrightarrow> onVCenter server new \<longleftrightarrow> server = fd_server fd"
  by (auto simp: newWorkerMachineSet_Inr onVCenter_def ExtractVSphereProviderSpec_def
      targetProviderSpec_def targetWorkspace_def)

text \<open>
  C28: the worker machine set that is created for a destination failure domain is a copy of the
  source machine set placed in that failure domain: its workspace names the destination vCenter,
  datacenter, datastore and resource pool; its machines carry the label by which the readiness
  checks select them; it is annotated with its source and not as a legacy aggregate; its
  hardware is the source's; and it has a fresh identity (no UID or resource version).
\<close>

theorem created_machineset_lands_in_failure_domain:
  assumes "newWorkerMachineSet nm n fd tmpl infraID = Inr new"
  shows "\<exists>ps ps' ws. ExtractVSphereProviderSpec tmpl = Inr ps \<and> ExtractVSphereProviderSpec new = Inr ps' \<and>
     ps_workspace ps' = Some ws \<and>
     ws_server ws = fd_server fd \<and> ws_datacenter ws = datacenter (fd_topology fd) \<and>
     ws_datastore ws = datastore (fd_topology fd) \<and> ws_resourcePool ws = resourcePool (fd_topology fd) \<and>
     ws_folder ws \<noteq> [] \<and> ps_hardware ps' = ps_hardware ps \<and>
     ms_name new = nm \<and> ms_namespace new = MachineAPINamespace \<and> ms_replicas new = Some n \<and>
     (nm \<noteq> [] \<longrightarrow> ms_templateLabels new machineSetLabelKey = Some (selectorLabel new nm)) \<and>
     ms_annotations new SourceMachineSetAnnotation = Some (ms_name tmpl) \<and>
     ms_annotations new LegacyAggregateAnnotation = None \<and>
     ms_uid new = [] \<and> ms_resourceVersion new = []"
  using assms
  by (auto simp: newWorkerMachineSet_Inr copyTemplate_def ExtractVSphereProviderSpec_def
      targetProviderSpec_def targetWorkspace_def selectorLabel_def machineSetLabelKey_def
      clusterLabelKey_def SourceMachineSetAnnotation_def LegacyAggregateAnnotation_def)

definition sampleTopology :: topology where
  "sampleTopology = \<lparr>datacenter = ''DC2'', computeCluster = ''/DC2/host/C'', networks = [''/DC2/network/VM''],
     datastore = ''/DC2/datastore/ds'', resourcePool = ''/DC2/host/C/Resources'', folder = [],
     template = ''rhcos''\<rparr>"

definition sampleFD :: failureDomain where
  "sampleFD = \<lparr>fd_name = ''fd-b'', fd_region = ''r'', fd_zone = ''z'', fd_server = ''vc2.example.com'',
     regionAffinity = None, zoneAffinity = None, fd_topology = sampleTopology\<rparr>"

definition sampleMachineSet :: machineSet where
  "sampleMachineSet = \<lparr>ms_name = ''w-0'', ms_namespace = ''openshift-machine-api'', ms_resourceVersion = ''7'',
     ms_uid = ''u'', ms_creationTimestamp = 5, ms_annotations = (\<lambda>_. None), ms_replicas = Some 2,
     ms_matchLabels = (\<lambda>_. None), ms_templateLabels = (\<lambda>_. None),
     ms_providerValue = RawJSON \<lparr>ps_workspace = Some \<lparr>ws_server = ''vc1.example.com'', ws_datacenter = ''DC1'',
        ws_folder = ''/DC1/vm/x'', ws_datastore = ''ds'', ws_resourcePool = ''/DC1/host/C/Resources''\<rparr>,
        ps_template = ''t'', ps_networks = [''VM''], ps_hardware = ''4cpu''\<rparr>,
     ms_statusReplicas = 2\<rparr>"

theorem created_machineset_lands_in_failure_domain_witness:
  "\<exists>new ws ps. newWorkerMachineSet ''w-1'' 2 sampleFD sampleMachineSet ''infra'' = Inr new \<and>
     ExtractVSphereProviderSpec new = Inr ps \<and> ps_workspace ps = Some ws \<and>
     ws_server ws = ''vc2.example.com'' \<and> ms_name new = ''w-1''"
proof -
  obtain new where new: "newWorkerMachineSet ''w-1'' 2 sampleFD sampleMachineSet ''infra'' = Inr new"
    by (simp add: newWorkerMachineSet_Inr sampleMachineSet_def)
  show ?thesis
    using created_machineset_lands_in_failure_domain [OF new] new by (auto simp: sampleFD_def)
qed

section \<open>Deleting the source machine sets\<close>

lemma refuseReplicas_ok: "refuseReplicas ms = Inr () \<longleftrightarrow> (\<exists>n. ms_replicas ms = Some n \<and> n \<le> 0)"
  by (auto simp: refuseReplicas_def split: option.splits)

text \<open>A machine set that may be deleted with the source vCenter \<open>server\<close>, and the mutations
  that stay within that.\<close>

definition scaledDown :: "machineSet \<Rightarrow> bool" where
  "scaledDown ms \<longleftrightarrow> (\<exists>n. ms_replicas ms = Some n \<and> n \<le> 0)"

fun deletes_only :: "string \<Rightarrow> machineSet list \<Rightarrow> mutation \<Rightarrow> bool" where
  "deletes_only server sets (DeleteMachineSetCall nm) =
     ((\<exists>ms\<in>set sets. ms_name ms = nm \<and> onVCenter server ms) \<and>
      (\<forall>ms\<in>set sets. onVCenter server ms \<longrightarrow> scaledDown ms))"
| "deletes_only server sets _ = False"

lemma delete_loop_names:
  "foldM (\<lambda>deleted ms. bnd (DeleteMachineSet ctx mm (ms_name ms)) (\<lambda>_. ret (deleted @ [ms_name ms]))) b sets s
     = (Inr names, s') \<Longrightarrow> names = b @ map ms_name sets"
  by (induction sets arbitrary: b s) (fastforce simp: bnd_Inr)+

lemma GetMachineSetsByVCenter_app:
  assumes "machineSets_list (mm_machineClient mm) (world s) = (Inr sets, w)" and "server \<noteq> []"
  shows "GetMachineSetsByVCenter mm server s =
     (Inr (filter (onVCenter server) sets), s\<lparr>world := w, trace := ReadCall # trace s\<rparr>)"
  using assms
  by (simp add: GetMachineSetsByVCenter_def bnd_app readCall_def wrapErr_def attempt_app request_app apiResult_def)

text \<open>
  C29: deleting the source machine sets deletes nothing but machine sets of the given vCenter,
  and deletes any of them only when every machine set of that vCenter is scaled to zero; each
  deletion is sent directly after a permission read that allowed it; and a successful run
  reports exactly the machine sets of that vCenter.
\<close>

theorem source_machinesets_deleted_only_when_scaled_down:
  assumes "machineSets_list (mm_machineClient mm) (world s) = (Inr sets, w)"
    and "safe m (deletes_only server sets) s"
    and "DeleteMachineSetsByVCenter (executionContext ctx cl m) mm server s = (r, s')"
  shows "safe m (deletes_only server sets) s' \<and>
         (\<forall>names. r = Inr names \<longrightarrow> names = map ms_name (filter (onVCenter server) sets))"
proof (cases "server = []")
  case True
  with assms show ?thesis by (auto simp: DeleteMachineSetsByVCenter_def)
next
  case False
  let ?on = "filter (onVCenter server) sets"
  let ?t = "s\<lparr>world := w, trace := ReadCall # trace s\<rparr>"
  let ?loop = "foldM (\<lambda>deleted ms. bnd (DeleteMachineSet (executionContext ctx cl m) mm (ms_name ms))
                 (\<lambda>_. ret (deleted @ [ms_name ms]))) []"
  have run: "bnd (liftE (forE refuseReplicas ?on)) (\<lambda>_. ?loop ?on) ?t = (r, s')"
    using assms(3) False GetMachineSetsByVCenter_app [OF assms(1) False]
    by (simp add: DeleteMachineSetsByVCenter_def bnd_app)
  have t: "safe m (deletes_only server sets) ?t"
    using assms(2) by (simp add: safe_def)
  show ?thesis
  proof (cases "forE refuseReplicas ?on")
    case (Inl e)
    with run t show ?thesis by (auto simp: bnd_app)
  next
    case (Inr u)
    then have "\<forall>ms\<in>set ?on. scaledDown ms"
      by (auto simp: forE_unit refuseReplicas_ok scaledDown_def)
    then have "keeps (safe m (deletes_only server sets)) (?loop ?on)"
      by (intro ec.keeps_delete_loop) auto
    moreover have "?loop ?on ?t = (r, s')"
      using run Inr by (simp add: bnd_app)
    ultimately show ?thesis
      using t keepsD delete_loop_names [of _ _ "[]"] by fastforce
  qed
qed

definition sampleMachineClient :: "machineSet list \<Rightarrow> machine list \<Rightarrow> cpms \<Rightarrow> 'w machineClient" where
  "sampleMachineClient sets mcs c = \<lparr>
     machineSets_get = (\<lambda>nm w. (case find (\<lambda>ms. ms_name ms = nm) sets of
        Some ms \<Rightarrow> Inr ms | None \<Rightarrow> Inl (ReasonNotFound, ''not found''), w)),
     machineSets_list = (\<lambda>w. (Inr sets, w)),
     machineSets_create = (\<lambda>ms w. (Inr ms, w)),
     machineSets_update = (\<lambda>ms w. (Inr ms, w)),
     machineSets_delete = (\<lambda>nm w. (Inr (), w)),
     controlPlaneMachineSets_get = (\<lambda>_ w. (Inr c, w)),
     controlPlaneMachineSets_update = (\<lambda>c' w. (Inr c', w)),
     machines_list = (\<lambda>_ w. (Inr mcs, w))\<rparr>"

definition sampleCPMS :: cpms where
  "sampleCPMS = \<lparr>cpms_generation = 1, cpms_stateField = CPMSInactive, cpms_strategyType = [],
     cpms_template = Some None, cpms_observedGeneration = 1, cpms_replicas = 3, cpms_updatedReplicas = 3,
     cpms_readyReplicas = 3, cpms_conditions = []\<rparr>"

theorem source_machinesets_deleted_only_when_scaled_down_witness:
  "\<exists>s'. DeleteMachineSetsByVCenter (executionContext None sampleClient sampleMigration)
     \<lparr>mm_kubeClient = sampleKubeClient, mm_machineClient =
        sampleMachineClient [sampleMachineSet\<lparr>ms_replicas := Some 0\<rparr>] [] sampleCPMS\<rparr>
     ''vc1.example.com'' \<lparr>world = sampleMigration, trace = []\<rparr> = (Inr [''w-0''], s') \<and>
     safe sampleMigration (deletes_only ''vc1.example.com'' [sampleMachineSet\<lparr>ms_replicas := Some 0\<rparr>]) s' \<and>
     MutateCall (DeleteMachineSetCall ''w-0'') \<in> set (trace s')"
proof -
  let ?mm = "\<lparr>mm_kubeClient = sampleKubeClient, mm_machineClient =
        sampleMachineClient [sampleMachineSet\<lparr>ms_replicas := Some 0\<rparr>] [] sampleCPMS\<rparr>"
  let ?s = "\<lparr>world = sampleMigration, trace = []\<rparr>"
  let ?run = "DeleteMachineSetsByVCenter (executionContext None sampleClient sampleMigration) ?mm ''vc1.example.com'' ?s"
  have list: "machineSets_list (mm_machineClient ?mm) (world ?s) = (Inr [sampleMachineSet\<lparr>ms_replicas := Some 0\<rparr>], sampleMigration)"
    by (simp add: sampleMachineClient_def)
  have trace: "MutateCall (DeleteMachineSetCall ''w-0'') \<in> set (trace (snd ?run))" and ok: "fst ?run = Inr [''w-0'']"
    by (simp_all add: DeleteMachineSetsByVCenter_def GetMachineSetsByVCenter_def bnd_app readCall_def
        wrapErr_def attempt_app request_app apiResult_def sampleMachineClient_def sampleMachineSet_def
        onVCenter_def ExtractVSphereProviderSpec_def refuseReplicas_def bindE_def DeleteMachineSet_def
        Check_def executionContext_def WithCheck_def checkPermission_def sampleClient_def stillRunning_def
        sampleMigration_def)
  show ?thesis
    using source_machinesets_deleted_only_when_scaled_down [OF list, of sampleMigration "''vc1.example.com''" None
        sampleClient "fst ?run" "snd ?run"] trace ok
    by (intro exI [of _ "snd ?run"]) (simp add: safe_def prod_eq_iff)
qed

section \<open>The control plane\<close>

text \<open>
  C30: once the control plane machine set was retargeted to a list of failure domains, the check
  for that step recognises the stored object for exactly the permutations of that list, so a
  repeated reconcile neither repeats the update nor takes another target for done.
\<close>

theorem cpms_retarget_recognised:
  assumes "retargetCPMS c names = Inr new"
  shows "cpmsTargets new names' \<longleftrightarrow> mset names = mset names'"
proof -
  have "sort names = sort names' \<longleftrightarrow> mset names = mset names'"
    by (metis mset_sort properties_for_sort sorted_sort)
  with assms show ?thesis
    by (auto simp: retargetCPMS_def cpmsTargets_def split: if_splits)
qed

theorem cpms_retarget_recognised_witness:
  "\<exists>new. retargetCPMS sampleCPMS [''b'', ''a''] = Inr new \<and>
     cpmsTargets new [''a'', ''b''] \<and> \<not> cpmsTargets new [''a'']"
proof -
  obtain new where new: "retargetCPMS sampleCPMS [''b'', ''a''] = Inr new"
    by (simp add: retargetCPMS_def sampleCPMS_def)
  show ?thesis
    using cpms_retarget_recognised [OF new, of "[''a'', ''b'']"]
      cpms_retarget_recognised [OF new, of "[''a'']"] new
    by auto
qed

text \<open>
  The control plane rollout counts as complete exactly when neither the Degraded nor the
  Error condition is True and all of a positive number of replicas are updated and ready; a True
  condition other than UnmanagedNodes is an error, and UnmanagedNodes holds the rollout back
  even when the counts are equal.
\<close>

theorem rollout_complete_iff:
  "((\<exists>st. rolloutStatus c = Inr st \<and> rs_complete st) \<longleftrightarrow>
     list_all (\<lambda>t. case findGeneric (cpms_conditions c) t of None \<Rightarrow> True | Some d \<Rightarrow> gc_status d \<noteq> ''True'')
       [cpmsConditionDegraded, cpmsConditionError] \<and>
     cpms_replicas c > 0 \<and> cpms_updatedReplicas c = cpms_replicas c \<and> cpms_readyReplicas c = cpms_replicas c) \<and>
   ((\<exists>e. rolloutStatus c = Inl e) \<longleftrightarrow>
     list_ex (\<lambda>t. case findGeneric (cpms_conditions c) t of None \<Rightarrow> False
        | Some d \<Rightarrow> gc_status d = ''True'' \<and> gc_reason d \<noteq> cpmsReasonUnmanagedNodes)
       [cpmsConditionDegraded, cpmsConditionError])"
  by (auto simp: rolloutStatus_def rolloutCondition_def bindE_def split: option.splits sum.splits if_splits)

end
