(* ===== verification/Names.thy ===== *)
theory Names
  imports Types
begin

text \<open>
  Generated MachineSet names (\<open>failuredomains.go\<close> and the naming helpers of
  \<open>vmwarecloudfoundationmigration_controller.go\<close>): sanitising a failure domain name,
  the bounded base name of a destination, the suffixed copies of a base and the family of
  names that belong to it. The interface \<open>name_family\<close> states what the rest of the
  operator relies on: generated names belong to their base, are pairwise distinct, and
  families of bases that preflight accepts together are disjoint.
\<close>

section \<open>Definitions\<close>

text \<open>\<open>strings.ToLower\<close> on UTF-8 bytes, as far as the next step can see it: apart from the
  ASCII letters only KELVIN SIGN (E2 84 AA) and LATIN CAPITAL I WITH DOT (C4 B0) lower to an
  ASCII character; every other non-ASCII character stays non-ASCII.\<close>

definition lower_char :: "char \<Rightarrow> char" where
  "lower_char c = (if CHR ''A'' \<le> c \<and> c \<le> CHR ''Z'' then char_of (of_char c + 32 :: nat) else c)"

fun toLower :: "string \<Rightarrow> string" where
  "toLower [] = []"
| "toLower (c # cs) =
     (if of_char c = (226::nat) \<and> map of_char (take 2 cs) = [132, 170 :: nat]
        then CHR ''k'' # toLower (drop 2 cs)
      else if of_char c = (196::nat) \<and> map of_char (take 1 cs) = [176 :: nat]
        then CHR ''i'' # toLower (drop 1 cs)
      else lower_char c # toLower cs)"

definition rfc_char :: "char \<Rightarrow> bool" where
  "rfc_char c \<longleftrightarrow> CHR ''a'' \<le> c \<and> c \<le> CHR ''z'' \<or> CHR ''0'' \<le> c \<and> c \<le> CHR ''9''"

definition hyphenate :: "char \<Rightarrow> char" where
  "hyphenate c = (if rfc_char c then c else CHR ''-'')"

text \<open>\<open>strings.Contains(name, "--")\<close> and \<open>strings.ReplaceAll(name, "--", "-")\<close>.\<close>

fun has_double :: "string \<Rightarrow> bool" where
  "has_double (a # b # cs) = (a = CHR ''-'' \<and> b = CHR ''-'' \<or> has_double (b # cs))"
| "has_double _ = False"

fun replace_double :: "string \<Rightarrow> string" where
  "replace_double (a # b # cs) =
     (if a = CHR ''-'' \<and> b = CHR ''-'' then CHR ''-'' # replace_double cs
      else a # replace_double (b # cs))"
| "replace_double cs = cs"

lemma length_replace_double: "length (replace_double s) \<le> length s"
  by (induction s rule: replace_double.induct) auto

lemma replace_double_less: "has_double s \<Longrightarrow> length (replace_double s) < length s"
  by (induction s rule: replace_double.induct)
    (auto simp: less_Suc_eq_le length_replace_double)

function collapse :: "string \<Rightarrow> string" where
  "collapse s = (if has_double s then collapse (replace_double s) else s)"
  by pat_completeness auto
termination
  by (relation "measure length") (auto intro: replace_double_less)

declare collapse.simps [simp del]

definition sanitizeRFC1123 :: "string \<Rightarrow> string" where
  "sanitizeRFC1123 nm = trimChar CHR ''-'' (collapse (map hyphenate (toLower nm)))"

definition maxGeneratedMachineSetNameLen :: nat where
  "maxGeneratedMachineSetNameLen = 63"

definition generatedMachineSetNameSuffixReserve :: nat where
  "generatedMachineSetNameSuffixReserve = 4"

definition legacyMachineSetName :: "string \<Rightarrow> string \<Rightarrow> string" where
  "legacyMachineSetName infraID fdName = infraID @ ''-worker-'' @ sanitizeRFC1123 fdName"

definition workerMachineSetName :: "string \<Rightarrow> string \<Rightarrow> string list \<Rightarrow> string" where
  "workerMachineSetName infraID fdName knownNames =
     (let sanitized = sanitizeRFC1123 fdName;
          sanitized' = (if sanitized = [] then ''default'' else sanitized);
          nm = infraID @ ''-worker-'' @ sanitized';
          maxLen = maxGeneratedMachineSetNameLen - generatedMachineSetNameSuffixReserve
      in if nm \<in> set knownNames then nm
         else if length nm > maxLen then trimChar CHR ''-'' (take maxLen nm)
         else nm)"

definition suffixedWorkerMachineSetName :: "string \<Rightarrow> nat \<Rightarrow> string" where
  "suffixedWorkerMachineSetName base si = (if si = 0 then base else base @ ''-'' @ itoa (si + 1))"

definition isSuffixedMachineSetName :: "string \<Rightarrow> string \<Rightarrow> bool" where
  "isSuffixedMachineSetName nm base =
     (case cutPrefix nm (base @ ''-'') of
        None \<Rightarrow> False
      | Some suf \<Rightarrow> suf \<noteq> [] \<and> list_all is_digit suf)"

text \<open>The test \<open>name == base || isSuffixedMachineSetName(name, base)\<close>, which the code
  writes at every use.\<close>

definition inFamily :: "string \<Rightarrow> string \<Rightarrow> bool" where
  "inFamily nm base \<longleftrightarrow> nm = base \<or> isSuffixedMachineSetName nm base"

definition recordedWorkerMachineSetNames :: "string list \<Rightarrow> string \<Rightarrow> string list" where
  "recordedWorkerMachineSetNames recorded base = sort (filter (\<lambda>nm. inFamily nm base) recorded)"

definition workerMachineSetNamesForBase :: "machineSet list \<Rightarrow> string \<Rightarrow> string list" where
  "workerMachineSetNamesForBase msList base =
     base # map ms_name (filter (\<lambda>ms. isSuffixedMachineSetName (ms_name ms) base) msList)"

section \<open>Decimal suffixes\<close>

lemma digit_char_is_digit: "n < 10 \<Longrightarrow> is_digit (digit_char n)"
  by (simp add: is_digit_def digit_char_def less_eq_char_def)

lemma itoa_digits: "list_all is_digit (itoa n)"
  by (induction n rule: itoa.induct) (subst itoa.simps, simp add: digit_char_is_digit)

lemma itoa_not_Nil [simp]: "itoa n \<noteq> []"
  by (subst itoa.simps) simp

definition atoi :: "string \<Rightarrow> nat" where
  "atoi s = foldl (\<lambda>acc c. 10 * acc + (of_char c - 48)) 0 s"

lemma of_digit_char: "n < 10 \<Longrightarrow> (of_char (digit_char n) :: nat) = 48 + n"
  by (simp add: digit_char_def)

lemma atoi_itoa: "atoi (itoa n) = n"
proof (induction n rule: itoa.induct)
  case (1 n)
  show ?case
  proof (cases "n < 10")
    case True
    then show ?thesis by (subst itoa.simps) (simp add: atoi_def of_digit_char)
  next
    case False
    with 1 have IH: "atoi (itoa (n div 10)) = n div 10" by blast
    have "atoi (itoa n) = 10 * atoi (itoa (n div 10)) + n mod 10"
      using False by (subst itoa.simps) (simp add: atoi_def of_digit_char)
    with IH show ?thesis by simp
  qed
qed

lemma itoa_inject [simp]: "itoa m = itoa n \<longleftrightarrow> m = n"
  by (metis atoi_itoa)

lemma length_itoa: "n < 10 ^ k \<Longrightarrow> 0 < k \<Longrightarrow> length (itoa n) \<le> k"
proof (induction k arbitrary: n)
  case 0
  then show ?case by simp
next
  case (Suc k)
  show ?case
  proof (cases "n < 10")
    case True
    then show ?thesis by (subst itoa.simps) simp
  next
    case False
    with Suc.prems have "0 < k" by (cases k) auto
    moreover have "n div 10 < 10 ^ k"
      using Suc.prems by (simp add: div_less_iff_less_mult mult.commute)
    ultimately have "length (itoa (n div 10)) \<le> k" by (simp add: Suc.IH)
    with False show ?thesis by (subst itoa.simps) simp
  qed
qed

lemma not_digit_hyphen: "is_digit c \<Longrightarrow> c \<noteq> CHR ''-''"
  by (auto simp: is_digit_def less_eq_char_def)

section \<open>Sanitising\<close>

lemma collapse_no_double: "\<not> has_double (collapse s)"
  by (induction s rule: collapse.induct) (subst collapse.simps, auto)

lemma collapse_id: "\<not> has_double s \<Longrightarrow> collapse s = s"
  by (subst collapse.simps) simp

lemma set_replace_double: "set (replace_double s) \<subseteq> set s"
  by (induction s rule: replace_double.induct) auto

lemma set_collapse: "set (collapse s) \<subseteq> set s"
proof (induction s rule: collapse.induct)
  case (1 s)
  show ?case
  proof (cases "has_double s")
    case True
    with 1 set_replace_double [of s] have "set (collapse (replace_double s)) \<subseteq> set s" by blast
    with True show ?thesis by (simp add: collapse.simps [of s])
  next
    case False
    then show ?thesis by (simp add: collapse_id)
  qed
qed

lemma has_double_append: "has_double (xs @ ys) \<longleftrightarrow> has_double xs \<or> has_double ys \<or>
    (xs \<noteq> [] \<and> ys \<noteq> [] \<and> last xs = CHR ''-'' \<and> hd ys = CHR ''-'')"
proof (induction xs)
  case (Cons a xs)
  then show ?case by (cases xs; cases ys) auto
qed simp

lemma has_double_trim: "\<not> has_double s \<Longrightarrow> \<not> has_double (trimChar c s)"
proof -
  assume nd: "\<not> has_double s"
  obtain p where p: "s = p @ dropWhile (\<lambda>x. x = c) s"
    by (metis takeWhile_dropWhile_id)
  let ?d = "dropWhile (\<lambda>x. x = c) s"
  have "?d = trimChar c s @ rev (takeWhile (\<lambda>x. x = c) (rev ?d))"
    unfolding trimChar_def by (metis rev_append rev_rev_ident takeWhile_dropWhile_id)
  with p nd show ?thesis by (metis has_double_append)
qed

lemma dropWhile_hd: "s = [] \<or> hd s \<noteq> c \<Longrightarrow> dropWhile (\<lambda>x. x = c) s = s"
  by (cases s) auto

lemma trimChar_id: "s = [] \<or> (hd s \<noteq> c \<and> last s \<noteq> c) \<Longrightarrow> trimChar c s = s"
  using dropWhile_hd [of s c] dropWhile_hd [of "rev s" c]
  by (auto simp: trimChar_def hd_rev)

lemma hyphenate_set: "x \<in> set (map hyphenate s) \<Longrightarrow> rfc_char x \<or> x = CHR ''-''"
  by (auto simp: hyphenate_def)

lemma rfc_char_lower: "rfc_char c \<or> c = CHR ''-'' \<Longrightarrow> lower_char c = c \<and> of_char c < (128::nat)"
  by (auto simp: rfc_char_def lower_char_def less_eq_char_def)

lemma toLower_id:
  "(\<And>x. x \<in> set s \<Longrightarrow> rfc_char x \<or> x = CHR ''-'') \<Longrightarrow> toLower s = s"
proof (induction s)
  case (Cons c cs)
  then have "lower_char c = c" and "of_char c < (128::nat)"
    using rfc_char_lower [of c] by simp_all
  with Cons show ?case by simp
qed simp

text \<open>What the sanitiser promises: only \<open>a-z\<close>, \<open>0-9\<close> and single inner hyphens remain.\<close>

definition rfc1123_clean :: "string \<Rightarrow> bool" where
  "rfc1123_clean s \<longleftrightarrow> (\<forall>x\<in>set s. rfc_char x \<or> x = CHR ''-'') \<and> \<not> has_double s \<and>
     (s \<noteq> [] \<longrightarrow> hd s \<noteq> CHR ''-'' \<and> last s \<noteq> CHR ''-'')"

lemma sanitize_clean: "rfc1123_clean (sanitizeRFC1123 s)"
proof -
  let ?h = "map hyphenate (toLower s)"
  have "set (sanitizeRFC1123 s) \<subseteq> set ?h"
    unfolding sanitizeRFC1123_def using set_trimChar set_collapse by blast
  then have "\<forall>x\<in>set (sanitizeRFC1123 s). rfc_char x \<or> x = CHR ''-''"
    using hyphenate_set [of _ "toLower s"] by blast
  moreover have "\<not> has_double (sanitizeRFC1123 s)"
    unfolding sanitizeRFC1123_def by (rule has_double_trim [OF collapse_no_double])
  ultimately show ?thesis
    unfolding rfc1123_clean_def sanitizeRFC1123_def
    using trimChar_hd trimChar_last by blast
qed

lemma sanitize_fixpoint: "rfc1123_clean s \<Longrightarrow> sanitizeRFC1123 s = s"
proof -
  assume c: "rfc1123_clean s"
  then have "toLower s = s" by (intro toLower_id) (auto simp: rfc1123_clean_def)
  moreover have "map hyphenate s = s"
    using c by (intro map_idI) (auto simp: rfc1123_clean_def hyphenate_def)
  moreover have "collapse s = s" using c by (simp add: collapse_id rfc1123_clean_def)
  moreover have "trimChar CHR ''-'' s = s" using c by (intro trimChar_id) (auto simp: rfc1123_clean_def)
  ultimately show ?thesis by (simp add: sanitizeRFC1123_def)
qed

text \<open>
  Sanitising a failure domain name always yields a valid, canonical RFC 1123 fragment:
  lower-case letters, digits and single hyphens that neither start nor end it; and a name that
  already has this form is left alone, so sanitising twice changes nothing.
\<close>

theorem sanitizeRFC1123_canonical:
  "rfc1123_clean (sanitizeRFC1123 s) \<and> sanitizeRFC1123 (sanitizeRFC1123 s) = sanitizeRFC1123 s"
  using sanitize_clean sanitize_fixpoint [OF sanitize_clean] by blast

section \<open>Families of generated names\<close>

text \<open>The interface between name generation and its clients: a generator of numbered copies
  of a base, and the test that recognises them.\<close>

locale name_family =
  fixes gen :: "'n \<Rightarrow> nat \<Rightarrow> 'n"
    and mem :: "'n \<Rightarrow> 'n \<Rightarrow> bool"
  assumes gen_mem: "mem (gen b i) b"
    and gen_inj: "gen b i = gen b j \<Longrightarrow> i = j"
    and apart: "\<not> mem b c \<Longrightarrow> \<not> mem c b \<Longrightarrow> mem n b \<Longrightarrow> \<not> mem n c"
begin

lemma distinct_copies: "distinct (map (gen b) [0..<k])"
  by (simp add: distinct_map inj_on_def) (metis gen_inj)

lemma copies_mem: "n \<in> set (map (gen b) [0..<k]) \<Longrightarrow> mem n b"
  by (auto intro: gen_mem)

lemma copies_disjoint:
  assumes "\<not> mem b c" and "\<not> mem c b"
  shows "set (map (gen b) [0..<k]) \<inter> set (map (gen c) [0..<l]) = {}"
  using apart [OF assms] copies_mem [of _ b k] copies_mem [of _ c l] by blast

lemma filter_other_family:
  assumes "\<not> mem b c" and "\<not> mem c b" and "\<forall>n\<in>set ns. mem n c"
  shows "filter (\<lambda>n. mem n b) ns = []"
  using apart [OF assms(2,1)] assms(3) by (auto simp: filter_empty_conv)

lemma filter_copies: "filter (\<lambda>n. mem n b) (map (gen b) [0..<k]) = map (gen b) [0..<k]"
  using copies_mem by (auto simp: filter_id_conv)

end

lemma isSuffixed_iff:
  "isSuffixedMachineSetName nm base \<longleftrightarrow>
     (\<exists>d. nm = base @ CHR ''-'' # d \<and> d \<noteq> [] \<and> list_all is_digit d)"
  by (auto simp: isSuffixedMachineSetName_def split: option.splits simp del: cutPrefix_None)
     (metis append.assoc append_Cons append_Nil cutPrefix_Some option.distinct(1))

lemma last_hyphen_unique:
  assumes "a @ CHR ''-'' # d = b @ CHR ''-'' # e" and "list_all is_digit d" and "list_all is_digit e"
  shows "a = b \<and> d = e"
proof -
  have part: "takeWhile (\<lambda>x. x \<noteq> CHR ''-'') (rev (p @ CHR ''-'' # q)) = rev q"
    if "list_all is_digit q" for p q :: string
  proof -
    have "x \<noteq> CHR ''-''" if "x \<in> set (rev q)" for x
      using that \<open>list_all is_digit q\<close> not_digit_hyphen by (auto simp: list_all_iff)
    then have "takeWhile (\<lambda>x. x \<noteq> CHR ''-'') (rev q @ CHR ''-'' # rev p) = rev q"
      by (subst takeWhile_append2) simp_all
    then show ?thesis by simp
  qed
  from part [OF assms(2), of a] part [OF assms(3), of b] assms(1) have "rev d = rev e" by simp
  with assms(1) show ?thesis by simp
qed

lemma suffixed_is_suffixed: "0 < i \<Longrightarrow> isSuffixedMachineSetName (suffixedWorkerMachineSetName base i) base"
  by (auto simp: isSuffixed_iff suffixedWorkerMachineSetName_def itoa_digits)

lemma suffixed_inject:
  assumes "suffixedWorkerMachineSetName base i = suffixedWorkerMachineSetName base j"
  shows "i = j"
proof -
  have "length base < length (base @ ''-'' @ itoa n)" for n by simp
  with assms show ?thesis
    by (auto simp: suffixedWorkerMachineSetName_def split: if_splits)
qed

lemma family_apart:
  assumes "\<not> inFamily b c" and "\<not> inFamily c b" and "inFamily n b"
  shows "\<not> inFamily n c"
proof
  assume c: "inFamily n c"
  show False
  proof (cases "n = b \<or> n = c")
    case True
    with assms c show False by (auto simp: inFamily_def)
  next
    case False
    with assms(3) c obtain d e where
      "n = b @ CHR ''-'' # d" "list_all is_digit d" "n = c @ CHR ''-'' # e" "list_all is_digit e"
      unfolding inFamily_def isSuffixed_iff by metis
    then have "b = c" using last_hyphen_unique [of b d c e] by simp
    with assms(1) show False by (simp add: inFamily_def)
  qed
qed

interpretation nf: name_family suffixedWorkerMachineSetName inFamily
proof unfold_locales
  show "inFamily (suffixedWorkerMachineSetName b i) b" for b i
    by (cases "i = 0") (simp_all add: inFamily_def suffixed_is_suffixed, simp add: suffixedWorkerMachineSetName_def)
qed (auto dest: suffixed_inject family_apart)

lemma set_recorded [simp]:
  "set (recordedWorkerMachineSetNames recorded base) = {nm \<in> set recorded. inFamily nm base}"
  by (auto simp: recordedWorkerMachineSetNames_def)

lemma recorded_Nil_iff:
  "recordedWorkerMachineSetNames recorded base = [] \<longleftrightarrow> (\<forall>nm\<in>set recorded. \<not> inFamily nm base)"
  by (auto simp: recordedWorkerMachineSetNames_def filter_empty_conv
      dest: arg_cong [where f = length])

lemma set_namesForBase:
  "set (workerMachineSetNamesForBase msList base) =
     insert base {nm \<in> ms_name ` set msList. isSuffixedMachineSetName nm base}"
  by (auto simp: workerMachineSetNamesForBase_def)

lemma namesForBase_family: "nm \<in> set (workerMachineSetNamesForBase msList base) \<Longrightarrow> inFamily nm base"
  by (auto simp: set_namesForBase inFamily_def)

section \<open>Length of generated names\<close>

lemma length_workerMachineSetName:
  "workerMachineSetName infraID fdName known \<in> set known \<or>
   length (workerMachineSetName infraID fdName known) \<le> 59"
  by (auto simp: workerMachineSetName_def Let_def maxGeneratedMachineSetNameLen_def
      generatedMachineSetNameSuffixReserve_def intro!: order.trans [OF length_trimChar])

lemma length_suffixed:
  assumes "length base \<le> 59" and "si < 999"
  shows "length (suffixedWorkerMachineSetName base si) \<le> maxGeneratedMachineSetNameLen"
proof -
  have "length (itoa (si + 1)) \<le> 3"
    using assms(2) by (intro length_itoa) simp_all
  with assms(1) show ?thesis
    by (simp add: suffixedWorkerMachineSetName_def maxGeneratedMachineSetNameLen_def)
qed

text \<open>
  C27: every worker MachineSet name generated for a new destination fits the Kubernetes label
  limit: whatever the infrastructure ID and the failure domain name are, the base name and its
  suffixed copies up to the 999th have at most 63 characters.
\<close>

theorem generated_names_within_label_limit:
  assumes "si < 999"
  shows "length (suffixedWorkerMachineSetName (workerMachineSetName infraID fdName []) si)
           \<le> maxGeneratedMachineSetNameLen"
  using length_workerMachineSetName [of infraID fdName "[]"] assms by (auto intro: length_suffixed)

theorem generated_names_within_label_limit_witness:
  "(998::nat) < 999 \<and>
   length (suffixedWorkerMachineSetName (workerMachineSetName ''ci-op-x'' ''Zone A'' []) 998)
     \<le> maxGeneratedMachineSetNameLen"
  using generated_names_within_label_limit [of 998 "''ci-op-x''" "''Zone A''"] by simp

text \<open>
  C26: the name families of two destinations that preflight accepts side by side never meet:
  when neither base belongs to the other's family, no generated copy of one equals a generated
  copy of the other, no recorded name is attributed to both, and the copies of one base are
  pairwise distinct and all attributed to it.
\<close>

theorem generated_families_disjoint:
  assumes "\<not> inFamily b c" and "\<not> inFamily c b"
  shows "suffixedWorkerMachineSetName b i \<noteq> suffixedWorkerMachineSetName c j \<and>
    set (recordedWorkerMachineSetNames recorded b) \<inter> set (recordedWorkerMachineSetNames recorded c) = {} \<and>
    distinct (map (suffixedWorkerMachineSetName b) [0..<k]) \<and>
    recordedWorkerMachineSetNames (map (suffixedWorkerMachineSetName b) [0..<k]) b =
      sort (map (suffixedWorkerMachineSetName b) [0..<k])"
proof (intro conjI)
  show "suffixedWorkerMachineSetName b i \<noteq> suffixedWorkerMachineSetName c j"
    using nf.gen_mem nf.apart [OF assms] by metis
  show "set (recordedWorkerMachineSetNames recorded b) \<inter> set (recordedWorkerMachineSetNames recorded c) = {}"
    using nf.apart [OF assms] by auto
  show "recordedWorkerMachineSetNames (map (suffixedWorkerMachineSetName b) [0..<k]) b =
      sort (map (suffixedWorkerMachineSetName b) [0..<k])"
    by (simp only: recordedWorkerMachineSetNames_def nf.filter_copies)
qed (rule nf.distinct_copies)

theorem generated_families_disjoint_witness:
  "\<not> inFamily ''i-worker-a'' ''i-worker-b'' \<and> \<not> inFamily ''i-worker-b'' ''i-worker-a'' \<and>
   suffixedWorkerMachineSetName ''i-worker-a'' 1 \<noteq> suffixedWorkerMachineSetName ''i-worker-b'' 1"
proof -
  have h: "\<not> inFamily ''i-worker-a'' ''i-worker-b''" "\<not> inFamily ''i-worker-b'' ''i-worker-a''"
    by (simp_all add: inFamily_def isSuffixedMachineSetName_def cutPrefix_def)
  show ?thesis using h generated_families_disjoint [OF h, of 1 1] by blast
qed

end
