(* ===== verification/Infra.thy ===== *)
theory Infra
  imports Clients
begin

text \<open>
  The cluster Infrastructure resource, \<open>internal/openshift/infrastructure.go\<close>: reading the
  source vCenter, adding the destination vCenters and failure domains, removing the source.
  Go iterates over a map in an order of its own choosing; the order is a parameter
  \<open>iter\<close> that permutes the keys.
\<close>

section \<open>Definitions\<close>

definition range_order :: "('a list \<Rightarrow> 'a list) \<Rightarrow> bool" where
  "range_order iter \<longleftrightarrow> (\<forall>xs. mset (iter xs) = mset xs)"

definition InfrastructureName :: string where
  "InfrastructureName = ''cluster''"

definition infra_Get :: "'w configClient \<Rightarrow> (('w, 'z) exec_scheme, error, infrastructure) op" where
  "infra_Get cc = readCall (''getting infrastructure '' @ quote InfrastructureName)
     (infrastructures_get cc InfrastructureName)"

definition GetSourceVCenter :: "'w configClient \<Rightarrow> (('w, 'z) exec_scheme, error, vcenterSpec) op" where
  "GetSourceVCenter cc =
     bnd (infra_Get cc) (\<lambda>infra.
       case vsphere infra of
         None \<Rightarrow> fail (Errorf ''no vCenters configured in infrastructure spec'')
       | Some p \<Rightarrow> (case vcenters p of
           [] \<Rightarrow> fail (Errorf ''no vCenters configured in infrastructure spec'')
         | vc # _ \<Rightarrow> ret vc))"

definition GetSourceFailureDomain :: "'w configClient \<Rightarrow> (('w, 'z) exec_scheme, error, failureDomain) op" where
  "GetSourceFailureDomain cc =
     bnd (infra_Get cc) (\<lambda>infra.
       case vsphere infra of
         None \<Rightarrow> fail (Errorf ''no failure domains configured in infrastructure spec'')
       | Some p \<Rightarrow> (case infra_failureDomains p of
           [] \<Rightarrow> fail (Errorf ''no failure domains configured in infrastructure spec'')
         | fd # _ \<Rightarrow> ret fd))"

definition GetVCenterByServer :: "'w configClient \<Rightarrow> string \<Rightarrow> (('w, 'z) exec_scheme, error, vcenterSpec) op" where
  "GetVCenterByServer cc server =
     bnd (infra_Get cc) (\<lambda>infra.
       case vsphere infra of
         None \<Rightarrow> fail (Errorf ''no vCenters configured in infrastructure spec'')
       | Some p \<Rightarrow> (case find (\<lambda>vc. vc_server vc = server) (vcenters p) of
           Some vc \<Rightarrow> ret vc
         | None \<Rightarrow> fail (Errorf (''no vCenter entry for server '' @ quote server @ '' in infrastructure spec''))))"

text \<open>The map \<open>serverDatacenters\<close>: its keys and the set stored under each key.\<close>

definition fdServers :: "failureDomain list \<Rightarrow> string list" where
  "fdServers fds = append_missing [] (map fd_server fds)"

definition fdDatacenters :: "failureDomain list \<Rightarrow> string \<Rightarrow> string list" where
  "fdDatacenters fds server =
     append_missing [] (map (\<lambda>fd. datacenter (fd_topology fd)) (filter (\<lambda>fd. fd_server fd = server) fds))"

definition newVCenter :: "(string list \<Rightarrow> string list) \<Rightarrow> failureDomain list \<Rightarrow> string \<Rightarrow> vcenterSpec" where
  "newVCenter iter fds server = \<lparr>vc_server = server, vc_port = 443, vc_datacenters = iter (fdDatacenters fds server)\<rparr>"

definition addTargets :: "(string list \<Rightarrow> string list) \<Rightarrow> vspherePlatform \<Rightarrow> failureDomain list \<Rightarrow> vspherePlatform" where
  "addTargets iter p fds =
     p\<lparr>vcenters := vcenters p @ map (newVCenter iter fds)
          (filter (\<lambda>server. server \<notin> vc_server ` set (vcenters p)) (iter (fdServers fds))),
       infra_failureDomains := infra_failureDomains p @
          filter (\<lambda>fd. fd_name fd \<notin> fd_name ` set (infra_failureDomains p)) fds\<rparr>"

definition AddTargetVCenter ::
  "('w, 'z) exec_scheme ctx \<Rightarrow> (string list \<Rightarrow> string list) \<Rightarrow> 'w configClient \<Rightarrow> infrastructure \<Rightarrow> failureDomain list
   \<Rightarrow> (('w, 'z) exec_scheme, error, infrastructure) op" where
  "AddTargetVCenter ctx iter cc infra fds =
     (case vsphere infra of
        None \<Rightarrow> fail (Errorf ''infrastructure spec has no vSphere platform configuration'')
      | Some p \<Rightarrow>
          let new = infra\<lparr>vsphere := Some (addTargets iter p fds)\<rparr> in
          bnd (Check ctx) (\<lambda>_.
          wrapErr ''updating infrastructure with target vCenter''
            (request (MutateCall (UpdateInfrastructureCall new)) (infrastructures_update cc new))))"

definition removeSource :: "vspherePlatform \<Rightarrow> string \<Rightarrow> error + vspherePlatform" where
  "removeSource p server =
     (if length (vcenters p) = 1 \<and> vc_server (hd (vcenters p)) = server
      then Inl (Errorf (''refusing to remove the last configured vCenter '' @ quote server))
      else Inr (p\<lparr>vcenters := filter (\<lambda>vc. vc_server vc \<noteq> server) (vcenters p),
                  infra_failureDomains := filter (\<lambda>fd. fd_server fd \<noteq> server) (infra_failureDomains p)\<rparr>))"

definition RemoveSourceVCenter ::
  "('w, 'z) exec_scheme ctx \<Rightarrow> 'w configClient \<Rightarrow> infrastructure \<Rightarrow> string \<Rightarrow> (('w, 'z) exec_scheme, error, infrastructure) op" where
  "RemoveSourceVCenter ctx cc infra server =
     (case vsphere infra of
        None \<Rightarrow> fail (Errorf ''infrastructure spec has no vSphere platform configuration'')
      | Some p \<Rightarrow>
          bnd (liftE (removeSource p server)) (\<lambda>q.
          bnd (Check ctx) (\<lambda>_.
          wrapErr ''updating infrastructure after removing source vCenter''
            (request (MutateCall (UpdateInfrastructureCall (infra\<lparr>vsphere := Some q\<rparr>)))
               (infrastructures_update cc (infra\<lparr>vsphere := Some q\<rparr>))))))"

definition GetInfrastructureID :: "'w configClient \<Rightarrow> (('w, 'z) exec_scheme, error, string) op" where
  "GetInfrastructureID cc =
     bnd (infra_Get cc) (\<lambda>infra.
       if infrastructureName infra = []
       then fail (Errorf ''infrastructure status has no InfrastructureName'')
       else ret (infrastructureName infra))"

section \<open>Guarding\<close>

lemma keeps_infra [keeps_rules]:
  "keeps (safe m A) (infra_Get cc)"
  "keeps (safe m A) (GetSourceVCenter cc)"
  "keeps (safe m A) (GetSourceFailureDomain cc)"
  "keeps (safe m A) (GetVCenterByServer cc server)"
  "keeps (safe m A) (GetInfrastructureID cc)"
  unfolding infra_Get_def GetSourceVCenter_def GetSourceFailureDomain_def GetVCenterByServer_def
    GetInfrastructureID_def
  by (intro keeps_rules)+

context guarded_ctx
begin

lemma keeps_AddTargetVCenter:
  assumes "\<And>p. vsphere infra = Some p \<Longrightarrow>
    A (UpdateInfrastructureCall (infra\<lparr>vsphere := Some (addTargets iter p fds)\<rparr>))"
  shows "keeps (safe m A) (AddTargetVCenter ctx iter cc infra fds)"
  using assms unfolding AddTargetVCenter_def Let_def
  by (cases "vsphere infra") (auto intro!: keeps_fail keeps_checked_wrap)

lemma keeps_RemoveSourceVCenter:
  assumes "\<And>p q. \<lbrakk>vsphere infra = Some p; removeSource p server = Inr q\<rbrakk> \<Longrightarrow>
    A (UpdateInfrastructureCall (infra\<lparr>vsphere := Some q\<rparr>))"
  shows "keeps (safe m A) (RemoveSourceVCenter ctx cc infra server)"
  using assms unfolding RemoveSourceVCenter_def
  by (cases "vsphere infra") (auto intro!: keeps_fail keeps_liftE_bnd keeps_checked_wrap)

end

section \<open>Adding and removing vCenters\<close>

lemma set_iter: "range_order iter \<Longrightarrow> set (iter xs) = set xs"
  unfolding range_order_def by (metis set_mset_mset)

lemma distinct_iter: "range_order iter \<Longrightarrow> distinct (iter xs) = distinct xs"
  unfolding range_order_def using mset_eq_imp_distinct_iff [of "iter xs" xs] by simp

lemma set_fdServers [simp]: "set (fdServers fds) = fd_server ` set fds"
  by (simp add: fdServers_def)

lemma vc_server_new [simp]: "vc_server (newVCenter iter fds s) = s"
  by (simp add: newVCenter_def)

lemma servers_addTargets:
  "range_order iter \<Longrightarrow>
     vc_server ` set (vcenters (addTargets iter p fds)) = vc_server ` set (vcenters p) \<union> fd_server ` set fds"
  by (simp add: addTargets_def set_iter image_Un image_image) blast

lemma fd_names_addTargets:
  "fd_name ` set (infra_failureDomains (addTargets iter p fds)) =
     fd_name ` set (infra_failureDomains p) \<union> fd_name ` set fds"
  by (simp add: addTargets_def image_Un) blast

lemma prefix_addTargets:
  "prefix (vcenters p) (vcenters (addTargets iter p fds))"
  "prefix (infra_failureDomains p) (infra_failureDomains (addTargets iter p fds))"
  by (simp_all add: addTargets_def)

lemma addTargets_idem:
  assumes "range_order iter" and "range_order iter'"
  shows "addTargets iter' (addTargets iter p fds) fds = addTargets iter p fds"
proof -
  have none: "filter (\<lambda>s. s \<notin> vc_server ` set (vcenters (addTargets iter p fds))) (iter' (fdServers fds)) = []"
    using servers_addTargets [OF assms(1), of p fds] set_iter [OF assms(2)]
    by (auto simp: filter_empty_conv)
  have "filter (\<lambda>fd. fd_name fd \<notin> fd_name ` set (infra_failureDomains (addTargets iter p fds))) fds = []"
    using fd_names_addTargets [of iter p fds] by (auto simp: filter_empty_conv)
  with none show ?thesis by (simp add: addTargets_def [of iter'])
qed

lemma distinct_addTargets:
  assumes "range_order iter" and "distinct (map vc_server (vcenters p))"
  shows "distinct (map vc_server (vcenters (addTargets iter p fds)))"
proof -
  have "distinct (iter (fdServers fds))"
    using distinct_iter [OF assms(1)] distinct_append_missing [of "[]"] by (simp add: fdServers_def)
  then show ?thesis
    using assms by (auto simp: addTargets_def comp_def)
qed

text \<open>
  C31: adding the destination vCenters keeps every entry the Infrastructure has, in place, gives
  each destination server exactly one entry, and is idempotent whatever order Go's map iteration
  takes; removing the source afterwards succeeds and leaves exactly the destination vCenters and
  the destination failure domains, when the cluster had only the source vCenter before and the
  destinations are other servers under new failure domain names.
\<close>

theorem infrastructure_cutover:
  assumes iter: "range_order iter" "range_order iter'"
    and old: "vcenters p = [vc]" "vc_server vc = source"
    and olds: "\<forall>fd\<in>set (infra_failureDomains p). fd_server fd = source"
    and new: "fds \<noteq> []" "\<forall>fd\<in>set fds. fd_server fd \<noteq> source"
    and names: "fd_name ` set fds \<inter> fd_name ` set (infra_failureDomains p) = {}"
  shows "prefix (vcenters p) (vcenters (addTargets iter p fds)) \<and>
    prefix (infra_failureDomains p) (infra_failureDomains (addTargets iter p fds)) \<and>
    distinct (map vc_server (vcenters (addTargets iter p fds))) \<and>
    addTargets iter' (addTargets iter p fds) fds = addTargets iter p fds \<and>
    (\<exists>q. removeSource (addTargets iter p fds) source = Inr q \<and>
         vc_server ` set (vcenters q) = fd_server ` set fds \<and> infra_failureDomains q = fds)"
proof -
  let ?q = "addTargets iter p fds"
  have servers: "vc_server ` set (vcenters ?q) = insert source (fd_server ` set fds)"
    using servers_addTargets [OF iter(1), of p fds] old by simp
  have "fd_server (hd fds) \<in> vc_server ` set (vcenters ?q)" and "fd_server (hd fds) \<noteq> source"
    using new servers by auto
  then have "\<not> (length (vcenters ?q) = 1 \<and> vc_server (hd (vcenters ?q)) = source)"
    by (auto simp: length_Suc_conv)
  then obtain r where r: "removeSource ?q source = Inr r"
    by (simp add: removeSource_def del: One_nat_def)
  have vcs: "vc_server ` set (vcenters r) = fd_server ` set fds"
  proof -
    have "vc_server ` set (vcenters r) = vc_server ` set (vcenters ?q) - {source}"
      using r by (auto simp: removeSource_def split: if_splits)
    then show ?thesis using servers new(2) by auto
  qed
  have "filter (\<lambda>fd. fd_server fd \<noteq> source) (infra_failureDomains p) = []"
    using olds by (auto simp: filter_empty_conv)
  moreover have "filter (\<lambda>fd. fd_name fd \<notin> fd_name ` set (infra_failureDomains p)) fds = fds"
    using names by (auto simp: filter_id_conv)
  moreover have "filter (\<lambda>fd. fd_server fd \<noteq> source) fds = fds"
    using new(2) by (auto simp: filter_id_conv)
  ultimately have fds: "infra_failureDomains r = fds"
    using r by (auto simp: removeSource_def addTargets_def split: if_splits)
  show ?thesis
    using r vcs fds addTargets_idem [OF iter] distinct_addTargets [OF iter(1), of p fds] old
      prefix_addTargets [of p iter fds]
    by simp
qed

definition samplePlatform :: vspherePlatform where
  "samplePlatform = \<lparr>vcenters = [\<lparr>vc_server = ''vc1'', vc_port = 443, vc_datacenters = [''DC1'']\<rparr>],
     infra_failureDomains = []\<rparr>"

definition sampleTarget :: failureDomain where
  "sampleTarget = \<lparr>fd_name = ''fd-b'', fd_region = ''r'', fd_zone = ''z'', fd_server = ''vc2'',
     regionAffinity = None, zoneAffinity = None,
     fd_topology = \<lparr>datacenter = ''DC2'', computeCluster = [], networks = [], datastore = [], resourcePool = [],
       folder = [], template = []\<rparr>\<rparr>"

theorem infrastructure_cutover_witness:
  "\<exists>q. removeSource (addTargets rev samplePlatform [sampleTarget]) ''vc1'' = Inr q \<and>
     vc_server ` set (vcenters q) = {''vc2''} \<and> infra_failureDomains q = [sampleTarget]"
  using infrastructure_cutover [of rev rev samplePlatform "hd (vcenters samplePlatform)" "''vc1''" "[sampleTarget]"]
  by (simp add: range_order_def samplePlatform_def sampleTarget_def)

end
