(* ===== verification/Mapping.thy ===== *)
theory Mapping
  imports Machines Names Infra
begin

text \<open>
  Failure domain mappings and source coverage, \<open>internal/controller/failuredomains.go\<close>: which
  destination failure domain each source failure domain migrates to, that the recorded mapping is
  immutable, the preflight validation of servers and topologies, and the gates that every running
  source machine set is covered by a mapping with a recorded replacement.
\<close>

section \<open>Looking up failure domains\<close>

definition failureDomainNames :: "failureDomain list \<Rightarrow> string list" where
  "failureDomainNames fds = map fd_name fds"

definition findFailureDomainByName :: "failureDomain list \<Rightarrow> string \<Rightarrow> failureDomain option" where
  "findFailureDomainByName fds nm = find (\<lambda>fd. fd_name fd = nm) fds"

definition isConfiguredDestination :: "migration \<Rightarrow> string \<Rightarrow> bool" where
  "isConfiguredDestination mig server = list_ex (\<lambda>fd. fd_server fd = server) (spec_failureDomains (spec mig))"

section \<open>Resolving the mapping\<close>

definition checkMapping :: "failureDomain list \<Rightarrow> failureDomain list \<Rightarrow> fdMapping \<Rightarrow> error + unit" where
  "checkMapping sourceFDs destFDs mp =
     (if map_source mp \<notin> fd_name ` set sourceFDs
      then Inl (Errorf (''failure domain mapping references unknown source failure domain '' @ quote (map_source mp)))
      else if map_destination mp \<notin> fd_name ` set destFDs
      then Inl (Errorf (''failure domain mapping references unknown destination failure domain '' @ quote (map_destination mp)))
      else Inr ())"

definition msgMappingsRequired :: "nat \<Rightarrow> nat \<Rightarrow> string" where
  "msgMappingsRequired s d =
     ''spec.failureDomainMappings is required: provide mappings when the source and destination failure domains are not a single pair (got '' @
     itoa s @ '' source and '' @ itoa d @ '' destination failure domains)''"

definition msgMappingsCover :: "nat \<Rightarrow> nat \<Rightarrow> nat \<Rightarrow> string" where
  "msgMappingsCover n s d =
     ''spec.failureDomainMappings must cover every source and destination failure domain exactly once: got '' @
     itoa n @ '' mappings for '' @ itoa s @ '' source and '' @ itoa d @ '' destination failure domains''"

definition resolveFailureDomainMappings ::
  "fdMapping list \<Rightarrow> failureDomain list \<Rightarrow> failureDomain list \<Rightarrow> error + fdMapping list" where
  "resolveFailureDomainMappings mappings sourceFDs destFDs =
     (if mappings = [] then
        (case (sourceFDs, destFDs) of
           ([s], [d]) \<Rightarrow> Inr [\<lparr>map_source = fd_name s, map_destination = fd_name d\<rparr>]
         | _ \<Rightarrow> Inl (Errorf (msgMappingsRequired (length sourceFDs) (length destFDs))))
      else
        bindE (forE (checkMapping sourceFDs destFDs) mappings) (\<lambda>_.
          if length mappings \<noteq> length sourceFDs \<or> length mappings \<noteq> length destFDs
          then Inl (Errorf (msgMappingsCover (length mappings) (length sourceFDs) (length destFDs)))
          else Inr mappings))"

definition seedFailureDomainMappings :: "migration \<Rightarrow> failureDomain list \<Rightarrow> error + fdMapping list" where
  "seedFailureDomainMappings mig infraFDs =
     resolveFailureDomainMappings (spec_mappings (spec mig))
       (filter (\<lambda>fd. \<not> isConfiguredDestination mig (fd_server fd)) infraFDs)
       (spec_failureDomains (spec mig))"

definition sourceVCenterServer :: "failureDomain list \<Rightarrow> fdMapping list \<Rightarrow> error + string" where
  "sourceVCenterServer infraFDs mappings =
     (case mappings of
        [] \<Rightarrow> Inl (Errorf ''no failure domain mappings recorded in status: preflight must complete before workload migration'')
      | mp # _ \<Rightarrow>
         (case findFailureDomainByName infraFDs (map_source mp) of
            None \<Rightarrow> Inl (Errorf (''resolving source failure domain '' @ quote (map_source mp) @ '' in infrastructure''))
          | Some fd \<Rightarrow>
              if fd_server fd = []
              then Inl (Errorf (''source failure domain '' @ quote (fd_name fd) @ '' has no vCenter server configured''))
              else Inr (fd_server fd)))"

section \<open>Immutability of the recorded mapping\<close>

text \<open>The Go map: later entries of a source overwrite earlier ones. Its keys in order of first
  insertion; \<open>range\<close> visits them in the order \<open>iter\<close> gives.\<close>

definition mappingBySource :: "fdMapping list \<Rightarrow> string \<Rightarrow> string option" where
  "mappingBySource ms = fold (\<lambda>mp f. f(map_source mp \<mapsto> map_destination mp)) ms Map.empty"

definition mappingKeys :: "fdMapping list \<Rightarrow> string list" where
  "mappingKeys ms = append_missing [] (map map_source ms)"

definition immutablePrefix :: string where
  "immutablePrefix = ''failureDomainMappings are immutable after preflight: ''"

definition checkRecorded ::
  "(string \<Rightarrow> string option) \<Rightarrow> (string \<Rightarrow> string option) \<Rightarrow> string \<Rightarrow> error + unit" where
  "checkRecorded requested bySource src =
     (case bySource src of
        None \<Rightarrow> Inl (Errorf (immutablePrefix @ ''source failure domain '' @ quote src @ '' is not part of the recorded mapping''))
      | Some want \<Rightarrow>
          if Some want \<noteq> requested src
          then Inl (Errorf (immutablePrefix @ ''source failure domain '' @ quote src @ '' is mapped to '' @
                 quote (deref (requested src)) @ '', want '' @ quote want @ '' as recorded in status''))
          else Inr ())"

definition ensureMappingImmutable :: "(string list \<Rightarrow> string list) \<Rightarrow> migration \<Rightarrow> error + unit" where
  "ensureMappingImmutable iter mig =
     (let recorded = status_mappings (status mig); wanted = spec_mappings (spec mig) in
      if recorded = [] \<or> wanted = [] then Inr ()
      else if length (mappingKeys wanted) \<noteq> length (mappingKeys recorded)
      then Inl (Errorf (immutablePrefix @ ''got '' @ itoa (length (mappingKeys wanted)) @ '' mappings, want '' @
             itoa (length (mappingKeys recorded)) @ '' as recorded in status''))
      else forE (checkRecorded (mappingBySource wanted) (mappingBySource recorded)) (iter (mappingKeys wanted)))"

section \<open>Validation of servers and topologies\<close>

definition validateFailureDomainServers :: "failureDomain list \<Rightarrow> error + unit" where
  "validateFailureDomainServers fds = forE (\<lambda>fd.
     if fd_server fd = []
     then Inl (Errorf (''failure domain '' @ quote (fd_name fd) @ '' has no vCenter server configured''))
     else if fd_server fd \<noteq> fd_server (hd fds)
     then Inl (Errorf (''spec.failureDomains must use a single vCenter server: '' @ quote (fd_server (hd fds)) @
            '' and '' @ quote (fd_server fd) @ '' are both present''))
     else Inr ()) fds"

definition validateSourceVCenterCount :: "infrastructure \<Rightarrow> error + unit" where
  "validateSourceVCenterCount infra =
     (case vsphere infra of
        None \<Rightarrow> Inl (Errorf ''infrastructure spec has no vSphere platform configuration'')
      | Some p \<Rightarrow>
          if length (vcenters p) \<noteq> 1
          then Inl (Errorf (''source infrastructure must have exactly one vCenter, found '' @ itoa (length (vcenters p))))
          else Inr ())"

definition overlapping :: "failureDomain \<Rightarrow> failureDomain \<Rightarrow> bool" where
  "overlapping a b \<longleftrightarrow> datacenter (fd_topology a) = datacenter (fd_topology b) \<and>
     (EffectiveResourcePool a = [] \<or> EffectiveResourcePool b = [] \<or>
      EffectiveResourcePool a = EffectiveResourcePool b)"

definition checkDisjoint :: "failureDomain \<Rightarrow> failureDomain \<Rightarrow> error + unit" where
  "checkDisjoint a b =
     (if overlapping a b
      then Inl (Errorf (''source failure domains '' @ quote (fd_name a) @ '' and '' @ quote (fd_name b) @
             '' have overlapping topology in datacenter '' @ quote (datacenter (fd_topology a)) @
             '': each must specify a distinct resource pool''))
      else Inr ())"

fun validateSourceFDTopologyDisjoint :: "failureDomain list \<Rightarrow> error + unit" where
  "validateSourceFDTopologyDisjoint [] = Inr ()"
| "validateSourceFDTopologyDisjoint (a # fds) =
     bindE (forE (checkDisjoint a) fds) (\<lambda>_. validateSourceFDTopologyDisjoint fds)"

text \<open>\<open>validateUniqueFailureDomainNames\<close> of \<open>preflight.go\<close>: the names seen before.\<close>

fun duplicateNames :: "string list \<Rightarrow> string list \<Rightarrow> string list" where
  "duplicateNames seen [] = []"
| "duplicateNames seen (n # ns) =
     (if n \<in> set seen then append_new (duplicateNames seen ns) n else duplicateNames (n # seen) ns)"

definition validateUniqueFailureDomainNames :: "failureDomain list \<Rightarrow> error + unit" where
  "validateUniqueFailureDomainNames fds =
     (let dups = duplicateNames [] (map fd_name fds) in
      if dups = [] then Inr ()
      else Inl (Errorf (''duplicate failure domain names are not allowed: '' @ join '', '' (sort dups))))"

section \<open>Coverage of the source machine sets\<close>

definition machineSetDesiredReplicas :: "machineSet \<Rightarrow> int" where
  "machineSetDesiredReplicas ms = (case ms_replicas ms of None \<Rightarrow> 1 | Some n \<Rightarrow> n)"

definition hasRunningReplicas :: "machineSet \<Rightarrow> bool" where
  "hasRunningReplicas ms = (case ms_replicas ms of None \<Rightarrow> True | Some n \<Rightarrow> n > 0)"

definition matchesSourceFailureDomain :: "workspace \<Rightarrow> failureDomain \<Rightarrow> bool" where
  "matchesSourceFailureDomain ws fd \<longleftrightarrow> ws_datacenter ws = datacenter (fd_topology fd) \<and>
     (EffectiveResourcePool fd = [] \<or> ws_resourcePool ws = EffectiveResourcePool fd)"

definition msgExtract :: "string \<Rightarrow> string" where
  "msgExtract nm = ''extracting provider spec from machineset '' @ quote nm"

definition matchSourceMachineSetFailureDomain ::
  "machineSet \<Rightarrow> failureDomain list \<Rightarrow> error + bool \<times> workspace \<times> failureDomain option" where
  "matchSourceMachineSetFailureDomain ms sourceFDs =
     bindE (wrapE (msgExtract (ms_name ms)) (ExtractVSphereProviderSpec ms)) (\<lambda>ps.
       case ps_workspace ps of
         None \<Rightarrow> Inl (Errorf (msgExtract (ms_name ms) @ '': workspace is nil''))
       | Some ws \<Rightarrow>
           (let matched = filter (matchesSourceFailureDomain ws) sourceFDs in
            if length matched > 1
            then Inl (Errorf (''validating source machineset coverage: machineset '' @ quote (ms_name ms) @
                   '' matches multiple source failure domains''))
            else Inr (hasRunningReplicas ms, ws, if matched = [] then None else Some (last matched))))"

definition msgCoverage :: "string \<Rightarrow> string" where
  "msgCoverage nm = ''validating source machineset coverage: machineset '' @ quote nm"

definition coverMachineSet ::
  "(machineSet \<Rightarrow> fdMapping \<Rightarrow> error + unit) \<Rightarrow> fdMapping list \<Rightarrow> failureDomain list \<Rightarrow> machineSet \<Rightarrow> error + unit" where
  "coverMachineSet fn mappings sourceFDs ms =
     bindE (matchSourceMachineSetFailureDomain ms sourceFDs) (\<lambda>(running, ws, fdp).
       if \<not> running then Inr ()
       else case fdp of
         None \<Rightarrow> Inl (Errorf (msgCoverage (ms_name ms) @ '' (datacenter '' @ quote (ws_datacenter ws) @
                    '', resource pool '' @ quote (ws_resourcePool ws) @ '') does not match any source failure domain''))
       | Some fd \<Rightarrow>
           (case find (\<lambda>mp. map_source mp = fd_name fd) mappings of
              None \<Rightarrow> Inl (Errorf (msgCoverage (ms_name ms) @ '' matches source failure domain '' @
                        quote (fd_name fd) @ '' which has no mapping''))
            | Some mp \<Rightarrow> fn ms mp))"

definition forEachRunningSourceMachineSet ::
  "machineSet list \<Rightarrow> fdMapping list \<Rightarrow> failureDomain list \<Rightarrow> (machineSet \<Rightarrow> fdMapping \<Rightarrow> error + unit) \<Rightarrow> error + unit" where
  "forEachRunningSourceMachineSet msList mappings sourceFDs fn =
     forE (coverMachineSet fn mappings sourceFDs) msList"

definition validateSourceMachineSetMappingCoverage ::
  "machineSet list \<Rightarrow> fdMapping list \<Rightarrow> failureDomain list \<Rightarrow> error + unit" where
  "validateSourceMachineSetMappingCoverage msList mappings sourceFDs =
     forEachRunningSourceMachineSet msList mappings sourceFDs (\<lambda>_ _. Inr ())"

definition requireRecorded :: "string \<Rightarrow> string list \<Rightarrow> machineSet \<Rightarrow> fdMapping \<Rightarrow> error + unit" where
  "requireRecorded infraID recorded ms mp =
     (if recordedWorkerMachineSetNames recorded (workerMachineSetName infraID (map_destination mp) recorded) = []
      then Inl (Errorf (msgCoverage (ms_name ms) @ '' has no recorded destination MachineSet for failure domain '' @
             quote (map_destination mp)))
      else Inr ())"

definition validateSourceMachineSetCoverage ::
  "machineSet list \<Rightarrow> string \<Rightarrow> fdMapping list \<Rightarrow> failureDomain list \<Rightarrow> string list \<Rightarrow> error + unit" where
  "validateSourceMachineSetCoverage msList infraID mappings sourceFDs recorded =
     forEachRunningSourceMachineSet msList mappings sourceFDs (requireRecorded infraID recorded)"

section \<open>Theorems\<close>

lemma checkMapping_ok:
  "checkMapping S D mp = Inr () \<longleftrightarrow> map_source mp \<in> fd_name ` set S \<and> map_destination mp \<in> fd_name ` set D"
  by (simp add: checkMapping_def)

lemma distinct_covers:
  assumes "distinct xs" and "set xs \<subseteq> set ys" and "length xs = length ys"
  shows "set xs = set ys"
proof -
  have "card (set ys) \<le> card (set xs)"
    using assms(1,3) card_length [of ys] by (simp add: distinct_card)
  then show ?thesis using card_seteq [OF _ assms(2)] by simp
qed

text \<open>What admission guarantees of the mapping list: sources and destinations are unique.\<close>

definition admitted :: "fdMapping list \<Rightarrow> bool" where
  "admitted ms \<longleftrightarrow> distinct (map map_source ms) \<and> distinct (map map_destination ms)"

text \<open>
  C19: a resolved mapping pairs the source failure domains with the destination failure domains
  one to one: every source and every destination is in exactly one pair and no other name
  occurs, given the uniqueness that admission of the resource enforces; an omitted mapping
  resolves exactly for a single pair.
\<close>

theorem resolved_mapping_is_bijection:
  assumes "resolveFailureDomainMappings mappings sourceFDs destFDs = Inr eff" and "admitted mappings"
  shows "bij_betw map_source (set eff) (fd_name ` set sourceFDs) \<and>
         bij_betw map_destination (set eff) (fd_name ` set destFDs) \<and>
         (mappings \<noteq> [] \<longrightarrow> eff = mappings) \<and>
         (mappings = [] \<longrightarrow> length sourceFDs = 1 \<and> length destFDs = 1)"
proof (cases "mappings = []")
  case True
  with assms(1) show ?thesis
    by (auto simp: resolveFailureDomainMappings_def split: list.splits)
next
  case False
  with assms have eff: "eff = mappings" and ok: "\<forall>mp\<in>set mappings. checkMapping sourceFDs destFDs mp = Inr ()"
    and len: "length mappings = length sourceFDs" "length mappings = length destFDs"
    by (auto simp: resolveFailureDomainMappings_def forE_unit split: if_splits)
  have "set (map map_source mappings) = set (map fd_name sourceFDs)"
    using ok len assms(2) by (intro distinct_covers) (auto simp: checkMapping_ok admitted_def)
  moreover have "set (map map_destination mappings) = set (map fd_name destFDs)"
    using ok len assms(2) by (intro distinct_covers) (auto simp: checkMapping_ok admitted_def)
  ultimately show ?thesis
    using assms(2) False eff by (simp add: bij_betw_def admitted_def distinct_map)
qed

definition sampleNamedFD :: "string \<Rightarrow> failureDomain" where
  "sampleNamedFD nm = \<lparr>fd_name = nm, fd_region = [], fd_zone = [], fd_server = ''vc'', regionAffinity = None,
     zoneAffinity = None, fd_topology = \<lparr>datacenter = ''DC'', computeCluster = [], networks = [], datastore = [],
       resourcePool = nm, folder = [], template = []\<rparr>\<rparr>"

theorem resolved_mapping_is_bijection_witness:
  "bij_betw map_source (set [\<lparr>map_source = ''a'', map_destination = ''y''\<rparr>, \<lparr>map_source = ''b'', map_destination = ''x''\<rparr>])
     (fd_name ` set [sampleNamedFD ''a'', sampleNamedFD ''b''])"
  using resolved_mapping_is_bijection [of "[\<lparr>map_source = ''a'', map_destination = ''y''\<rparr>, \<lparr>map_source = ''b'', map_destination = ''x''\<rparr>]"
      "[sampleNamedFD ''a'', sampleNamedFD ''b'']" "[sampleNamedFD ''x'', sampleNamedFD ''y'']"
      "[\<lparr>map_source = ''a'', map_destination = ''y''\<rparr>, \<lparr>map_source = ''b'', map_destination = ''x''\<rparr>]"]
  by (simp add: resolveFailureDomainMappings_def checkMapping_def sampleNamedFD_def admitted_def bindE_def)

subsection \<open>Immutability\<close>

lemma fold_mapping: "fold (\<lambda>mp f. f(map_source mp \<mapsto> map_destination mp)) ms f x =
   (case map_of (rev (map (\<lambda>mp. (map_source mp, map_destination mp)) ms)) x of None \<Rightarrow> f x | Some d \<Rightarrow> Some d)"
  by (induction ms arbitrary: f) (auto simp: map_add_def split: option.splits)

lemma mappingBySource_eq:
  "mappingBySource ms = map_of (rev (map (\<lambda>mp. (map_source mp, map_destination mp)) ms))"
  by (rule ext) (simp add: mappingBySource_def fold_mapping split: option.splits)

lemma dom_mappingBySource: "dom (mappingBySource ms) = set (mappingKeys ms)"
  by (simp add: mappingBySource_eq mappingKeys_def dom_map_of_conv_image_fst image_image)

lemma distinct_mappingKeys: "distinct (mappingKeys ms)"
  by (simp add: mappingKeys_def distinct_append_missing)

lemma checkRecorded_ok: "checkRecorded f g x = Inr () \<longleftrightarrow> g x \<noteq> None \<and> g x = f x"
  by (auto simp: checkRecorded_def split: option.splits)

lemma immutable_maps:
  assumes "range_order iter" and "length (mappingKeys ws) = length (mappingKeys rs)"
  shows "forE (checkRecorded (mappingBySource ws) (mappingBySource rs)) (iter (mappingKeys ws)) = Inr () \<longleftrightarrow>
         mappingBySource ws = mappingBySource rs"
proof
  assume "forE (checkRecorded (mappingBySource ws) (mappingBySource rs)) (iter (mappingKeys ws)) = Inr ()"
  then have ok: "\<forall>x\<in>set (mappingKeys ws). mappingBySource rs x \<noteq> None \<and> mappingBySource rs x = mappingBySource ws x"
    unfolding forE_ok checkRecorded_ok set_iter [OF assms(1)] .
  then have "set (mappingKeys ws) \<subseteq> set (mappingKeys rs)"
    using dom_mappingBySource [of rs] by (metis domIff subsetI)
  then have "set (mappingKeys ws) = set (mappingKeys rs)"
    using assms(2) by (intro distinct_covers distinct_mappingKeys)
  with ok show "mappingBySource ws = mappingBySource rs"
    using dom_mappingBySource by (intro ext) (metis domIff)
next
  assume eq: "mappingBySource ws = mappingBySource rs"
  then show "forE (checkRecorded (mappingBySource ws) (mappingBySource rs)) (iter (mappingKeys ws)) = Inr ()"
    using dom_mappingBySource [of ws] by (auto simp: forE_ok checkRecorded_ok set_iter [OF assms(1)])
qed

text \<open>
  C20: once a mapping is recorded, a later spec passes the immutability check exactly when its
  mapping list is empty or stands for the same map from sources to destinations, whatever the
  order of the entries and of Go's map iteration.
\<close>

theorem mapping_immutable_iff:
  assumes "range_order iter"
  shows "ensureMappingImmutable iter mig = Inr () \<longleftrightarrow>
     status_mappings (status mig) = [] \<or> spec_mappings (spec mig) = [] \<or>
     mappingBySource (spec_mappings (spec mig)) = mappingBySource (status_mappings (status mig))"
proof -
  let ?w = "spec_mappings (spec mig)" and ?r = "status_mappings (status mig)"
  have len: "length (mappingKeys ?w) = length (mappingKeys ?r)"
    if "mappingBySource ?w = mappingBySource ?r"
    using that dom_mappingBySource [of ?w] dom_mappingBySource [of ?r] distinct_mappingKeys
    by (metis distinct_card)
  show ?thesis
  proof (cases "length (mappingKeys ?w) = length (mappingKeys ?r)")
    case True
    then show ?thesis using immutable_maps [OF assms True] by (simp add: ensureMappingImmutable_def Let_def)
  next
    case False
    with len have "mappingBySource ?w \<noteq> mappingBySource ?r" by blast
    with False show ?thesis by (simp add: ensureMappingImmutable_def Let_def)
  qed
qed

theorem mapping_immutable_iff_witness:
  "ensureMappingImmutable rev (sampleMigration\<lparr>
     spec := (spec sampleMigration)\<lparr>spec_mappings := [\<lparr>map_source = ''a'', map_destination = ''x''\<rparr>]\<rparr>,
     status := (status sampleMigration)\<lparr>status_mappings := [\<lparr>map_source = ''a'', map_destination = ''y''\<rparr>]\<rparr>\<rparr>) \<noteq> Inr ()"
  using mapping_immutable_iff [of rev "sampleMigration\<lparr>
     spec := (spec sampleMigration)\<lparr>spec_mappings := [\<lparr>map_source = ''a'', map_destination = ''x''\<rparr>]\<rparr>,
     status := (status sampleMigration)\<lparr>status_mappings := [\<lparr>map_source = ''a'', map_destination = ''y''\<rparr>]\<rparr>\<rparr>"]
  by (simp add: range_order_def mappingBySource_def fun_upd_idem_iff fun_eq_iff)

subsection \<open>Coverage\<close>

lemma disjoint_pairs:
  "validateSourceFDTopologyDisjoint fds = Inr () \<Longrightarrow>
     \<forall>i j. i < j \<and> j < length fds \<longrightarrow> \<not> overlapping (fds ! i) (fds ! j)"
proof (induction fds)
  case (Cons a fds)
  then have head: "\<forall>b\<in>set fds. \<not> overlapping a b" and tail: "validateSourceFDTopologyDisjoint fds = Inr ()"
    by (auto simp: forE_unit checkDisjoint_def split: if_splits)
  show ?case
    using head Cons.IH [OF tail] by (auto simp: nth_Cons split: nat.splits)
qed simp

lemma matching_overlap:
  "matchesSourceFailureDomain ws a \<Longrightarrow> matchesSourceFailureDomain ws b \<Longrightarrow> overlapping a b"
  by (auto simp: matchesSourceFailureDomain_def overlapping_def)

lemma filter_two:
  "1 < length (filter P xs) \<Longrightarrow> \<exists>i j. i < j \<and> j < length xs \<and> P (xs ! i) \<and> P (xs ! j)"
proof (induction xs)
  case (Cons x xs)
  show ?case
  proof (cases "P x \<and> filter P xs \<noteq> []")
    case True
    then obtain y where "y \<in> set xs" "P y" by (auto simp: filter_empty_conv)
    then obtain j where "j < length xs" "P (xs ! j)" by (auto simp: in_set_conv_nth)
    with True show ?thesis by (intro exI [of _ 0] exI [of _ "Suc j"]) simp
  next
    case False
    then have "1 < length (filter P xs)" using Cons.prems by (auto split: if_splits)
    then obtain i j where "i < j" "j < length xs" "P (xs ! i)" "P (xs ! j)" using Cons.IH by blast
    then show ?thesis by (intro exI [of _ "Suc i"] exI [of _ "Suc j"]) simp
  qed
qed simp

lemma disjoint_match_once:
  "validateSourceFDTopologyDisjoint fds = Inr () \<Longrightarrow> length (filter (matchesSourceFailureDomain ws) fds) \<le> 1"
  using filter_two [of "matchesSourceFailureDomain ws" fds] disjoint_pairs [of fds] matching_overlap [of ws]
  by (meson not_less)

lemma matchSource_Inr:
  "matchSourceMachineSetFailureDomain ms fds = Inr (running, ws, fdp) \<longleftrightarrow>
     (\<exists>ps. ExtractVSphereProviderSpec ms = Inr ps \<and> ps_workspace ps = Some ws \<and> running = hasRunningReplicas ms \<and>
       (case filter (matchesSourceFailureDomain ws) fds of
          [] \<Rightarrow> fdp = None | [fd] \<Rightarrow> fdp = Some fd | _ \<Rightarrow> False))"
  unfolding matchSourceMachineSetFailureDomain_def
  by (cases "ExtractVSphereProviderSpec ms")
    (auto simp: bindE_def wrapE_def Let_def split: option.splits list.splits if_splits)

lemma coverMachineSet_ok:
  assumes "coverMachineSet fn mappings fds ms = Inr ()" and "hasRunningReplicas ms"
  obtains ps ws fd mp where "ExtractVSphereProviderSpec ms = Inr ps" "ps_workspace ps = Some ws"
    "filter (matchesSourceFailureDomain ws) fds = [fd]" "mp \<in> set mappings" "map_source mp = fd_name fd" "fn ms mp = Inr ()"
proof -
  from assms(1) obtain running ws fdp where m: "matchSourceMachineSetFailureDomain ms fds = Inr (running, ws, fdp)"
    and rest: "(if \<not> running then Inr () else case fdp of None \<Rightarrow> Inl (Errorf (msgCoverage (ms_name ms) @ '' (datacenter '' @
        quote (ws_datacenter ws) @ '', resource pool '' @ quote (ws_resourcePool ws) @ '') does not match any source failure domain''))
      | Some fd \<Rightarrow> (case find (\<lambda>mp. map_source mp = fd_name fd) mappings of
          None \<Rightarrow> Inl (Errorf (msgCoverage (ms_name ms) @ '' matches source failure domain '' @ quote (fd_name fd) @ '' which has no mapping''))
        | Some mp \<Rightarrow> fn ms mp)) = Inr ()"
    by (auto simp: coverMachineSet_def)
  from m assms(2) obtain ps where ps: "ExtractVSphereProviderSpec ms = Inr ps" "ps_workspace ps = Some ws" and run: running
    and sel: "case filter (matchesSourceFailureDomain ws) fds of [] \<Rightarrow> fdp = None | [fd] \<Rightarrow> fdp = Some fd | _ \<Rightarrow> False"
    by (auto simp: matchSource_Inr)
  from rest run obtain fd mp where fd: "fdp = Some fd" and "find (\<lambda>mp. map_source mp = fd_name fd) mappings = Some mp" "fn ms mp = Inr ()"
    by (auto split: option.splits)
  moreover from sel fd have "filter (matchesSourceFailureDomain ws) fds = [fd]"
    by (auto split: list.splits)
  ultimately show thesis
    using that [OF ps] by (auto simp: find_Some_iff in_set_conv_nth)
qed

lemma recorded_nonempty:
  "recordedWorkerMachineSetNames recorded base \<noteq> [] \<longleftrightarrow> (\<exists>nm\<in>set recorded. inFamily nm base)"
  by (auto simp: recordedWorkerMachineSetNames_def filter_empty_conv simp flip: set_empty)

text \<open>
  C21: when the coverage gate before scale-down passes, every source machine set that runs
  replicas (a missing replica count counts as running) lies in exactly one source failure domain,
  that failure domain has a mapping, and a replacement machine set of the mapping's destination is
  recorded; so no source capacity is removed that has no recorded replacement.
\<close>

theorem coverage_gate_sound:
  assumes "validateSourceMachineSetCoverage msList infraID mappings sourceFDs recorded = Inr ()"
    and "ms \<in> set msList" and "machineSetDesiredReplicas ms > 0"
  shows "\<exists>ps ws fd mp. ExtractVSphereProviderSpec ms = Inr ps \<and> ps_workspace ps = Some ws \<and>
     filter (matchesSourceFailureDomain ws) sourceFDs = [fd] \<and> mp \<in> set mappings \<and> map_source mp = fd_name fd \<and>
     (\<exists>nm\<in>set recorded. inFamily nm (workerMachineSetName infraID (map_destination mp) recorded))"
proof -
  have "coverMachineSet (requireRecorded infraID recorded) mappings sourceFDs ms = Inr ()"
    using assms(1,2) by (auto simp: validateSourceMachineSetCoverage_def forEachRunningSourceMachineSet_def forE_ok)
  moreover have "hasRunningReplicas ms"
    using assms(3) by (auto simp: hasRunningReplicas_def machineSetDesiredReplicas_def split: option.splits)
  ultimately show ?thesis
    by (elim coverMachineSet_ok)
      (auto simp: requireRecorded_def recorded_nonempty [symmetric] split: if_splits)
qed

definition sampleSourceFD :: failureDomain where
  "sampleSourceFD = (sampleNamedFD ''fd-a'')\<lparr>fd_topology := \<lparr>datacenter = ''DC1'', computeCluster = ''/DC1/host/C'',
     networks = [], datastore = [], resourcePool = [], folder = [], template = []\<rparr>\<rparr>"

theorem coverage_gate_sound_witness:
  "\<exists>(fd :: failureDomain) mp. mp \<in> set [\<lparr>map_source = ''fd-a'', map_destination = ''fd-b''\<rparr>] \<and> map_source mp = fd_name fd \<and>
     (\<exists>nm\<in>set [''i-worker-fd-b'']. inFamily nm (workerMachineSetName ''i'' (map_destination mp) [''i-worker-fd-b'']))"
proof -
  have san: "sanitizeRFC1123 ''fd-b'' = ''fd-b''" by code_simp
  have pool: "EffectiveResourcePool sampleSourceFD = ''/DC1/host/C/Resources''" by code_simp
  have "validateSourceMachineSetCoverage [sampleMachineSet] ''i'' [\<lparr>map_source = ''fd-a'', map_destination = ''fd-b''\<rparr>]
      [sampleSourceFD] [''i-worker-fd-b''] = Inr ()"
    by (simp add: validateSourceMachineSetCoverage_def forEachRunningSourceMachineSet_def coverMachineSet_def
        matchSourceMachineSetFailureDomain_def ExtractVSphereProviderSpec_def sampleMachineSet_def wrapE_def bindE_def
        matchesSourceFailureDomain_def pool hasRunningReplicas_def requireRecorded_def workerMachineSetName_def san
        recordedWorkerMachineSetNames_def inFamily_def Let_def)
      (simp add: sampleSourceFD_def sampleNamedFD_def)
  moreover have "sampleMachineSet \<in> set [sampleMachineSet]" and "0 < machineSetDesiredReplicas sampleMachineSet"
    by (simp_all add: machineSetDesiredReplicas_def sampleMachineSet_def)
  ultimately show ?thesis
    using coverage_gate_sound by blast
qed

text \<open>
  C22: when the topologies of the source failure domains pass validation, no workspace matches two
  of them, so the assignment of source machine sets to failure domains is unambiguous; and the
  match is the same predicate by which the machine manager lists the machine sets of a failure
  domain.
\<close>

theorem validated_topologies_unambiguous:
  assumes "validateSourceFDTopologyDisjoint fds = Inr ()"
  shows "length (filter (matchesSourceFailureDomain ws) fds) \<le> 1 \<and>
    (\<forall>fd ms ps. ExtractVSphereProviderSpec ms = Inr ps \<and> ps_workspace ps = Some ws \<longrightarrow>
       inFailureDomain fd ms = matchesSourceFailureDomain ws fd)"
  using disjoint_match_once [OF assms] by (simp add: inFailureDomain_def matchesSourceFailureDomain_def)

theorem validated_topologies_unambiguous_witness:
  "length (filter (matchesSourceFailureDomain emptyWorkspace) [sampleNamedFD ''a'', sampleNamedFD ''b'']) \<le> 1"
  using validated_topologies_unambiguous [of "[sampleNamedFD ''a'', sampleNamedFD ''b'']" emptyWorkspace]
  by (simp add: checkDisjoint_def overlapping_def EffectiveResourcePool_def sampleNamedFD_def bindE_def)

end
