(* ===== verification/Credentials.thy ===== *)
theory Credentials
  imports Clients
begin

text \<open>
  vCenter credentials and installer metadata: \<open>internal/openshift/secrets.go\<close>,
  \<open>getTargetCredentials\<close> of \<open>controller/helpers.go\<close>, and
  \<open>internal/metadata/metadata.go\<close> with the JSON encoding its secret holds.
\<close>

section \<open>The credentials secret\<close>

definition VSphereCredsSecretName :: string where
  "VSphereCredsSecretName = ''vsphere-creds''"

definition VSphereCredsSecretNamespace :: string where
  "VSphereCredsSecretNamespace = ''kube-system''"

definition usernameKey :: "string \<Rightarrow> string" where
  "usernameKey server = server @ ''.username''"

definition passwordKey :: "string \<Rightarrow> string" where
  "passwordKey server = server @ ''.password''"

definition GetVSphereCredsSecret :: "'w kubeClient \<Rightarrow> (('w, 'z) exec_scheme, error, secretObj) op" where
  "GetVSphereCredsSecret kc = readCall ''getting vsphere-creds secret''
     (secrets_get kc VSphereCredsSecretNamespace VSphereCredsSecretName)"

definition addCreds :: "secretObj \<Rightarrow> string \<Rightarrow> string \<Rightarrow> string \<Rightarrow> secretObj" where
  "addCreds sec server u p =
     sec\<lparr>sec_data := (sec_data sec)(usernameKey server \<mapsto> u, passwordKey server \<mapsto> p)\<rparr>"

definition AddTargetVCenterCreds ::
  "('w, 'z) exec_scheme ctx \<Rightarrow> 'w kubeClient \<Rightarrow> secretObj \<Rightarrow> string \<Rightarrow> string \<Rightarrow> string
   \<Rightarrow> (('w, 'z) exec_scheme, error, secretObj) op" where
  "AddTargetVCenterCreds ctx kc sec server u p =
     (if sec_data sec (usernameKey server) \<noteq> None then ret sec
      else
        bnd (Check ctx) (\<lambda>_.
        wrapErr ''updating vsphere-creds secret with target credentials''
          (request (MutateCall (UpdateSecretCall (addCreds sec server u p)))
             (secrets_update kc (addCreds sec server u p)))))"

definition removeCreds :: "secretObj \<Rightarrow> string \<Rightarrow> secretObj" where
  "removeCreds sec server =
     sec\<lparr>sec_data := (sec_data sec)(usernameKey server := None, passwordKey server := None)\<rparr>"

definition RemoveSourceVCenterCreds ::
  "('w, 'z) exec_scheme ctx \<Rightarrow> 'w kubeClient \<Rightarrow> secretObj option \<Rightarrow> string \<Rightarrow> (('w, 'z) exec_scheme, error, secretObj) op" where
  "RemoveSourceVCenterCreds ctx kc secp server =
     (case secp of
        None \<Rightarrow> fail (Errorf ''secret must not be nil'')
      | Some sec \<Rightarrow>
          bnd (Check ctx) (\<lambda>_.
          wrapErr ''updating vsphere-creds secret to remove source credentials''
            (request (MutateCall (UpdateSecretCall (removeCreds sec server)))
               (secrets_update kc (removeCreds sec server)))))"

definition lookupCreds :: "secretObj \<Rightarrow> string \<Rightarrow> string \<Rightarrow> string \<Rightarrow> error + string \<times> string" where
  "lookupCreds sec ns nm server =
     (case sec_data sec (usernameKey server) of
        None \<Rightarrow> Inl (Errorf (''key '' @ quote (usernameKey server) @ '' not found in secret '' @ ns @ ''/'' @ nm))
      | Some u \<Rightarrow> (case sec_data sec (passwordKey server) of
          None \<Rightarrow> Inl (Errorf (''key '' @ quote (passwordKey server) @ '' not found in secret '' @ ns @ ''/'' @ nm))
        | Some p \<Rightarrow> Inr (u, p)))"

definition GetVCenterCredsFromSecret ::
  "'w kubeClient \<Rightarrow> string \<Rightarrow> string \<Rightarrow> string \<Rightarrow> (('w, 'z) exec_scheme, error, string \<times> string) op" where
  "GetVCenterCredsFromSecret kc ns nm server =
     bnd (readCall (''getting secret '' @ ns @ ''/'' @ nm) (secrets_get kc ns nm)) (\<lambda>sec.
     liftE (lookupCreds sec ns nm server))"

definition GetCredentials :: "'w kubeClient \<Rightarrow> string \<Rightarrow> (('w, 'z) exec_scheme, error, string \<times> string) op" where
  "GetCredentials kc server =
     GetVCenterCredsFromSecret kc VSphereCredsSecretNamespace VSphereCredsSecretName server"

definition getTargetCredentials ::
  "'w kubeClient \<Rightarrow> migration \<Rightarrow> string \<Rightarrow> (('w, 'z) exec_scheme, error, string \<times> string) op" where
  "getTargetCredentials kc mig server =
     (let ref = targetCredentialsSecret (spec mig);
          ns = (if secret_namespace ref = [] then namespace mig else secret_namespace ref) in
      if secret_name ref = []
      then fail (Errorf ''spec.targetVCenterCredentialsSecret.name must not be empty'')
      else wrapErr (''getting target credentials for '' @ server @ '' from secret '' @ ns @ ''/'' @ secret_name ref)
             (GetVCenterCredsFromSecret kc ns (secret_name ref) server))"

section \<open>Installer metadata\<close>

record vcenterEntry =
  ve_vCenter :: string
  ve_username :: string
  ve_password :: string

text \<open>\<open>ClusterMetadata\<close> with its \<open>VSphereMetadata\<close>, which is always present.\<close>

record clusterMetadata =
  md_clusterName :: string
  md_clusterID :: string
  md_infraID :: string
  md_vCenter :: string
  md_username :: string
  md_password :: string
  md_terraformPlatform :: string
  md_vcenters :: "vcenterEntry list"

definition splitFirst :: "string \<Rightarrow> char \<Rightarrow> string list" where
  "splitFirst s sep =
     (if sep \<in> set s then [takeWhile (\<lambda>c. c \<noteq> sep) s, drop 1 (dropWhile (\<lambda>c. c \<noteq> sep) s)] else [s])"

definition parseCredentials :: "string \<Rightarrow> string \<times> string" where
  "parseCredentials cred =
     (if cred = [] then ([], [])
      else case splitFirst cred CHR '':'' of [u, p] \<Rightarrow> (u, p) | _ \<Rightarrow> ([], []))"

definition parseRequiredCredentials :: "string \<Rightarrow> string \<Rightarrow> error + string \<times> string" where
  "parseRequiredCredentials server cred =
     (case parseCredentials cred of (u, p) \<Rightarrow>
        if u = [] \<or> p = []
        then Inl (Errorf (''credentials for '' @ server @ '' must be formatted as username:password''))
        else Inr (u, p))"

text \<open>One turn of the loop over the failure domains; \<open>first\<close> is \<open>i == 0\<close>.\<close>

definition addMetadataVCenter ::
  "(string \<Rightarrow> string option) \<Rightarrow> bool \<Rightarrow> clusterMetadata \<Rightarrow> failureDomain \<Rightarrow> error + clusterMetadata" where
  "addMetadataVCenter creds first md fd =
     (case creds (fd_server fd) of
        None \<Rightarrow> Inl (Errorf (''credentials for '' @ fd_server fd @ '' not found''))
      | Some cred \<Rightarrow>
          bindE (parseRequiredCredentials (fd_server fd) cred) (\<lambda>(u, p).
            let md1 = (if first then md\<lparr>md_vCenter := fd_server fd, md_username := u, md_password := p\<rparr> else md)
            in if fd_server fd \<in> ve_vCenter ` set (md_vcenters md1) then Inr md1
               else Inr (md1\<lparr>md_vcenters := md_vcenters md1 @
                       [\<lparr>ve_vCenter = fd_server fd, ve_username = u, ve_password = p\<rparr>]\<rparr>)))"

fun metadataLoop ::
  "(string \<Rightarrow> string option) \<Rightarrow> bool \<Rightarrow> clusterMetadata \<Rightarrow> failureDomain list \<Rightarrow> error + clusterMetadata" where
  "metadataLoop creds first md [] = Inr md"
| "metadataLoop creds first md (fd # fds) =
     bindE (addMetadataVCenter creds first md fd) (\<lambda>md'. metadataLoop creds False md' fds)"

definition GenerateMetadata ::
  "failureDomain list \<Rightarrow> infrastructure option \<Rightarrow> (string \<Rightarrow> string option) \<Rightarrow> error + clusterMetadata" where
  "GenerateMetadata fds infrap creds =
     (case infrap of
        None \<Rightarrow> Inl (Errorf ''infrastructure must not be nil'')
      | Some infra \<Rightarrow>
          if fds = [] then Inl (Errorf ''failure domains must not be empty'')
          else if infrastructureName infra = []
          then Inl (Errorf ''infrastructure status has no InfrastructureName'')
          else
            bindE (metadataLoop creds True
                \<lparr>md_clusterName = infra_objName infra, md_clusterID = infra_uid infra,
                 md_infraID = infrastructureName infra, md_vCenter = [], md_username = [], md_password = [],
                 md_terraformPlatform = ''vsphere'', md_vcenters = []\<rparr> fds) (\<lambda>md.
            if md_vCenter md = [] \<or> md_username md = [] \<or> md_password md = []
            then Inl (Errorf ''primary vcenter credentials are incomplete'')
            else if md_vcenters md = [] then Inl (Errorf ''no vcenters available for metadata'')
            else Inr md))"

text \<open>\<open>encoding/json\<close> on strings (with its escapes of HTML characters; bytes of multi-byte
  characters are copied) and on the metadata, in field order with \<open>omitempty\<close> for the three
  primary fields.\<close>

definition bs :: char where
  "bs = char_of (92::nat)"

definition dq :: char where
  "dq = char_of (34::nat)"

definition json_char :: "char \<Rightarrow> string" where
  "json_char c = (let n = of_char c :: nat in
     if n = 34 \<or> n = 92 then [bs, c]
     else if n = 8 then [bs, CHR ''b'']
     else if n = 9 then [bs, CHR ''t'']
     else if n = 10 then [bs, CHR ''n'']
     else if n = 12 then [bs, CHR ''f'']
     else if n = 13 then [bs, CHR ''r'']
     else if n < 32 \<or> n = 38 \<or> n = 60 \<or> n = 62
       then [bs, CHR ''u'', CHR ''0'', CHR ''0'', hex_digit (n div 16), hex_digit (n mod 16)]
     else [c])"

definition json_string :: "string \<Rightarrow> string" where
  "json_string s = [dq] @ concat (map json_char s) @ [dq]"

definition json_field :: "string \<Rightarrow> string \<Rightarrow> string" where
  "json_field k v = json_string k @ '':'' @ v"

definition json_object :: "string list \<Rightarrow> string" where
  "json_object fs = ''{'' @ join '','' fs @ ''}''"

definition json_omitempty :: "string \<Rightarrow> string \<Rightarrow> string list" where
  "json_omitempty k v = (if v = [] then [] else [json_field k (json_string v)])"

definition json_vcenter :: "vcenterEntry \<Rightarrow> string" where
  "json_vcenter v = json_object [json_field ''vCenter'' (json_string (ve_vCenter v)),
     json_field ''username'' (json_string (ve_username v)), json_field ''password'' (json_string (ve_password v))]"

definition json_metadata :: "clusterMetadata \<Rightarrow> string" where
  "json_metadata md = json_object [
     json_field ''clusterName'' (json_string (md_clusterName md)),
     json_field ''clusterID'' (json_string (md_clusterID md)),
     json_field ''infraID'' (json_string (md_infraID md)),
     json_field ''vsphere'' (json_object (
       json_omitempty ''vCenter'' (md_vCenter md) @ json_omitempty ''username'' (md_username md) @
       json_omitempty ''password'' (md_password md) @
       [json_field ''terraform_platform'' (json_string (md_terraformPlatform md)),
        json_field ''VCenters'' (''['' @ join '','' (map json_vcenter (md_vcenters md)) @ '']'')]))]"

definition MetadataKey :: string where
  "MetadataKey = ''metadata.json''"

definition metadataSecretLabelKey :: string where
  "metadataSecretLabelKey = ''migration.openshift.io/metadata''"

definition newMetadataSecret :: "clusterMetadata \<Rightarrow> string \<Rightarrow> string \<Rightarrow> secretObj" where
  "newMetadataSecret md ns nm = \<lparr>sec_namespace = ns, sec_name = nm,
     sec_data = [MetadataKey \<mapsto> json_metadata md], sec_labels = [metadataSecretLabelKey \<mapsto> ''true''],
     sec_ownerReferences = [], sec_type = ''Opaque''\<rparr>"

definition updatedMetadataSecret :: "secretObj \<Rightarrow> clusterMetadata \<Rightarrow> secretObj" where
  "updatedMetadataSecret existing md =
     existing\<lparr>sec_ownerReferences := [], sec_labels := (sec_labels existing)(metadataSecretLabelKey \<mapsto> ''true''),
       sec_data := [MetadataKey \<mapsto> json_metadata md], sec_type := ''Opaque''\<rparr>"

definition SaveToSecret ::
  "('w, 'z) exec_scheme ctx \<Rightarrow> 'w kubeClient \<Rightarrow> clusterMetadata \<Rightarrow> string \<Rightarrow> string \<Rightarrow> (('w, 'z) exec_scheme, error, unit) op" where
  "SaveToSecret ctx kc md ns nm =
     attempt (request ReadCall (secrets_get kc ns nm)) (\<lambda>r. case r of
       Inr existing \<Rightarrow>
         bnd (Check ctx) (\<lambda>_.
         bnd (wrapErr (''updating metadata Secret '' @ ns @ ''/'' @ nm)
                (request (MutateCall (UpdateSecretCall (updatedMetadataSecret existing md)))
                   (secrets_update kc (updatedMetadataSecret existing md)))) (\<lambda>_. ret ()))
     | Inl e \<Rightarrow>
         if IsNotFound e then
           bnd (Check ctx) (\<lambda>_.
           bnd (wrapErr (''creating metadata Secret '' @ ns @ ''/'' @ nm)
                  (request (MutateCall (CreateSecretCall (newMetadataSecret md ns nm)))
                     (secrets_create kc (newMetadataSecret md ns nm)))) (\<lambda>_. ret ()))
         else fail (Wrapf (''getting metadata Secret '' @ ns @ ''/'' @ nm) e))"

definition GetMetadataFromSecret ::
  "'w kubeClient \<Rightarrow> string \<Rightarrow> string \<Rightarrow> (('w, 'z) exec_scheme, error, string) op" where
  "GetMetadataFromSecret kc ns nm =
     bnd (readCall (''getting metadata Secret '' @ ns @ ''/'' @ nm) (secrets_get kc ns nm)) (\<lambda>sec.
       case sec_data sec MetadataKey of
         None \<Rightarrow> fail (Errorf (''key '' @ quote MetadataKey @ '' not found in Secret '' @ ns @ ''/'' @ nm))
       | Some d \<Rightarrow> ret d)"

definition GetMetadataSecretName :: "string \<Rightarrow> string" where
  "GetMetadataSecretName nm = nm @ ''-metadata''"

section \<open>Guarding\<close>

lemma keeps_creds [keeps_rules]:
  "keeps (safe m A) (GetVSphereCredsSecret kc)"
  "keeps (safe m A) (GetVCenterCredsFromSecret kc ns nm server)"
  "keeps (safe m A) (GetCredentials kc server)"
  "keeps (safe m A) (getTargetCredentials kc mig server)"
  "keeps (safe m A) (GetMetadataFromSecret kc ns nm)"
  unfolding GetVSphereCredsSecret_def GetVCenterCredsFromSecret_def GetCredentials_def
    getTargetCredentials_def GetMetadataFromSecret_def Let_def
  by (intro keeps_rules)+

context guarded_ctx
begin

lemma keeps_AddTargetVCenterCreds:
  "A (UpdateSecretCall (addCreds sec server u p)) \<Longrightarrow>
   keeps (safe m A) (AddTargetVCenterCreds ctx kc sec server u p)"
  unfolding AddTargetVCenterCreds_def by (rule keeps_if [OF keeps_ret keeps_checked_wrap])

lemma keeps_RemoveSourceVCenterCreds:
  "(\<And>sec. secp = Some sec \<Longrightarrow> A (UpdateSecretCall (removeCreds sec server))) \<Longrightarrow>
   keeps (safe m A) (RemoveSourceVCenterCreds ctx kc secp server)"
  unfolding RemoveSourceVCenterCreds_def
  by (cases secp) (auto intro!: keeps_fail keeps_checked_wrap)

lemma keeps_SaveToSecret:
  assumes "\<And>sec. A (UpdateSecretCall (updatedMetadataSecret sec md))"
    and "A (CreateSecretCall (newMetadataSecret md ns nm))"
  shows "keeps (safe m A) (SaveToSecret ctx kc md ns nm)"
  unfolding SaveToSecret_def
  by (intro keeps_attempt keeps_request keeps_sum keeps_if keeps_fail keeps_checked_wrap_bnd keeps_ret assms) simp

end

section \<open>Theorems\<close>

lemma keys_distinct [simp]:
  "usernameKey a \<noteq> passwordKey b" "passwordKey b \<noteq> usernameKey a"
  "usernameKey a = usernameKey b \<longleftrightarrow> a = b" "passwordKey a = passwordKey b \<longleftrightarrow> a = b"
  by (simp_all add: usernameKey_def passwordKey_def append_eq_append_conv)


definition sampleSecret :: secretObj where
  "sampleSecret = \<lparr>sec_namespace = ''kube-system'', sec_name = ''vsphere-creds'',
     sec_data = [''vc1.username'' \<mapsto> ''admin'', ''vc1.password'' \<mapsto> ''pw''], sec_labels = Map.empty,
     sec_ownerReferences = [], sec_type = ''Opaque''\<rparr>"


lemma splitFirst_sep: "CHR '':'' \<notin> set u \<Longrightarrow> splitFirst (u @ CHR '':'' # p) CHR '':'' = [u, p]"
proof -
  assume "CHR '':'' \<notin> set u"
  then have "\<And>c. c \<in> set u \<Longrightarrow> c \<noteq> CHR '':''" by blast
  then show ?thesis
    by (simp add: splitFirst_def takeWhile_append2 [of u] dropWhile_append2 [of u])
qed

lemma parseCredentials_join:
  "CHR '':'' \<notin> set u \<Longrightarrow> parseCredentials (u @ CHR '':'' # p) = (u, p)"
  by (simp add: parseCredentials_def splitFirst_sep)

lemma parseCredentials_split:
  assumes "parseCredentials cred = (u, p)" and "u \<noteq> []"
  shows "cred = u @ CHR '':'' # p \<and> CHR '':'' \<notin> set u"
proof -
  have mem: "CHR '':'' \<in> set cred"
    using assms by (auto simp: parseCredentials_def splitFirst_def split: if_splits)
  then obtain v q where v: "cred = v @ CHR '':'' # q" "CHR '':'' \<notin> set v"
    by (meson split_list_first)
  then show ?thesis using assms(1) parseCredentials_join [of v q] by simp
qed

lemma parseRequired_Inr:
  "parseRequiredCredentials server cred = Inr (u, p) \<longleftrightarrow>
     u \<noteq> [] \<and> p \<noteq> [] \<and> CHR '':'' \<notin> set u \<and> cred = u @ CHR '':'' # p"
  using parseCredentials_split [of cred u p] parseCredentials_join [of u p]
  by (auto simp: parseRequiredCredentials_def split: prod.splits)

text \<open>What every turn of the loop keeps: one entry per server seen, in order of first
  appearance, each with the credentials of its server.\<close>

definition entryOk :: "(string \<Rightarrow> string option) \<Rightarrow> vcenterEntry \<Rightarrow> bool" where
  "entryOk creds v \<longleftrightarrow> ve_username v \<noteq> [] \<and> ve_password v \<noteq> [] \<and> CHR '':'' \<notin> set (ve_username v) \<and>
     creds (ve_vCenter v) = Some (ve_username v @ CHR '':'' # ve_password v)"

lemma addMetadataVCenter_step:
  assumes "addMetadataVCenter creds first md fd = Inr md'" and "list_all (entryOk creds) (md_vcenters md)"
  shows "map ve_vCenter (md_vcenters md') = append_new (map ve_vCenter (md_vcenters md)) (fd_server fd) \<and>
    list_all (entryOk creds) (md_vcenters md') \<and>
    (md_vCenter md', md_clusterName md', md_clusterID md', md_infraID md') =
      (if first then fd_server fd else md_vCenter md, md_clusterName md, md_clusterID md, md_infraID md)"
proof -
  from assms(1) obtain cred u p where "creds (fd_server fd) = Some cred"
    and "parseRequiredCredentials (fd_server fd) cred = Inr (u, p)"
    by (auto simp: addMetadataVCenter_def split: option.splits)
  moreover from this have "entryOk creds \<lparr>ve_vCenter = fd_server fd, ve_username = u, ve_password = p\<rparr>"
    by (simp add: entryOk_def parseRequired_Inr)
  ultimately show ?thesis
    using assms by (cases first) (auto simp: addMetadataVCenter_def bindE_def append_new_def Let_def split: if_splits)
qed

lemma metadataLoop_spec:
  assumes "metadataLoop creds first md fds = Inr md'" and "list_all (entryOk creds) (md_vcenters md)"
  shows "map ve_vCenter (md_vcenters md') = append_missing (map ve_vCenter (md_vcenters md)) (map fd_server fds) \<and>
    list_all (entryOk creds) (md_vcenters md') \<and>
    (fds \<noteq> [] \<longrightarrow> md_vCenter md' = (if first then fd_server (hd fds) else md_vCenter md)) \<and>
    (md_clusterName md', md_clusterID md', md_infraID md') = (md_clusterName md, md_clusterID md, md_infraID md)"
  using assms
proof (induction fds arbitrary: first md)
  case (Cons fd fds)
  then obtain md1 where step: "addMetadataVCenter creds first md fd = Inr md1"
    and rest: "metadataLoop creds False md1 fds = Inr md'" by auto
  note s = addMetadataVCenter_step [OF step Cons.prems(2)]
  then have "list_all (entryOk creds) (md_vcenters md1)" by simp
  note ih = Cons.IH [OF rest this]
  have "map ve_vCenter (md_vcenters md') = append_missing (map ve_vCenter (md_vcenters md)) (map fd_server (fd # fds))"
    using ih s by simp
  moreover have "md_vCenter md' = (if first then fd_server fd else md_vCenter md)"
    using ih s rest by (cases "fds = []") simp_all
  moreover have "(md_clusterName md', md_clusterID md', md_infraID md') = (md_clusterName md, md_clusterID md, md_infraID md)"
    using ih s by simp
  ultimately show ?case using ih by simp
qed auto

lemma metadataLoop_total:
  assumes "\<forall>fd\<in>set fds. \<exists>u p. creds (fd_server fd) = Some (u @ CHR '':'' # p) \<and> u \<noteq> [] \<and> p \<noteq> [] \<and> CHR '':'' \<notin> set u"
  shows "\<exists>md'. metadataLoop creds first md fds = Inr md' \<and>
     (first \<and> fds \<noteq> [] \<or> md_username md \<noteq> [] \<and> md_password md \<noteq> [] \<longrightarrow> md_username md' \<noteq> [] \<and> md_password md' \<noteq> [])"
  using assms
proof (induction fds arbitrary: first md)
  case (Cons fd fds)
  then obtain u p where cr: "creds (fd_server fd) = Some (u @ CHR '':'' # p)" "u \<noteq> []" "p \<noteq> []" "CHR '':'' \<notin> set u"
    by auto
  then have "parseRequiredCredentials (fd_server fd) (u @ CHR '':'' # p) = Inr (u, p)"
    by (simp add: parseRequired_Inr)
  with cr obtain md1 where "addMetadataVCenter creds first md fd = Inr md1"
    "first \<or> md_username md \<noteq> [] \<and> md_password md \<noteq> [] \<longrightarrow> md_username md1 \<noteq> [] \<and> md_password md1 \<noteq> []"
    by (cases first; cases "fd_server fd \<in> ve_vCenter ` set (md_vcenters md)")
      (auto simp: addMetadataVCenter_def bindE_def Let_def)
  with Cons.IH [of False md1] Cons.prems show ?case by (auto simp: bindE_def)
qed auto

text \<open>
  C33: generated installer metadata lists every vCenter server of the failure domains exactly
  once, in order of first appearance, with the user and password stored for that server, and its
  primary vCenter is that of the first failure domain; it is generated whenever there is a
  failure domain, the infrastructure has a name and every server has non-empty credentials whose
  user name contains no colon.
\<close>

theorem metadata_covers_every_vcenter:
  "(GenerateMetadata fds (Some infra) creds = Inr md \<longrightarrow>
      map ve_vCenter (md_vcenters md) = append_missing [] (map fd_server fds) \<and>
      (\<forall>v\<in>set (md_vcenters md). creds (ve_vCenter v) = Some (ve_username v @ '':'' @ ve_password v)) \<and>
      md_vCenter md = fd_server (hd fds) \<and> md_infraID md = infrastructureName infra) \<and>
   (fds \<noteq> [] \<and> fd_server (hd fds) \<noteq> [] \<and> infrastructureName infra \<noteq> [] \<and>
    (\<forall>fd\<in>set fds. \<exists>u p. creds (fd_server fd) = Some (u @ '':'' @ p) \<and> u \<noteq> [] \<and> p \<noteq> [] \<and> CHR '':'' \<notin> set u)
      \<longrightarrow> (\<exists>md. GenerateMetadata fds (Some infra) creds = Inr md))"
proof (intro conjI impI)
  assume gen: "GenerateMetadata fds (Some infra) creds = Inr md"
  let ?m0 = "\<lparr>md_clusterName = infra_objName infra, md_clusterID = infra_uid infra,
     md_infraID = infrastructureName infra, md_vCenter = [], md_username = [], md_password = [],
     md_terraformPlatform = ''vsphere'', md_vcenters = []\<rparr>"
  from gen have "metadataLoop creds True ?m0 fds = Inr md" and "fds \<noteq> []"
    by (auto simp: GenerateMetadata_def split: if_splits)
  with metadataLoop_spec [of creds True ?m0 fds md]
  show "map ve_vCenter (md_vcenters md) = append_missing [] (map fd_server fds)"
    and "\<forall>v\<in>set (md_vcenters md). creds (ve_vCenter v) = Some (ve_username v @ '':'' @ ve_password v)"
    and "md_vCenter md = fd_server (hd fds)" and "md_infraID md = infrastructureName infra"
    by (auto simp: list_all_iff entryOk_def)
next
  assume hyp: "fds \<noteq> [] \<and> fd_server (hd fds) \<noteq> [] \<and> infrastructureName infra \<noteq> [] \<and>
    (\<forall>fd\<in>set fds. \<exists>u p. creds (fd_server fd) = Some (u @ '':'' @ p) \<and> u \<noteq> [] \<and> p \<noteq> [] \<and> CHR '':'' \<notin> set u)"
  let ?m0 = "\<lparr>md_clusterName = infra_objName infra, md_clusterID = infra_uid infra,
     md_infraID = infrastructureName infra, md_vCenter = [], md_username = [], md_password = [],
     md_terraformPlatform = ''vsphere'', md_vcenters = []\<rparr>"
  obtain md where loop: "metadataLoop creds True ?m0 fds = Inr md" and "md_username md \<noteq> []" "md_password md \<noteq> []"
    using metadataLoop_total [of fds creds True ?m0] hyp by auto
  moreover have "md_vCenter md = fd_server (hd fds)" and "set (map ve_vCenter (md_vcenters md)) = fd_server ` set fds"
    using metadataLoop_spec [OF loop] hyp by simp_all
  ultimately show "\<exists>md. GenerateMetadata fds (Some infra) creds = Inr md"
    using hyp by (auto simp: GenerateMetadata_def bindE_def)
qed

definition sampleServerFD :: "string \<Rightarrow> failureDomain" where
  "sampleServerFD server = \<lparr>fd_name = ''fd'', fd_region = [], fd_zone = [], fd_server = server, regionAffinity = None,
     zoneAffinity = None, fd_topology = \<lparr>datacenter = [], computeCluster = [], networks = [], datastore = [],
       resourcePool = [], folder = [], template = []\<rparr>\<rparr>"

definition sampleInfra :: infrastructure where
  "sampleInfra = \<lparr>infra_objName = ''cluster'', infra_uid = ''u'', vsphere = None, infrastructureName = ''c-x1''\<rparr>"

theorem metadata_covers_every_vcenter_witness:
  "\<exists>md. GenerateMetadata [sampleServerFD ''a'', sampleServerFD ''b'', sampleServerFD ''a''] (Some sampleInfra)
      (\<lambda>_. Some ''root:p:w'') = Inr md \<and> map ve_vCenter (md_vcenters md) = [''a'', ''b''] \<and> md_vCenter md = ''a''"
proof -
  let ?fds = "[sampleServerFD ''a'', sampleServerFD ''b'', sampleServerFD ''a'']"
  have cred: "\<exists>u p. ''root:p:w'' = u @ '':'' @ p \<and> u \<noteq> [] \<and> p \<noteq> [] \<and> CHR '':'' \<notin> set u"
    by (intro exI [of _ "''root''"] exI [of _ "''p:w''"]) simp
  obtain md where md: "GenerateMetadata ?fds (Some sampleInfra) (\<lambda>_. Some ''root:p:w'') = Inr md"
    using metadata_covers_every_vcenter [of ?fds sampleInfra "\<lambda>_. Some ''root:p:w''"] cred
    by (auto simp: sampleServerFD_def sampleInfra_def)
  show ?thesis
    using metadata_covers_every_vcenter [of ?fds sampleInfra "\<lambda>_. Some ''root:p:w''" md] md
    by (simp add: append_new_def sampleServerFD_def)
qed

end
