(* ===== verification/CloudConfig.thy ===== *)
theory CloudConfig
  imports Infra
begin

text \<open>
  The cloud provider configuration (\<open>internal/openshift/configmaps.go\<close>), the vSphere pods that
  have to be restarted to read it (\<open>pods.go\<close>) and the restart of the machine config operator
  (\<open>syncControllerConfig\<close> of \<open>controller/helpers.go\<close>). The YAML codec is a third-party
  package and a parameter.
\<close>

section \<open>The cloud provider configuration\<close>

definition CloudProviderConfigMapName :: string where
  "CloudProviderConfigMapName = ''cloud-provider-config''"

definition CloudProviderConfigMapNamespace :: string where
  "CloudProviderConfigMapNamespace = ''openshift-config''"

definition cloudProviderConfigKey :: string where
  "cloudProviderConfigKey = ''config''"

text \<open>\<open>VirtualCenterConfigYAML\<close>: the fields the operator sets, and \<open>vy_other\<close> for the
  rest, empty in an entry the operator makes.\<close>

record vcenterYAML =
  vy_server :: string
  vy_port :: int
  vy_insecure :: bool
  vy_datacenters :: "string list"
  vy_roundTripperCount :: int
  vy_ipFamilyPriority :: "string list"
  vy_other :: string

record cloudConfig =
  cfg_secretName :: string
  cfg_secretNamespace :: string
  cfg_globalOther :: string
  cfg_vcenter :: "string \<Rightarrow> vcenterYAML option option"
  cfg_labels :: string

record yamlCodec =
  yaml_unmarshal :: "string \<Rightarrow> error + cloudConfig"
  yaml_marshal :: "cloudConfig \<Rightarrow> error + string"

definition GetCloudProviderConfig :: "'w kubeClient \<Rightarrow> (('w, 'z) exec_scheme, error, configMapObj) op" where
  "GetCloudProviderConfig kc = readCall ''getting cloud-provider-config ConfigMap''
     (configMaps_get kc CloudProviderConfigMapNamespace CloudProviderConfigMapName)"

text \<open>\<open>Ensure global has secret ref\<close>.\<close>

definition withSecretRef :: "cloudConfig \<Rightarrow> cloudConfig" where
  "withSecretRef cfg =
     (if cfg_secretName cfg = [] \<and> cfg_secretNamespace cfg = []
      then cfg\<lparr>cfg_secretName := ''vsphere-creds'', cfg_secretNamespace := ''kube-system''\<rparr> else cfg)"

definition parseCloudProviderConfig :: "yamlCodec \<Rightarrow> configMapObj option \<Rightarrow> error + cloudConfig" where
  "parseCloudProviderConfig codec cmp =
     (case cmp of
        None \<Rightarrow> Inl (Errorf ''configmap must not be nil'')
      | Some cm \<Rightarrow> (case cm_data cm cloudProviderConfigKey of
          None \<Rightarrow> Inl (Errorf (''key '' @ quote cloudProviderConfigKey @ '' not found in cloud-provider-config ConfigMap''))
        | Some raw \<Rightarrow> bindE (wrapE ''unmarshalling cloud-provider-config'' (yaml_unmarshal codec raw))
            (\<lambda>cfg. Inr (withSecretRef cfg))))"

definition newConfigVCenter :: "(string list \<Rightarrow> string list) \<Rightarrow> failureDomain list \<Rightarrow> string \<Rightarrow> vcenterYAML" where
  "newConfigVCenter iter fds server = \<lparr>vy_server = server, vy_port = 443, vy_insecure = True,
     vy_datacenters = iter (fdDatacenters fds server), vy_roundTripperCount = 0, vy_ipFamilyPriority = [], vy_other = []\<rparr>"

definition addConfigServer ::
  "(string list \<Rightarrow> string list) \<Rightarrow> failureDomain list \<Rightarrow> string \<Rightarrow> cloudConfig \<Rightarrow> cloudConfig" where
  "addConfigServer iter fds server cfg =
     (if cfg_vcenter cfg server \<noteq> None then cfg
      else cfg\<lparr>cfg_vcenter := (cfg_vcenter cfg)(server \<mapsto> Some (newConfigVCenter iter fds server))\<rparr>)"

definition addConfigTargets ::
  "(string list \<Rightarrow> string list) \<Rightarrow> failureDomain list \<Rightarrow> cloudConfig \<Rightarrow> cloudConfig" where
  "addConfigTargets iter fds cfg = fold (addConfigServer iter fds) (iter (fdServers fds)) cfg"

definition removeConfigSource :: "string \<Rightarrow> cloudConfig \<Rightarrow> cloudConfig" where
  "removeConfigSource server cfg = cfg\<lparr>cfg_vcenter := (cfg_vcenter cfg)(server := None)\<rparr>"

definition encodeConfig :: "yamlCodec \<Rightarrow> configMapObj \<Rightarrow> cloudConfig \<Rightarrow> error + configMapObj" where
  "encodeConfig codec cm cfg =
     bindE (wrapE ''marshalling cloud-provider-config'' (yaml_marshal codec cfg)) (\<lambda>d.
       Inr (cm\<lparr>cm_data := (cm_data cm)(cloudProviderConfigKey \<mapsto> d)\<rparr>))"

definition marshalAndUpdateConfig ::
  "('w, 'z) exec_scheme ctx \<Rightarrow> yamlCodec \<Rightarrow> 'w kubeClient \<Rightarrow> configMapObj \<Rightarrow> cloudConfig
   \<Rightarrow> (('w, 'z) exec_scheme, error, configMapObj) op" where
  "marshalAndUpdateConfig ctx codec kc cm cfg =
     bnd (liftE (encodeConfig codec cm cfg)) (\<lambda>new.
     bnd (Check ctx) (\<lambda>_.
     wrapErr ''updating cloud-provider-config ConfigMap''
       (request (MutateCall (UpdateConfigMapCall new)) (configMaps_update kc new))))"

text \<open>Both callers hold a non-nil \<open>cm\<close> once parsing succeeded.\<close>

definition AddTargetVCenterToConfig ::
  "('w, 'z) exec_scheme ctx \<Rightarrow> (string list \<Rightarrow> string list) \<Rightarrow> yamlCodec \<Rightarrow> 'w kubeClient \<Rightarrow> configMapObj \<Rightarrow> failureDomain list
   \<Rightarrow> (('w, 'z) exec_scheme, error, configMapObj) op" where
  "AddTargetVCenterToConfig ctx iter codec kc cm fds =
     bnd (liftE (parseCloudProviderConfig codec (Some cm))) (\<lambda>cfg.
     wrapErr ''updating cloud-provider-config after adding target vCenter''
       (marshalAndUpdateConfig ctx codec kc cm (addConfigTargets iter fds cfg)))"

definition RemoveSourceVCenterFromConfig ::
  "('w, 'z) exec_scheme ctx \<Rightarrow> yamlCodec \<Rightarrow> 'w kubeClient \<Rightarrow> configMapObj \<Rightarrow> string
   \<Rightarrow> (('w, 'z) exec_scheme, error, configMapObj) op" where
  "RemoveSourceVCenterFromConfig ctx codec kc cm server =
     bnd (liftE (parseCloudProviderConfig codec (Some cm))) (\<lambda>cfg.
     wrapErr ''updating cloud-provider-config after removing source vCenter''
       (marshalAndUpdateConfig ctx codec kc cm (removeConfigSource server cfg)))"

section \<open>Pods\<close>

record podSelector =
  ps_namespace :: string
  ps_label :: string

definition csiDriversNamespace :: string where
  "csiDriversNamespace = ''openshift-cluster-csi-drivers''"

text \<open>\<open>VSpherePodsSelectors\<close>, each label set rendered as \<open>labels.Set.String\<close> does.\<close>

definition VSpherePodsSelectors :: "podSelector list" where
  "VSpherePodsSelectors = [
     \<lparr>ps_namespace = ''openshift-cloud-controller-manager'', ps_label = ''k8s-app=vsphere-cloud-controller-manager''\<rparr>,
     \<lparr>ps_namespace = ''openshift-cloud-controller-manager'',
      ps_label = ''infrastructure.openshift.io/cloud-controller-manager=CCM''\<rparr>,
     \<lparr>ps_namespace = ''openshift-cloud-controller-manager-operator'',
      ps_label = ''name=cluster-cloud-controller-manager-operator''\<rparr>,
     \<lparr>ps_namespace = ''openshift-machine-api'', ps_label = ''api=clusterapi''\<rparr>,
     \<lparr>ps_namespace = csiDriversNamespace, ps_label = ''app=vmware-vsphere-csi-driver-controller''\<rparr>,
     \<lparr>ps_namespace = csiDriversNamespace, ps_label = ''app=vsphere-csi-driver-controller''\<rparr>,
     \<lparr>ps_namespace = csiDriversNamespace, ps_label = ''app=vmware-vsphere-csi-driver-node''\<rparr>,
     \<lparr>ps_namespace = csiDriversNamespace, ps_label = ''app=vsphere-csi-driver-node''\<rparr>,
     \<lparr>ps_namespace = ''openshift-cluster-storage-operator'', ps_label = ''name=cluster-storage-operator''\<rparr>,
     \<lparr>ps_namespace = ''openshift-kube-controller-manager'', ps_label = ''app=kube-controller-manager''\<rparr>]"

text \<open>The body of the deletion loops: a failed deletion is only logged, a failed permission
  check ends the loop.\<close>

definition deletePod ::
  "('w, 'z) exec_scheme ctx \<Rightarrow> 'w kubeClient \<Rightarrow> string \<Rightarrow> nat \<Rightarrow> string \<Rightarrow> (('w, 'z) exec_scheme, error, nat) op" where
  "deletePod ctx kc ns deleted nm =
     bnd (Check ctx) (\<lambda>_.
     attempt (request (MutateCall (DeletePodCall ns nm)) (pods_delete kc ns nm))
       (\<lambda>r. case r of Inl _ \<Rightarrow> ret deleted | Inr _ \<Rightarrow> ret (Suc deleted)))"

definition DeletePodsByLabel ::
  "('w, 'z) exec_scheme ctx \<Rightarrow> 'w kubeClient \<Rightarrow> string \<Rightarrow> string \<Rightarrow> (('w, 'z) exec_scheme, error, nat) op" where
  "DeletePodsByLabel ctx kc ns sel =
     bnd (readCall (''listing pods in '' @ ns @ '' with selector '' @ sel) (pods_list kc ns sel)) (\<lambda>pods.
     foldM (deletePod ctx kc ns) 0 (map pod_name pods))"

definition RestartVSpherePods ::
  "('w, 'z) exec_scheme ctx \<Rightarrow> 'w kubeClient \<Rightarrow> (('w, 'z) exec_scheme, error, unit) op" where
  "RestartVSpherePods ctx kc =
     forM (\<lambda>sel. attempt (DeletePodsByLabel ctx kc (ps_namespace sel) (ps_label sel)) (\<lambda>r. case r of
        Inl e \<Rightarrow> if IsNotFound e then ret () else fail (Wrapf (''restarting pods in '' @ ps_namespace sel) e)
      | Inr _ \<Rightarrow> ret ())) VSpherePodsSelectors"

definition isPodReady :: "podObj \<Rightarrow> bool" where
  "isPodReady p = list_ex (\<lambda>(t, st). t = ''Ready'' \<and> st = ''True'') (pod_conditions p)"

record vspherePodsStatus =
  vp_allReady :: bool
  vp_components :: "(string \<times> int \<times> int) list"
  vp_notReadyReason :: string

definition podsCount :: "podObj list \<Rightarrow> int \<times> int" where
  "podsCount pods = (i32 (int (length (filter isPodReady pods))), i32 (int (length pods)))"

text \<open>One selector: the accumulator holds the components, the parts that are not ready, and
  whether all were ready so far.\<close>

definition checkSelector ::
  "'w kubeClient \<Rightarrow> bool \<times> (string \<times> int \<times> int) list \<times> string list \<Rightarrow> podSelector
   \<Rightarrow> (('w, 'z) exec_scheme, error, bool \<times> (string \<times> int \<times> int) list \<times> string list) op" where
  "checkSelector kc acc sel =
     (case acc of (ok, comps, parts) \<Rightarrow>
        attempt (request ReadCall (pods_list kc (ps_namespace sel) (ps_label sel))) (\<lambda>r. case r of
          Inl e \<Rightarrow> if IsNotFound e then ret acc
                   else fail (Wrapf (''listing pods in '' @ ps_namespace sel @ '' with selector '' @ ps_label sel) e)
        | Inr pods \<Rightarrow>
            (let nm = ps_namespace sel @ ''/'' @ ps_label sel; (ready, total) = podsCount pods in
             ret (ok \<and> ready = total, comps @ [(nm, ready, total)],
                  if ready \<noteq> total
                  then parts @ [nm @ '': '' @ itoa_int ready @ ''/'' @ itoa_int total @ '' ready''] else parts))))"

definition CheckVSpherePodsReady ::
  "'w kubeClient \<Rightarrow> (('w, 'z) exec_scheme, error, vspherePodsStatus) op" where
  "CheckVSpherePodsReady kc =
     bnd (foldM (checkSelector kc) (True, [], []) VSpherePodsSelectors) (\<lambda>(ok, comps, parts).
       ret \<lparr>vp_allReady = ok, vp_components = comps,
            vp_notReadyReason = (if \<not> ok then join ''; '' parts else [])\<rparr>)"

section \<open>Restarting the machine config operator\<close>

definition mcoNamespace :: string where
  "mcoNamespace = ''openshift-machine-config-operator''"

definition mcoPodPrefix :: string where
  "mcoPodPrefix = ''machine-config-operator-''"

definition syncControllerConfig ::
  "('w, 'z) exec_scheme ctx \<Rightarrow> 'w kubeClient \<Rightarrow> (('w, 'z) exec_scheme, error, unit) op" where
  "syncControllerConfig ctx kc =
     bnd (readCall (''listing pods in '' @ mcoNamespace) (pods_list kc mcoNamespace [])) (\<lambda>pods.
     bnd (foldM (deletePod ctx kc mcoNamespace) 0
           (filter (\<lambda>n. take (length mcoPodPrefix) n = mcoPodPrefix) (map pod_name pods))) (\<lambda>_.
     ret ()))"

section \<open>Guarding\<close>

lemma keeps_cloud [keeps_rules]:
  "keeps (safe m A) (GetCloudProviderConfig kc)"
  "keeps (safe m A) (CheckVSpherePodsReady kc)"
  unfolding GetCloudProviderConfig_def CheckVSpherePodsReady_def checkSelector_def Let_def
  by (intro keeps_rules not_write)+

context guarded_ctx
begin

lemma keeps_marshalAndUpdateConfig:
  assumes "\<And>new. encodeConfig codec cm cfg = Inr new \<Longrightarrow> A (UpdateConfigMapCall new)"
  shows "keeps (safe m A) (marshalAndUpdateConfig ctx codec kc cm cfg)"
  unfolding marshalAndUpdateConfig_def
  by (rule keeps_liftE_bnd, rule keeps_checked_wrap) (rule assms)

lemma keeps_AddTargetVCenterToConfig:
  assumes "\<And>cfg new. encodeConfig codec cm (addConfigTargets iter fds cfg) = Inr new \<Longrightarrow> A (UpdateConfigMapCall new)"
  shows "keeps (safe m A) (AddTargetVCenterToConfig ctx iter codec kc cm fds)"
  unfolding AddTargetVCenterToConfig_def
  by (intro keeps_liftE_bnd keeps_wrapErr keeps_marshalAndUpdateConfig) (rule assms)

lemma keeps_RemoveSourceVCenterFromConfig:
  assumes "\<And>cfg new. encodeConfig codec cm (removeConfigSource server cfg) = Inr new \<Longrightarrow> A (UpdateConfigMapCall new)"
  shows "keeps (safe m A) (RemoveSourceVCenterFromConfig ctx codec kc cm server)"
  unfolding RemoveSourceVCenterFromConfig_def
  by (intro keeps_liftE_bnd keeps_wrapErr keeps_marshalAndUpdateConfig) (rule assms)

lemma keeps_deletePod:
  assumes "\<And>n. A (DeletePodCall ns n)"
  shows "keeps (safe m A) (deletePod ctx kc ns deleted nm)"
  unfolding deletePod_def
  by (rule keeps_checked_attempt, rule assms) (intro keeps_rules)

lemma keeps_RestartVSpherePods:
  assumes "\<And>ns n. A (DeletePodCall ns n)"
  shows "keeps (safe m A) (RestartVSpherePods ctx kc)"
  unfolding RestartVSpherePods_def DeletePodsByLabel_def
  by (intro keeps_rules keeps_deletePod assms)

lemma keeps_syncControllerConfig:
  assumes "\<And>n. A (DeletePodCall mcoNamespace n)"
  shows "keeps (safe m A) (syncControllerConfig ctx kc)"
  unfolding syncControllerConfig_def
  by (intro keeps_rules keeps_deletePod assms)

end

section \<open>Theorems\<close>

lemma fold_addConfigServer:
  "cfg_vcenter (fold (addConfigServer iter fds) ss cfg) t =
     (if cfg_vcenter cfg t \<noteq> None \<or> t \<notin> set ss then cfg_vcenter cfg t
      else Some (Some (newConfigVCenter iter fds t)))"
proof (induction ss arbitrary: cfg)
  case (Cons s ss)
  then show ?case
    by (cases "cfg_vcenter cfg s"; cases "s = t") (auto simp: addConfigServer_def)
qed simp

lemma fold_addConfigServer_other:
  "cfg_secretName (fold (addConfigServer iter fds) ss cfg) = cfg_secretName cfg"
  "cfg_secretNamespace (fold (addConfigServer iter fds) ss cfg) = cfg_secretNamespace cfg"
  by (induction ss arbitrary: cfg) (auto simp: addConfigServer_def)

text \<open>The decoder reads back what the encoder writes.\<close>

definition codec_roundtrip :: "yamlCodec \<Rightarrow> bool" where
  "codec_roundtrip codec \<longleftrightarrow>
     (\<forall>cfg d. yaml_marshal codec cfg = Inr d \<longrightarrow> yaml_unmarshal codec d = Inr cfg)"

lemma parse_encode:
  assumes "codec_roundtrip codec" and "encodeConfig codec cm cfg = Inr cm'"
  shows "parseCloudProviderConfig codec (Some cm') = Inr (withSecretRef cfg)"
  using assms
  by (auto simp: encodeConfig_def parseCloudProviderConfig_def codec_roundtrip_def bindE_def wrapE_def
      split: sum.splits)

lemma withSecretRef_idem [simp]: "withSecretRef (withSecretRef cfg) = withSecretRef cfg"
  by (simp add: withSecretRef_def)

lemma vcenter_withSecretRef [simp]: "cfg_vcenter (withSecretRef cfg) = cfg_vcenter cfg"
  by (simp add: withSecretRef_def)

text \<open>
  C34: the cloud provider configuration that is written when the destinations are added, read
  again, has every vCenter it had, unchanged, and an entry with port 443 and the failure domains'
  datacenters for each destination server; the one written on cleanup lacks exactly the source
  vCenter. Both carry a reference to a credentials secret.
\<close>

theorem cloud_config_updates:
  assumes codec: "codec_roundtrip codec" and iter: "range_order iter"
    and parse: "parseCloudProviderConfig codec (Some cm) = Inr cfg"
    and add: "encodeConfig codec cm (addConfigTargets iter fds cfg) = Inr cmA"
    and rem: "encodeConfig codec cm (removeConfigSource source cfg) = Inr cmR"
  shows "\<exists>cfgA cfgR. parseCloudProviderConfig codec (Some cmA) = Inr cfgA \<and>
      parseCloudProviderConfig codec (Some cmR) = Inr cfgR \<and>
      (\<forall>t. cfg_vcenter cfg t \<noteq> None \<longrightarrow> cfg_vcenter cfgA t = cfg_vcenter cfg t) \<and>
      (\<forall>t. cfg_vcenter cfg t = None \<and> t \<in> fd_server ` set fds \<longrightarrow>
         (\<exists>v. cfg_vcenter cfgA t = Some (Some v) \<and> vy_server v = t \<and> vy_port v = 443 \<and>
              set (vy_datacenters v) = {datacenter (fd_topology fd) | fd. fd \<in> set fds \<and> fd_server fd = t})) \<and>
      cfg_vcenter cfgR = (cfg_vcenter cfg)(source := None) \<and>
      (cfg_secretName cfgA \<noteq> [] \<or> cfg_secretNamespace cfgA \<noteq> [])"
proof -
  have dcs: "set (vy_datacenters (newConfigVCenter iter fds t)) =
      {datacenter (fd_topology fd) | fd. fd \<in> set fds \<and> fd_server fd = t}" for t
    by (auto simp: newConfigVCenter_def fdDatacenters_def set_iter [OF iter])
  have vc: "cfg_vcenter (addConfigTargets iter fds cfg) t =
      (if cfg_vcenter cfg t \<noteq> None \<or> t \<notin> fd_server ` set fds then cfg_vcenter cfg t
       else Some (Some (newConfigVCenter iter fds t)))" for t
    by (simp add: addConfigTargets_def fold_addConfigServer set_iter [OF iter])
  show ?thesis
    using parse_encode [OF codec add] parse_encode [OF codec rem] dcs
    by (auto simp: vc removeConfigSource_def withSecretRef_def newConfigVCenter_def)
qed

definition sampleConfig :: cloudConfig where
  "sampleConfig = \<lparr>cfg_secretName = ''vsphere-creds'', cfg_secretNamespace = ''kube-system'', cfg_globalOther = [],
     cfg_vcenter = [''vc1'' \<mapsto> None], cfg_labels = []\<rparr>"

definition sampleConfig2 :: cloudConfig where
  "sampleConfig2 = addConfigTargets rev [sampleTarget] sampleConfig"

definition sampleConfig3 :: cloudConfig where
  "sampleConfig3 = removeConfigSource ''vc1'' sampleConfig"

text \<open>A codec for three configurations, written \<open>1\<close>, \<open>2\<close> and \<open>3\<close>.\<close>

definition sampleCodec :: yamlCodec where
  "sampleCodec = \<lparr>
     yaml_unmarshal = (\<lambda>t. if t = ''1'' then Inr sampleConfig else if t = ''2'' then Inr sampleConfig2
        else if t = ''3'' then Inr sampleConfig3 else Inl (Errorf ''bad'')),
     yaml_marshal = (\<lambda>c. if c = sampleConfig then Inr ''1'' else if c = sampleConfig2 then Inr ''2''
        else if c = sampleConfig3 then Inr ''3'' else Inl (Errorf ''unsupported''))\<rparr>"

definition sampleConfigMap :: "string \<Rightarrow> configMapObj" where
  "sampleConfigMap t = \<lparr>cm_namespace = ''openshift-config'', cm_name = ''cloud-provider-config'',
     cm_data = [''config'' \<mapsto> t]\<rparr>"

theorem cloud_config_updates_witness:
  "\<exists>v cfgA. parseCloudProviderConfig sampleCodec (Some (sampleConfigMap ''2'')) = Inr cfgA \<and>
     cfg_vcenter cfgA ''vc1'' = Some None \<and> cfg_vcenter cfgA ''vc2'' = Some (Some v) \<and> vy_port v = 443"
proof -
  have ne: "sampleConfig2 \<noteq> sampleConfig" "sampleConfig3 \<noteq> sampleConfig" "sampleConfig3 \<noteq> sampleConfig2"
  proof -
    have "cfg_vcenter sampleConfig2 ''vc2'' \<noteq> None" "cfg_vcenter sampleConfig ''vc2'' = None"
      "cfg_vcenter sampleConfig3 ''vc1'' = None" "cfg_vcenter sampleConfig ''vc1'' \<noteq> None"
      "cfg_vcenter sampleConfig3 ''vc2'' = None"
      by (simp_all add: sampleConfig2_def sampleConfig3_def addConfigTargets_def fold_addConfigServer
          removeConfigSource_def sampleConfig_def sampleTarget_def)
    then show "sampleConfig2 \<noteq> sampleConfig" "sampleConfig3 \<noteq> sampleConfig" "sampleConfig3 \<noteq> sampleConfig2"
      by metis+
  qed
  have rt: "codec_roundtrip sampleCodec" and ro: "range_order rev"
    by (auto simp: codec_roundtrip_def sampleCodec_def range_order_def split: if_splits)
  have parse: "parseCloudProviderConfig sampleCodec (Some (sampleConfigMap ''1'')) = Inr sampleConfig"
    by (simp add: parseCloudProviderConfig_def sampleConfigMap_def cloudProviderConfigKey_def sampleCodec_def
        wrapE_def bindE_def withSecretRef_def sampleConfig_def)
  have enc: "encodeConfig sampleCodec (sampleConfigMap ''1'') (addConfigTargets rev [sampleTarget] sampleConfig) =
      Inr (sampleConfigMap ''2'')"
    "encodeConfig sampleCodec (sampleConfigMap ''1'') (removeConfigSource ''vc1'' sampleConfig) = Inr (sampleConfigMap ''3'')"
    unfolding sampleConfig2_def [symmetric] sampleConfig3_def [symmetric]
    using ne by (simp_all add: encodeConfig_def sampleCodec_def wrapE_def bindE_def sampleConfigMap_def cloudProviderConfigKey_def)
  show ?thesis
    using cloud_config_updates [OF rt ro parse enc]
    by (auto simp: sampleConfig_def sampleTarget_def)
qed

end
