(* ===== verification/Health.thy ===== *)
theory Health
  imports Clients
begin

text \<open>
  Cluster health: the cluster operators (\<open>internal/openshift/operators.go\<close>), the machine
  config pools (\<open>machineconfigpools.go\<close>) and the cluster version with its feature gate
  (\<open>version.go\<close>).
\<close>

section \<open>Cluster operators\<close>

definition ExcludedOperators :: "string set" where
  "ExcludedOperators = {''machine-config''}"

definition OperatorAvailable :: string where
  "OperatorAvailable = ''Available''"

definition OperatorProgressing :: string where
  "OperatorProgressing = ''Progressing''"

definition OperatorDegraded :: string where
  "OperatorDegraded = ''Degraded''"

text \<open>The last condition of each type decides, as in the \<open>switch\<close> in the loop.\<close>

fun conditionStep :: "bool \<times> bool \<times> bool \<Rightarrow> string \<times> string \<times> string \<Rightarrow> bool \<times> bool \<times> bool" where
  "conditionStep (av, pr, dg) (t, st, msg) =
     (if t = OperatorAvailable then (st = ''True'', pr, dg)
      else if t = OperatorProgressing then (av, st = ''True'', dg)
      else if t = OperatorDegraded then (av, pr, st = ''True'')
      else (av, pr, dg))"

definition operatorConditionState :: "clusterOperator \<Rightarrow> bool \<times> bool \<times> bool" where
  "operatorConditionState co = foldl conditionStep (False, False, False) (co_conditions co)"

definition isOperatorHealthy :: "clusterOperator \<Rightarrow> bool" where
  "isOperatorHealthy co = (case operatorConditionState co of (av, _, dg) \<Rightarrow> av \<and> \<not> dg)"

text \<open>The first condition of the type.\<close>

fun firstStatus :: "(string \<times> string \<times> string) list \<Rightarrow> string \<Rightarrow> string option" where
  "firstStatus [] t = None"
| "firstStatus ((u, st, msg) # cs) t = (if u = t then Some st else firstStatus cs t)"

definition getOperatorConditionStatus :: "clusterOperator \<Rightarrow> string \<Rightarrow> string option" where
  "getOperatorConditionStatus co t = firstStatus (co_conditions co) t"

definition CheckAllOperatorsHealthy ::
  "'w configClient \<Rightarrow> (('w, 'z) exec_scheme, error, bool \<times> string list) op" where
  "CheckAllOperatorsHealthy cc =
     bnd (readCall ''listing cluster operators'' (clusterOperators_list cc)) (\<lambda>ops.
       let unhealthy = map co_name (filter (\<lambda>co. co_name co \<notin> ExcludedOperators \<and> \<not> isOperatorHealthy co) ops)
       in if unhealthy \<noteq> [] then ret (False, unhealthy) else ret (True, []))"

record operatorStabilitySummary =
  unavailableOperators :: "string list"
  progressingOperators :: "string list"
  degradedOperators :: "string list"

text \<open>One turn of the loop over the operators.\<close>

definition addOperator :: "operatorStabilitySummary \<Rightarrow> clusterOperator \<Rightarrow> operatorStabilitySummary" where
  "addOperator s co =
     (if co_name co \<in> ExcludedOperators then s
      else
        let s1 = (if getOperatorConditionStatus co OperatorAvailable \<noteq> Some ''True''
                  then s\<lparr>unavailableOperators := unavailableOperators s @ [co_name co]\<rparr> else s);
            s2 = (if getOperatorConditionStatus co OperatorProgressing \<noteq> Some ''False''
                  then s1\<lparr>progressingOperators := progressingOperators s1 @ [co_name co]\<rparr> else s1)
        in (if getOperatorConditionStatus co OperatorDegraded \<noteq> Some ''False''
            then s2\<lparr>degradedOperators := degradedOperators s2 @ [co_name co]\<rparr> else s2))"

definition operatorsStable :: "clusterOperator list \<Rightarrow> bool \<times> operatorStabilitySummary" where
  "operatorsStable ops =
     (let s = foldl addOperator \<lparr>unavailableOperators = [], progressingOperators = [], degradedOperators = []\<rparr> ops
      in (unavailableOperators s = [] \<and> progressingOperators s = [] \<and> degradedOperators s = [], s))"

definition CheckAllOperatorsStable ::
  "'w configClient \<Rightarrow> (('w, 'z) exec_scheme, error, bool \<times> operatorStabilitySummary) op" where
  "CheckAllOperatorsStable cc =
     bnd (readCall ''listing cluster operators'' (clusterOperators_list cc)) (\<lambda>ops. ret (operatorsStable ops))"

definition GetOperator :: "'w configClient \<Rightarrow> string \<Rightarrow> (('w, 'z) exec_scheme, error, clusterOperator) op" where
  "GetOperator cc nm = readCall (''getting cluster operator '' @ quote nm) (clusterOperators_get cc nm)"

definition unhealthyParts :: "clusterOperator \<Rightarrow> string list" where
  "unhealthyParts co = concat (map (\<lambda>(t, st, msg).
     (if t = OperatorAvailable \<and> st \<noteq> ''True'' then [''Available='' @ st @ '' ('' @ msg @ '')''] else []) @
     (if t = OperatorDegraded \<and> st = ''True'' then [''Degraded=True ('' @ msg @ '')''] else [])) (co_conditions co))"

definition IsOperatorHealthy ::
  "'w configClient \<Rightarrow> string \<Rightarrow> (('w, 'z) exec_scheme, error, bool \<times> string) op" where
  "IsOperatorHealthy cc nm =
     bnd (GetOperator cc nm) (\<lambda>co.
       if isOperatorHealthy co then ret (True, ''operator '' @ quote nm @ '' is healthy'')
       else ret (False, ''operator '' @ quote nm @ '' is unhealthy: '' @ join ''; '' (unhealthyParts co)))"

section \<open>Machine config pools\<close>

record poolConvergenceSummary =
  notUpdatedPools :: "string list"
  degradedPools :: "string list"

definition poolConditionStatus :: "machineConfigPool \<Rightarrow> string \<Rightarrow> string option" where
  "poolConditionStatus pool t = map_of (mcp_conditions pool) t"

definition isPoolConditionTrue :: "machineConfigPool \<Rightarrow> string \<Rightarrow> bool" where
  "isPoolConditionTrue pool t \<longleftrightarrow> poolConditionStatus pool t = Some ''True''"

definition addPool :: "poolConvergenceSummary \<Rightarrow> machineConfigPool \<Rightarrow> poolConvergenceSummary" where
  "addPool s pool =
     (if isPoolConditionTrue pool ''Degraded'' \<or> isPoolConditionTrue pool ''NodeDegraded''
      then s\<lparr>degradedPools := degradedPools s @ [mcp_name pool]\<rparr>
      else if poolConditionStatus pool ''Updated'' \<noteq> Some ''True'' \<or>
              mcp_updatedMachineCount pool \<noteq> mcp_machineCount pool \<or>
              mcp_observedGeneration pool < mcp_generation pool \<or>
              mcp_statusConfiguration pool \<noteq> mcp_specConfiguration pool
      then s\<lparr>notUpdatedPools := notUpdatedPools s @ [mcp_name pool]\<rparr>
      else s)"

definition poolsConverged :: "machineConfigPool list \<Rightarrow> bool \<times> poolConvergenceSummary" where
  "poolsConverged pools =
     (let s = foldl addPool \<lparr>notUpdatedPools = [], degradedPools = []\<rparr> pools
      in (notUpdatedPools s = [] \<and> degradedPools s = [], s))"

definition CheckPoolsConverged ::
  "'w machineConfigClient \<Rightarrow> (('w, 'z) exec_scheme, error, bool \<times> poolConvergenceSummary) op" where
  "CheckPoolsConverged mc =
     bnd (readCall ''listing machine config pools'' (machineConfigPools_list mc)) (\<lambda>pools. ret (poolsConverged pools))"

section \<open>Cluster version and feature gate\<close>

definition featureGateVSphereMultiVCenterDay2 :: string where
  "featureGateVSphereMultiVCenterDay2 = ''VSphereMultiVCenterDay2''"

record multiVCenterSupport =
  mv_clusterVersion :: string
  mv_featureGateEnabled :: bool
  mv_upgradeInProgress :: bool

text \<open>\<open>strings.TrimSpace\<close> on ASCII white space.\<close>

definition is_space :: "char \<Rightarrow> bool" where
  "is_space c \<longleftrightarrow> (let n = of_char c :: nat in n = 32 \<or> 9 \<le> n \<and> n \<le> 13)"

definition trimSpace :: "string \<Rightarrow> string" where
  "trimSpace s = rev (dropWhile is_space (rev (dropWhile is_space s)))"

fun isFeatureGateEnabledForVersion :: "featureGateVersion list \<Rightarrow> string \<Rightarrow> string \<Rightarrow> error + bool" where
  "isFeatureGateEnabledForVersion [] v g =
     Inl (Errorf (''no feature gate status found for version '' @ quote v))"
| "isFeatureGateEnabledForVersion (fg # fgs) v g =
     (if fg_version fg \<noteq> v then isFeatureGateEnabledForVersion fgs v g
      else Inr (g \<in> set (fg_enabled fg)))"

definition isClusterVersionProgressing :: "clusterVersion \<Rightarrow> bool" where
  "isClusterVersionProgressing cv \<longleftrightarrow> map_of (cv_conditions cv) OperatorProgressing = Some ''True''"

definition GetVSphereMultiVCenterSupport ::
  "'w configClient \<Rightarrow> (('w, 'z) exec_scheme, error, multiVCenterSupport) op" where
  "GetVSphereMultiVCenterSupport cc =
     bnd (readCall (''getting clusterversion '' @ quote ''version'') (clusterVersions_get cc ''version'')) (\<lambda>cv.
     let v = trimSpace (desiredVersion cv) in
     if v = [] then fail (Errorf (''clusterversion '' @ quote ''version'' @ '' has empty status.desired.version''))
     else
       bnd (readCall (''getting featuregate '' @ quote ''cluster'') (featureGates_get cc ''cluster'')) (\<lambda>fgs.
       bnd (liftE (wrapE (''checking feature gate '' @ quote featureGateVSphereMultiVCenterDay2 @
                           '' for version '' @ quote v)
               (isFeatureGateEnabledForVersion fgs v featureGateVSphereMultiVCenterDay2))) (\<lambda>en.
       ret \<lparr>mv_clusterVersion = v, mv_featureGateEnabled = en,
            mv_upgradeInProgress = isClusterVersionProgressing cv\<rparr>)))"

section \<open>Theorems\<close>

lemma keeps_health [keeps_rules]:
  "keeps (safe m A) (CheckAllOperatorsHealthy cc)"
  "keeps (safe m A) (CheckAllOperatorsStable cc)"
  "keeps (safe m A) (GetOperator cc nm)"
  "keeps (safe m A) (IsOperatorHealthy cc nm)"
  "keeps (safe m A) (CheckPoolsConverged mc)"
  "keeps (safe m A) (GetVSphereMultiVCenterSupport cc)"
  unfolding CheckAllOperatorsHealthy_def CheckAllOperatorsStable_def GetOperator_def IsOperatorHealthy_def
    CheckPoolsConverged_def GetVSphereMultiVCenterSupport_def Let_def
  by (intro keeps_rules)+

definition operatorStable :: "clusterOperator \<Rightarrow> bool" where
  "operatorStable co \<longleftrightarrow> co_name co \<in> ExcludedOperators \<or>
     getOperatorConditionStatus co OperatorAvailable = Some ''True'' \<and>
     getOperatorConditionStatus co OperatorProgressing = Some ''False'' \<and>
     getOperatorConditionStatus co OperatorDegraded = Some ''False''"

definition poolConverged :: "machineConfigPool \<Rightarrow> bool" where
  "poolConverged pool \<longleftrightarrow>
     \<not> isPoolConditionTrue pool ''Degraded'' \<and> \<not> isPoolConditionTrue pool ''NodeDegraded'' \<and>
     isPoolConditionTrue pool ''Updated'' \<and> mcp_updatedMachineCount pool = mcp_machineCount pool \<and>
     mcp_generation pool \<le> mcp_observedGeneration pool \<and>
     mcp_statusConfiguration pool = mcp_specConfiguration pool"

definition noBlockers :: "operatorStabilitySummary \<Rightarrow> bool" where
  "noBlockers s \<longleftrightarrow> unavailableOperators s = [] \<and> progressingOperators s = [] \<and> degradedOperators s = []"

lemma noBlockers_add: "noBlockers (addOperator s co) \<longleftrightarrow> noBlockers s \<and> operatorStable co"
  by (auto simp: noBlockers_def addOperator_def operatorStable_def Let_def)

lemma noBlockers_fold: "noBlockers (foldl addOperator s ops) \<longleftrightarrow> noBlockers s \<and> (\<forall>co\<in>set ops. operatorStable co)"
  by (induction ops arbitrary: s) (auto simp: noBlockers_add)

lemma operatorsStable_iff: "fst (operatorsStable ops) \<longleftrightarrow> (\<forall>co\<in>set ops. operatorStable co)"
  using noBlockers_fold [of "\<lparr>unavailableOperators = [], progressingOperators = [], degradedOperators = []\<rparr>" ops]
  by (simp add: operatorsStable_def Let_def noBlockers_def)

definition noPools :: "poolConvergenceSummary \<Rightarrow> bool" where
  "noPools s \<longleftrightarrow> notUpdatedPools s = [] \<and> degradedPools s = []"

lemma noPools_add: "noPools (addPool s p) \<longleftrightarrow> noPools s \<and> poolConverged p"
  by (auto simp: noPools_def addPool_def poolConverged_def isPoolConditionTrue_def)

lemma noPools_fold: "noPools (foldl addPool s ps) \<longleftrightarrow> noPools s \<and> (\<forall>p\<in>set ps. poolConverged p)"
  by (induction ps arbitrary: s) (auto simp: noPools_add)

lemma poolsConverged_iff: "fst (poolsConverged ps) \<longleftrightarrow> (\<forall>p\<in>set ps. poolConverged p)"
  using noPools_fold [of "\<lparr>notUpdatedPools = [], degradedPools = []\<rparr>" ps]
  by (simp add: poolsConverged_def Let_def noPools_def)

text \<open>With one condition of each type, the last-wins scan of \<open>operatorConditionState\<close> reads what
  the first-match lookup reads.\<close>

lemma firstStatus_None: "t \<notin> fst ` set cs \<Longrightarrow> firstStatus cs t = None"
  by (induction cs) auto

lemma operator_types_distinct [simp]:
  "OperatorAvailable \<noteq> OperatorProgressing" "OperatorAvailable \<noteq> OperatorDegraded"
  "OperatorProgressing \<noteq> OperatorAvailable" "OperatorProgressing \<noteq> OperatorDegraded"
  "OperatorDegraded \<noteq> OperatorAvailable" "OperatorDegraded \<noteq> OperatorProgressing"
  by (simp_all add: OperatorAvailable_def OperatorProgressing_def OperatorDegraded_def)

lemma conditionState_fold:
  assumes "distinct (map fst cs)"
  shows "foldl conditionStep (a, p, d) cs =
     ((case firstStatus cs OperatorAvailable of None \<Rightarrow> a | Some st \<Rightarrow> st = ''True''),
      (case firstStatus cs OperatorProgressing of None \<Rightarrow> p | Some st \<Rightarrow> st = ''True''),
      (case firstStatus cs OperatorDegraded of None \<Rightarrow> d | Some st \<Rightarrow> st = ''True''))"
  using assms
proof (induction cs arbitrary: a p d)
  case (Cons c cs)
  obtain t st msg where c: "c = (t, st, msg)" by (cases c)
  with Cons.prems have "firstStatus cs t = None" and "distinct (map fst cs)"
    by (auto intro: firstStatus_None)
  then show ?case using Cons.IH c by auto
qed simp

lemma stable_healthy:
  assumes "operatorStable co" and "co_name co \<notin> ExcludedOperators" and "distinct (map fst (co_conditions co))"
  shows "isOperatorHealthy co"
  using assms(1,2) conditionState_fold [OF assms(3), of False False False]
  by (simp add: operatorStable_def isOperatorHealthy_def operatorConditionState_def getOperatorConditionStatus_def)

text \<open>
  An operator list passes the stability check exactly when every operator outside the
  excluded set reports Available=True, Progressing=False and Degraded=False, and the pools have
  converged exactly when each one is updated on all machines, observed, on its desired
  configuration and not degraded; an operator list that is stable is also healthy, provided no
  operator lists a condition type twice.
\<close>

theorem health_checks_characterised:
  "(fst (operatorsStable ops) \<longleftrightarrow> (\<forall>co\<in>set ops. operatorStable co)) \<and>
   (fst (poolsConverged ps) \<longleftrightarrow> (\<forall>p\<in>set ps. poolConverged p)) \<and>
   (fst (operatorsStable ops) \<and> (\<forall>co\<in>set ops. distinct (map fst (co_conditions co))) \<longrightarrow>
      (\<forall>co\<in>set ops. co_name co \<notin> ExcludedOperators \<longrightarrow> isOperatorHealthy co))"
  unfolding operatorsStable_iff poolsConverged_iff by (blast intro: stable_healthy)

definition sampleOperator :: clusterOperator where
  "sampleOperator = \<lparr>co_name = ''etcd'', co_conditions =
     [(''Available'', ''True'', []), (''Progressing'', ''False'', []), (''Degraded'', ''False'', [])]\<rparr>"

theorem health_checks_characterised_witness:
  "fst (operatorsStable [sampleOperator]) \<and> isOperatorHealthy sampleOperator \<and>
   \<not> fst (operatorsStable [sampleOperator\<lparr>co_conditions := []\<rparr>])"
  using health_checks_characterised [of "[sampleOperator]" "[]"]
    health_checks_characterised [of "[sampleOperator\<lparr>co_conditions := []\<rparr>]" "[]"]
  by (simp add: sampleOperator_def operatorStable_def getOperatorConditionStatus_def ExcludedOperators_def
      OperatorAvailable_def OperatorProgressing_def OperatorDegraded_def)

end
