(* ===== verification/Reconciler.thy ===== *)
theory Reconciler
  imports Retention Mapping Credentials CloudConfig Health
begin

text \<open>
  The state of one reconcile and what every handler uses: the clients of
  \<open>VmwareCloudFoundationMigrationReconciler\<close> as an environment, its in-memory fields and the
  migration object it works on as a state that extends the trace of calls, and the helpers that
  set conditions and record events
  (\<open>internal/controller/vmwarecloudfoundationmigration_controller.go\<close>).
\<close>

section \<open>Environment and state\<close>

text \<open>The cache of vSphere sessions is a variable of package \<open>vsphere\<close>; it is
  \<open>sessionCache\<close> here. \<open>r_iter\<close> is the order of Go's map iteration, \<open>r_yaml\<close> the YAML codec and
  \<open>r_hash\<close> the digest of a spec.\<close>

record 'w reconciler =
  r_client :: "'w migrationClient"
  r_kube :: "'w kubeClient"
  r_config :: "'w configClient"
  r_machine :: "'w machineClient"
  r_machineConfig :: "'w machineConfigClient"
  r_dynamic :: "'w dynamicClient"
  r_vsphere :: "'w vsphereClient"
  r_iter :: "string list \<Rightarrow> string list"
  r_yaml :: yamlCodec
  r_hash :: specHash

record 'w rstate = "'w exec" +
  mig :: migration
  lastStallEventKey :: string
  lastStallEventTime :: time
  readyStabilityCount :: int
  lastReadyStabilityCheck :: time
  lastCountedStabilityCheck :: time
  sessionCache :: "(string \<times> vSession) list"

type_synonym ('w, 'a) handler = "('w rstate, error, 'a) op"

text \<open>\<open>ctrl.Result\<close>: the requeue delay in seconds, \<open>0\<close> for none.\<close>

type_synonym result = int

definition second :: int where
  "second = 1000000000"

definition machineMgr :: "('w, 'b) reconciler_scheme \<Rightarrow> 'w machineManager" where
  "machineMgr r = NewMachineManager (r_kube r) (r_machine r)"

section \<open>Conditions and events\<close>

definition condition_name :: "condition_type \<Rightarrow> string" where
  "condition_name t = (case t of
      ConditionInfrastructurePrepared \<Rightarrow> ''InfrastructurePrepared''
    | ConditionDestinationInitialized \<Rightarrow> ''DestinationInitialized''
    | ConditionMultiSiteConfigured \<Rightarrow> ''MultiSiteConfigured''
    | ConditionWorkloadMigrated \<Rightarrow> ''WorkloadMigrated''
    | ConditionSourceCleaned \<Rightarrow> ''SourceCleaned''
    | ConditionReady \<Rightarrow> ''Ready''
    | ConditionAccepted \<Rightarrow> ''Accepted''
    | ConditionOther s \<Rightarrow> s)"

definition reason_name :: "reason \<Rightarrow> string" where
  "reason_name t = (case t of
      ReasonProgressing \<Rightarrow> ''Progressing''
    | ReasonCompleted \<Rightarrow> ''Completed''
    | ReasonFailed \<Rightarrow> ''Failed''
    | ReasonMappingRejected \<Rightarrow> ''MappingRejected''
    | ReasonPaused \<Rightarrow> ''Paused''
    | ReasonRetrying \<Rightarrow> ''Retrying''
    | ReasonUnsupportedName \<Rightarrow> ''UnsupportedName''
    | ReasonUnsupportedNamespace \<Rightarrow> ''UnsupportedNamespace''
    | ReasonDeletionBlocked \<Rightarrow> ''DeletionBlocked''
    | ReasonWaitingForVSpherePods \<Rightarrow> ''WaitingForVSpherePods''
    | ReasonOther s \<Rightarrow> s)"

definition newCondition :: "int \<Rightarrow> condition_type \<Rightarrow> condition_status \<Rightarrow> reason \<Rightarrow> string \<Rightarrow> condition" where
  "newCondition gen t st why msg = \<lparr>cond_type = t, cond_status = st, observedGeneration = gen,
     lastTransitionTime = 0, cond_reason = why, cond_message = msg\<rparr>"

definition withCondition :: "time \<Rightarrow> condition_type \<Rightarrow> condition_status \<Rightarrow> reason \<Rightarrow> string \<Rightarrow> migration \<Rightarrow> migration" where
  "withCondition now t st why msg m =
     m\<lparr>status := (status m)\<lparr>conditions :=
        SetStatusCondition now (conditions (status m)) (newCondition (generation m) t st why msg)\<rparr>\<rparr>"

definition setCondition ::
  "('w, 'b) reconciler_scheme \<Rightarrow> condition_type \<Rightarrow> condition_status \<Rightarrow> reason \<Rightarrow> string \<Rightarrow> ('w, unit) handler" where
  "setCondition r t st why msg =
     bnd (timeNow (r_client r)) (\<lambda>now. modify (\<lambda>s. s\<lparr>mig := withCondition now t st why msg (mig s)\<rparr>))"

abbreviation setProgressing ::
  "('w, 'b) reconciler_scheme \<Rightarrow> condition_type \<Rightarrow> string \<Rightarrow> ('w, unit) handler" where
  "setProgressing r t msg \<equiv> setCondition r t ConditionFalse ReasonProgressing msg"

definition isConditionTrue :: "migration \<Rightarrow> condition_type \<Rightarrow> bool" where
  "isConditionTrue m t = conditionTrue (conditions (status m)) t"

definition seedReadyCondition :: "('w, 'b) reconciler_scheme \<Rightarrow> ('w, unit) handler" where
  "seedReadyCondition r =
     bnd (gets mig) (\<lambda>m.
       if FindStatusCondition (conditions (status m)) ConditionReady = None
       then setProgressing r ConditionReady ''Waiting for migration workflow to complete''
       else ret ())"

definition modifyStatus :: "(migrationStatus \<Rightarrow> migrationStatus) \<Rightarrow> ('w, unit) handler" where
  "modifyStatus f = modify (\<lambda>s. s\<lparr>mig := (mig s)\<lparr>status := f (status (mig s))\<rparr>\<rparr>)"

section \<open>Rules\<close>

lemma safe_mig [simp]: "safe m A (s\<lparr>mig := x\<rparr>) = safe m A s"
  by (simp add: safe_def)

lemma only_mig [simp]: "only P (s\<lparr>mig := x\<rparr>) = only P s"
  by (simp add: only_def)

lemma keeps_modify_mig [keeps_rules]: "keeps (safe m A) (modify (\<lambda>s. s\<lparr>mig := f s\<rparr>))"
  by (simp add: keeps_def)

lemma keeps_setCondition [keeps_rules]: "keeps (safe m A) (setCondition r t st why msg)"
  unfolding setCondition_def by (intro keeps_rules)

lemma keeps_seedReadyCondition [keeps_rules]: "keeps (safe m A) (seedReadyCondition r)"
  unfolding seedReadyCondition_def by (intro keeps_rules)

lemma keeps_modifyStatus [keeps_rules]: "keeps (safe m A) (modifyStatus f)"
  unfolding modifyStatus_def by (intro keeps_rules)

lemma since_modify [keeps_rules]: "keeps (since tr) (modify (\<lambda>s. s\<lparr>mig := f s\<rparr>))"
  by (simp add: keeps_def since_def)

lemma since_setCondition [keeps_rules]: "keeps (since tr) (setCondition r t st why msg)"
  unfolding setCondition_def by (intro keeps_rules)

lemma only_modify_mig [keeps_rules]: "keeps (only P) (modify (\<lambda>s. s\<lparr>mig := f s\<rparr>))"
  by (simp add: keeps_def)

lemma only_setCondition [keeps_rules]: "keeps (only P) (setCondition r t st why msg)"
  unfolding setCondition_def by (intro keeps_rules)

lemma readMigration_mig: "readMigration c s = (x, t) \<Longrightarrow> mig t = mig s"
  by (auto simp: readMigration_def split: prod.splits)

lemma isConditionTrue_with:
  "isConditionTrue (withCondition now t st why msg m) u =
     (if u = t then st = ConditionTrue else isConditionTrue m u)"
  by (simp add: isConditionTrue_def withCondition_def conditionTrue_Set newCondition_def)

lemma withCondition_meta [simp]:
  "generation (withCondition now t st why msg m) = generation m"
  "uid (withCondition now t st why msg m) = uid m"
  "spec (withCondition now t st why msg m) = spec m"
  "name (withCondition now t st why msg m) = name m"
  "namespace (withCondition now t st why msg m) = namespace m"
  "status_mappings (status (withCondition now t st why msg m)) = status_mappings (status m)"
  "workerMachineSetNames (status (withCondition now t st why msg m)) = workerMachineSetNames (status m)"
  "sourceVCenter (status (withCondition now t st why msg m)) = sourceVCenter (status m)"
  by (simp_all add: withCondition_def)

lemma setCondition_Inr: "\<exists>s'. setCondition r t st why msg s = (Inr (), s')"
  by (cases "clock (r_client r) (world s)") (simp add: setCondition_def bnd_app timeNow_def)

lemma setCondition_state:
  "setCondition r t st why msg s = (x, s') \<Longrightarrow> trace s' = trace s \<and> uid (mig s') = uid (mig s)"
  by (auto simp: setCondition_def bnd_app timeNow_def split: prod.splits)

text \<open>\<open>unaltered b\<close>: the migration is \<open>b\<close> up to its conditions.\<close>

definition bare :: "migration \<Rightarrow> migration" where
  "bare m = m\<lparr>status := (status m)\<lparr>conditions := []\<rparr>\<rparr>"

definition unaltered :: "migration \<Rightarrow> 'w rstate \<Rightarrow> bool" where
  "unaltered b s \<longleftrightarrow> bare (mig s) = b"

lemma unaltered_prims [keeps_rules]:
  "keeps (unaltered b) (request a c)"
  "keeps (unaltered b) (readMigration d)"
  "keeps (unaltered b) (timeNow cl)"
  "keeps (unaltered b) (Eventf t why note)"
  "keeps (unaltered b) (readCall u e)"
  "keeps (unaltered b) (setCondition r ct st rs msg)"
  by (auto simp: keeps_def unaltered_def request_app readMigration_def timeNow_def readCall_def setCondition_def
      bnd_app bare_def withCondition_def split: prod.splits sum.splits)

lemma unaltered_Check [keeps_rules]: "keeps (unaltered b) (Check (executionContext ctx cl m))"
  by (auto simp: keeps_def unaltered_def Check_def executionContext_def WithCheck_def checkPermission_def
      split: prod.splits sum.splits)

lemma bare_simps [simp]:
  "spec (bare m) = spec m" "uid (bare m) = uid m" "namespace (bare m) = namespace m" "name (bare m) = name m"
  "generation (bare m) = generation m" "status_mappings (status (bare m)) = status_mappings (status m)"
  "workerMachineSetNames (status (bare m)) = workerMachineSetNames (status m)"
  "sourceVCenter (status (bare m)) = sourceVCenter (status m)"
  by (simp_all add: bare_def)

lemma unalteredD:
  "unaltered b s \<Longrightarrow> spec (mig s) = spec b \<and> uid (mig s) = uid b \<and> namespace (mig s) = namespace b \<and>
     generation (mig s) = generation b \<and> status_mappings (status (mig s)) = status_mappings (status b) \<and>
     workerMachineSetNames (status (mig s)) = workerMachineSetNames (status b)"
  by (auto simp: unaltered_def)

lemma unaltered_refl: "unaltered (bare (mig s)) s"
  by (simp add: unaltered_def)

text \<open>What a property of the reconcile's state must satisfy so that the operations below the
  handlers keep it: it does not mind calls other than status writes, the in-memory fields, and
  conditions that are set, where only those in \<open>T\<close> may become True. The operations are shown to
  keep it once, for every such property.\<close>

fun is_publication :: "action \<Rightarrow> bool" where
  "is_publication (StatusUpdateCall k) = True"
| "is_publication _ = False"

locale frame =
  fixes P :: "'w rstate \<Rightarrow> bool"
    and T :: "condition_type set"
  assumes call: "P s \<Longrightarrow> \<not> is_publication a \<Longrightarrow> P (s\<lparr>world := w, trace := a # trace s\<rparr>)"
    and tick: "P s \<Longrightarrow> P (s\<lparr>world := w\<rparr>)"
    and event: "P s \<Longrightarrow> P (s\<lparr>trace := EventCall t why note # trace s\<rparr>)"
    and cache: "P s \<Longrightarrow> P (s\<lparr>sessionCache := c\<rparr>)"
    and stall: "P s \<Longrightarrow> P (s\<lparr>lastStallEventKey := key, lastStallEventTime := time\<rparr>)"
    and stability: "P s \<Longrightarrow> P (s\<lparr>readyStabilityCount := n, lastReadyStabilityCheck := t1, lastCountedStabilityCheck := t2\<rparr>)"
    and condition: "P s \<Longrightarrow> (st = ConditionTrue \<Longrightarrow> ct \<in> T) \<Longrightarrow> P (s\<lparr>mig := withCondition now ct st rs msg (mig s)\<rparr>)"
begin

lemma frame_request [keeps_rules]: "\<not> is_publication a \<Longrightarrow> keeps P (request a c)"
  by (auto simp: keeps_def request_app call split: prod.splits)

lemma frame_read [keeps_rules]: "keeps P (request ReadCall c)" "keeps P (request (MutateCall x) c)"
  by (intro frame_request; simp)+

lemma frame_readMigration [keeps_rules]: "keeps P (readMigration c)"
  by (auto simp: keeps_def readMigration_def call split: prod.splits)

lemma frame_timeNow [keeps_rules]: "keeps P (timeNow cl)"
  by (auto simp: keeps_def timeNow_def tick split: prod.splits)

lemma frame_Eventf [keeps_rules]: "keeps P (Eventf t why note)"
  by (simp add: keeps_def event)

lemma frame_readCall [keeps_rules]: "keeps P (readCall u c)"
  unfolding readCall_def by (intro keeps_rules)

lemma frame_Check [keeps_rules]: "keeps P (Check (executionContext ctx cl m))"
  by (auto simp: keeps_def Check_def executionContext_def WithCheck_def checkPermission_def call
      split: prod.splits sum.splits)

lemma frame_setCondition: "(st = ConditionTrue \<Longrightarrow> t \<in> T) \<Longrightarrow> keeps P (setCondition r t st why msg)"
  unfolding setCondition_def by (intro keeps_rules keeps_modify condition)

lemma frame_setFalse [keeps_rules]: "keeps P (setCondition r t ConditionFalse why msg)"
  by (rule frame_setCondition) simp

end

interpretation un: frame "unaltered b" UNIV for b
  by unfold_locales (simp_all add: unaltered_def bare_def withCondition_def)

text \<open>A guarding context of a reconcile.\<close>

locale handler_ctx = guarded_ctx ctx m for ctx :: "'w rstate ctx" and m :: migration

interpretation hc: handler_ctx "executionContext ctx cl m" m for ctx cl m
  by unfold_locales

section \<open>Runs in a steady world\<close>

text \<open>\<open>steady w m P\<close>: from the world \<open>w\<close>, \<open>m\<close> succeeds with a result in \<open>P\<close> and
  leaves the world as it was. With it the concrete runs of the witnesses are composed from the
  answers of the sample clients.\<close>

definition steady :: "'w \<Rightarrow> ('w rstate, error, 'a) op \<Rightarrow> ('a \<Rightarrow> bool) \<Rightarrow> bool" where
  "steady w m P \<longleftrightarrow> hoare (\<lambda>s. world s = w) m (\<lambda>x s. P x \<and> world s = w) (\<lambda>_ _. False)"

named_theorems steady_rules "runs in a steady world"

lemma steadyD:
  assumes "steady w m P" and "world s = w"
  shows "\<exists>x s'. m s = (Inr x, s') \<and> P x \<and> world s' = w"
proof -
  obtain r t where run: "m s = (r, t)" by fastforce
  show ?thesis
    using hoareD [OF assms(1) [unfolded steady_def] assms(2)] hoareD_err [OF assms(1) [unfolded steady_def] assms(2)] run
    by (cases r) auto
qed

lemma steadyI:
  assumes "\<And>s. world s = w \<Longrightarrow> \<exists>x s'. m s = (Inr x, s') \<and> P x \<and> world s' = w"
  shows "steady w m P"
  unfolding steady_def by (rule hoareI) (use assms in force)+

lemma steady_bnd:
  assumes "steady w m Q" and "\<And>x. Q x \<Longrightarrow> steady w (f x) P"
  shows "steady w (bnd m f) P"
proof (rule steadyI)
  fix s :: "'a rstate"
  assume "world s = w"
  from steadyD [OF assms(1) this] obtain x t where "m s = (Inr x, t)" "Q x" "world t = w" by blast
  with steadyD [OF assms(2), of x t] show "\<exists>x s'. bnd m f s = (Inr x, s') \<and> P x \<and> world s' = w"
    by (auto simp: bnd_app)
qed

lemma steady_attempt:
  assumes "steady w m Q" and "\<And>x. Q x \<Longrightarrow> steady w (k (Inr x)) P"
  shows "steady w (attempt m k) P"
proof (rule steadyI)
  fix s :: "'a rstate"
  assume "world s = w"
  from steadyD [OF assms(1) this] obtain x t where "m s = (Inr x, t)" "Q x" "world t = w" by blast
  with steadyD [OF assms(2), of x t] show "\<exists>x s'. attempt m k s = (Inr x, s') \<and> P x \<and> world s' = w"
    by (auto simp: attempt_app)
qed

text \<open>The same with the result of the first operation known.\<close>

lemma steady_bnd_eq [steady_rules]: "steady w m (\<lambda>x. x = v) \<Longrightarrow> steady w (f v) P \<Longrightarrow> steady w (bnd m f) P"
  by (rule steady_bnd [where Q = "\<lambda>x. x = v"]) auto

lemma steady_attempt_eq [steady_rules]:
  "steady w m (\<lambda>x. x = v) \<Longrightarrow> steady w (k (Inr v)) P \<Longrightarrow> steady w (attempt m k) P"
  by (rule steady_attempt [where Q = "\<lambda>x. x = v"]) auto

lemma steady_wrapErr [steady_rules]: "steady w m P \<Longrightarrow> steady w (wrapErr t m) P"
  by (rule steadyI) (simp add: steadyD)

lemma steady_ret [steady_rules]: "P x \<Longrightarrow> steady w (ret x) P"
  by (rule steadyI) simp

lemma steady_gets [steady_rules]: "(\<And>s. P (g s)) \<Longrightarrow> steady w (gets g) P"
  by (rule steadyI) simp

lemma steady_liftE [steady_rules]: "r = Inr x \<Longrightarrow> P x \<Longrightarrow> steady w (liftE r) P"
  by (rule steadyI) simp

lemma steady_request [steady_rules]: "c w = (Inr x, w) \<Longrightarrow> P x \<Longrightarrow> steady w (request a c) P"
  by (rule steadyI) (simp add: request_app apiResult_def)

lemma steady_readCall [steady_rules]: "c w = (Inr x, w) \<Longrightarrow> P x \<Longrightarrow> steady w (readCall t c) P"
  unfolding readCall_def by (intro steady_wrapErr steady_request)

lemma steady_Eventf [steady_rules]: "P () \<Longrightarrow> steady w (Eventf t why note) P"
  by (rule steadyI) simp

lemma steady_modifyStatus [steady_rules]: "P () \<Longrightarrow> steady w (modifyStatus f) P"
  by (rule steadyI) (simp add: modifyStatus_def)

lemma steady_setCondition [steady_rules]: "snd (clock (r_client r) w) = w \<Longrightarrow> P () \<Longrightarrow> steady w (setCondition r t st why msg) P"
  by (rule steadyI) (auto simp: setCondition_def bnd_app timeNow_def split: prod.splits)

lemma steady_Check [steady_rules]:
  "mig_read cl (namespace m) (name m) w = (Inr l, w) \<Longrightarrow> stillRunning m l \<Longrightarrow> P () \<Longrightarrow>
     steady w (Check (executionContext ctx cl m)) P"
  by (rule steadyI) (auto simp: Check_def executionContext_def WithCheck_def checkPermission_def)

lemma steady_foldM:
  assumes "I b" and "\<And>b x. x \<in> set xs \<Longrightarrow> I b \<Longrightarrow> steady w (f b x) I"
  shows "steady w (foldM f b xs) I"
  using assms
proof (induction xs arbitrary: b)
  case (Cons x xs)
  then have "steady w (f b x) I" and "steady w (foldM f b' xs) I" if "I b'" for b' using that by auto
  with Cons.prems show ?case by (auto intro: steady_bnd)
qed (simp add: steady_ret)

section \<open>A sample environment\<close>

text \<open>For the witnesses: a cluster with the given objects, whose API answers do not change.\<close>

definition sampleConfigClient :: "infrastructure \<Rightarrow> 'w configClient" where
  "sampleConfigClient infra = \<lparr>
     infrastructures_get = (\<lambda>_ w. (Inr infra, w)),
     infrastructures_update = (\<lambda>x w. (Inr x, w)),
     clusterOperators_list = (\<lambda>w. (Inr [], w)),
     clusterOperators_get = (\<lambda>_ w. (Inl (ReasonNotFound, ''not found''), w)),
     clusterVersions_get = (\<lambda>_ w. (Inl (ReasonNotFound, ''not found''), w)),
     featureGates_get = (\<lambda>_ w. (Inr [], w))\<rparr>"

text \<open>A codec that evaluates: every document reads as one configuration.\<close>

definition constantCodec :: yamlCodec where
  "constantCodec = \<lparr>yaml_unmarshal = (\<lambda>_. Inr sampleConfig), yaml_marshal = (\<lambda>_. Inr ''1'')\<rparr>"

definition sampleReconciler :: "'w migrationClient \<Rightarrow> infrastructure \<Rightarrow> machineSet list \<Rightarrow> 'w reconciler" where
  "sampleReconciler cl infra sets = \<lparr>r_client = cl, r_kube = sampleKubeClient, r_config = sampleConfigClient infra,
     r_machine = sampleMachineClient sets [] sampleCPMS, r_machineConfig = \<lparr>machineConfigPools_list = (\<lambda>w. (Inr [], w))\<rparr>,
     r_dynamic = sampleDynamicClient, r_vsphere = sampleVSphereClient, r_iter = (\<lambda>xs. xs), r_yaml = constantCodec, r_hash = (\<lambda>_. Inr ''h'')\<rparr>"

definition sampleState :: "'w \<Rightarrow> migration \<Rightarrow> 'w rstate" where
  "sampleState w m = \<lparr>world = w, trace = [], mig = m, lastStallEventKey = [], lastStallEventTime = 0,
     readyStabilityCount = 0, lastReadyStabilityCheck = 0, lastCountedStabilityCheck = 0,
     sessionCache = []\<rparr>"

end
