(* ===== verification/Sessions.thy ===== *)
theory Sessions
  imports Reconciler Infra
begin

text \<open>
  Connections to vCenters and their cache, \<open>internal/vsphere/session.go\<close>,
  \<open>internal/vsphere/list.go\<close> and \<open>getVSphereSession\<close>
  (\<open>internal/controller/helpers.go\<close>). The calls are govmomi's and come from the client
  record; logging in and out changes no inventory and counts as a read. The mutex around the
  cache has no counterpart: a reconcile is sequential.
\<close>

section \<open>Definitions\<close>

record params =
  p_server :: string
  p_datacenter :: string
  p_username :: string
  p_password :: string
  p_insecure :: bool

definition stripScheme :: "string \<Rightarrow> string" where
  "stripScheme server = (case find (\<lambda>p. prefix p (map lower_char server)) [''https://'', ''http://''] of
     Some p \<Rightarrow> drop (length p) server
   | None \<Rightarrow> server)"

definition SanitizeServer :: "string \<Rightarrow> string" where
  "SanitizeServer server = takeWhile (\<lambda>c. c \<noteq> CHR ''/'') (stripScheme (trimSpace server))"

definition cacheKey :: "params \<Rightarrow> string" where
  "cacheKey p = p_server p @ ''#'' @ p_datacenter p @ ''#'' @ p_username p"

definition NewSession :: "'w vsphereClient \<Rightarrow> params \<Rightarrow> (('w, 'z) exec_scheme, error, vSession) op" where
  "NewSession vc p =
     (let host = SanitizeServer (p_server p) in
      bnd (readCall (''creating vim25 client for '' @ host) (vim_connect vc host (p_insecure p))) (\<lambda>_.
      bnd (readCall (''logging in to '' @ p_server p) (vim_login vc host (p_username p) (p_password p))) (\<lambda>key.
      let s = \<lparr>sess_server = host, sess_datacenter = [], sess_user = p_username p, sess_key = key\<rparr> in
      bnd (readCall (''finding datacenter '' @ quote (p_datacenter p)) (find_datacenter vc s (p_datacenter p))) (\<lambda>_.
      bnd (readCall (''REST login to '' @ p_server p) (rest_login vc host (p_username p) (p_password p))) (\<lambda>_.
      ret (s\<lparr>sess_datacenter := p_datacenter p\<rparr>))))))"

text \<open>Errors of the logout are logged only.\<close>

definition session_Close :: "'w vsphereClient \<Rightarrow> vSession \<Rightarrow> (('w, 'z) exec_scheme, error, unit) op" where
  "session_Close vc s =
     attempt (request ReadCall (rest_logout vc s)) (\<lambda>_.
     attempt (request ReadCall (vim_logout vc s)) (\<lambda>_.
     ret ()))"

definition cacheInsert :: "string \<Rightarrow> vSession \<Rightarrow> ('w, unit) handler" where
  "cacheInsert key s = modify (\<lambda>st. st\<lparr>sessionCache := (key, s) # sessionCache st\<rparr>)"

definition GetOrCreate :: "'w vsphereClient \<Rightarrow> params \<Rightarrow> ('w, vSession) handler" where
  "GetOrCreate vc p =
     bnd (gets sessionCache) (\<lambda>cache.
     case map_of cache (cacheKey p) of
       Some s \<Rightarrow> ret s
     | None \<Rightarrow>
         bnd (NewSession vc p) (\<lambda>s.
         bnd (cacheInsert (cacheKey p) s) (\<lambda>_.
         ret s)))"

definition cacheDelete :: "string \<Rightarrow> ('w, unit) handler" where
  "cacheDelete key = modify (\<lambda>st. st\<lparr>sessionCache := filter (\<lambda>e. fst e \<noteq> key) (sessionCache st)\<rparr>)"

definition clearSession :: "'w vsphereClient \<Rightarrow> string \<Rightarrow> ('w, unit) handler" where
  "clearSession vc key =
     bnd (gets (\<lambda>st. map_of (sessionCache st) key)) (\<lambda>found.
     case found of None \<Rightarrow> ret () | Some s \<Rightarrow>
       bnd (session_Close vc s) (\<lambda>_. cacheDelete key))"

definition ClearSessions :: "('w, 'b) reconciler_scheme \<Rightarrow> ('w, unit) handler" where
  "ClearSessions r =
     bnd (gets (\<lambda>st. r_iter r (map fst (sessionCache st)))) (\<lambda>keys.
     forM (clearSession (r_vsphere r)) keys)"

definition getVSphereSession ::
  "('w, 'b) reconciler_scheme \<Rightarrow> string \<Rightarrow> string \<Rightarrow> string \<Rightarrow> string \<Rightarrow> ('w, vSession) handler" where
  "getVSphereSession r server dc user pass =
     GetOrCreate (r_vsphere r) \<lparr>p_server = server, p_datacenter = dc, p_username = user, p_password = pass,
       p_insecure = True\<rparr>"

text \<open>\<open>object.Common.Name\<close>.\<close>

definition vs_objName :: "vsObj \<Rightarrow> string" where
  "vs_objName v = (if vs_path v = [] then [] else path_Base (vs_path v))"

definition ListDatacenters :: "'w vsphereClient \<Rightarrow> params \<Rightarrow> (('w, 'z) exec_scheme, error, string list) op" where
  "ListDatacenters vc p =
     (if p_server p = [] \<or> p_username p = [] \<or> p_password p = []
      then fail (Errorf ''server, username, and password are required'')
      else let host = SanitizeServer (p_server p) in
        bnd (readCall (''creating vim25 client for '' @ host) (vim_connect vc host (p_insecure p))) (\<lambda>_.
        bnd (readCall ''logging in'' (vim_login vc host (p_username p) (p_password p))) (\<lambda>key.
        let s = \<lparr>sess_server = host, sess_datacenter = [], sess_user = p_username p, sess_key = key\<rparr> in
        attempt (readCall ''listing datacenters'' (find_datacenters vc s ''*'')) (\<lambda>res.
        attempt (request ReadCall (vim_logout vc s)) (\<lambda>_.
        bnd (liftE res) (\<lambda>dcs.
        ret (map vs_objName dcs)))))))"

section \<open>Rules\<close>

lemma safe_sessionCache [simp]: "safe m A (s\<lparr>sessionCache := c\<rparr>) = safe m A s"
  by (simp add: safe_def)

lemma keeps_modify_cache [keeps_rules]:
  "keeps (safe m A) (cacheInsert k v)" "keeps (safe m A) (cacheDelete k)"
  "keeps (only P) (cacheInsert k v)" "keeps (only P) (cacheDelete k)"
  "keeps (since tr) (cacheInsert k v)" "keeps (since tr) (cacheDelete k)"
  by (simp_all add: keeps_def cacheInsert_def cacheDelete_def safe_def only_def since_def)

lemma keeps_NewSession [keeps_rules]: "keeps (safe m A) (NewSession vc p)"
  unfolding NewSession_def Let_def by (intro keeps_rules)

lemma keeps_GetOrCreate [keeps_rules]: "keeps (safe m A) (GetOrCreate vc p)"
  unfolding GetOrCreate_def by (intro keeps_rules)

lemma keeps_getVSphereSession [keeps_rules]: "keeps (safe m A) (getVSphereSession r a b c d)"
  unfolding getVSphereSession_def by (intro keeps_rules)

lemma keeps_Close [keeps_rules]: "keeps (safe m A) (session_Close vc s)"
  unfolding session_Close_def by (intro keeps_rules) simp_all

lemma keeps_ClearSessions [keeps_rules]: "keeps (safe m A) (ClearSessions r)"
  unfolding ClearSessions_def clearSession_def by (intro keeps_rules)

section \<open>The cache\<close>

text \<open>A cached session was opened for some parameters with its key.\<close>

definition opened_for :: "params \<Rightarrow> vSession \<Rightarrow> bool" where
  "opened_for p s \<longleftrightarrow> sess_server s = SanitizeServer (p_server p) \<and> sess_datacenter s = p_datacenter p \<and>
     sess_user s = p_username p"

definition separable :: "params \<Rightarrow> bool" where
  "separable p \<longleftrightarrow> CHR ''#'' \<notin> set (p_server p) \<and> CHR ''#'' \<notin> set (p_datacenter p)"

definition cache_ok :: "'w rstate \<Rightarrow> bool" where
  "cache_ok st \<longleftrightarrow> (\<forall>(key, s) \<in> set (sessionCache st). \<exists>p. cacheKey p = key \<and> opened_for p s \<and> separable p)"

text \<open>The key determines the server, datacenter and user when neither of the first two contains
  the separator.\<close>

lemma cut_at_hash: "c \<notin> set a \<Longrightarrow> c \<notin> set b \<Longrightarrow> a @ c # x = b @ c # y \<longleftrightarrow> a = b \<and> x = y"
proof (induction a arbitrary: b)
  case Nil
  then show ?case by (cases b) auto
next
  case (Cons z a)
  then show ?case by (cases b) auto
qed

lemma cacheKey_inject:
  assumes "separable p" "separable q"
  shows "cacheKey p = cacheKey q \<longleftrightarrow>
    p_server p = p_server q \<and> p_datacenter p = p_datacenter q \<and> p_username p = p_username q"
  using assms by (simp add: cacheKey_def cut_at_hash separable_def)

lemma NewSession_opened: "NewSession vc p s = (Inr v, s') \<Longrightarrow> opened_for p v"
  by (auto simp: NewSession_def Let_def bnd_Inr opened_for_def)

lemma readCall_cache: "readCall t c s = (x, s') \<Longrightarrow> sessionCache s' = sessionCache s"
  by (auto simp: readCall_def wrapErr_def attempt_app request_app split: prod.splits sum.splits)

lemma keeps_cache_readCall [keeps_rules]: "keeps (\<lambda>s. P (sessionCache s)) (readCall t c)"
  by (rule keepsI) (metis readCall_cache prod.collapse)

lemma keeps_cache_NewSession: "keeps (\<lambda>s. P (sessionCache s)) (NewSession vc p)"
  unfolding NewSession_def Let_def by (intro keeps_rules)

lemma GetOrCreate_run:
  assumes "GetOrCreate vc p s = (r, s')"
  shows "case r of
     Inl e \<Rightarrow> map_of (sessionCache s) (cacheKey p) = None \<and> sessionCache s' = sessionCache s
   | Inr v \<Rightarrow> map_of (sessionCache s') (cacheKey p) = Some v \<and>
       (map_of (sessionCache s) (cacheKey p) = Some v \<and> s' = s \<or>
        opened_for p v \<and> sessionCache s' = (cacheKey p, v) # sessionCache s)"
proof (cases "map_of (sessionCache s) (cacheKey p)")
  case (Some v)
  with assms show ?thesis by (auto simp: GetOrCreate_def)
next
  case None
  obtain x t where new: "NewSession vc p s = (x, t)" by fastforce
  have "sessionCache t = sessionCache s"
    using keepsD [OF keeps_cache_NewSession [of "\<lambda>c. c = sessionCache s"] _ new] by simp
  with None new NewSession_opened [of vc p s _ t] assms show ?thesis
    by (cases x) (auto simp: GetOrCreate_def bnd_app cacheInsert_def)
qed

lemma clearSession_run: "\<exists>s'. clearSession vc key s = (Inr (), s') \<and>
    sessionCache s' = filter (\<lambda>e. fst e \<noteq> key) (sessionCache s)"
proof (cases "map_of (sessionCache s) key")
  case None
  then have "filter (\<lambda>e. fst e \<noteq> key) (sessionCache s) = sessionCache s"
    by (metis (mono_tags, lifting) filter_True image_eqI map_of_eq_None_iff)
  with None show ?thesis by (simp add: clearSession_def)
next
  case (Some v)
  then show ?thesis
    by (auto simp: clearSession_def session_Close_def cacheDelete_def bnd_app attempt_app request_app split: prod.splits)
qed

lemma clearAll_run: "\<exists>s'. forM (clearSession vc) keys s = (Inr (), s') \<and>
    sessionCache s' = filter (\<lambda>e. fst e \<notin> set keys) (sessionCache s)"
proof (induction keys arbitrary: s)
  case (Cons k ks)
  obtain t where t: "clearSession vc k s = (Inr (), t)" "sessionCache t = filter (\<lambda>e. fst e \<noteq> k) (sessionCache s)"
    using clearSession_run by blast
  obtain u where "forM (clearSession vc) ks t = (Inr (), u)" "sessionCache u = filter (\<lambda>e. fst e \<notin> set ks) (sessionCache t)"
    using Cons by blast
  with t show ?case by (auto simp: bnd_app intro!: filter_cong)
qed simp

lemma ClearSessions_empties:
  assumes "range_order (r_iter r)"
  shows "\<exists>s'. ClearSessions r s = (Inr (), s') \<and> sessionCache s' = []"
proof -
  have keys: "set (r_iter r (map fst (sessionCache s))) = fst ` set (sessionCache s)"
    using assms by (metis range_order_def list.set_map mset_eq_setD)
  obtain s' where run: "forM (clearSession (r_vsphere r)) (r_iter r (map fst (sessionCache s))) s = (Inr (), s')"
    and cache: "sessionCache s' = filter (\<lambda>e. fst e \<notin> set (r_iter r (map fst (sessionCache s)))) (sessionCache s)"
    using clearAll_run by blast
  have "sessionCache s' = []" unfolding cache keys by (simp add: filter_empty_conv)
  with run show ?thesis by (simp add: ClearSessions_def)
qed

text \<open>
  C35: in a cache whose sessions were opened for their keys, a lookup either fails and leaves the
  cache alone or returns a session that was opened for the requested server, datacenter and user
  and is cached under the requested key; the cache stays of that kind. The separator of the keys
  must not occur in server and datacenter names.
\<close>

theorem session_cache_sound:
  assumes "cache_ok s" and "separable p" and "GetOrCreate vc p s = (r, s')"
  shows "cache_ok s' \<and>
    (case r of Inl e \<Rightarrow> sessionCache s' = sessionCache s
     | Inr v \<Rightarrow> opened_for p v \<and> map_of (sessionCache s') (cacheKey p) = Some v)"
proof -
  have hit: "opened_for p v" if v: "map_of (sessionCache s) (cacheKey p) = Some v" for v
  proof -
    from map_of_SomeD [OF v] assms(1) obtain q where "cacheKey q = cacheKey p" "opened_for q v" "separable q"
      by (auto simp: cache_ok_def)
    with assms(2) show ?thesis by (simp add: cacheKey_inject opened_for_def)
  qed
  show ?thesis
    using GetOrCreate_run [OF assms(3)] assms(1,2) hit
    by (cases r) (auto simp: cache_ok_def)
qed

definition sampleParams :: params where
  "sampleParams = \<lparr>p_server = ''vc2.example.com'', p_datacenter = ''DC2'', p_username = ''root'', p_password = ''x'',
     p_insecure = True\<rparr>"

theorem session_cache_sound_witness:
  "\<exists>v (s' :: int rstate). GetOrCreate sampleVSphereClient sampleParams (sampleState 0 sampleMigration) = (Inr v, s') \<and>
     opened_for sampleParams v \<and> map_of (sessionCache s') (cacheKey sampleParams) = Some v"
proof -
  let ?s = "sampleState (0::int) sampleMigration"
  obtain v s' where run: "GetOrCreate sampleVSphereClient sampleParams ?s = (Inr v, s')"
    by (simp add: GetOrCreate_def sampleState_def NewSession_def bnd_app readCall_def wrapErr_def attempt_app
        request_app sampleVSphereClient_def cacheInsert_def apiResult_def Let_def)
  then show ?thesis
    using session_cache_sound [OF _ _ run] by (simp add: sampleState_def sampleParams_def cache_ok_def separable_def)
qed

end
