(* ===== verification/Network.thy ===== *)
theory Network
  imports Clients Names "HOL-Library.Word"
begin

unbundle bit_operations_syntax

text \<open>
  Networks as the preflight compares them: IPv4 addresses and prefixes (Go's \<open>net/netip\<close>),
  what a guest reports about its networks and whether a probe's network is one of the source's
  (\<open>internal/vsphere/probe.go\<close>), and their description in messages
  (\<open>internal/controller/preflight_netcheck.go\<close>). An IPv4 address is a \<open>32 word\<close>.
\<close>

section \<open>Addresses\<close>

text \<open>\<open>netip.ParseAddr\<close> on IPv4: four decimal fields without leading zeros, at most 255.
  Every \<open>NetworkInfo\<close> is built from an address for which \<open>Is4\<close> holds, so no text of an
  IPv6 address reaches the comparisons; such a text gives \<open>None\<close> here, as it does for the
  callers that ask \<open>Is4\<close>.\<close>

definition parseOctet :: "string \<Rightarrow> nat option" where
  "parseOctet f =
     (if f \<noteq> [] \<and> list_all is_digit f \<and> (hd f = CHR ''0'' \<longrightarrow> f = ''0'') \<and> length f \<le> 3 \<and> atoi f \<le> 255
      then Some (atoi f) else None)"

definition ofOctets :: "nat \<Rightarrow> nat \<Rightarrow> nat \<Rightarrow> nat \<Rightarrow> 32 word" where
  "ofOctets a b c d = ((word_of_nat a * 256 + word_of_nat b) * 256 + word_of_nat c) * 256 + word_of_nat d"

definition ParseAddr :: "string \<Rightarrow> 32 word option" where
  "ParseAddr s = (case map parseOctet (splitOn CHR ''.'' [] s) of
      [Some a, Some b, Some c, Some d] \<Rightarrow> Some (ofOctets a b c d)
    | _ \<Rightarrow> None)"

definition octets :: "32 word \<Rightarrow> nat list" where
  "octets a = map (\<lambda>n. unat (take_bit 8 (drop_bit n a))) [24, 16, 8, 0]"

text \<open>\<open>Addr.String\<close>, \<open>Addr.Prefix(bits).Masked()\<close> and \<open>Prefix.String\<close>.\<close>

definition addr_String :: "32 word \<Rightarrow> string" where
  "addr_String a = join ''.'' (map itoa (octets a))"

definition prefixMask :: "nat \<Rightarrow> 32 word" where
  "prefixMask bits = push_bit (32 - bits) (- 1)"

definition maskedPrefix :: "32 word \<Rightarrow> int \<Rightarrow> (32 word \<times> nat) option" where
  "maskedPrefix a bits = (if bits < 0 \<or> 32 < bits then None else Some (a AND prefixMask (nat bits), nat bits))"

definition prefix_String :: "32 word \<times> nat \<Rightarrow> string" where
  "prefix_String p = addr_String (fst p) @ ''/'' @ itoa (snd p)"

section \<open>Observed networks\<close>

record networkInfo =
  ni_ip :: string
  ni_prefix :: int
  ni_gateway :: string

text \<open>\<open>defaultGateway\<close>: the single IPv4 default gateway of all stacks; several are refused.\<close>

definition stackGateways :: "string list \<Rightarrow> guestRoute list option \<Rightarrow> string list" where
  "stackGateways gateways stack = (case stack of None \<Rightarrow> gateways | Some routes \<Rightarrow>
     foldl (\<lambda>gs route.
        if route_network route \<noteq> ''0.0.0.0'' \<or> route_prefix route \<noteq> 0 then gs
        else if route_gateway route \<noteq> [] then append_new gs (route_gateway route)
        else gs) gateways routes)"

definition msgGateways :: "string list \<Rightarrow> string" where
  "msgGateways gs = ''guest reports '' @ itoa (length gs) @ '' distinct IPv4 default gateways (['' @ join '' '' gs @
     '']); refusing to select one''"

definition defaultGateway :: "guestRoute list option list \<Rightarrow> error + string" where
  "defaultGateway stacks = (case foldl stackGateways [] stacks of
      [] \<Rightarrow> Inr []
    | [g] \<Rightarrow> Inr g
    | gs \<Rightarrow> Inl (Errorf (msgGateways gs)))"

text \<open>The addresses of a card: those of its configuration with their prefixes, then the flat
  list's remaining ones with prefix 0.\<close>

definition nicAddresses :: "guestNic \<Rightarrow> (string \<times> int) list" where
  "nicAddresses nic =
     (let cfg = (case nic_ipConfig nic of None \<Rightarrow> [] | Some as \<Rightarrow> as) in
      cfg @ map (\<lambda>ip. (ip, 0)) (filter (\<lambda>ip. ip \<notin> set (map fst cfg)) (nic_ipAddress nic)))"

definition networkOf :: "string \<Rightarrow> string \<times> int \<Rightarrow> networkInfo list" where
  "networkOf gateway a = (case ParseAddr (fst a) of None \<Rightarrow> []
     | Some ip \<Rightarrow> [\<lparr>ni_ip = addr_String ip, ni_prefix = snd a, ni_gateway = gateway\<rparr>])"

definition networksFromGuest :: "guestInfo \<Rightarrow> error + networkInfo list" where
  "networksFromGuest guest =
     bindE (defaultGateway (guest_ipStack guest)) (\<lambda>gateway.
     Inr (concat (map (\<lambda>nic. if nic_connected nic then concat (map (networkOf gateway) (nicAddresses nic)) else [])
       (guest_net guest))))"

definition guestToolsRunning :: string where
  "guestToolsRunning = ''guestToolsRunning''"

text \<open>\<open>NetworkInfo.MatchesAny\<close>.\<close>

definition descNetwork :: "string \<Rightarrow> string \<Rightarrow> string" where
  "descNetwork net gateway = net @ '' (gateway '' @ gateway @ '')''"

definition sourceMatches :: "string \<Rightarrow> 32 word \<Rightarrow> networkInfo \<Rightarrow> bool" where
  "sourceMatches probeNet gateway src =
     (if ni_prefix src = 0 then False
      else case ParseAddr (ni_ip src) of None \<Rightarrow> False | Some srcIP \<Rightarrow>
        (case maskedPrefix srcIP (ni_prefix src) of None \<Rightarrow> False | Some srcPfx \<Rightarrow>
          (case ParseAddr (ni_gateway src) of None \<Rightarrow> False | Some srcGw \<Rightarrow>
             prefix_String srcPfx = probeNet \<and> srcGw = gateway)))"

definition MatchesAny :: "networkInfo \<Rightarrow> networkInfo list \<Rightarrow> bool \<times> string" where
  "MatchesAny n sources =
     (let desc = descNetwork (ni_ip n) (ni_gateway n) in
      if ni_prefix n = 0 then (False, desc)
      else case ParseAddr (ni_ip n) of None \<Rightarrow> (False, desc) | Some ip \<Rightarrow>
        (case maskedPrefix ip (ni_prefix n) of None \<Rightarrow> (False, desc) | Some probePfx \<Rightarrow>
          (let probeNet = prefix_String probePfx; desc' = descNetwork probeNet (ni_gateway n) in
           case ParseAddr (ni_gateway n) of None \<Rightarrow> (False, desc') | Some gateway \<Rightarrow>
             (list_ex (sourceMatches probeNet gateway) sources, desc'))))"

section \<open>Descriptions\<close>

definition formatNetwork :: "networkInfo \<Rightarrow> string option" where
  "formatNetwork n = (case ParseAddr (ni_ip n) of None \<Rightarrow> None | Some ip \<Rightarrow>
     map_option (\<lambda>p. descNetwork (prefix_String p) (ni_gateway n)) (maskedPrefix ip (ni_prefix n)))"

definition formatNetworks :: "networkInfo list \<Rightarrow> string" where
  "formatNetworks nets = join '', '' (append_missing [] (List.map_filter formatNetwork nets))"

definition describeFDMismatch :: "string \<Rightarrow> networkInfo list \<Rightarrow> networkInfo list \<Rightarrow> string" where
  "describeFDMismatch fdName probe sources =
     ''failure domain '' @ quote fdName @ '': probe network '' @ formatNetworks probe @
     '' does not match any source node network (source networks: '' @ formatNetworks sources @
     ''); IP connectivity would not be preserved when recreating source machines on the destination vCenter''"

definition probeNamePrefix :: string where
  "probeNamePrefix = ''netcheck-''"

definition probeNameMaxLen :: nat where
  "probeNameMaxLen = 80"

text \<open>\<open>probeNameUnsafe.ReplaceAllString(s, "-")\<close>: every run of characters outside
  \<open>[a-z0-9-]\<close> becomes one hyphen.\<close>

fun replaceUnsafe :: "bool \<Rightarrow> string \<Rightarrow> string" where
  "replaceUnsafe run [] = []"
| "replaceUnsafe run (c # cs) =
     (if rfc_char c \<or> c = CHR ''-'' then c # replaceUnsafe False cs
      else if run then replaceUnsafe True cs
      else CHR ''-'' # replaceUnsafe True cs)"

definition probeName :: "string \<Rightarrow> string \<Rightarrow> string" where
  "probeName infraID fdName =
     (let nm = trimChar CHR ''-'' (probeNamePrefix @ infraID @ ''-'' @ replaceUnsafe False (toLower fdName)) in
      if length nm > probeNameMaxLen then take probeNameMaxLen nm else nm)"

section \<open>Lemmas\<close>

lemma splitOn_join:
  assumes "xs \<noteq> []" and "list_all (\<lambda>x. c \<notin> set x) xs"
  shows "splitOn c cur (join [c] xs) = (rev cur @ hd xs) # tl xs"
proof -
  have one: "splitOn c cur (x @ ys) = splitOn c (rev x @ cur) ys" if "c \<notin> set x" for x ys cur
    using that by (induction x arbitrary: cur) auto
  show ?thesis
    using assms
  proof (induction "[c]" xs arbitrary: cur rule: join.induct)
    case (2 x)
    then show ?case using one [of x cur "[]"] by simp
  next
    case (3 x y ys)
    then show ?case by (simp add: one)
  qed simp
qed

lemma digits_no_dot: "list_all is_digit s \<Longrightarrow> CHR ''.'' \<notin> set s \<and> CHR ''/'' \<notin> set s"
  by (auto simp: list_all_iff is_digit_def less_eq_char_def)

lemma hd_itoa: "hd (itoa n) = CHR ''0'' \<Longrightarrow> n = 0"
proof (induction n rule: itoa.induct)
  case (1 n)
  show ?case
  proof (cases "n < 10")
    case True
    then have "of_char (hd (itoa n)) = (48 + n :: nat)" by (subst itoa.simps) (simp add: of_digit_char)
    with 1(2) show ?thesis by simp
  next
    case False
    then have "hd (itoa n) = hd (itoa (n div 10))" by (subst itoa.simps) (simp add: hd_append)
    with 1 False show ?thesis by simp
  qed
qed

lemma itoa_0 [simp]: "itoa 0 = ''0''"
  by code_simp

lemma parseOctet_itoa: "n < 256 \<Longrightarrow> parseOctet (itoa n) = Some n"
  using length_itoa [of n 3] hd_itoa [of n] by (auto simp: parseOctet_def atoi_itoa itoa_digits)

lemma ofOctets_nat: "ofOctets a b c d = word_of_nat (((a * 256 + b) * 256 + c) * 256 + d)"
  by (simp add: ofOctets_def)

lemma octet_nat: "unat (take_bit 8 (drop_bit n a)) = unat a div 2 ^ n mod 256" for a :: "32 word"
proof -
  have "unat (take_bit 8 (drop_bit n a)) = take_bit 8 (drop_bit n (unat a))"
    by (simp only: unsigned_take_bit_eq unsigned_drop_bit_eq) (simp add: take_bit_nat_eq_self_iff [THEN iffD2] unsigned_less [of a, simplified])
  then show ?thesis by (simp add: take_bit_eq_mod drop_bit_eq_div)
qed

lemma first_octet: "unat a div 2 ^ 24 < 256" for a :: "32 word"
  using unsigned_less [of a, where 'a = nat] by (simp add: less_mult_imp_div_less)

lemma octets_nat: "octets a = [unat a div 2 ^ 24, unat a div 2 ^ 16 mod 256, unat a div 2 ^ 8 mod 256, unat a mod 256]"
  unfolding octets_def list.map octet_nat using first_octet [of a] by simp

lemma octets_bounded: "n \<in> set (octets a) \<Longrightarrow> n < 256"
  using first_octet [of a] by (auto simp: octets_nat)

lemma ofOctets_octets:
  "ofOctets (unat a div 2 ^ 24) (unat a div 2 ^ 16 mod 256) (unat a div 2 ^ 8 mod 256) (unat a mod 256) = a"
proof -
  let ?n = "unat a"
  have "((?n div 2 ^ 24 * 256 + ?n div 2 ^ 16 mod 256) * 256 + ?n div 2 ^ 8 mod 256) * 256 + ?n mod 256 = ?n"
  proof -
    have "?n div 2 ^ 24 = ?n div 2 ^ 16 div 256" "?n div 2 ^ 16 = ?n div 2 ^ 8 div 256" "?n div 2 ^ 8 = ?n div 256"
      by (simp_all flip: div_mult2_eq)
    then show ?thesis by (simp add: div_mod_decomp)
  qed
  then show ?thesis unfolding ofOctets_nat by simp
qed

lemma octets_ofOctets:
  assumes "a < 256" "b < 256" "c < 256" "d < 256"
  shows "octets (ofOctets a b c d) = [a, b, c, d]"
proof -
  let ?n = "((a * 256 + b) * 256 + c) * 256 + d"
  have "?n < 2 ^ 32" using assms by simp
  then have n: "unat (ofOctets a b c d) = ?n"
    unfolding ofOctets_nat by (simp only: unsigned_of_nat) (simp add: take_bit_nat_def)
  have step: "(q * 256 + r) div 256 = q" "(q * 256 + r) mod 256 = r" if "r < 256" for q r :: nat
    using that by simp_all
  have "?n div 2 ^ 8 = ?n div 256" "?n div 2 ^ 16 = ?n div 256 div 256" "?n div 2 ^ 24 = ?n div 256 div 256 div 256"
    by (simp_all flip: div_mult2_eq)
  then show ?thesis unfolding octets_nat n using assms by (simp only: step)
qed

lemma ParseAddr_String: "ParseAddr (addr_String a) = Some a"
proof -
  have "splitOn CHR ''.'' [] (addr_String a) = map itoa (octets a)"
    unfolding addr_String_def
    by (subst splitOn_join) (auto simp: octets_nat digits_no_dot [OF itoa_digits])
  moreover have "map parseOctet (map itoa (octets a)) = map Some (octets a)"
    using octets_bounded by (auto simp: parseOctet_itoa)
  ultimately show ?thesis
    using ofOctets_octets [of a] by (simp add: ParseAddr_def octets_nat)
qed

lemma addr_String_inject [simp]: "addr_String a = addr_String b \<longleftrightarrow> a = b"
  by (metis ParseAddr_String option.inject)

lemma addr_String_no_slash: "CHR ''/'' \<notin> set (addr_String a)"
  using digits_no_dot [OF itoa_digits] by (auto simp: addr_String_def octets_nat)

lemma prefix_String_inject: "prefix_String p = prefix_String q \<longleftrightarrow> p = q"
proof
  assume eq: "prefix_String p = prefix_String q"
  have cut: "takeWhile (\<lambda>c. c \<noteq> CHR ''/'') (prefix_String r) = addr_String (fst r)" for r
    using addr_String_no_slash [of "fst r"] by (simp add: prefix_String_def takeWhile_append)
  have "addr_String (fst p) = addr_String (fst q)" using cut [of p] cut [of q] eq by simp
  with eq show "p = q" by (simp add: prefix_String_def prod_eq_iff)
qed simp

lemma bit_prefixMask: "bit (prefixMask p) i \<longleftrightarrow> 32 - p \<le> i \<and> i < 32"
  by (auto simp: prefixMask_def bit_simps)

lemma masked_eq_iff:
  "a AND prefixMask p = b AND prefixMask p \<longleftrightarrow> (\<forall>i. 32 - p \<le> i \<longrightarrow> i < 32 \<longrightarrow> bit a i = bit b i)"
proof -
  have "a AND prefixMask p = b AND prefixMask p \<longleftrightarrow>
      (\<forall>i<32. (bit a i \<and> 32 - p \<le> i) = (bit b i \<and> 32 - p \<le> i))"
    by (auto simp: bit_eq_iff bit_simps bit_prefixMask)
  then show ?thesis by blast
qed

lemma matches_source_iff:
  assumes "maskedPrefix ip (ni_prefix n) = Some p"
  shows "sourceMatches (prefix_String p) gateway src \<longleftrightarrow>
    (\<exists>b. ParseAddr (ni_ip src) = Some b \<and> ni_prefix src = ni_prefix n \<and> ni_prefix src \<noteq> 0 \<and>
      list_all (\<lambda>i. bit ip i = bit b i) [32 - nat (ni_prefix n)..<32] \<and> ParseAddr (ni_gateway src) = Some gateway)"
  using assms masked_eq_iff [of _ "nat (ni_prefix n)" ip] masked_eq_iff [of ip "nat (ni_prefix n)"]
  by (auto simp: sourceMatches_def maskedPrefix_def prefix_String_inject list_all_iff split: option.splits if_splits)

lemma networksFromGuest_valid:
  assumes "networksFromGuest guest = Inr nets" and "n \<in> set nets"
  shows "\<exists>a. ParseAddr (ni_ip n) = Some a \<and> ni_ip n = addr_String a \<and> defaultGateway (guest_ipStack guest) = Inr (ni_gateway n)"
  using assms
  by (auto simp: networksFromGuest_def networkOf_def ParseAddr_String split: option.splits if_splits)

section \<open>Matching networks\<close>

text \<open>
  C37: a probe network is accepted exactly when some network of a source node has the same
  non-zero prefix length, agrees with it on every bit of that prefix, and has the same
  well-formed IPv4 default gateway; comparing the rendered prefixes, as the code does, decides
  this.
\<close>

theorem network_match_iff:
  "fst (MatchesAny n sources) \<longleftrightarrow>
     (\<exists>a g src b. ParseAddr (ni_ip n) = Some a \<and> ParseAddr (ni_gateway n) = Some g \<and>
        List.member sources src \<and> ParseAddr (ni_ip src) = Some b \<and> ParseAddr (ni_gateway src) = Some g \<and>
        ni_prefix src = ni_prefix n \<and> 0 < ni_prefix n \<and> ni_prefix n \<le> 32 \<and>
        list_all (\<lambda>i. bit a i = bit b i) [32 - nat (ni_prefix n)..<32])"
proof (cases "ParseAddr (ni_ip n)")
  case (Some a)
  show ?thesis
  proof (cases "maskedPrefix a (ni_prefix n)")
    case None
    with Some show ?thesis by (auto simp: MatchesAny_def Let_def maskedPrefix_def split: if_splits)
  next
    case p: (Some p)
    then have "0 \<le> ni_prefix n" "ni_prefix n \<le> 32" by (auto simp: maskedPrefix_def split: if_splits)
    with Some p show ?thesis
      by (cases "ParseAddr (ni_gateway n)")
        (auto simp: MatchesAny_def Let_def list_ex_iff matches_source_iff [OF p] intro!: bexI)
  qed
qed (auto simp: MatchesAny_def Let_def)

end
