(* ===== verification/Probe.thy ===== *)
theory Probe
  imports Sessions Network
begin

text \<open>
  Probe virtual machines (\<open>internal/vsphere/probe.go\<close>) and the networking preflight built on
  them (\<open>internal/controller/preflight_netcheck.go\<close>): a template is cloned into every
  destination failure domain, its guest networks are compared with those of the source nodes,
  and it is destroyed again. The timeouts of the contexts are part of what the client's calls
  may answer; \<open>runPreflightStep\<close> only logs around its function.
\<close>

section \<open>Extra configuration\<close>

text \<open>\<open>base64.StdEncoding\<close>.\<close>

definition base64_char :: "int \<Rightarrow> char" where
  "base64_char n = ''ABCDEFGHIJKLMNOPQRSTUVWXYZabcdefghijklmnopqrstuvwxyz0123456789+/'' ! nat n"

fun base64 :: "string \<Rightarrow> string" where
  "base64 [] = []"
| "base64 [a] = (let x = of_char a * 16 :: int in [base64_char (x div 64), base64_char (x mod 64), CHR ''='', CHR ''='']) "
| "base64 [a, b] = (let x = (of_char a * 256 + of_char b) * 4 :: int in
     [base64_char (x div 4096), base64_char (x div 64 mod 64), base64_char (x mod 64), CHR ''=''])"
| "base64 (a # b # c # cs) = (let x = (of_char a * 256 + of_char b) * 256 + of_char c :: int in
     [base64_char (x div 262144), base64_char (x div 4096 mod 64), base64_char (x div 64 mod 64), base64_char (x mod 64)] @ base64 cs)"

definition defaultProbeIgnition :: string where
  "defaultProbeIgnition = join [char_of (34::nat)]
     [''{'', ''ignition'', '':{'', ''version'', '':'', ''3.4.0'', ''},'', ''passwd'', '':{},'', ''storage'', '':{'', ''files'',
      '':[]},'', ''systemd'', '':{'', ''units'', '':[]},'', ''networkd'', '':{'', ''units'', '':[]}}'']"

definition probeMarkerExtraConfig :: string where
  "probeMarkerExtraConfig = ''vcfmigration.netcheck.probe''"

definition probeMarkerValue :: string where
  "probeMarkerValue = ''true''"

record probeSpec =
  pr_name :: string
  pr_datacenter :: string
  pr_cluster :: string
  pr_datastore :: string
  pr_resourcePool :: string
  pr_folder :: string
  pr_template :: string
  pr_network :: string
  pr_ignition :: string
  pr_networkKargs :: string
  pr_extraConfig :: "(string \<times> string) list"

text \<open>A Go map as an association list with distinct keys.\<close>

fun mapSet :: "'k \<Rightarrow> 'v \<Rightarrow> ('k \<times> 'v) list \<Rightarrow> ('k \<times> 'v) list" where
  "mapSet k v [] = [(k, v)]"
| "mapSet k v (e # es) = (if fst e = k then (k, v) # es else e # mapSet k v es)"

definition probeValues :: "probeSpec \<Rightarrow> (string \<times> string) list" where
  "probeValues ps =
     (let ignition = (if pr_ignition ps = [] then defaultProbeIgnition else pr_ignition ps);
          values = [(''guestinfo.ignition.config.data'', base64 ignition),
                    (''guestinfo.ignition.config.data.encoding'', ''base64''),
                    (''guestinfo.hostname'', pr_name ps),
                    (''stealclock.enable'', ''TRUE'')];
          values = (if pr_networkKargs ps \<noteq> []
                    then mapSet ''guestinfo.afterburn.initrd.network-kargs'' (pr_networkKargs ps) values else values);
          values = foldl (\<lambda>vs (k, v). mapSet k v vs) values (pr_extraConfig ps) in
      mapSet probeMarkerExtraConfig probeMarkerValue values)"

definition probeExtraConfigValues :: "(string list \<Rightarrow> string list) \<Rightarrow> probeSpec \<Rightarrow> (string \<times> string) list" where
  "probeExtraConfigValues iter ps =
     (let values = probeValues ps in map (\<lambda>k. (k, the (map_of values k))) (iter (map fst values)))"

section \<open>Devices\<close>

definition nextDeviceKey :: "device list \<Rightarrow> int" where
  "nextDeviceKey devices =
     i32 (foldl (\<lambda>maxKey d. if dev_key d > maxKey then dev_key d else maxKey) 0 devices + 1000)"

definition nicChange :: "ethernetBacking \<Rightarrow> bool \<times> deviceChange list \<Rightarrow> device \<Rightarrow> bool \<times> deviceChange list" where
  "nicChange backing acc d = (case acc of (found, changes) \<Rightarrow>
     if \<not> dev_ethernet d then (found, changes)
     else if \<not> found then (True, changes @ [DeviceEdit (d\<lparr>dev_backing := Some backing\<rparr>)])
     else (found, changes @ [DeviceRemove d]))"

definition nicChanges :: "device list \<Rightarrow> ethernetBacking \<Rightarrow> deviceChange list" where
  "nicChanges devices backing = (case foldl (nicChange backing) (False, []) devices of (found, changes) \<Rightarrow>
     if found then changes
     else changes @ [DeviceAdd \<lparr>dev_key = nextDeviceKey devices, dev_ethernet = True, dev_backing = Some backing, dev_other = []\<rparr>])"

text \<open>A standard network's backing comes without the reference to the network.\<close>

definition completeBacking :: "string \<Rightarrow> ethernetBacking \<Rightarrow> ethernetBacking" where
  "completeBacking ref b = (case b of StandardBacking None nm \<Rightarrow> StandardBacking (Some ref) nm | _ \<Rightarrow> b)"

definition singleNICDeviceChange ::
  "'w vsphereClient \<Rightarrow> vSession \<Rightarrow> vsObj \<Rightarrow> vsObj \<Rightarrow> (('w, 'z) exec_scheme, error, deviceChange list) op" where
  "singleNICDeviceChange vc s tmpl net =
     bnd (readCall ''reading template devices'' (vm_devices vc s tmpl)) (\<lambda>devices.
     bnd (readCall (''reading backing for network '' @ vs_ref net) (net_backing vc s net)) (\<lambda>backing.
     ret (nicChanges devices (completeBacking (vs_ref net) backing))))"

section \<open>Placement\<close>

definition nilDereference :: error where
  "nilDereference = Errorf ''invalid memory address or nil pointer dereference''"

definition probeFolder :: "'w vsphereClient \<Rightarrow> vSession \<Rightarrow> probeSpec \<Rightarrow> (('w, 'z) exec_scheme, error, vsObj) op" where
  "probeFolder vc s ps =
     (if pr_folder ps \<noteq> [] then readCall (''looking up folder '' @ pr_folder ps) (find_folder vc s (pr_folder ps))
      else
        bnd (readCall (''looking up datacenter '' @ pr_datacenter ps) (find_datacenter vc s (pr_datacenter ps))) (\<lambda>dc.
        bnd (readCall (''reading folders for datacenter '' @ pr_datacenter ps) (dc_vmFolder vc s dc)) (\<lambda>f.
        case f of None \<Rightarrow> fail nilDereference | Some vmFolder \<Rightarrow> ret vmFolder)))"

definition probeResourcePool :: "'w vsphereClient \<Rightarrow> vSession \<Rightarrow> probeSpec \<Rightarrow> (('w, 'z) exec_scheme, error, string) op" where
  "probeResourcePool vc s ps =
     (let nm = (if pr_resourcePool ps = [] then pr_cluster ps @ ''/Resources'' else pr_resourcePool ps) in
      bnd (readCall (''looking up resource pool '' @ nm) (find_resourcePool vc s nm)) (\<lambda>pool.
      ret (vs_ref pool)))"

section \<open>Destroying probes\<close>

text \<open>\<open>isProbeVM\<close>: whether the VM carries the marker.\<close>

definition hasMarker :: "(string \<times> string) list option \<Rightarrow> bool" where
  "hasMarker config = (case config of None \<Rightarrow> False
     | Some vs \<Rightarrow> list_ex (\<lambda>(k, v). k = probeMarkerExtraConfig \<and> v = probeMarkerValue) vs)"

definition isProbeVM :: "'w vsphereClient \<Rightarrow> vSession \<Rightarrow> vsObj \<Rightarrow> (('w, 'z) exec_scheme, error, bool) op" where
  "isProbeVM vc s vm =
     bnd (readCall (''reading config for VM '' @ vs_objName vm) (vm_config vc s vm)) (\<lambda>config.
     ret (hasMarker config))"

text \<open>A call that changes a vCenter, after the permission check.\<close>

definition vsphereDo ::
  "('w, 'z) exec_scheme ctx \<Rightarrow> 'w vsphereClient \<Rightarrow> vSession \<Rightarrow> string \<Rightarrow> vsphere_call \<Rightarrow> (('w, 'z) exec_scheme, error, string) op" where
  "vsphereDo ctx vc s t x =
     bnd (Check ctx) (\<lambda>_. wrapErr t (request (MutateCall (VSphereCall s x)) (vsphere_do vc s x)))"

definition DestroyProbeVM ::
  "('w, 'z) exec_scheme ctx \<Rightarrow> 'w vsphereClient \<Rightarrow> vSession \<Rightarrow> vsObj \<Rightarrow> (('w, 'z) exec_scheme, error, unit) op" where
  "DestroyProbeVM ctx vc s vm =
     (let off = ''powering off probe VM '' @ vs_objName vm; gone = ''destroying probe VM '' @ vs_objName vm in
      bnd (readCall (''reading power state for probe VM '' @ vs_objName vm) (vm_powerState vc s vm)) (\<lambda>state.
      bnd (if state = ''poweredOn'' then
             bnd (vsphereDo ctx vc s off (PowerOffVM vm)) (\<lambda>task.
             bnd (readCall off (task_result vc s task)) (\<lambda>_. ret ()))
           else ret ()) (\<lambda>_.
      bnd (vsphereDo ctx vc s gone (DestroyVM vm)) (\<lambda>task.
      bnd (readCall gone (task_result vc s task)) (\<lambda>_.
      ret ())))))"

definition reapVM ::
  "('w, 'z) exec_scheme ctx \<Rightarrow> 'w vsphereClient \<Rightarrow> vSession \<Rightarrow> string list \<Rightarrow> vsObj \<Rightarrow> (('w, 'z) exec_scheme, error, string list) op" where
  "reapVM ctx vc s destroyed vm =
     bnd (isProbeVM vc s vm) (\<lambda>probe.
     if \<not> probe then ret destroyed
     else bnd (DestroyProbeVM ctx vc s vm) (\<lambda>_. ret (destroyed @ [vs_objName vm])))"

definition ReapProbeVMs ::
  "('w, 'z) exec_scheme ctx \<Rightarrow> 'w vsphereClient \<Rightarrow> vSession \<Rightarrow> string \<Rightarrow> (('w, 'z) exec_scheme, error, string list) op" where
  "ReapProbeVMs ctx vc s namePrefix =
     attempt (request ReadCall (find_vms vc s (namePrefix @ ''*''))) (\<lambda>res.
     case res of
       Inl e \<Rightarrow> if IsNotFound e then ret [] else fail (Wrapf (''listing VMs with prefix '' @ quote namePrefix) e)
     | Inr vms \<Rightarrow> foldM (reapVM ctx vc s) [] vms)"

section \<open>Creating probes\<close>

text \<open>The clone may have succeeded although the wait for it failed; a VM of that name with the
  marker is destroyed, and the error of the wait is returned in every case.\<close>

definition cleanupFailedClone ::
  "('w, 'z) exec_scheme ctx \<Rightarrow> 'w vsphereClient \<Rightarrow> vSession \<Rightarrow> probeSpec \<Rightarrow> error \<Rightarrow> (('w, 'z) exec_scheme, error, 'a) op" where
  "cleanupFailedClone ctx vc s ps waitErr =
     attempt (bnd (request ReadCall (find_vm vc s (pr_name ps))) (\<lambda>vm.
              bnd (isProbeVM vc s vm) (\<lambda>probe.
              if \<not> probe then ret () else DestroyProbeVM ctx vc s vm))) (\<lambda>_.
     fail waitErr)"

definition newCloneSpec :: "(string list \<Rightarrow> string list) \<Rightarrow> probeSpec \<Rightarrow> vsObj \<Rightarrow> vsObj \<Rightarrow> string \<Rightarrow> deviceChange list \<Rightarrow> cloneSpec" where
  "newCloneSpec iter ps fol ds pool changes = \<lparr>clone_folder = vs_ref fol, clone_datastore = vs_ref ds, clone_pool = pool,
     clone_diskMoveType = ''moveAllDiskBackingsAndDisallowSharing'', clone_powerOn = True, clone_name = pr_name ps,
     clone_extraConfig = probeExtraConfigValues iter ps, clone_deviceChange = changes\<rparr>"

definition msgClone :: "probeSpec \<Rightarrow> string" where
  "msgClone ps = ''cloning template '' @ pr_template ps @ '' as '' @ pr_name ps"

definition errCloneResult :: "probeSpec \<Rightarrow> error" where
  "errCloneResult ps = Errorf (''cloning template '' @ pr_template ps @ '': unexpected clone result'')"

definition cloneProbe ::
  "('w, 'z) exec_scheme ctx \<Rightarrow> 'w vsphereClient \<Rightarrow> vSession \<Rightarrow> probeSpec \<Rightarrow> vsObj \<Rightarrow> cloneSpec \<Rightarrow> (('w, 'z) exec_scheme, error, vsObj) op" where
  "cloneProbe ctx vc s ps tmpl cspec =
     bnd (vsphereDo ctx vc s (msgClone ps) (CloneVM tmpl cspec)) (\<lambda>task.
     attempt (request ReadCall (task_result vc s task)) (\<lambda>res.
     case res of
       Inl e \<Rightarrow> cleanupFailedClone ctx vc s ps (Wrapf (msgClone ps) e)
     | Inr None \<Rightarrow> fail (errCloneResult ps)
     | Inr (Some ref) \<Rightarrow> ret \<lparr>vs_ref = ref, vs_path = []\<rparr>))"

definition CreateProbeVM ::
  "('w, 'z) exec_scheme ctx \<Rightarrow> 'w vsphereClient \<Rightarrow> (string list \<Rightarrow> string list) \<Rightarrow> vSession \<Rightarrow> probeSpec \<Rightarrow> (('w, 'z) exec_scheme, error, vsObj) op" where
  "CreateProbeVM ctx vc iter s ps =
     bnd (readCall (''looking up template '' @ pr_template ps) (find_vm vc s (pr_template ps))) (\<lambda>tmpl.
     bnd (probeFolder vc s ps) (\<lambda>fol.
     bnd (readCall (''looking up datastore '' @ pr_datastore ps) (find_datastore vc s (pr_datastore ps))) (\<lambda>ds.
     bnd (probeResourcePool vc s ps) (\<lambda>pool.
     bnd (readCall (''looking up network '' @ pr_network ps) (find_network vc s (pr_network ps))) (\<lambda>net.
     bnd (singleNICDeviceChange vc s tmpl net) (\<lambda>changes.
     cloneProbe ctx vc s ps tmpl (newCloneSpec iter ps fol ds pool changes)))))))"

section \<open>Guest networks\<close>

text \<open>What one snapshot says: the networks, and whether the guest is network-ready.\<close>

definition guestState :: "guestInfo option \<Rightarrow> error + networkInfo list \<times> bool" where
  "guestState g = (case g of None \<Rightarrow> Inr ([], False) | Some guest \<Rightarrow>
     if guest_tools guest \<noteq> guestToolsRunning then Inr ([], False)
     else bindE (networksFromGuest guest) (\<lambda>nets. Inr (nets, list_ex (\<lambda>n. ni_gateway n \<noteq> []) nets)))"

definition readGuestNetworks ::
  "'w vsphereClient \<Rightarrow> vSession \<Rightarrow> vsObj \<Rightarrow> (('w, 'z) exec_scheme, error, networkInfo list \<times> bool) op" where
  "readGuestNetworks vc s vm = bnd (request ReadCall (vm_guest vc s vm)) (\<lambda>g. liftE (guestState g))"

text \<open>The polling loop: \<open>n\<close> more ticks arrive before the context is done.\<close>

definition pollOnce ::
  "'w vsphereClient \<Rightarrow> vSession \<Rightarrow> vsObj \<Rightarrow> (('w, 'z) exec_scheme, error, networkInfo list) op \<Rightarrow> (('w, 'z) exec_scheme, error, networkInfo list) op" where
  "pollOnce vc s vm next =
     bnd (wrapErr (''reading guest info for '' @ vs_objName vm) (readGuestNetworks vc s vm)) (\<lambda>(nets, ready).
     if ready then ret nets else next)"

definition errWaitGuest :: "vsObj \<Rightarrow> error" where
  "errWaitGuest vm = Errorf (''waiting for guest networks on '' @ vs_objName vm @
     '': context deadline exceeded (the template must run open-vm-tools and the network must provide DHCP or static network kargs)'')"

fun pollGuest :: "'w vsphereClient \<Rightarrow> vSession \<Rightarrow> vsObj \<Rightarrow> nat \<Rightarrow> (('w, 'z) exec_scheme, error, networkInfo list) op" where
  "pollGuest vc s vm 0 = pollOnce vc s vm (fail (errWaitGuest vm))"
| "pollGuest vc s vm (Suc n) = pollOnce vc s vm (pollGuest vc s vm n)"

definition waitTicks :: "'w vsphereClient \<Rightarrow> (('w, 'z) exec_scheme, error, nat) op" where
  "waitTicks vc = (\<lambda>s. case wait_ticks vc (world s) of (n, w) \<Rightarrow> (Inr n, s\<lparr>world := w\<rparr>))"

definition WaitForGuestNetworks ::
  "'w vsphereClient \<Rightarrow> vSession \<Rightarrow> vsObj \<Rightarrow> (('w, 'z) exec_scheme, error, networkInfo list) op" where
  "WaitForGuestNetworks vc s vm = bnd (waitTicks vc) (pollGuest vc s vm)"

definition GetVMNetworks ::
  "'w vsphereClient \<Rightarrow> vSession \<Rightarrow> string \<Rightarrow> (('w, 'z) exec_scheme, error, networkInfo list) op" where
  "GetVMNetworks vc s vmName =
     bnd (readCall (''looking up VM '' @ vmName) (find_vm vc s vmName)) (\<lambda>vm.
     bnd (readCall (''reading guest info for VM '' @ vmName) (vm_guest vc s vm)) (\<lambda>g.
     case g of
       None \<Rightarrow> fail (Errorf (''VM '' @ vmName @ '' has no guest info; open-vm-tools may not be installed''))
     | Some guest \<Rightarrow>
         if guest_tools guest \<noteq> guestToolsRunning then fail (Errorf (''guest tools are not running on VM '' @ vmName))
         else liftE (networksFromGuest guest)))"

section \<open>The marker\<close>

lemma keys_mapSet: "set (map fst (mapSet k v es)) = insert k (set (map fst es))"
  by (induction es) auto

lemma map_of_mapSet: "map_of (mapSet k v es) = (map_of es)(k \<mapsto> v)"
  by (induction es) (auto simp: fun_eq_iff)

lemma probe_carries_marker:
  assumes "range_order iter"
  shows "(probeMarkerExtraConfig, probeMarkerValue) \<in> set (probeExtraConfigValues iter ps)"
proof -
  have "set (iter xs) = set xs" for xs
    using assms by (metis range_order_def mset_eq_setD)
  then show ?thesis
    by (auto simp: probeExtraConfigValues_def probeValues_def Let_def map_of_mapSet keys_mapSet [unfolded list.set_map] image_iff)
qed

section \<open>Guarding\<close>

text \<open>A VM that vSphere reported to carry the marker, and a VM that is the result of cloning with
  the marker.\<close>

definition reportedProbe :: "'w vsphereClient \<Rightarrow> vSession \<Rightarrow> vsObj \<Rightarrow> bool" where
  "reportedProbe vc s vm \<longleftrightarrow> (\<exists>w config w'. vm_config vc s vm w = (Inr config, w') \<and> hasMarker config)"

definition marked :: "cloneSpec \<Rightarrow> bool" where
  "marked c \<longleftrightarrow> (probeMarkerExtraConfig, probeMarkerValue) \<in> set (clone_extraConfig c)"

definition clonedProbe :: "'w vsphereClient \<Rightarrow> vSession \<Rightarrow> vsObj \<Rightarrow> bool" where
  "clonedProbe vc s vm \<longleftrightarrow> (\<exists>tmpl c w task w' v v'. marked c \<and> vsphere_do vc s (CloneVM tmpl c) w = (Inr task, w') \<and>
     task_result vc s task v = (Inr (Some (vs_ref vm)), v'))"

definition probeStep :: "'w vsphereClient \<Rightarrow> mutation \<Rightarrow> bool" where
  "probeStep vc x = (case x of
      VSphereCall s (CloneVM tmpl c) \<Rightarrow> marked c
    | VSphereCall s (PowerOffVM vm) \<Rightarrow> reportedProbe vc s vm \<or> clonedProbe vc s vm
    | VSphereCall s (DestroyVM vm) \<Rightarrow> reportedProbe vc s vm \<or> clonedProbe vc s vm
    | _ \<Rightarrow> False)"

lemma isProbeVM_True: "isProbeVM vc s vm st = (Inr True, st') \<Longrightarrow> reportedProbe vc s vm"
  by (auto simp: isProbeVM_def bnd_Inr readCall_Inr reportedProbe_def)

lemma keeps_waitTicks [keeps_rules]: "keeps (safe m A) (waitTicks vc)"
  by (auto simp: keeps_def waitTicks_def split: prod.splits)

lemma keeps_probe_reads [keeps_rules]:
  "keeps (safe m A) (isProbeVM vc s vm)"
  "keeps (safe m A) (probeFolder vc s ps)"
  "keeps (safe m A) (probeResourcePool vc s ps)"
  "keeps (safe m A) (singleNICDeviceChange vc s tmpl net)"
  "keeps (safe m A) (readGuestNetworks vc s vm)"
  "keeps (safe m A) (GetVMNetworks vc s nm)"
  unfolding isProbeVM_def probeFolder_def probeResourcePool_def singleNICDeviceChange_def readGuestNetworks_def
    GetVMNetworks_def Let_def
  by (intro keeps_rules; simp)+

lemma keeps_pollGuest [keeps_rules]: "keeps (safe m A) (pollGuest vc s vm n)"
  by (induction n) (auto simp: pollOnce_def intro!: keeps_rules)

lemma keeps_WaitForGuestNetworks [keeps_rules]: "keeps (safe m A) (WaitForGuestNetworks vc s vm)"
  unfolding WaitForGuestNetworks_def by (intro keeps_rules)

context guarded_ctx
begin

lemma keeps_vsphereDo: "A (VSphereCall s x) \<Longrightarrow> keeps (safe m A) (vsphereDo ctx vc s t x)"
  unfolding vsphereDo_def by (rule keeps_checked_wrap)

lemma keeps_DestroyProbeVM:
  assumes "A (VSphereCall s (PowerOffVM vm))" and "A (VSphereCall s (DestroyVM vm))"
  shows "keeps (safe m A) (DestroyProbeVM ctx vc s vm)"
  unfolding DestroyProbeVM_def Let_def by (intro keeps_rules keeps_vsphereDo assms)

lemma keeps_destroyKnown:
  assumes "\<And>x. probeStep vc x \<Longrightarrow> A x" and "reportedProbe vc s vm \<or> clonedProbe vc s vm"
  shows "keeps (safe m A) (DestroyProbeVM ctx vc s vm)"
  by (rule keeps_DestroyProbeVM; rule assms(1)) (use assms(2) in \<open>simp_all add: probeStep_def\<close>)

lemma keeps_reapVM:
  assumes "\<And>x. probeStep vc x \<Longrightarrow> A x"
  shows "keeps (safe m A) (reapVM ctx vc s destroyed vm)"
  unfolding reapVM_def
proof (rule keeps_bnd_res)
  fix st probe st'
  assume "isProbeVM vc s vm st = (Inr probe, st')"
  then show "keeps (safe m A) (if \<not> probe then ret destroyed
      else bnd (DestroyProbeVM ctx vc s vm) (\<lambda>_. ret (destroyed @ [vs_objName vm])))"
    by (cases probe) (auto intro!: keeps_rules keeps_destroyKnown assms dest: isProbeVM_True)
qed (intro keeps_rules)

lemma keeps_ReapProbeVMs:
  assumes "\<And>x. probeStep vc x \<Longrightarrow> A x"
  shows "keeps (safe m A) (ReapProbeVMs ctx vc s pre)"
  unfolding ReapProbeVMs_def by (intro keeps_rules keeps_reapVM assms) simp_all

lemma keeps_cleanupFailedClone:
  assumes "\<And>x. probeStep vc x \<Longrightarrow> A x"
  shows "keeps (safe m A) (cleanupFailedClone ctx vc s ps e)"
  unfolding cleanupFailedClone_def
proof (rule keeps_attempt [OF keeps_bnd keeps_fail])
  show "keeps (safe m A) (request ReadCall (find_vm vc s (pr_name ps)))" by (intro keeps_rules) simp
  fix vm
  show "keeps (safe m A) (bnd (isProbeVM vc s vm) (\<lambda>probe. if \<not> probe then ret () else DestroyProbeVM ctx vc s vm))"
  proof (rule keeps_bnd_res)
    fix st probe st'
    assume "isProbeVM vc s vm st = (Inr probe, st')"
    then show "keeps (safe m A) (if \<not> probe then ret () else DestroyProbeVM ctx vc s vm)"
      by (cases probe) (auto intro!: keeps_rules keeps_destroyKnown assms dest: isProbeVM_True)
  qed (intro keeps_rules)
qed

lemma keeps_CreateProbeVM:
  assumes "\<And>x. probeStep vc x \<Longrightarrow> A x" and "range_order iter"
  shows "keeps (safe m A) (CreateProbeVM ctx vc iter s ps)"
  unfolding CreateProbeVM_def cloneProbe_def
  by (intro keeps_rules keeps_vsphereDo keeps_cleanupFailedClone assms)
    (auto simp: probeStep_def marked_def newCloneSpec_def intro: probe_carries_marker assms)

end

lemma attempt_run: "attempt m k s = (y, s') \<longleftrightarrow> (\<exists>r t. m s = (r, t) \<and> k r t = (y, s'))"
  by (cases "m s") (simp add: attempt_app)

lemma request_Inr:
  "request a c s = (Inr x, s') \<longleftrightarrow> (\<exists>w. c (world s) = (Inr x, w) \<and> s' = s\<lparr>world := w, trace := a # trace s\<rparr>)"
  by (cases "c (world s)") (auto simp: request_app apiResult_def split: sum.splits)

lemma vsphereDo_Inr:
  "vsphereDo ctx vc s t x st = (Inr task, st') \<Longrightarrow> \<exists>w w'. vsphere_do vc s x w = (Inr task, w')"
  by (auto simp: vsphereDo_def bnd_Inr request_Inr)

lemma cleanupFailedClone_Inl: "cleanupFailedClone ctx vc s ps e st \<noteq> (Inr x, st')"
  by (auto simp: cleanupFailedClone_def attempt_app split: prod.splits)

lemma cloneProbe_Inr:
  assumes "cloneProbe ctx vc s ps tmpl c st = (Inr vm, st')"
  shows "\<exists>task w w1 w2 w3. vsphere_do vc s (CloneVM tmpl c) w = (Inr task, w1) \<and>
    task_result vc s task w2 = (Inr (Some (vs_ref vm)), w3) \<and> vs_path vm = []"
proof -
  from assms obtain task u res v where do: "vsphereDo ctx vc s (msgClone ps) (CloneVM tmpl c) st = (Inr task, u)"
    and res: "request ReadCall (task_result vc s task) u = (res, v)"
    and fin: "(case res of Inl e \<Rightarrow> cleanupFailedClone ctx vc s ps (Wrapf (msgClone ps) e)
      | Inr None \<Rightarrow> fail (errCloneResult ps)
      | Inr (Some ref) \<Rightarrow> ret \<lparr>vs_ref = ref, vs_path = []\<rparr>) v = (Inr vm, st')"
    by (auto simp: cloneProbe_def bnd_Inr attempt_run)
  from fin obtain ref where "res = Inr (Some ref)" "vm = \<lparr>vs_ref = ref, vs_path = []\<rparr>"
    by (auto simp: cleanupFailedClone_Inl split: sum.splits option.splits)
  with res vsphereDo_Inr [OF do] show ?thesis
    by (auto simp: request_Inr)
qed

lemma cloneProbe_cloned:
  "cloneProbe ctx vc s ps tmpl c st = (Inr vm, st') \<Longrightarrow> marked c \<Longrightarrow> clonedProbe vc s vm"
  unfolding clonedProbe_def using cloneProbe_Inr by metis

lemma CreateProbeVM_cloned:
  assumes "CreateProbeVM ctx vc iter s ps st = (Inr vm, st')" and "range_order iter"
  shows "clonedProbe vc s vm"
proof -
  from assms(1) obtain tmpl fol ds pool changes u
    where "cloneProbe ctx vc s ps tmpl (newCloneSpec iter ps fol ds pool changes) u = (Inr vm, st')"
    by (auto simp: CreateProbeVM_def bnd_Inr)
  then show ?thesis
    by (rule cloneProbe_cloned) (simp add: marked_def newCloneSpec_def probe_carries_marker assms(2))
qed

section \<open>Waiting for the guest\<close>

lemma pollOnce_Inr:
  "pollOnce vc s vm next st = (Inr nets, st') \<longleftrightarrow>
     (\<exists>g t x ready. request ReadCall (vm_guest vc s vm) st = (Inr g, t) \<and> guestState g = Inr (x, ready) \<and>
        (if ready then x = nets \<and> st' = t else next t = (Inr nets, st')))"
  unfolding pollOnce_def by (fastforce simp: bnd_Inr readGuestNetworks_def split: if_splits)

lemma pollGuest_run:
  "pollGuest vc s vm n st = (Inr nets, st') \<Longrightarrow>
     \<exists>w g w'. vm_guest vc s vm w = (Inr g, w') \<and> guestState g = Inr (nets, True)"
  by (induction n arbitrary: st) (auto simp: pollOnce_Inr request_Inr split: if_splits)

text \<open>The world after \<open>k\<close> polls, and the snapshot the next poll sees.\<close>

definition afterPolls :: "'w vsphereClient \<Rightarrow> vSession \<Rightarrow> vsObj \<Rightarrow> nat \<Rightarrow> 'w \<Rightarrow> 'w" where
  "afterPolls vc s vm k = (\<lambda>w. snd (vm_guest vc s vm w)) ^^ k"

definition snapshot :: "'w vsphereClient \<Rightarrow> vSession \<Rightarrow> vsObj \<Rightarrow> nat \<Rightarrow> 'w \<Rightarrow> error + networkInfo list \<times> bool" where
  "snapshot vc s vm k w = bindE (apiResult (fst (vm_guest vc s vm (afterPolls vc s vm k w)))) guestState"

lemma snapshot_Suc: "snapshot vc s vm (Suc k) w = snapshot vc s vm k (snd (vm_guest vc s vm w))"
  by (simp add: snapshot_def afterPolls_def funpow_Suc_right del: funpow.simps)

lemma pollOnce_step:
  assumes "snapshot vc s vm 0 (world st) = Inr (nets, ready)"
  shows "pollOnce vc s vm next st =
    (let t = st\<lparr>world := snd (vm_guest vc s vm (world st)), trace := ReadCall # trace st\<rparr> in
     if ready then (Inr nets, t) else next t)"
  using assms
  by (auto simp: pollOnce_def snapshot_def afterPolls_def readGuestNetworks_def bnd_app wrapErr_def attempt_app request_app
      Let_def split: prod.splits sum.splits)

text \<open>
  C36: waiting for a probe's guest succeeds once the guest is network-ready: if the snapshots
  before poll \<open>k\<close> are readable but not ready, snapshot \<open>k\<close> is ready, and the context lasts
  for at least \<open>k\<close> ticks, then the wait returns exactly the networks of that snapshot, and
  with fewer ticks it ends with an error instead of waiting on.
\<close>

theorem guest_wait_returns:
  assumes "\<And>i. i < k \<Longrightarrow> \<exists>nets. snapshot vc s vm i (snd (wait_ticks vc (world st))) = Inr (nets, False)"
    and "snapshot vc s vm k (snd (wait_ticks vc (world st))) = Inr (nets, True)"
  shows "(if k \<le> fst (wait_ticks vc (world st))
          then fst (WaitForGuestNetworks vc s vm st) = Inr nets
          else \<exists>e. fst (WaitForGuestNetworks vc s vm st) = Inl e)"
proof -
  have poll: "(if k \<le> n then fst (pollGuest vc s vm n t) = Inr nets else \<exists>e. fst (pollGuest vc s vm n t) = Inl e)"
    if "\<And>i. i < k \<Longrightarrow> \<exists>nets. snapshot vc s vm i (world t) = Inr (nets, False)"
      and "snapshot vc s vm k (world t) = Inr (nets, True)" for n and t :: "('a, 'b) exec_scheme"
    using that
  proof (induction k arbitrary: n t)
    case 0
    then show ?case by (cases n) (simp_all add: pollOnce_step Let_def)
  next
    case (Suc k)
    from Suc.prems(1) [of 0] obtain nets0 where now: "snapshot vc s vm 0 (world t) = Inr (nets0, False)" by auto
    let ?t = "t\<lparr>world := snd (vm_guest vc s vm (world t)), trace := ReadCall # trace t\<rparr>"
    have later: "\<exists>nets. snapshot vc s vm i (world ?t) = Inr (nets, False)" if "i < k" for i
      using Suc.prems(1) [of "Suc i"] that by (simp add: snapshot_Suc)
    have "snapshot vc s vm k (world ?t) = Inr (nets, True)" using Suc.prems(2) by (simp add: snapshot_Suc)
    note IH = Suc.IH [of ?t, OF later this]
    show ?case using IH by (cases n) (simp_all add: pollOnce_step [OF now] Let_def)
  qed
  show ?thesis
    using poll [of "st\<lparr>world := snd (wait_ticks vc (world st))\<rparr>" "fst (wait_ticks vc (world st))"] assms
    by (cases "wait_ticks vc (world st)") (simp add: WaitForGuestNetworks_def waitTicks_def bnd_app split: if_splits)
qed

text \<open>A guest that comes up at the third poll: the world counts the polls.\<close>

definition sampleGuest :: guestInfo where
  "sampleGuest = \<lparr>guest_tools = guestToolsRunning,
     guest_net = [\<lparr>nic_connected = True, nic_ipConfig = Some [(''10.0.0.7'', 24)], nic_ipAddress = [''10.0.0.7'', ''fe80::1'']\<rparr>],
     guest_ipStack = [Some [\<lparr>route_network = ''0.0.0.0'', route_prefix = 0, route_gateway = ''10.0.0.1''\<rparr>]]\<rparr>"

definition sampleNetwork :: networkInfo where
  "sampleNetwork = \<lparr>ni_ip = ''10.0.0.7'', ni_prefix = 24, ni_gateway = ''10.0.0.1''\<rparr>"

definition bootingClient :: "nat vsphereClient" where
  "bootingClient = sampleVSphereClient\<lparr>vm_guest := (\<lambda>_ _ w. (Inr (if w < 2 then None else Some sampleGuest), Suc w)),
     wait_ticks := (\<lambda>w. (3, w))\<rparr>"

definition sampleSession :: vSession where
  "sampleSession = \<lparr>sess_server = ''vc2'', sess_datacenter = ''DC2'', sess_user = ''root'', sess_key = ''k''\<rparr>"

definition sampleVM :: vsObj where
  "sampleVM = \<lparr>vs_ref = ''vm-1'', vs_path = []\<rparr>"

lemma fields_sample:
  "map parseOctet (splitOn CHR ''.'' [] ''10.0.0.7'') = [Some 10, Some 0, Some 0, Some 7]"
  "map parseOctet (splitOn CHR ''.'' [] ''fe80::1'') = [None]"
  "join ''.'' (map itoa [10, 0, 0, 7]) = ''10.0.0.7''"
  by code_simp+

lemma parse_sample:
  "ParseAddr ''10.0.0.7'' = Some (ofOctets 10 0 0 7)"
  "ParseAddr ''fe80::1'' = None"
  "addr_String (ofOctets 10 0 0 7) = ''10.0.0.7''"
  unfolding ParseAddr_def addr_String_def fields_sample by (simp_all add: octets_ofOctets fields_sample [simplified])

lemma guestState_sample: "guestState (Some sampleGuest) = Inr ([sampleNetwork], True)"
  by (simp add: guestState_def sampleGuest_def networksFromGuest_def defaultGateway_def stackGateways_def append_new_def
      bindE_def nicAddresses_def networkOf_def parse_sample sampleNetwork_def)

theorem guest_wait_returns_witness:
  "fst (WaitForGuestNetworks bootingClient sampleSession sampleVM \<lparr>world = 0, trace = []\<rparr>) = Inr [sampleNetwork]"
proof -
  have snap: "snapshot bootingClient sampleSession sampleVM i 0 = guestState (if i < 2 then None else Some sampleGuest)" for i
  proof -
    have "afterPolls bootingClient sampleSession sampleVM i 0 = i"
      by (induction i) (simp_all add: afterPolls_def bootingClient_def)
    then show ?thesis by (simp add: snapshot_def bootingClient_def apiResult_def bindE_def)
  qed
  have ticks: "wait_ticks bootingClient w = (3, w)" for w by (simp add: bootingClient_def)
  show ?thesis
    using guest_wait_returns [of 2 bootingClient sampleSession sampleVM "\<lparr>world = 0, trace = []\<rparr>" "[sampleNetwork]"]
    by (simp add: snap guestState_sample ticks) (simp add: guestState_def)
qed

end
