(* ===== verification/NetCheck.thy ===== *)
theory NetCheck
  imports Probe
begin

text \<open>
  The networking preflight, \<open>internal/controller/preflight_netcheck.go\<close>: the networks of the
  source nodes, a probe per destination failure domain, and the comparison. \<open>m\<close> is the
  migration the handler works on, of which only the spec and the namespace are read.
\<close>

section \<open>Definitions\<close>

definition nodeNetworks ::
  "'w vsphereClient \<Rightarrow> vSession \<Rightarrow> networkInfo list \<Rightarrow> nodeObj \<Rightarrow> (('w, 'z) exec_scheme, error, networkInfo list) op" where
  "nodeNetworks vc s nets node =
     (let t = ''reading networks for source node '' @ node_name node in
      bnd (wrapErr t (GetVMNetworks vc s (node_name node))) (\<lambda>ns.
      if ns = [] then fail (Errorf (t @ '': no networks reported'')) else ret (nets @ ns)))"

definition collectSourceNetworks :: "('w, 'b) reconciler_scheme \<Rightarrow> vSession \<Rightarrow> ('w, networkInfo list) handler" where
  "collectSourceNetworks r s =
     bnd (readCall ''listing nodes'' (nodes_list (r_kube r))) (foldM (nodeNetworks (r_vsphere r) s) [])"

text \<open>The credentials of a destination, read once per server.\<close>

type_synonym credsByServer = "(string \<times> string \<times> string) list"

definition targetCredentials ::
  "('w, 'b) reconciler_scheme \<Rightarrow> migration \<Rightarrow> credsByServer \<Rightarrow> string \<Rightarrow> ('w, (string \<times> string) \<times> credsByServer) handler" where
  "targetCredentials r m known server = (case map_of known server of
      Some c \<Rightarrow> ret (c, known)
    | None \<Rightarrow>
        bnd (wrapErr (''getting credentials for target '' @ server) (getTargetCredentials (r_kube r) m server)) (\<lambda>c.
        ret (c, mapSet server c known)))"

definition indexOutOfRange :: error where
  "indexOutOfRange = Errorf ''index out of range [0] with length 0''"

definition fdProbeSpec :: "string \<Rightarrow> failureDomain \<Rightarrow> error + probeSpec" where
  "fdProbeSpec infraID fd = (let tp = fd_topology fd in case networks tp of
      [] \<Rightarrow> Inl indexOutOfRange
    | net # _ \<Rightarrow> Inr \<lparr>pr_name = probeName infraID (fd_name fd), pr_datacenter = datacenter tp, pr_cluster = computeCluster tp,
        pr_datastore = datastore tp, pr_resourcePool = resourcePool tp, pr_folder = folder tp, pr_template = template tp,
        pr_network = net, pr_ignition = [], pr_networkKargs = [], pr_extraConfig = []\<rparr>)"

text \<open>Waiting for the probe and destroying it: now when the wait failed, joining both errors, and a
  second time by the deferred call when the regular destruction failed.\<close>

definition observeProbe ::
  "'w rstate ctx \<Rightarrow> ('w, 'b) reconciler_scheme \<Rightarrow> vSession \<Rightarrow> string \<Rightarrow> vsObj \<Rightarrow> ('w, networkInfo list) handler" where
  "observeProbe ctx r s nm vm =
     attempt (wrapErr (''waiting for guest networks on probe VM '' @ nm) (WaitForGuestNetworks (r_vsphere r) s vm)) (\<lambda>res.
     case res of
       Inl e \<Rightarrow>
         attempt (DestroyProbeVM ctx (r_vsphere r) s vm) (\<lambda>gone.
         fail (case gone of Inl c \<Rightarrow> JoinErr e c | Inr _ \<Rightarrow> e))
     | Inr nets \<Rightarrow>
         attempt (DestroyProbeVM ctx (r_vsphere r) s vm) (\<lambda>gone.
         case gone of
           Inl c \<Rightarrow>
             attempt (DestroyProbeVM ctx (r_vsphere r) s vm) (\<lambda>_.
             fail (Wrapf (''destroying probe VM '' @ nm) c))
         | Inr _ \<Rightarrow> ret nets))"

definition msgProbe :: "string \<Rightarrow> string \<Rightarrow> string" where
  "msgProbe nm fdName = ''creating probe VM '' @ nm @ '' on failure domain '' @ quote fdName"

definition probeFD ::
  "'w rstate ctx \<Rightarrow> ('w, 'b) reconciler_scheme \<Rightarrow> string \<Rightarrow> failureDomain \<Rightarrow> vSession \<Rightarrow> ('w, networkInfo list) handler" where
  "probeFD ctx r infraID fd s =
     bnd (wrapErr (''reaping stale probe VMs on '' @ fd_server fd)
            (ReapProbeVMs ctx (r_vsphere r) s (probeNamePrefix @ infraID @ ''-''))) (\<lambda>_.
     bnd (liftE (fdProbeSpec infraID fd)) (\<lambda>ps.
     bnd (wrapErr (msgProbe (pr_name ps) (fd_name fd)) (CreateProbeVM ctx (r_vsphere r) (r_iter r) s ps)) (\<lambda>vm.
     observeProbe ctx r s (pr_name ps) vm)))"

definition mismatchOf :: "failureDomain \<Rightarrow> networkInfo list \<Rightarrow> networkInfo list \<Rightarrow> string list" where
  "mismatchOf fd sources nets =
     (let bad = filter (\<lambda>n. \<not> fst (MatchesAny n sources)) nets in
      if bad \<noteq> [] then [describeFDMismatch (fd_name fd) bad sources] else [])"

definition checkFDNetworking ::
  "'w rstate ctx \<Rightarrow> ('w, 'b) reconciler_scheme \<Rightarrow> migration \<Rightarrow> string \<Rightarrow> networkInfo list \<Rightarrow>
   credsByServer \<times> string list \<Rightarrow> failureDomain \<Rightarrow> ('w, credsByServer \<times> string list) handler" where
  "checkFDNetworking ctx r m infraID sources = (\<lambda>(known, mismatches) fd.
     bnd (setProgressing r ConditionInfrastructurePrepared
            (''Checking networking for failure domain '' @ quote (fd_name fd))) (\<lambda>_.
     bnd (targetCredentials r m known (fd_server fd)) (\<lambda>((user, pass), known').
     bnd (wrapErr (''connecting to target vCenter '' @ fd_server fd)
            (getVSphereSession r (fd_server fd) (datacenter (fd_topology fd)) user pass)) (\<lambda>s.
     bnd (probeFD ctx r infraID fd s) (\<lambda>nets.
     ret (known', mismatches @ mismatchOf fd sources nets))))))"

definition errDatacenters :: "vcenterSpec \<Rightarrow> error" where
  "errDatacenters vc = Errorf (''source vCenter '' @ vc_server vc @ '' has '' @ itoa (length (vc_datacenters vc)) @
     '' datacenters configured; exactly one is required for the networking preflight'')"

definition errNoNetworks :: "string \<Rightarrow> error" where
  "errNoNetworks server = Errorf (''no source node networks could be read from the source vCenter '' @ server @
     ''; open-vm-tools must be running on source nodes and node names must match VM names'')"

text \<open>The networks of the source nodes.\<close>

definition sourceNetworks :: "('w, 'b) reconciler_scheme \<Rightarrow> vcenterSpec \<Rightarrow> string \<Rightarrow> ('w, networkInfo list) handler" where
  "sourceNetworks r sourceVC dc =
     bnd (wrapErr (''getting source vCenter credentials for '' @ vc_server sourceVC)
            (GetCredentials (r_kube r) (vc_server sourceVC))) (\<lambda>(user, pass).
     bnd (wrapErr (''connecting to source vCenter '' @ vc_server sourceVC)
            (getVSphereSession r (vc_server sourceVC) dc user pass)) (\<lambda>s.
     bnd (collectSourceNetworks r s) (\<lambda>sources.
     if sources = [] then fail (errNoNetworks (vc_server sourceVC)) else ret sources)))"

definition reportMismatches :: "string list \<Rightarrow> ('w, unit) handler" where
  "reportMismatches mismatches =
     (if mismatches = [] then ret ()
      else let msg = join ''; '' mismatches in
        bnd (Eventf EventWarning ''NetworkMismatch'' msg) (\<lambda>_.
        fail (Errorf (''destination networking preflight failed: '' @ msg))))"

definition checkNetworkingViaProbeVMs ::
  "'w rstate ctx \<Rightarrow> ('w, 'b) reconciler_scheme \<Rightarrow> migration \<Rightarrow> vcenterSpec \<Rightarrow> ('w, unit) handler" where
  "checkNetworkingViaProbeVMs ctx r m sourceVC = (case vc_datacenters sourceVC of
      [dc] \<Rightarrow>
        bnd (wrapErr ''getting infrastructure ID'' (GetInfrastructureID (r_config r))) (\<lambda>infraID.
        bnd (sourceNetworks r sourceVC dc) (\<lambda>sources.
        bnd (foldM (checkFDNetworking ctx r m infraID sources) ([], []) (spec_failureDomains (spec m))) (\<lambda>(_, mismatches).
        reportMismatches mismatches)))
    | _ \<Rightarrow> fail (errDatacenters sourceVC))"

section \<open>Guarding\<close>

lemma keeps_netcheck_reads [keeps_rules]:
  "keeps (safe k A) (nodeNetworks vc s nets node)"
  "keeps (safe k A) (collectSourceNetworks r s)"
  "keeps (safe k A) (targetCredentials r m known server)"
  "keeps (safe k A) (sourceNetworks r sourceVC dc)"
  "keeps (safe k A) (reportMismatches ms)"
  unfolding nodeNetworks_def collectSourceNetworks_def targetCredentials_def sourceNetworks_def reportMismatches_def Let_def
  by (intro keeps_rules)+

context handler_ctx
begin

lemma keeps_observeProbe:
  assumes "\<And>x. probeStep (r_vsphere r) x \<Longrightarrow> A x" and "clonedProbe (r_vsphere r) s vm"
  shows "keeps (safe m A) (observeProbe ctx r s nm vm)"
  unfolding observeProbe_def by (intro keeps_rules keeps_destroyKnown assms disjI2)

lemma keeps_probeFD:
  assumes "\<And>x. probeStep (r_vsphere r) x \<Longrightarrow> A x" and "range_order (r_iter r)"
  shows "keeps (safe m A) (probeFD ctx r infraID fd s)"
proof -
  have create: "keeps (safe m A) (bnd (wrapErr t (CreateProbeVM ctx (r_vsphere r) (r_iter r) s ps)) (observeProbe ctx r s nm))"
    for t ps nm
  proof (rule keeps_bnd_res)
    show "keeps (safe m A) (wrapErr t (CreateProbeVM ctx (r_vsphere r) (r_iter r) s ps))"
      by (intro keeps_wrapErr keeps_CreateProbeVM assms)
    fix st vm st'
    assume "wrapErr t (CreateProbeVM ctx (r_vsphere r) (r_iter r) s ps) st = (Inr vm, st')"
    then show "keeps (safe m A) (observeProbe ctx r s nm vm)"
      by (intro keeps_observeProbe assms CreateProbeVM_cloned [OF _ assms(2)]) simp_all
  qed
  show ?thesis
    unfolding probeFD_def by (intro keeps_bnd keeps_wrapErr keeps_ReapProbeVMs keeps_liftE create assms)
qed

lemma keeps_checkNetworking:
  assumes "\<And>x. probeStep (r_vsphere r) x \<Longrightarrow> A x" and "range_order (r_iter r)"
  shows "keeps (safe m A) (checkNetworkingViaProbeVMs ctx r mg sourceVC)"
  unfolding checkNetworkingViaProbeVMs_def checkFDNetworking_def split_def
  by (intro keeps_rules keeps_probeFD assms)

end

section \<open>What a passed check shows\<close>

text \<open>\<open>probed\<close>: a clone of the failure domain's template, under the name and with the placement of
  its probe spec, reported networks with a default gateway, and each of them matches a source network.\<close>

definition probed :: "('w, 'b) reconciler_scheme \<Rightarrow> string \<Rightarrow> networkInfo list \<Rightarrow> failureDomain \<Rightarrow> bool" where
  "probed r infraID sources fd \<longleftrightarrow> (\<exists>s ps tmpl fol ds pool changes task ref w w1 w2 w3 w4 w5 g nets.
     fdProbeSpec infraID fd = Inr ps \<and>
     vsphere_do (r_vsphere r) s (CloneVM tmpl (newCloneSpec (r_iter r) ps fol ds pool changes)) w = (Inr task, w1) \<and>
     task_result (r_vsphere r) s task w2 = (Inr (Some ref), w3) \<and>
     vm_guest (r_vsphere r) s \<lparr>vs_ref = ref, vs_path = []\<rparr> w4 = (Inr (Some g), w5) \<and>
     networksFromGuest g = Inr nets \<and> nets \<noteq> [] \<and> (\<forall>n \<in> set nets. fst (MatchesAny n sources)))"

lemma CreateProbeVM_Inr:
  assumes "CreateProbeVM ctx vc iter s ps st = (Inr vm, st')"
  shows "\<exists>tmpl fol ds pool changes task w w1 w2 w3.
    vsphere_do vc s (CloneVM tmpl (newCloneSpec iter ps fol ds pool changes)) w = (Inr task, w1) \<and>
    task_result vc s task w2 = (Inr (Some (vs_ref vm)), w3) \<and> vs_path vm = []"
proof -
  from assms obtain tmpl fol ds pool changes u
    where "cloneProbe ctx vc s ps tmpl (newCloneSpec iter ps fol ds pool changes) u = (Inr vm, st')"
    by (auto simp: CreateProbeVM_def bnd_Inr)
  from cloneProbe_Inr [OF this] show ?thesis by blast
qed

lemma observeProbe_Inr:
  assumes "observeProbe ctx r s nm vm st = (Inr nets, st')"
  shows "\<exists>w g w'. vm_guest (r_vsphere r) s vm w = (Inr (Some g), w') \<and> networksFromGuest g = Inr nets \<and> nets \<noteq> []"
proof -
  obtain res u where "wrapErr (''waiting for guest networks on probe VM '' @ nm) (WaitForGuestNetworks (r_vsphere r) s vm) st = (res, u)"
    by fastforce
  with assms have "WaitForGuestNetworks (r_vsphere r) s vm st = (Inr nets, u)"
    by (cases res) (auto simp: observeProbe_def attempt_app split: prod.splits sum.splits)
  then obtain n t where "pollGuest (r_vsphere r) s vm n t = (Inr nets, u)"
    by (auto simp: WaitForGuestNetworks_def bnd_Inr)
  from pollGuest_run [OF this] obtain w g w' where "vm_guest (r_vsphere r) s vm w = (Inr g, w')"
    "guestState g = Inr (nets, True)" by blast
  then show ?thesis
    by (auto simp: guestState_def split: option.splits if_splits intro!: exI)
qed

lemma probeFD_Inr:
  assumes "probeFD ctx r infraID fd s st = (Inr nets, st')" and "mismatchOf fd sources nets = []"
  shows "probed r infraID sources fd"
proof -
  from assms(1) obtain ps vm t u where ps: "fdProbeSpec infraID fd = Inr ps"
    and create: "CreateProbeVM ctx (r_vsphere r) (r_iter r) s ps t = (Inr vm, u)"
    and obs: "observeProbe ctx r s (pr_name ps) vm u = (Inr nets, st')"
    by (auto simp: probeFD_def bnd_Inr)
  have "\<forall>n \<in> set nets. fst (MatchesAny n sources)"
    using assms(2) by (auto simp: mismatchOf_def Let_def filter_empty_conv split: if_splits)
  moreover have "vm = \<lparr>vs_ref = vs_ref vm, vs_path = []\<rparr>"
    using CreateProbeVM_Inr [OF create] by (cases vm) auto
  ultimately show ?thesis
    unfolding probed_def using ps CreateProbeVM_Inr [OF create] observeProbe_Inr [OF obs] by metis
qed

lemma checkFD_loop:
  assumes "foldM (checkFDNetworking ctx r m infraID sources) acc fds st = (Inr (known, []), st')"
  shows "snd acc = [] \<and> (\<forall>fd \<in> set fds. probed r infraID sources fd)"
  using assms
proof (induction fds arbitrary: acc st)
  case (Cons fd fds)
  then obtain acc' t where step: "checkFDNetworking ctx r m infraID sources acc fd st = (Inr acc', t)"
    and rest: "foldM (checkFDNetworking ctx r m infraID sources) acc' fds t = (Inr (known, []), st')"
    by (auto simp: bnd_Inr)
  from Cons.IH [OF rest] have acc': "snd acc' = []" and "\<forall>fd \<in> set fds. probed r infraID sources fd" by auto
  moreover from step acc' obtain s nets u v where "probeFD ctx r infraID fd s u = (Inr nets, v)"
    "snd acc = []" "mismatchOf fd sources nets = []"
    by (auto simp: checkFDNetworking_def bnd_Inr split: prod.splits)
  ultimately show ?case by (auto intro: probeFD_Inr)
qed auto

lemma network_check_passed:
  assumes "checkNetworkingViaProbeVMs ctx r m sourceVC s = (Inr (), s')"
  shows "\<exists>infraID sources. sources \<noteq> [] \<and> (\<forall>fd \<in> set (spec_failureDomains (spec m)). probed r infraID sources fd)"
proof -
  from assms obtain dc infraID sources known t u v
    where src: "sourceNetworks r sourceVC dc t = (Inr sources, u)"
      and loop: "foldM (checkFDNetworking ctx r m infraID sources) ([], []) (spec_failureDomains (spec m)) u = (Inr (known, []), v)"
    by (auto simp: checkNetworkingViaProbeVMs_def reportMismatches_def Let_def bnd_Inr split: list.splits if_splits)
  from src have "sources \<noteq> []" by (auto simp: sourceNetworks_def bnd_Inr split: if_splits)
  with checkFD_loop [OF loop] show ?thesis by blast
qed

text \<open>
  The networking preflight touches a vCenter only with the permission just read and only to
  clone probes that carry the marker and to power off and destroy virtual machines that are such
  clones or were reported to carry the marker; and it passes only if source networks were found
  and, for every destination failure domain, a probe cloned there reported networks that all
  match a source network.
\<close>

theorem network_preflight_sound:
  assumes "range_order (r_iter r)"
    and "checkNetworkingViaProbeVMs (executionContext ctx (r_client r) k) r m sourceVC s = (res, s')"
    and "trace s = []"
  shows "trace_ok k (probeStep (r_vsphere r)) (trace s') \<and>
    (res = Inr () \<longrightarrow> (\<exists>infraID sources. sources \<noteq> [] \<and>
       (\<forall>fd \<in> set (spec_failureDomains (spec m)). probed r infraID sources fd)))"
proof
  have "keeps (safe k (probeStep (r_vsphere r))) (checkNetworkingViaProbeVMs (executionContext ctx (r_client r) k) r m sourceVC)"
    by (rule hc.keeps_checkNetworking) (use assms(1) in simp_all)
  from keepsD [OF this _ assms(2)] assms(3) show "trace_ok k (probeStep (r_vsphere r)) (trace s')"
    by (simp add: safe_def)
  show "res = Inr () \<longrightarrow> (\<exists>infraID sources. sources \<noteq> [] \<and>
       (\<forall>fd \<in> set (spec_failureDomains (spec m)). probed r infraID sources fd))"
    using assms(2) network_check_passed by blast
qed

text \<open>A cluster with one node, credentials for both vCenters and one destination failure domain,
  in which source and probe guests report the same network and every object carries its tags.\<close>

definition netKube :: "migration kubeClient" where
  "netKube = sampleKubeClient\<lparr>nodes_list := (\<lambda>w. (Inr [\<lparr>node_name = ''n'', node_conditions = []\<rparr>], w)),
     secrets_get := (\<lambda>ns nm w. (Inr \<lparr>sec_namespace = ns, sec_name = nm, sec_data = (\<lambda>_. Some ''u''),
       sec_labels = Map.empty, sec_ownerReferences = [], sec_type = []\<rparr>, w))\<rparr>"

definition netVSphere :: "migration vsphereClient" where
  "netVSphere = sampleVSphereClient\<lparr>vm_guest := (\<lambda>_ _ w. (Inr (Some sampleGuest), w)),
     tags_getCategory := (\<lambda>_ nm w. (Inr (Some \<lparr>cat_id = ''c'', cat_name = nm, cat_description = [], cat_cardinality = ''SINGLE'',
       cat_associableTypes = []\<rparr>), w)),
     tags_listForCategory := (\<lambda>_ _ w. (Inr [''t''], w)), tags_listAttached := (\<lambda>_ _ w. (Inr [''t''], w))\<rparr>"

definition netFD :: failureDomain where
  "netFD = \<lparr>fd_name = ''d'', fd_region = ''r'', fd_zone = ''z'', fd_server = ''b'', regionAffinity = None, zoneAffinity = None,
     fd_topology = \<lparr>datacenter = ''D'', computeCluster = ''C'', networks = [''N''], datastore = ''S'', resourcePool = [],
       folder = [], template = ''T''\<rparr>\<rparr>"

definition netMigration :: migration where
  "netMigration = sampleMigration\<lparr>spec := (spec sampleMigration)\<lparr>spec_failureDomains := [netFD]\<rparr>\<rparr>"

definition netSource :: vcenterSpec where
  "netSource = \<lparr>vc_server = ''a'', vc_port = 443, vc_datacenters = [''D'']\<rparr>"

definition netInfra :: infrastructure where
  "netInfra = \<lparr>infra_objName = ''cluster'', infra_uid = [], vsphere = Some \<lparr>vcenters = [netSource],
     infra_failureDomains = [netFD\<lparr>fd_name := ''e'', fd_server := ''a''\<rparr>]\<rparr>, infrastructureName = ''i''\<rparr>"

definition netConfig :: "migration configClient" where
  "netConfig = (sampleConfigClient netInfra)\<lparr>
     clusterVersions_get := (\<lambda>_ w. (Inr \<lparr>desiredVersion = ''5'', cv_conditions = []\<rparr>, w)),
     featureGates_get := (\<lambda>_ w. (Inr [\<lparr>fg_version = ''5'', fg_enabled = [featureGateVSphereMultiVCenterDay2]\<rparr>], w))\<rparr>"

definition netReconciler :: "migration reconciler" where
  "netReconciler = (sampleReconciler sampleClient netInfra [])\<lparr>r_kube := netKube, r_vsphere := netVSphere, r_config := netConfig\<rparr>"

abbreviation netCtx :: "migration rstate ctx" where
  "netCtx \<equiv> executionContext None sampleClient netMigration"

lemma net_fields:
  "r_client netReconciler = sampleClient" "r_kube netReconciler = netKube" "r_vsphere netReconciler = netVSphere"
  "r_config netReconciler = netConfig" "r_iter netReconciler = (\<lambda>xs. xs)"
  "r_dynamic netReconciler = sampleDynamicClient" "r_machine netReconciler = sampleMachineClient [] [] sampleCPMS"
  by (simp_all add: netReconciler_def sampleReconciler_def)

lemma net_answers:
  "nodes_list netKube = (\<lambda>w. (Inr [\<lparr>node_name = ''n'', node_conditions = []\<rparr>], w))"
  "infrastructures_get netConfig nm = (\<lambda>w. (Inr netInfra, w))"
  "find_cluster netVSphere s q = (\<lambda>w. (Inr \<lparr>vs_ref = q, vs_path = q\<rparr>, w))"
  "vim_connect netVSphere h i = (\<lambda>w. (Inr (), w))" "vim_login netVSphere h u p = (\<lambda>w. (Inr ''k'', w))"
  "rest_login netVSphere h u p = (\<lambda>w. (Inr (), w))"
  "find_datacenter netVSphere s q = (\<lambda>w. (Inr \<lparr>vs_ref = q, vs_path = q\<rparr>, w))"
  "find_datastore netVSphere s q = (\<lambda>w. (Inr \<lparr>vs_ref = q, vs_path = q\<rparr>, w))"
  "find_network netVSphere s q = (\<lambda>w. (Inr \<lparr>vs_ref = q, vs_path = q\<rparr>, w))"
  "find_resourcePool netVSphere s q = (\<lambda>w. (Inr \<lparr>vs_ref = q, vs_path = q\<rparr>, w))"
  "find_vm netVSphere s q = (\<lambda>w. (Inr \<lparr>vs_ref = q, vs_path = q\<rparr>, w))"
  "find_vms netVSphere s q = (\<lambda>w. (Inr [], w))"
  "dc_vmFolder netVSphere s d = (\<lambda>w. (Inr (Some \<lparr>vs_ref = ''group-v1'', vs_path = vs_path d @ ''/vm''\<rparr>), w))"
  "vm_devices netVSphere s v = (\<lambda>w. (Inr [], w))" "net_backing netVSphere s n = (\<lambda>w. (Inr (OtherBacking (vs_ref n)), w))"
  "vm_guest netVSphere s v = (\<lambda>w. (Inr (Some sampleGuest), w))" "vm_powerState netVSphere s v = (\<lambda>w. (Inr ''poweredOff'', w))"
  "vsphere_do netVSphere s x = (\<lambda>w. (Inr ''task-1'', w))" "task_result netVSphere s t = (\<lambda>w. (Inr (Some t), w))"
  "wait_ticks netVSphere = (\<lambda>w. (0, w))"
  "vim_logout netVSphere s = (\<lambda>w. (Inr (), w))" "rest_logout netVSphere s = (\<lambda>w. (Inr (), w))"
  "vim_userSession netVSphere s = (\<lambda>w. (Inr (Some (sess_user s)), w))"
  "auth_hasPrivileges netVSphere s e u = (\<lambda>ps w. (Inr [map (\<lambda>p. (p, True)) ps], w))"
  "persistentVolumes_list netKube = (\<lambda>w. (Inr [], w))"
  "clusterVersions_get netConfig nm = (\<lambda>w. (Inr \<lparr>desiredVersion = ''5'', cv_conditions = []\<rparr>, w))"
  "featureGates_get netConfig nm = (\<lambda>w. (Inr [\<lparr>fg_version = ''5'', fg_enabled = [featureGateVSphereMultiVCenterDay2]\<rparr>], w))"
  "clusterOperators_list netConfig = (\<lambda>w. (Inr [], w))"
  by (simp_all add: netKube_def sampleKubeClient_def netVSphere_def sampleVSphereClient_def netConfig_def
      sampleConfigClient_def Let_def)

lemma net_id: "infrastructureName netInfra = ''i''"
  by (simp add: netInfra_def)

lemma net_check [steady_rules]: "P () \<Longrightarrow> steady netMigration (Check netCtx) P"
  by (rule steady_Check [where l = netMigration])
    (simp_all add: net_fields sampleClient_def stillRunning_def netMigration_def sampleMigration_def)

lemma net_do [steady_rules]: "P ''task-1'' \<Longrightarrow> steady netMigration (vsphereDo netCtx netVSphere v t x) P"
  unfolding vsphereDo_def by (rule steady_rules refl | simp add: net_answers)+

lemma net_destroy [steady_rules]: "P () \<Longrightarrow> steady netMigration (DestroyProbeVM netCtx netVSphere v vm) P"
  unfolding DestroyProbeVM_def Let_def by (rule steady_rules refl | simp add: net_answers)+

lemma net_reap [steady_rules]: "P [] \<Longrightarrow> steady netMigration (ReapProbeVMs netCtx netVSphere v pre) P"
  unfolding ReapProbeVMs_def by (rule steady_rules refl | simp add: net_answers)+

lemma net_create [steady_rules]:
  assumes "pr_folder ps = []" and "P \<lparr>vs_ref = ''task-1'', vs_path = []\<rparr>"
  shows "steady netMigration (CreateProbeVM netCtx netVSphere iter v ps) P"
  unfolding CreateProbeVM_def probeFolder_def probeResourcePool_def singleNICDeviceChange_def cloneProbe_def Let_def
  using assms by - (rule steady_rules refl | simp add: net_answers)+

lemma net_guest: "networksFromGuest sampleGuest = Inr [sampleNetwork]" "guest_tools sampleGuest = guestToolsRunning"
  using guestState_sample by (auto simp: guestState_def bindE_Inl split: if_splits)

lemma net_wait [steady_rules]: "P [sampleNetwork] \<Longrightarrow> steady netMigration (WaitForGuestNetworks netVSphere v vm) P"
proof -
  have "steady netMigration (waitTicks netVSphere) (\<lambda>n. n = 0)"
    by (rule steadyI) (simp add: waitTicks_def net_answers)
  then show "P [sampleNetwork] \<Longrightarrow> ?thesis"
    unfolding WaitForGuestNetworks_def
    by - (erule steady_bnd_eq, simp add: pollOnce_def readGuestNetworks_def,
      (rule steady_rules refl | simp add: net_answers guestState_sample)+)
qed

lemma net_creds [steady_rules]:
  "P (''u'', ''u'') \<Longrightarrow> steady netMigration (GetCredentials netKube server) P"
  "P (''u'', ''u'') \<Longrightarrow> steady netMigration (getTargetCredentials netKube netMigration server) P"
  unfolding GetCredentials_def getTargetCredentials_def GetVCenterCredsFromSecret_def lookupCreds_def Let_def
  by (rule steady_rules refl | simp add: netKube_def netMigration_def sampleMigration_def)+

lemma net_session: "steady netMigration (getVSphereSession netReconciler a b c d) (\<lambda>_. True)"
proof (rule steadyI)
  fix s :: "migration rstate"
  assume "world s = netMigration"
  then show "\<exists>x s'. getVSphereSession netReconciler a b c d s = (Inr x, s') \<and> True \<and> world s' = netMigration"
    by (cases "map_of (sessionCache s) (cacheKey \<lparr>p_server = a, p_datacenter = b, p_username = c, p_password = d, p_insecure = True\<rparr>)")
      (simp_all add: getVSphereSession_def GetOrCreate_def NewSession_def cacheInsert_def bnd_app wrapErr_def readCall_def
        attempt_app request_app apiResult_def Let_def net_answers net_fields)
qed

lemma net_source [steady_rules]:
  assumes "P [sampleNetwork]"
  shows "steady netMigration (sourceNetworks netReconciler netSource ''D'') P"
proof -
  have collect: "steady netMigration (collectSourceNetworks netReconciler v) (\<lambda>x. x = [sampleNetwork])" for v
    unfolding collectSourceNetworks_def net_fields
    by (rule steady_rules refl | simp add: net_answers nodeNetworks_def GetVMNetworks_def Let_def net_guest)+
  show ?thesis
    unfolding sourceNetworks_def net_fields
    by (rule steady_bnd_eq, rule steady_wrapErr, rule net_creds, rule refl, simp,
      rule steady_bnd [OF steady_wrapErr [OF net_session]], rule steady_bnd_eq [OF collect], simp add: assms steady_ret)
qed

lemma net_probe:
  assumes "P [sampleNetwork]"
  shows "steady netMigration (probeFD netCtx netReconciler ''i'' netFD v) P"
  unfolding probeFD_def observeProbe_def net_fields
  using assms by - (rule steady_rules refl | simp add: fdProbeSpec_def netFD_def net_fields)+

lemma net_match: "mismatchOf netFD [sampleNetwork] [sampleNetwork] = []"
  by code_simp

lemma net_fd:
  "steady netMigration (checkFDNetworking netCtx netReconciler netMigration ''i'' [sampleNetwork] ([], []) netFD) (\<lambda>acc. snd acc = [])"
  unfolding checkFDNetworking_def targetCredentials_def net_fields
  by (simp, rule steady_bnd_eq, rule steady_setCondition, simp add: net_fields sampleClient_def, rule refl,
      (rule steady_bnd_eq, (rule steady_rules refl)+, simp)+,
      rule steady_bnd [OF steady_wrapErr [OF net_session]], rule steady_bnd_eq, rule net_probe, rule refl,
      rule steady_ret, simp add: net_match)

lemma net_passes: "steady netMigration (checkNetworkingViaProbeVMs netCtx netReconciler netMigration netSource) (\<lambda>_. True)"
proof -
  have id: "steady netMigration (GetInfrastructureID (r_config netReconciler)) (\<lambda>x. x = ''i'')"
    unfolding GetInfrastructureID_def infra_Get_def net_fields
    by (rule steady_rules refl | simp add: net_answers net_id)+
  have fds: "spec_failureDomains (spec netMigration) = [netFD]" by (simp add: netMigration_def)
  show ?thesis
    unfolding checkNetworkingViaProbeVMs_def netSource_def [THEN arg_cong, of vc_datacenters, simplified] fds
    by (simp, rule steady_bnd_eq, rule steady_wrapErr, rule id, rule steady_bnd_eq, rule net_source, rule refl,
        rule steady_bnd, rule steady_bnd [OF net_fd], rule steady_ret, assumption)
      (auto simp: reportMismatches_def steady_ret)
qed

definition netRun :: "(error + unit) \<times> migration rstate" where
  "netRun = checkNetworkingViaProbeVMs netCtx netReconciler netMigration netSource (sampleState netMigration netMigration)"

theorem network_preflight_sound_witness:
  "fst netRun = Inr () \<and> trace_ok netMigration (probeStep netVSphere) (trace (snd netRun)) \<and>
     (\<exists>infraID sources. sources \<noteq> [] \<and> probed netReconciler infraID sources netFD)"
proof -
  have run: "checkNetworkingViaProbeVMs netCtx netReconciler netMigration netSource (sampleState netMigration netMigration)
      = (Inr (), snd netRun)"
    using steadyD [OF net_passes, of "sampleState netMigration netMigration"] by (auto simp: netRun_def sampleState_def)
  have "spec_failureDomains (spec netMigration) = [netFD]" by (simp add: netMigration_def)
  moreover have "fst netRun = Inr ()" using arg_cong [OF run, of fst] by (simp add: netRun_def)
  ultimately show ?thesis
    using network_preflight_sound [of netReconciler None, unfolded net_fields, OF _ run]
    by (simp add: range_order_def sampleState_def)
qed

end
