(* ===== verification/Status.thy ===== *)
theory Status
  imports Reconciler
begin

text \<open>
  Publishing the status: \<open>updateStatus\<close> and the merges it is made of,
  \<open>persistSourceVCenter\<close> and \<open>persistWorkerMachineSetNames\<close>
  (\<open>internal/controller/vmwarecloudfoundationmigration_controller.go\<close>). Several processes may
  write the status of one migration; \<open>status_write\<close> is the relation of all the writes that the
  operator and the API allow, and what a migration's status promises is an invariant of it.
  The metrics that \<open>updateStatus\<close> exports are a function of the written status (see
  \<open>Metrics\<close>) and are not part of the state.
\<close>

section \<open>Merging\<close>

definition isMappingRejection :: "condition option \<Rightarrow> bool" where
  "isMappingRejection c = (case c of None \<Rightarrow> False
     | Some d \<Rightarrow> cond_status d = ConditionFalse \<and>
         (cond_reason d = ReasonMappingRejected \<or> cond_reason d = ReasonFailed))"

abbreviation conds :: "migration \<Rightarrow> condition list" where
  "conds m \<equiv> conditions (status m)"

definition setConds :: "condition list \<Rightarrow> migration \<Rightarrow> migration" where
  "setConds cs m = m\<lparr>status := (status m)\<lparr>conditions := cs\<rparr>\<rparr>"

definition clearRecoveredMappingRejection :: "migration \<Rightarrow> migration \<Rightarrow> migrationStatus \<Rightarrow> migration \<times> bool" where
  "clearRecoveredMappingRejection m latest base =
     (let previous = FindStatusCondition (conditions base) ConditionAccepted;
          current = FindStatusCondition (conds latest) ConditionAccepted in
      if generation m = generation latest \<and> previous \<noteq> None \<and> current \<noteq> None \<and> isMappingRejection previous \<and>
         FindStatusCondition (conds m) ConditionAccepted = None \<and> previous = current
      then (setConds (RemoveStatusCondition (conds latest) ConditionAccepted) latest, True)
      else (latest, False))"

definition conditionUnchanged :: "migrationStatus \<Rightarrow> condition \<Rightarrow> bool" where
  "conditionUnchanged base c =
     (case FindStatusCondition (conditions base) (cond_type c) of
        None \<Rightarrow> False | Some prev \<Rightarrow> \<not> statusConditionChanged prev c)"

text \<open>One turn of the loop over the reconcile's conditions.\<close>

definition mergeCondition ::
  "time \<Rightarrow> migrationStatus \<Rightarrow> int \<Rightarrow> condition list \<times> bool \<Rightarrow> condition \<Rightarrow> condition list \<times> bool" where
  "mergeCondition now base gen acc c =
     (case acc of (cs, changed) \<Rightarrow>
        if conditionUnchanged base c then acc
        else if observedGeneration c < gen then acc
        else if conditionTrue cs (cond_type c) \<and> cond_status c \<noteq> ConditionTrue then acc
        else (SetStatusCondition now cs c,
              changed \<or> (case FindStatusCondition cs (cond_type c) of
                            None \<Rightarrow> True | Some e \<Rightarrow> statusConditionChanged e c)))"

definition mergeStatusConditions :: "time \<Rightarrow> migration \<Rightarrow> migration \<Rightarrow> migrationStatus \<Rightarrow> migration \<times> bool" where
  "mergeStatusConditions now m latest base =
     (case foldl (mergeCondition now base (generation latest)) (conds latest, False) (conds m) of
        (cs, changed) \<Rightarrow> (setConds cs latest, changed))"

definition mergeProgress :: "migration \<Rightarrow> migration \<Rightarrow> migrationStatus \<Rightarrow> migration \<times> bool" where
  "mergeProgress m latest base =
     (if generation m = generation latest \<and> progress (status m) \<noteq> None \<and>
         (progress (status latest) = None \<or> progress base \<noteq> progress (status m)) \<and>
         progress (status latest) \<noteq> progress (status m)
      then (latest\<lparr>status := (status latest)\<lparr>progress := progress (status m)\<rparr>\<rparr>, True)
      else (latest, False))"

definition mergeStartTime :: "migration \<Rightarrow> migration \<Rightarrow> migration \<times> bool" where
  "mergeStartTime m latest =
     (if startTime (status m) \<noteq> None \<and> startTime (status latest) = None
      then (latest\<lparr>status := (status latest)\<lparr>startTime := startTime (status m)\<rparr>\<rparr>, True)
      else (latest, False))"

definition mergeCompletionRecord ::
  "specHash \<Rightarrow> migration \<Rightarrow> migration \<Rightarrow> condition option \<Rightarrow> error + migration \<times> bool" where
  "mergeCompletionRecord hash m latest ready =
     (if generation m \<noteq> generation latest \<or> spec m \<noteq> spec latest \<or>
         (case ready of None \<Rightarrow> True
          | Some c \<Rightarrow> cond_status c \<noteq> ConditionTrue \<or> observedGeneration c \<noteq> generation latest) \<or>
         completionTime (status m) = None
      then Inr (latest, False)
      else bindE (hash (spec m)) (\<lambda>h.
        if completionSpecHash (status latest) \<noteq> h \<or> completionTime (status latest) = None
        then Inr (latest\<lparr>status := (status latest)\<lparr>completionTime := completionTime (status m),
                                                    completionSpecHash := h\<rparr>\<rparr>, True)
        else Inr (latest, False)))"

definition mergeMappings :: "migration \<Rightarrow> migration \<Rightarrow> migration \<times> bool" where
  "mergeMappings m latest =
     (if status_mappings (status m) \<noteq> [] \<and> status_mappings (status latest) = [] \<and>
         generation m = generation latest \<and> uid m = uid latest
      then (latest\<lparr>status := (status latest)\<lparr>status_mappings := status_mappings (status m)\<rparr>\<rparr>, True)
      else (latest, False))"

definition mergeNames :: "string list \<Rightarrow> migration \<Rightarrow> migration \<times> bool" where
  "mergeNames names latest =
     (latest\<lparr>status := (status latest)\<lparr>workerMachineSetNames :=
                append_missing (workerMachineSetNames (status latest)) names\<rparr>\<rparr>,
      \<not> set names \<subseteq> set (workerMachineSetNames (status latest)))"

text \<open>The merges of \<open>updateStatus\<close> in its order; the flag is \<open>hasChanges\<close>.\<close>

definition mergeLatest ::
  "specHash \<Rightarrow> time \<Rightarrow> migration \<Rightarrow> migrationStatus \<Rightarrow> migration \<Rightarrow> error + migration \<times> bool" where
  "mergeLatest hash now m base latest =
     (let (l1, c1) = clearRecoveredMappingRejection m latest base;
          (l2, c2) = mergeStatusConditions now m l1 base;
          (l3, c3) = mergeProgress m l2 base;
          (l4, c4) = mergeStartTime m l3 in
      bindE (mergeCompletionRecord hash m l4 (FindStatusCondition (conds m) ConditionReady)) (\<lambda>(l5, c5).
        let (l6, c6) = mergeMappings m l5;
            (l7, c7) = mergeNames (workerMachineSetNames (status m)) l6 in
        Inr (l7, c1 \<or> c2 \<or> c3 \<or> c4 \<or> c5 \<or> c6 \<or> c7)))"

section \<open>The writers\<close>

definition stampUpdate :: "time \<Rightarrow> migration \<Rightarrow> migration" where
  "stampUpdate now k = k\<lparr>status := (status k)\<lparr>lastUpdateTime := Some now\<rparr>\<rparr>"

definition updateStatusOnce ::
  "('w, 'b) reconciler_scheme \<Rightarrow> migration \<Rightarrow> migrationStatus \<Rightarrow> ('w, unit) handler" where
  "updateStatusOnce r m base =
     bnd (readMigration (mig_read (r_client r) (namespace m) (name m))) (\<lambda>latest.
       if uid latest \<noteq> uid m then ret ()
       else
         bnd (timeNow (r_client r)) (\<lambda>now.
         bnd (liftE (mergeLatest (r_hash r) now m base latest)) (\<lambda>(new, changed).
           if \<not> changed \<and> lastUpdateTime (status new) \<noteq> None then ret ()
           else
             bnd (timeNow (r_client r)) (\<lambda>now'.
             request (StatusUpdateCall (stampUpdate now' new))
               (mig_statusUpdate (r_client r) (stampUpdate now' new))))))"

definition updateStatus ::
  "('w, 'b) reconciler_scheme \<Rightarrow> migrationStatus \<Rightarrow> ('w, unit) handler" where
  "updateStatus r base =
     bnd (gets mig) (\<lambda>m.
     wrapErr ''updating migration status'' (retryOnConflict defaultRetry (updateStatusOnce r m base)))"

definition publishNamesOnce ::
  "('w, 'b) reconciler_scheme \<Rightarrow> migration \<Rightarrow> ('w, unit) handler" where
  "publishNamesOnce r m =
     bnd (readMigration (mig_get (r_client r) (namespace m) (name m))) (\<lambda>latest.
       if uid latest \<noteq> uid m then ret ()
       else case mergeNames (workerMachineSetNames (status m)) latest of (new, changed) \<Rightarrow>
         if \<not> changed then ret ()
         else request (StatusUpdateCall new) (mig_statusUpdate (r_client r) new))"

definition persistWorkerMachineSetNames :: "('w, 'b) reconciler_scheme \<Rightarrow> ('w, unit) handler" where
  "persistWorkerMachineSetNames r =
     bnd (gets mig) (\<lambda>m.
       if workerMachineSetNames (status m) = [] then ret ()
       else wrapErr ''updating migration status'' (retryOnConflict defaultRetry (publishNamesOnce r m)))"

definition withSource :: "string \<Rightarrow> migration \<Rightarrow> migration" where
  "withSource server m = m\<lparr>status := (status m)\<lparr>sourceVCenter := server\<rparr>\<rparr>"

definition recordSourceOnce ::
  "('w, 'b) reconciler_scheme \<Rightarrow> migration \<Rightarrow> string \<Rightarrow> ('w, unit) handler" where
  "recordSourceOnce r m server =
     bnd (readMigration (mig_get (r_client r) (namespace m) (name m))) (\<lambda>latest.
       if uid latest \<noteq> uid m then ret ()
       else if sourceVCenter (status latest) \<noteq> [] then
         (if sourceVCenter (status latest) \<noteq> server
          then fail (Errorf (''status already records source vCenter '' @ quote (sourceVCenter (status latest)) @
                 '', refusing to rebind to '' @ quote server))
          else modifyStatus (sourceVCenter_update (\<lambda>_. server)))
       else
         bnd (request (StatusUpdateCall (withSource server latest))
                (mig_statusUpdate (r_client r) (withSource server latest))) (\<lambda>_.
         modifyStatus (sourceVCenter_update (\<lambda>_. server))))"

definition persistSourceVCenter :: "('w, 'b) reconciler_scheme \<Rightarrow> string \<Rightarrow> ('w, unit) handler" where
  "persistSourceVCenter r server =
     bnd (gets mig) (\<lambda>m. retryOnConflict defaultRetry (recordSourceOnce r m server))"

lemmas writer_defs = updateStatus_def updateStatusOnce_def persistWorkerMachineSetNames_def publishNamesOnce_def
  persistSourceVCenter_def recordSourceOnce_def

section \<open>What a write may change\<close>

locale write_order =
  fixes ext :: "'s \<Rightarrow> 's \<Rightarrow> bool"
  assumes ext_refl: "ext x x"
    and ext_trans: "ext x y \<Longrightarrow> ext y z \<Longrightarrow> ext x z"
begin

text \<open>A run of writes, each of which extends what it found, extends the first state.\<close>

lemma ext_rtranclp:
  assumes "W\<^sup>*\<^sup>* a b" and "\<And>x y. W x y \<Longrightarrow> ext (f x) (f y)"
  shows "ext (f a) (f b)"
  using assms(1) by (induction rule: rtranclp_induct) (auto intro: ext_refl ext_trans assms(2))

end

interpretation so: write_order status_ext
  by unfold_locales (auto simp: status_ext_def intro: prefix_order.trans)

lemma conditionTrue_merge:
  assumes "conditionTrue cs t" and "mergeCondition now base gen (cs, ch) c = (cs', ch')"
  shows "conditionTrue cs' t"
  using assms by (auto simp: mergeCondition_def conditionTrue_Set split: if_splits)

lemma conditionTrue_foldl:
  "foldl (mergeCondition now base gen) (cs, ch) ks = (cs', ch') \<Longrightarrow> conditionTrue cs t \<Longrightarrow> conditionTrue cs' t"
proof (induction ks arbitrary: cs ch)
  case (Cons k ks)
  obtain cs1 ch1 where s: "mergeCondition now base gen (cs, ch) k = (cs1, ch1)" by fastforce
  then show ?case using Cons conditionTrue_merge [OF Cons.prems(2) s] by simp
qed simp

lemma merge_conditions_ext:
  "mergeStatusConditions now m latest base = (l, c) \<Longrightarrow> status_ext (status latest) (status l) \<and>
     generation l = generation latest \<and> spec l = spec latest \<and> uid l = uid latest"
  by (auto simp: mergeStatusConditions_def status_ext_def setConds_def dest: conditionTrue_foldl split: prod.splits)

lemma rejection_not_true:
  "isMappingRejection (FindStatusCondition (conds latest) ConditionAccepted) \<Longrightarrow>
     \<not> conditionTrue (conds latest) ConditionAccepted"
  by (auto simp: isMappingRejection_def conditionTrue_def split: option.splits)

lemma clear_ext:
  "clearRecoveredMappingRejection m latest base = (l, c) \<Longrightarrow> status_ext (status latest) (status l) \<and>
     generation l = generation latest \<and> spec l = spec latest \<and> uid l = uid latest"
  using rejection_not_true [of latest]
  by (auto simp: clearRecoveredMappingRejection_def status_ext_def setConds_def conditionTrue_Remove
      Let_def split: if_splits)

lemma progress_ext:
  "mergeProgress m latest base = (l, c) \<Longrightarrow> status_ext (status latest) (status l) \<and>
     generation l = generation latest \<and> spec l = spec latest \<and> uid l = uid latest"
  by (auto simp: mergeProgress_def status_ext_def split: if_splits)

lemma start_ext:
  "mergeStartTime m latest = (l, c) \<Longrightarrow> status_ext (status latest) (status l) \<and>
     generation l = generation latest \<and> spec l = spec latest \<and> uid l = uid latest"
  by (auto simp: mergeStartTime_def status_ext_def split: if_splits)

lemma completion_ext:
  "mergeCompletionRecord hash m latest ready = Inr (l, c) \<Longrightarrow> status_ext (status latest) (status l) \<and>
     generation l = generation latest \<and> spec l = spec latest \<and> uid l = uid latest"
  by (auto simp: mergeCompletionRecord_def status_ext_def split: if_splits)

lemma mappings_ext:
  "mergeMappings m latest = (l, c) \<Longrightarrow> status_ext (status latest) (status l) \<and>
     generation l = generation latest \<and> spec l = spec latest \<and> uid l = uid latest"
  by (auto simp: mergeMappings_def status_ext_def split: if_splits)

lemma names_ext:
  "mergeNames ns latest = (l, c) \<Longrightarrow> status_ext (status latest) (status l) \<and>
     generation l = generation latest \<and> spec l = spec latest \<and> uid l = uid latest"
  by (auto simp: mergeNames_def status_ext_def prefix_append_missing distinct_append_missing)

lemmas merge_exts = clear_ext merge_conditions_ext progress_ext start_ext completion_ext mappings_ext names_ext

lemma mergeLatest_steps:
  assumes "mergeLatest hash now m base latest = Inr (k, c)"
  obtains l1 c1 l2 c2 l3 c3 l4 c4 l5 c5 l6 c6 c7 where
    "clearRecoveredMappingRejection m latest base = (l1, c1)" "mergeStatusConditions now m l1 base = (l2, c2)"
    "mergeProgress m l2 base = (l3, c3)" "mergeStartTime m l3 = (l4, c4)"
    "mergeCompletionRecord hash m l4 (FindStatusCondition (conds m) ConditionReady) = Inr (l5, c5)"
    "mergeMappings m l5 = (l6, c6)" "mergeNames (workerMachineSetNames (status m)) l6 = (k, c7)"
proof -
  obtain l1 c1 where 1: "clearRecoveredMappingRejection m latest base = (l1, c1)" by fastforce
  obtain l2 c2 where 2: "mergeStatusConditions now m l1 base = (l2, c2)" by fastforce
  obtain l3 c3 where 3: "mergeProgress m l2 base = (l3, c3)" by fastforce
  obtain l4 c4 where 4: "mergeStartTime m l3 = (l4, c4)" by fastforce
  obtain l5 c5 where 5: "mergeCompletionRecord hash m l4 (FindStatusCondition (conds m) ConditionReady) = Inr (l5, c5)"
    using assms 1 2 3 4 by (auto simp: mergeLatest_def)
  obtain l6 c6 where 6: "mergeMappings m l5 = (l6, c6)" by fastforce
  obtain l7 c7 where 7: "mergeNames (workerMachineSetNames (status m)) l6 = (l7, c7)" by fastforce
  have "l7 = k" using assms 1 2 3 4 5 6 7 by (simp add: mergeLatest_def bindE_def)
  with that [OF 1 2 3 4 5 6] 7 show thesis by simp
qed

lemma mergeLatest_ext:
  assumes "mergeLatest hash now m base latest = Inr (k, c)"
  shows "status_ext (status latest) (status k) \<and> generation k = generation latest \<and> spec k = spec latest \<and>
         uid k = uid latest"
  using assms by (elim mergeLatest_steps) (metis merge_exts so.ext_trans)

section \<open>All writes\<close>

text \<open>The step relation of the stored object: the operator's three status writes, made by any
  reconcile of that object (\<open>m\<close> and \<open>base\<close> are what that reconcile holds, however stale),
  and a user's edit of the spec, which raises the generation. A write reaches the store only from
  the version it was computed from: the API server refuses it with a conflict otherwise.\<close>

inductive status_write :: "specHash \<Rightarrow> migration \<Rightarrow> migration \<Rightarrow> bool" for hash where
  update: "\<lbrakk>uid (m :: migration) = uid latest; mergeLatest hash now m base latest = Inr (k, c)\<rbrakk>
     \<Longrightarrow> status_write hash latest (stampUpdate t k)"
| names: "\<lbrakk>uid (m :: migration) = uid latest; mergeNames (workerMachineSetNames (status m)) latest = (k, True)\<rbrakk>
     \<Longrightarrow> status_write hash latest k"
| source: "\<lbrakk>uid (m :: migration) = uid latest; sourceVCenter (status latest) = []\<rbrakk>
     \<Longrightarrow> status_write hash latest (withSource server latest)"
| edit: "status_write hash latest (latest\<lparr>spec := sp, generation := generation latest + 1\<rparr>)"

inductive_cases status_writeE: "status_write hash a b"

lemma status_ext_stamp [simp]: "status_ext old (status (stampUpdate t k)) = status_ext old (status k)"
  by (simp add: status_ext_def stampUpdate_def)

lemma write_ext: "status_write hash a b \<Longrightarrow> status_ext (status a) (status b) \<and> uid b = uid a"
proof (induction rule: status_write.induct)
  case (update m latest now base k c t)
  then show ?case using mergeLatest_ext [of hash now m base latest k c] by (simp add: stampUpdate_def status_ext_def)
next
  case (names m latest k)
  then show ?case using names_ext by blast
qed (simp_all add: status_ext_def withSource_def)

text \<open>
  C7: however reconciles of one migration interleave, from any number of processes and starting
  from however stale a copy, no committed success is ever taken back: along every sequence of
  status writes and spec edits a condition that was True stays True, the recorded failure domain
  mapping, source vCenter and start time stay what they were recorded as, and the recorded worker
  machine set names only grow at the end.
\<close>

theorem committed_status_is_stable:
  "(status_write hash)\<^sup>*\<^sup>* a b \<Longrightarrow> status_ext (status a) (status b) \<and> uid b = uid a"
proof -
  assume run: "(status_write hash)\<^sup>*\<^sup>* a b"
  have "status_ext (status a) (status b)"
    using so.ext_rtranclp [of "status_write hash" a b status] run write_ext by blast
  moreover have "uid b = uid a"
    using run by (induction rule: rtranclp_induct) (auto dest: write_ext)
  ultimately show ?thesis by simp
qed

theorem committed_status_is_stable_witness:
  "\<exists>b. (status_write (\<lambda>_. Inr ''h''))\<^sup>*\<^sup>* (withSource ''vc1'' sampleMigration) b \<and>
     generation b = 4 \<and> sourceVCenter (status b) = ''vc1''"
proof -
  let ?a = "withSource ''vc1'' sampleMigration"
  let ?b = "?a\<lparr>spec := spec ?a, generation := generation ?a + 1\<rparr>"
  have "(status_write (\<lambda>_. Inr ''h''))\<^sup>*\<^sup>* ?a ?b"
    by (rule r_into_rtranclp, rule status_write.edit)
  from committed_status_is_stable [OF this] this show ?thesis
    by (intro exI [of _ ?b]) (auto simp: status_ext_def withSource_def sampleMigration_def)
qed

section \<open>The operations make only such writes\<close>

lemma keeps_read_then_write:
  assumes "\<And>l s. \<lbrakk>safe m A s; trace s \<noteq> []; hd (trace s) = MigrationRead (Some l)\<rbrakk> \<Longrightarrow> safe m A (snd (f l s))"
  shows "keeps (safe m A) (bnd (readMigration c) (f :: migration \<Rightarrow> (('a, 'b) exec_scheme, error, 'c) op))"
proof (rule keepsI)
  fix s :: "('a, 'b) exec_scheme"
  assume s: "safe m A s"
  obtain x w where c: "c (world s) = (x, w)" by fastforce
  show "safe m A (snd (bnd (readMigration c) f s))"
  proof (cases x)
    case (Inl e)
    with c s show ?thesis
      by (auto simp: bnd_app readMigration_def apiResult_def safe_def split: prod.splits)
  next
    case (Inr l)
    have "safe m A (snd (f l (s\<lparr>world := w, trace := MigrationRead (Some l) # trace s\<rparr>)))"
      by (rule assms) (use s in \<open>simp_all add: safe_def\<close>)
    with c Inr show ?thesis
      by (simp add: bnd_app readMigration_def apiResult_def)
  qed
qed

lemma safe_StatusUpdate:
  assumes "safe m A s" and "trace s \<noteq> []" and "hd (trace s) = MigrationRead (Some l)" and "status_write hash l k"
  shows "safe m A (snd (request (StatusUpdateCall k) c s))"
  using assms write_ext [OF assms(4)] by (auto simp: safe_def request_app split: prod.splits)

lemma keeps_updateStatusOnce: "keeps (safe k A) (updateStatusOnce r m base)"
  unfolding updateStatusOnce_def
proof (rule keeps_read_then_write, goal_cases)
  case (1 latest s)
  show ?case
  proof (cases "uid latest = uid m \<and> (\<exists>k c. mergeLatest (r_hash r) (fst (clock (r_client r) (world s))) m base latest = Inr (k, c))")
    case True
    then show ?thesis
      using 1
      by (auto simp: bnd_app timeNow_def split: prod.splits
          intro!: safe_StatusUpdate [of _ _ _ latest "r_hash r"] status_write.update [of m])
  next
    case False
    then show ?thesis
      using 1 by (auto simp: bnd_app timeNow_def split: prod.splits sum.splits)
  qed
qed

lemma keeps_publishNamesOnce: "keeps (safe k A) (publishNamesOnce r m)"
  unfolding publishNamesOnce_def
proof (rule keeps_read_then_write, goal_cases)
  case (1 latest s)
  then show ?case
    by (auto split: prod.splits intro!: safe_StatusUpdate [of _ _ _ latest "r_hash r"] status_write.names [of m])
qed

lemma keeps_recordSourceOnce:
  shows "keeps (safe k A) (recordSourceOnce r m server)"
  unfolding recordSourceOnce_def
proof (rule keeps_read_then_write, goal_cases)
  case (1 latest s)
  show ?case
  proof (cases "uid latest = uid m \<and> sourceVCenter (status latest) = []")
    case True
    have "safe k A (snd (request (StatusUpdateCall (withSource server latest))
        (mig_statusUpdate (r_client r) (withSource server latest)) s))"
      using 1 True
      by (intro safe_StatusUpdate [of _ _ _ latest "r_hash r"] status_write.source [of m]) auto
    then show ?thesis
      using True by (auto simp: bnd_app modifyStatus_def split: prod.splits sum.splits)
  next
    case False
    then show ?thesis using 1 by (auto simp: modifyStatus_def)
  qed
qed

lemma keeps_writers [keeps_rules]:
  "keeps (safe k A) (updateStatus r base)"
  "keeps (safe k A) (persistWorkerMachineSetNames r)"
  "keeps (safe k A) (persistSourceVCenter r server)"
  unfolding updateStatus_def persistWorkerMachineSetNames_def persistSourceVCenter_def
  by (intro keeps_rules keeps_updateStatusOnce keeps_publishNamesOnce keeps_recordSourceOnce)+

text \<open>
  C18: a status update publishes completion only for the spec it completed: whenever the digest
  it writes differs from the one stored, the object written has the generation and the spec that
  the reconcile completed, the digest is the digest of that spec, and that reconcile's Ready
  condition is True for this generation.
\<close>

theorem completion_bound_to_spec:
  assumes "mergeLatest hash now m base latest = Inr (k, c)"
    and "completionSpecHash (status k) \<noteq> completionSpecHash (status latest)"
  shows "hash (spec k) = Inr (completionSpecHash (status k)) \<and> spec m = spec k \<and> generation m = generation k \<and>
     completionTime (status k) = completionTime (status m) \<and> completionTime (status m) \<noteq> None \<and>
     (\<exists>ready. FindStatusCondition (conds m) ConditionReady = Some ready \<and> cond_status ready = ConditionTrue \<and>
              observedGeneration ready = generation k)"
  using assms(1)
proof (rule mergeLatest_steps)
  fix l1 c1 l2 c2 l3 c3 l4 c4 l5 c5 l6 c6 c7
  assume steps: "clearRecoveredMappingRejection m latest base = (l1, c1)" "mergeStatusConditions now m l1 base = (l2, c2)"
    "mergeProgress m l2 base = (l3, c3)" "mergeStartTime m l3 = (l4, c4)"
    and five: "mergeCompletionRecord hash m l4 (FindStatusCondition (conds m) ConditionReady) = Inr (l5, c5)"
    and rest: "mergeMappings m l5 = (l6, c6)" "mergeNames (workerMachineSetNames (status m)) l6 = (k, c7)"
  have "completionSpecHash (status l4) = completionSpecHash (status latest)"
    using steps by (auto simp: clearRecoveredMappingRejection_def mergeStatusConditions_def mergeProgress_def
        mergeStartTime_def setConds_def Let_def split: if_splits prod.splits)
  moreover have k: "completionSpecHash (status k) = completionSpecHash (status l5)"
    "completionTime (status k) = completionTime (status l5)" "spec k = spec l5" "generation k = generation l5"
    using rest by (auto simp: mergeMappings_def mergeNames_def split: if_splits)
  ultimately have "completionSpecHash (status l5) \<noteq> completionSpecHash (status l4)"
    using assms(2) by simp
  with five k show ?thesis
    by (auto simp: mergeCompletionRecord_def split: if_splits option.splits)
qed

definition sampleCompleted :: migration where
  "sampleCompleted = sampleMigration\<lparr>status := (status sampleMigration)\<lparr>completionTime := Some 9,
     conditions := [\<lparr>cond_type = ConditionReady, cond_status = ConditionTrue, observedGeneration = 3,
       lastTransitionTime = 9, cond_reason = ReasonCompleted, cond_message = ''done''\<rparr>]\<rparr>\<rparr>"

theorem completion_bound_to_spec_witness:
  "\<exists>k c. mergeLatest (\<lambda>_. Inr ''h'') 9 sampleCompleted (status sampleMigration) sampleMigration = Inr (k, c) \<and>
     completionSpecHash (status k) = ''h'' \<and> spec sampleCompleted = spec k"
proof -
  obtain k c where k: "mergeLatest (\<lambda>_. Inr ''h'') 9 sampleCompleted (status sampleMigration) sampleMigration = Inr (k, c)"
    and h: "completionSpecHash (status k) = ''h''"
    by (simp add: mergeLatest_def clearRecoveredMappingRejection_def mergeStatusConditions_def mergeCondition_def
        conditionUnchanged_def mergeProgress_def mergeStartTime_def mergeCompletionRecord_def mergeMappings_def
        mergeNames_def setConds_def bindE_def Let_def conditionTrue_def sampleCompleted_def sampleMigration_def)
  have "completionSpecHash (status k) \<noteq> completionSpecHash (status sampleMigration)"
    using h by (simp add: sampleMigration_def)
  from completion_bound_to_spec [OF k this] k h show ?thesis by blast
qed

end
