(* ===== verification/Layout.thy ===== *)
theory Layout
  imports Status
begin

text \<open>
  The destination layout, \<open>internal/controller/failuredomains.go\<close> and the name resolution of the
  controller: which worker machine sets a mapped destination failure domain must have (one per
  source machine set, or the single aggregate a released operator created), and the recovery of
  names that a crash kept from being recorded.
\<close>

section \<open>Names\<close>

definition resolveWorkerMachineSetName ::
  "'w machineManager \<Rightarrow> string \<Rightarrow> string \<Rightarrow> string list \<Rightarrow> (('w, 'z) exec_scheme, error, string) op" where
  "resolveWorkerMachineSetName mm infraID fdName recorded =
     (let base = workerMachineSetName infraID fdName recorded; legacy = legacyMachineSetName infraID fdName in
      if legacy = base \<or> length legacy > maxGeneratedMachineSetNameLen \<or>
         recordedWorkerMachineSetNames recorded base \<noteq> []
      then ret base
      else attempt (GetMachineSet mm legacy) (\<lambda>r. case r of
          Inr _ \<Rightarrow> ret legacy
        | Inl e \<Rightarrow> if \<not> IsNotFound e then fail (Wrapf (''getting legacy machineset '' @ quote legacy) e)
                   else ret base))"

section \<open>Layouts\<close>

datatype destinationLayout = destinationLayoutPerSource | destinationLayoutLegacyAggregate | destinationLayoutAmbiguous

definition msgGet :: "string \<Rightarrow> string" where
  "msgGet nm = ''getting machineset '' @ quote nm"

definition msgCollision :: "string \<Rightarrow> string" where
  "msgCollision nm = ''generated MachineSet name '' @ quote nm @
     '' collides with existing MachineSet; rename the destination failure domain''"

definition onServer :: "providerSpec \<Rightarrow> string \<Rightarrow> bool" where
  "onServer ps server = (case ps_workspace ps of None \<Rightarrow> False | Some w \<Rightarrow> ws_server w = server)"

definition sumReplicas :: "machineSet list \<Rightarrow> int" where
  "sumReplicas sources = foldl (\<lambda>n ms. i32 (n + machineSetDesiredReplicas ms)) 0 sources"

definition validateLegacyAggregateCapacity :: "string \<Rightarrow> int \<Rightarrow> int \<Rightarrow> error + unit" where
  "validateLegacyAggregateCapacity base aggregate source =
     (if aggregate \<ge> source then Inr ()
      else Inl (Errorf (''legacy aggregate destination MachineSet '' @ quote base @ '' has '' @ itoa_int aggregate @
             '' replicas but its source MachineSets run '' @ itoa_int source @
             '': scale the destination MachineSet up to at least the source total, or reduce the source MachineSets, before retrying'')))"

definition legacyLayout :: "string \<Rightarrow> int \<Rightarrow> int \<Rightarrow> error + destinationLayout \<times> int \<times> int" where
  "legacyLayout base aggregate source =
     bindE (validateLegacyAggregateCapacity base aggregate source)
       (\<lambda>_. Inr (destinationLayoutLegacyAggregate, aggregate, source))"

text \<open>The loop over the suffixed copies \<open>si = 1, 2, ...\<close>: whether one exists.\<close>

definition anyCopyExists ::
  "'w machineManager \<Rightarrow> string \<Rightarrow> nat \<Rightarrow> (('w, 'z) exec_scheme, error, bool) op" where
  "anyCopyExists mm base n =
     foldM (\<lambda>found si. if found then ret True
        else attempt (GetMachineSet mm (suffixedWorkerMachineSetName base si)) (\<lambda>r. case r of
            Inr _ \<Rightarrow> ret True
          | Inl e \<Rightarrow> if \<not> IsNotFound e then fail (Wrapf (msgGet (suffixedWorkerMachineSetName base si)) e)
                     else ret False)) False [1..<n]"

definition classifyDestinationLayout ::
  "'w machineManager \<Rightarrow> string \<Rightarrow> machineSet list \<Rightarrow> failureDomain \<Rightarrow> string list
   \<Rightarrow> (('w, 'z) exec_scheme, error, destinationLayout \<times> int \<times> int) op" where
  "classifyDestinationLayout mm base sources fd recorded =
     attempt (GetMachineSet mm base) (\<lambda>r. case r of
       Inl e \<Rightarrow> if IsNotFound e then ret (destinationLayoutPerSource, 0, 0) else fail (Wrapf (msgGet base) e)
     | Inr existing \<Rightarrow>
         bnd (liftE (wrapE (msgExtract base) (ExtractVSphereProviderSpec existing))) (\<lambda>ps.
         let aggregate = machineSetDesiredReplicas existing; source = sumReplicas sources in
         if \<not> onServer ps (fd_server fd) then ret (destinationLayoutPerSource, 0, 0)
         else if ms_annotations existing LegacyAggregateAnnotation = Some LegacyAggregateAnnotationValue
         then liftE (legacyLayout base aggregate source)
         else if length sources < 2 then ret (destinationLayoutPerSource, 0, 0)
         else if length (recordedWorkerMachineSetNames recorded base) > 1 then ret (destinationLayoutPerSource, 0, 0)
         else if deref (ms_annotations existing SourceMachineSetAnnotation) \<noteq> [] then ret (destinationLayoutPerSource, 0, 0)
         else bnd (anyCopyExists mm base (length sources)) (\<lambda>copy.
           if copy then ret (destinationLayoutPerSource, 0, 0)
           else if source = 0 \<or> aggregate = source then liftE (legacyLayout base aggregate source)
           else ret (destinationLayoutAmbiguous, aggregate, source))))"

definition msgAmbiguous :: "string \<Rightarrow> int \<Rightarrow> int \<Rightarrow> string" where
  "msgAmbiguous base aggregate source =
     ''destination MachineSet '' @ quote base @ '' has no source MachineSet annotation and '' @ itoa_int aggregate @
     '' replicas do not match the '' @ itoa_int source @
     '' replicas of its source MachineSets: verify the MachineSet's capacity and, if it is the released operator's aggregate, annotate it with '' @
     LegacyAggregateAnnotation @ ''=true; otherwise restore the expected source MachineSets before retrying''"

definition msgShort :: "string \<Rightarrow> int \<Rightarrow> string \<Rightarrow> int \<Rightarrow> string" where
  "msgShort nm have src want =
     ''destination MachineSet '' @ quote nm @ '' has '' @ itoa_int have @ '' replicas but source MachineSet '' @
     quote src @ '' runs '' @ itoa_int want @ '': restore destination capacity before retrying''"

text \<open>The check of one per-source copy: an existing one must not hold less than its source.\<close>

definition checkCopy ::
  "failureDomain \<Rightarrow> string \<Rightarrow> machineSet \<Rightarrow> machineSet \<Rightarrow> error + unit" where
  "checkCopy fd nm destination source =
     (if machineSetDesiredReplicas destination < machineSetDesiredReplicas source
      then bindE (wrapE (msgExtract nm) (ExtractVSphereProviderSpec destination)) (\<lambda>ps.
        if \<not> onServer ps (fd_server fd) then Inl (Errorf (msgCollision nm))
        else Inl (Errorf (msgShort nm (machineSetDesiredReplicas destination) (ms_name source) (machineSetDesiredReplicas source))))
      else Inr ())"

definition deriveCopy ::
  "'w machineManager \<Rightarrow> failureDomain \<Rightarrow> string \<Rightarrow> string list \<Rightarrow> nat \<times> machineSet \<Rightarrow> (('w, 'z) exec_scheme, error, string list) op" where
  "deriveCopy mm fd base derived p =
     (case p of (si, source) \<Rightarrow>
        let nm = suffixedWorkerMachineSetName base si in
        attempt (GetMachineSet mm nm) (\<lambda>r. case r of
          Inl e \<Rightarrow> if \<not> IsNotFound e then fail (Wrapf (msgGet nm) e) else ret (derived @ [nm])
        | Inr destination \<Rightarrow> bnd (liftE (checkCopy fd nm destination source)) (\<lambda>_. ret (derived @ [nm]))))"

definition expectedDestinationNames ::
  "'w machineManager \<Rightarrow> string \<Rightarrow> machineSet list \<Rightarrow> failureDomain \<Rightarrow> string list
   \<Rightarrow> (('w, 'z) exec_scheme, error, string list \<times> bool) op" where
  "expectedDestinationNames mm base sourceMSList fd recorded =
     (let sources = sort_key ms_name sourceMSList in
      bnd (classifyDestinationLayout mm base sources fd recorded) (\<lambda>(layout, aggregate, source).
      bnd (case layout of
             destinationLayoutAmbiguous \<Rightarrow> fail (Errorf (msgAmbiguous base aggregate source))
           | destinationLayoutLegacyAggregate \<Rightarrow> ret ([base], True)
           | destinationLayoutPerSource \<Rightarrow>
               bnd (foldM (deriveCopy mm fd base) [] (enumerate 0 sources)) (\<lambda>derived. ret (derived, False)))
        (\<lambda>(derived, legacy).
           ret (sort (append_missing (recordedWorkerMachineSetNames recorded base) derived), legacy))))"

section \<open>Recovery of names\<close>

definition matchedSources :: "machineSet list \<Rightarrow> failureDomain option \<Rightarrow> error + machineSet list" where
  "matchedSources msList fdp =
     (case fdp of
        None \<Rightarrow> Inr []
      | Some fd \<Rightarrow> foldE (\<lambda>matched ms.
          bindE (wrapE (msgExtract (ms_name ms)) (ExtractVSphereProviderSpec ms)) (\<lambda>ps.
            case ps_workspace ps of
              None \<Rightarrow> Inl (Errorf (msgExtract (ms_name ms) @ '': workspace is nil''))
            | Some ws \<Rightarrow> Inr (if matchesSourceFailureDomain ws fd then matched @ [ms] else matched))) [] msList)"

definition msgNotExist :: "string \<Rightarrow> string" where
  "msgNotExist nm = ''recovering unrecorded destination MachineSets: machineset '' @ quote nm @ '' does not exist; re-run required''"

definition recoverName ::
  "'w machineManager \<Rightarrow> failureDomain \<Rightarrow> string list \<Rightarrow> string list \<Rightarrow> string \<Rightarrow> (('w, 'z) exec_scheme, error, string list) op" where
  "recoverName mm destFD recorded recovered nm =
     attempt (GetMachineSet mm nm) (\<lambda>r. case r of
       Inl e \<Rightarrow> if IsNotFound e then fail (Errorf (msgNotExist nm)) else fail (Wrapf (msgGet nm) e)
     | Inr existing \<Rightarrow>
         bnd (liftE (wrapE (msgExtract nm) (ExtractVSphereProviderSpec existing))) (\<lambda>ps.
           if \<not> onServer ps (fd_server destFD) then fail (Errorf (msgCollision nm))
           else if nm \<in> set recorded \<or> nm \<in> set recovered then ret recovered
           else ret (recovered @ [nm])))"

definition msgResolveDest :: "string \<Rightarrow> string \<Rightarrow> string" where
  "msgResolveDest d s = ''resolving destination failure domain '' @ quote d @ '' for mapping from '' @ quote s"

definition recoverMapping ::
  "'w machineManager \<Rightarrow> migration \<Rightarrow> machineSet list \<Rightarrow> string \<Rightarrow> failureDomain list \<Rightarrow> string list \<Rightarrow> fdMapping
   \<Rightarrow> (('w, 'z) exec_scheme, error, string list) op" where
  "recoverMapping mm m msList infraID sourceFDs recovered mp =
     (let recorded = workerMachineSetNames (status m) in
      bnd (liftE (matchedSources msList (findFailureDomainByName sourceFDs (map_source mp)))) (\<lambda>matched.
      case findFailureDomainByName (spec_failureDomains (spec m)) (map_destination mp) of
        None \<Rightarrow> fail (Errorf (msgResolveDest (map_destination mp) (map_source mp)))
      | Some destFD \<Rightarrow>
          bnd (resolveWorkerMachineSetName mm infraID (map_destination mp) recorded) (\<lambda>base.
          if matched = [] \<and> recordedWorkerMachineSetNames recorded base = [] then ret recovered
          else bnd (expectedDestinationNames mm base matched destFD recorded) (\<lambda>(expected, _).
            foldM (recoverName mm destFD recorded) recovered expected))))"

definition recoverUnrecordedDestinationNames ::
  "'w machineManager \<Rightarrow> machineSet list \<Rightarrow> string \<Rightarrow> fdMapping list \<Rightarrow> failureDomain list \<Rightarrow> ('w, string list) handler" where
  "recoverUnrecordedDestinationNames mm msList infraID mappings sourceFDs =
     bnd (gets mig) (\<lambda>m.
     bnd (foldM (recoverMapping mm m msList infraID sourceFDs) [] mappings) (\<lambda>recovered.
     bnd (modifyStatus (workerMachineSetNames_update (\<lambda>ns. ns @ recovered))) (\<lambda>_.
     ret recovered)))"

section \<open>Guarding\<close>

lemma keeps_liftE_case [keeps_rules]:
  "keeps P a \<Longrightarrow> keeps P b \<Longrightarrow> keeps P c \<Longrightarrow>
   keeps P (case l of destinationLayoutPerSource \<Rightarrow> a | destinationLayoutLegacyAggregate \<Rightarrow> b | destinationLayoutAmbiguous \<Rightarrow> c)"
  by (cases l) auto

lemma keeps_layout [keeps_rules]:
  "keeps (safe m A) (resolveWorkerMachineSetName mm infraID fdName recorded)"
  "keeps (safe m A) (classifyDestinationLayout mm base sources fd recorded)"
  "keeps (safe m A) (expectedDestinationNames mm base sources fd recorded)"
  "keeps (safe m A) (recoverMapping mm m' msList infraID sourceFDs recovered mp)"
  unfolding resolveWorkerMachineSetName_def classifyDestinationLayout_def anyCopyExists_def
    expectedDestinationNames_def deriveCopy_def recoverMapping_def recoverName_def Let_def
  by (intro keeps_rules)+

lemma keeps_recover [keeps_rules]:
  "keeps (safe m A) (recoverUnrecordedDestinationNames mm msList infraID mappings sourceFDs)"
  unfolding recoverUnrecordedDestinationNames_def by (intro keeps_rules)

section \<open>Expected names\<close>

lemma deriveCopy_Inr:
  "deriveCopy mm fd base d (si, src) s = (Inr ds, s') \<Longrightarrow> ds = d @ [suffixedWorkerMachineSetName base si]"
  by (auto simp: deriveCopy_def Let_def attempt_app bnd_Inr split: prod.splits sum.splits if_splits)

lemma foldM_deriveCopy:
  "foldM (deriveCopy mm fd base) d xs s = (Inr ds, s') \<Longrightarrow>
     ds = d @ map (\<lambda>p. suffixedWorkerMachineSetName base (fst p)) xs"
proof (induction xs arbitrary: d s)
  case (Cons p xs)
  from Cons.prems obtain d1 t where "deriveCopy mm fd base d p s = (Inr d1, t)"
    and rest: "foldM (deriveCopy mm fd base) d1 xs t = (Inr ds, s')"
    by (auto simp: bnd_Inr)
  then have "d1 = d @ [suffixedWorkerMachineSetName base (fst p)]"
    using deriveCopy_Inr [of mm fd base d "fst p" "snd p"] by simp
  with Cons.IH [OF rest] show ?case by simp
qed simp

lemma expectedDestinationNames_Inr:
  assumes "expectedDestinationNames mm base srcs fd recorded s = (Inr (names, legacy), s')"
  obtains layout a b t derived where
    "classifyDestinationLayout mm base (sort_key ms_name srcs) fd recorded s = (Inr (layout, a, b), t)"
    "legacy \<longleftrightarrow> layout = destinationLayoutLegacyAggregate"
    "derived = (if legacy then [base] else map (suffixedWorkerMachineSetName base) [0..<length srcs])"
    "names = sort (append_missing (recordedWorkerMachineSetNames recorded base) derived)"
proof -
  let ?srcs = "sort_key ms_name srcs"
  obtain layout a b t where c: "classifyDestinationLayout mm base ?srcs fd recorded s = (Inr (layout, a, b), t)"
    and rest: "bnd (case layout of destinationLayoutAmbiguous \<Rightarrow> fail (Errorf (msgAmbiguous base a b))
           | destinationLayoutLegacyAggregate \<Rightarrow> ret ([base], True)
           | destinationLayoutPerSource \<Rightarrow> bnd (foldM (deriveCopy mm fd base) [] (enumerate 0 ?srcs)) (\<lambda>derived. ret (derived, False)))
        (\<lambda>(derived, legacy). ret (sort (append_missing (recordedWorkerMachineSetNames recorded base) derived), legacy)) t
      = (Inr (names, legacy), s')"
    using assms by (auto simp: expectedDestinationNames_def Let_def bnd_Inr)
  have fst: "map (\<lambda>p. suffixedWorkerMachineSetName base (fst p)) (enumerate 0 ?srcs) =
      map (suffixedWorkerMachineSetName base) [0..<length srcs]"
    by (simp add: enumerate_eq_zip map_fst_zip flip: comp_def [of "suffixedWorkerMachineSetName base" fst] map_map)
  show thesis
    using that [OF c] rest foldM_deriveCopy [of mm fd base "[]" "enumerate 0 ?srcs" t]
    by (cases layout) (auto simp: bnd_Inr fst)
qed

lemma sort_append_missing: "set (sort (append_missing xs ys)) = set xs \<union> set ys"
  by simp

text \<open>
  C23: the names a destination failure domain must have are exactly the recorded names of its
  family together with the base name, when it is the released operator's aggregate, or else one
  generated name per source machine set; a recorded name is never dropped, and the list is sorted
  and without duplicates (given that the recorded names are).
\<close>

theorem expected_names_exact:
  assumes "expectedDestinationNames mm base srcs fd recorded s = (Inr (names, legacy), s')"
  shows "set names = set (recordedWorkerMachineSetNames recorded base) \<union>
           (if legacy then {base} else suffixedWorkerMachineSetName base ` {0..<length srcs}) \<and>
         sorted names \<and> (distinct recorded \<longrightarrow> distinct names)"
proof -
  have "distinct recorded \<longrightarrow> distinct (recordedWorkerMachineSetNames recorded base)"
    by (simp add: recordedWorkerMachineSetNames_def)
  then show ?thesis
    by (rule_tac expectedDestinationNames_Inr [OF assms]) (auto simp: distinct_append_missing)
qed

definition sampleMM :: "machineSet list \<Rightarrow> migration machineManager" where
  "sampleMM sets = \<lparr>mm_kubeClient = sampleKubeClient, mm_machineClient = sampleMachineClient sets [] sampleCPMS\<rparr>"

definition sampleExec :: "migration exec" where
  "sampleExec = \<lparr>world = sampleMigration, trace = []\<rparr>"

definition twoSources :: "machineSet list" where
  "twoSources = [sampleMachineSet\<lparr>ms_name := ''w-1''\<rparr>, sampleMachineSet]"

theorem expected_names_exact_witness:
  "\<exists>names s'. expectedDestinationNames (sampleMM []) ''b'' twoSources sampleFD [''b''] sampleExec = (Inr (names, False), s') \<and>
     set names = {''b'', ''b-2''} \<and> distinct names"
proof -
  have "fst (expectedDestinationNames (sampleMM []) ''b'' twoSources sampleFD [''b''] sampleExec) = Inr ([''b'', ''b-2''], False)"
    by code_simp
  then obtain s' where run: "expectedDestinationNames (sampleMM []) ''b'' twoSources sampleFD [''b''] sampleExec =
      (Inr ([''b'', ''b-2''], False), s')"
    by (cases "expectedDestinationNames (sampleMM []) ''b'' twoSources sampleFD [''b''] sampleExec") simp
  from expected_names_exact [OF this] run show ?thesis by auto
qed

section \<open>Capacity of a legacy aggregate\<close>

lemma i32_add: "i32 (i32 x + y) = i32 (x + y)"
proof -
  have "((x + 2 ^ 31) mod 2 ^ 32 - 2 ^ 31 + y + 2 ^ 31) mod 2 ^ 32 = (x + y + 2 ^ 31) mod (2 ^ 32 :: int)"
    using mod_add_left_eq [of "x + 2 ^ 31" "2 ^ 32" y] by (simp add: algebra_simps)
  then show ?thesis by (simp add: i32_def)
qed

lemma foldl_i32:
  "foldl (\<lambda>n ms. i32 (n + machineSetDesiredReplicas ms)) (i32 k) xs = i32 (k + sum_list (map machineSetDesiredReplicas xs))"
  by (induction xs arbitrary: k) (simp_all add: i32_add add.assoc)

lemma sumReplicas_i32: "sumReplicas xs = i32 (sum_list (map machineSetDesiredReplicas xs))"
  using foldl_i32 [of 0 xs] by (simp add: sumReplicas_def i32_def)

lemma legacyLayout_Inr:
  "legacyLayout base a b = Inr (l, x, y) \<Longrightarrow> l = destinationLayoutLegacyAggregate \<and> x = a \<and> y = b \<and> b \<le> a"
  by (auto simp: legacyLayout_def validateLegacyAggregateCapacity_def split: if_splits)

lemma GetMachineSet_Inr:
  "GetMachineSet mm nm s = (Inr ms, s') \<Longrightarrow> \<exists>w. machineSets_get (mm_machineClient mm) nm (world s) = (Inr ms, w)"
  by (auto simp: GetMachineSet_def readCall_Inr)

lemma classify_legacy:
  assumes "classifyDestinationLayout mm base sources fd recorded s = (Inr (destinationLayoutLegacyAggregate, a, b), t)"
  shows "\<exists>existing w. machineSets_get (mm_machineClient mm) base (world s) = (Inr existing, w) \<and>
     onVCenter (fd_server fd) existing \<and> a = machineSetDesiredReplicas existing \<and> b = sumReplicas sources \<and> b \<le> a"
proof -
  obtain r s1 where g: "GetMachineSet mm base s = (r, s1)" by fastforce
  show ?thesis
  proof (cases r)
    case (Inl e)
    with assms g show ?thesis
      by (auto simp: classifyDestinationLayout_def attempt_app split: if_splits)
  next
    case (Inr existing)
    with assms g obtain ps where ps: "ExtractVSphereProviderSpec existing = Inr ps" and on: "onServer ps (fd_server fd)"
      by (auto simp: classifyDestinationLayout_def attempt_app bnd_Inr Let_def split: if_splits)
    then have "onVCenter (fd_server fd) existing"
      by (simp add: onVCenter_def onServer_def)
    moreover have "a = machineSetDesiredReplicas existing \<and> b = sumReplicas sources \<and> b \<le> a"
      using assms g Inr ps on
      by (auto simp: classifyDestinationLayout_def attempt_app bnd_Inr Let_def split: if_splits dest: legacyLayout_Inr)
    ultimately show ?thesis using GetMachineSet_Inr g Inr by blast
  qed
qed

text \<open>
  C24: the single destination machine set is accepted as the replacement of several source machine
  sets only when it targets the destination vCenter and asks for at least as many replicas as all
  the sources together, provided their total is below 2^31 (the sum is formed in 32 bits).
\<close>

theorem legacy_aggregate_holds_capacity:
  assumes "expectedDestinationNames mm base srcs fd recorded s = (Inr (names, True), s')"
    and "\<forall>ms\<in>set srcs. 0 \<le> machineSetDesiredReplicas ms"
    and "sum_list (map machineSetDesiredReplicas srcs) < 2 ^ 31"
  shows "\<exists>existing w. machineSets_get (mm_machineClient mm) base (world s) = (Inr existing, w) \<and>
     onVCenter (fd_server fd) existing \<and>
     sum_list (map machineSetDesiredReplicas srcs) \<le> machineSetDesiredReplicas existing"
proof -
  obtain a b t where "classifyDestinationLayout mm base (sort_key ms_name srcs) fd recorded s =
      (Inr (destinationLayoutLegacyAggregate, a, b), t)"
    using expectedDestinationNames_Inr [OF assms(1)] by metis
  from classify_legacy [OF this] obtain existing w where
    e: "machineSets_get (mm_machineClient mm) base (world s) = (Inr existing, w)" "onVCenter (fd_server fd) existing"
    and cap: "sumReplicas (sort_key ms_name srcs) \<le> machineSetDesiredReplicas existing" by auto
  have "sum_list (map machineSetDesiredReplicas (sort_key ms_name srcs)) = sum_list (map machineSetDesiredReplicas srcs)"
    by (metis mset_map mset_sort sum_mset_sum_list)
  moreover have "0 \<le> sum_list (map machineSetDesiredReplicas srcs)"
    using assms(2) by (auto intro!: sum_list_nonneg)
  ultimately have "sumReplicas (sort_key ms_name srcs) = sum_list (map machineSetDesiredReplicas srcs)"
    using assms(3) by (simp add: sumReplicas_i32 i32_id)
  with e cap show ?thesis by auto
qed

definition sampleAggregate :: machineSet where
  "sampleAggregate = (case newWorkerMachineSet ''b'' 5 sampleFD sampleMachineSet ''i'' of
     Inr ms \<Rightarrow> ms\<lparr>ms_annotations := [LegacyAggregateAnnotation \<mapsto> ''true'']\<rparr> | Inl _ \<Rightarrow> sampleMachineSet)"

theorem legacy_aggregate_holds_capacity_witness:
  "\<exists>existing w. machineSets_get (mm_machineClient (sampleMM [sampleAggregate])) ''b'' (world sampleExec) = (Inr existing, w) \<and>
     4 \<le> machineSetDesiredReplicas existing"
proof -
  have "fst (expectedDestinationNames (sampleMM [sampleAggregate]) ''b'' twoSources sampleFD [] sampleExec) = Inr ([''b''], True)"
    by code_simp
  then obtain s' where run: "expectedDestinationNames (sampleMM [sampleAggregate]) ''b'' twoSources sampleFD [] sampleExec =
      (Inr ([''b''], True), s')"
    by (cases "expectedDestinationNames (sampleMM [sampleAggregate]) ''b'' twoSources sampleFD [] sampleExec") simp
  have sum: "sum_list (map machineSetDesiredReplicas twoSources) = 4"
    and pos: "\<forall>ms\<in>set twoSources. 0 \<le> machineSetDesiredReplicas ms"
    by (simp_all add: twoSources_def sampleMachineSet_def machineSetDesiredReplicas_def)
  from legacy_aggregate_holds_capacity [OF run pos] sum show ?thesis by auto
qed

section \<open>Recovery\<close>

lemma recoverName_Inr:
  "recoverName mm fd recorded ns nm s = (Inr ns', s') \<Longrightarrow>
     ns' = (if nm \<in> set recorded \<or> nm \<in> set ns then ns else ns @ [nm])"
  by (auto simp: recoverName_def attempt_app bnd_Inr split: prod.splits sum.splits if_splits)

definition fresh_names :: "string list \<Rightarrow> string list \<Rightarrow> bool" where
  "fresh_names recorded ns \<longleftrightarrow> distinct ns \<and> set ns \<inter> set recorded = {}"

lemma foldM_recoverName:
  "foldM (recoverName mm fd recorded) ns xs s = (Inr ns', s') \<Longrightarrow> fresh_names recorded ns \<Longrightarrow>
     fresh_names recorded ns' \<and> set ns' = set ns \<union> (set xs - set recorded)"
proof (induction xs arbitrary: ns s)
  case (Cons x xs)
  then obtain n1 t where n1: "recoverName mm fd recorded ns x s = (Inr n1, t)"
    and rest: "foldM (recoverName mm fd recorded) n1 xs t = (Inr ns', s')" by (auto simp: bnd_Inr)
  note e = recoverName_Inr [OF n1]
  then have "fresh_names recorded n1" using Cons.prems(2) by (auto simp: fresh_names_def)
  from Cons.IH [OF rest this] e show ?case by (auto split: if_splits)
qed simp

lemma recoverMapping_fresh:
  assumes "recoverMapping mm m msList infraID sourceFDs ns mp s = (Inr ns', s')"
    and "fresh_names (workerMachineSetNames (status m)) ns"
  shows "fresh_names (workerMachineSetNames (status m)) ns'"
  using assms foldM_recoverName
  by (fastforce simp: recoverMapping_def Let_def bnd_Inr split: option.splits if_splits)

lemma foldM_recoverMapping:
  "foldM (recoverMapping mm m msList infraID sourceFDs) ns mps s = (Inr ns', s') \<Longrightarrow>
     fresh_names (workerMachineSetNames (status m)) ns \<Longrightarrow> fresh_names (workerMachineSetNames (status m)) ns'"
  by (induction mps arbitrary: ns s) (auto simp: bnd_Inr dest: recoverMapping_fresh)

text \<open>The reads of recovery do not touch the reconcile's migration object.\<close>

definition mig_is :: "migration \<Rightarrow> 'w rstate \<Rightarrow> bool" where
  "mig_is x s \<longleftrightarrow> mig s = x"

lemma mig_is_read [keeps_rules]: "keeps (mig_is x) (readCall t c)"
  by (auto simp: keeps_def readCall_def wrapErr_def attempt_app request_app mig_is_def split: prod.splits sum.splits)

lemma mig_is_layout [keeps_rules]:
  "keeps (mig_is x) (GetMachineSet mm nm)"
  "keeps (mig_is x) (recoverMapping mm m msList infraID sourceFDs ns mp)"
  unfolding resolveWorkerMachineSetName_def classifyDestinationLayout_def anyCopyExists_def GetMachineSet_def
    expectedDestinationNames_def deriveCopy_def recoverMapping_def recoverName_def Let_def
  by (intro keeps_rules)+

text \<open>
  C25: recovering unrecorded destination names is all or nothing: an error leaves the recorded
  names as they were, and success appends names that were not recorded before, each once, leaving
  everything else of the migration object alone.
\<close>

theorem name_recovery_all_or_nothing:
  "case recoverUnrecordedDestinationNames mm msList infraID mappings sourceFDs s of
      (Inl e, s') \<Rightarrow> mig s' = mig s
    | (Inr ns, s') \<Rightarrow> mig s' = (mig s)\<lparr>status := (status (mig s))\<lparr>workerMachineSetNames :=
                  workerMachineSetNames (status (mig s)) @ ns\<rparr>\<rparr> \<and>
                distinct ns \<and> set ns \<inter> set (workerMachineSetNames (status (mig s))) = {}"
proof -
  let ?loop = "foldM (recoverMapping mm (mig s) msList infraID sourceFDs) [] mappings"
  obtain q t where loop: "?loop s = (q, t)" by fastforce
  have "keeps (mig_is (mig s)) ?loop" by (intro keeps_rules)
  then have same: "mig t = mig s"
    using keepsD [of "mig_is (mig s)" ?loop s q t] loop by (simp add: mig_is_def)
  show ?thesis
  proof (cases q)
    case (Inl e)
    with loop same show ?thesis
      by (auto simp: recoverUnrecordedDestinationNames_def bnd_app)
  next
    case (Inr ns)
    then have "fresh_names (workerMachineSetNames (status (mig s))) ns"
      using foldM_recoverMapping [of mm "mig s" msList infraID sourceFDs "[]" mappings s ns t] loop
      by (simp add: fresh_names_def)
    with loop same Inr show ?thesis
      by (auto simp: recoverUnrecordedDestinationNames_def bnd_app modifyStatus_def fresh_names_def)
  qed
qed

end
