(* ===== verification/Workers.thy ===== *)
theory Workers
  imports Layout
begin

text \<open>
  The worker machine sets of the destination: planning and creating one copy per source machine
  set, checking that every expected copy exists, and measuring readiness and progress
  (\<open>planMappedWorkerMachineSets\<close>, \<open>createMappedWorkerMachineSets\<close>, \<open>targetMachineSetsExist\<close>,
  \<open>workerReadinessFailureDomains\<close>, \<open>checkWorkerReadiness\<close>, \<open>updateWorkloadProgress\<close> of
  \<open>internal/controller/vmwarecloudfoundationmigration_controller.go\<close>). The recorded names are a
  field of the migration object, so the operations that append to it thread the reconcile state.
\<close>

section \<open>Planning\<close>

definition maxDestinationWorkerMachineSets :: nat where
  "maxDestinationWorkerMachineSets = 256"

record destinationMachineSetPlan =
  plan_failureDomain :: failureDomain
  plan_sourceSets :: "machineSet list"
  plan_names :: "string list"

definition msgSourceSets :: "string \<Rightarrow> string" where
  "msgSourceSets src = ''getting source MachineSets for failure domain '' @ quote src"

text \<open>The names among \<open>names\<close> whose machine set is not found; any other error is returned.\<close>

definition missingNames :: "'w machineManager \<Rightarrow> string list \<Rightarrow> (('w, 'z) exec_scheme, error, string list) op" where
  "missingNames mm names =
     foldM (\<lambda>missing nm. attempt (GetMachineSet mm nm) (\<lambda>r. case r of
         Inr _ \<Rightarrow> ret missing
       | Inl e \<Rightarrow> if IsNotFound e then ret (missing @ [nm]) else fail (Wrapf (msgGet nm) e))) [] names"

definition planMapping ::
  "'w machineManager \<Rightarrow> string \<Rightarrow> failureDomain list \<Rightarrow> failureDomain list \<Rightarrow> string list
   \<Rightarrow> destinationMachineSetPlan list \<Rightarrow> fdMapping \<Rightarrow> (('w, 'z) exec_scheme, error, destinationMachineSetPlan list) op" where
  "planMapping mm infraID destFDs infraFDs recorded plans mp =
     (case findFailureDomainByName destFDs (map_destination mp) of
        None \<Rightarrow> fail (Errorf (msgResolveDest (map_destination mp) (map_source mp)))
      | Some fd \<Rightarrow>
     (case findFailureDomainByName infraFDs (map_source mp) of
        None \<Rightarrow> fail (Errorf (''resolving source failure domain '' @ quote (map_source mp) @ '' for mapping to '' @
                   quote (map_destination mp)))
      | Some sourceFD \<Rightarrow>
          bnd (resolveWorkerMachineSetName mm infraID (fd_name fd) recorded) (\<lambda>base.
          bnd (wrapErr (msgSourceSets (map_source mp))
                 (GetMachineSetsByFailureDomain mm (fd_server sourceFD) (Some sourceFD))) (\<lambda>sources.
          if sources = [] then
            (let recordedNames = recordedWorkerMachineSetNames recorded base in
             if recordedNames = [] then ret plans
             else bnd (missingNames mm recordedNames) (\<lambda>missing.
               if missing \<noteq> []
               then fail (Errorf (''recorded destination MachineSets for failure domain '' @ quote (fd_name fd) @
                      '' are missing but their source MachineSets are gone: restore '' @ join '', '' missing @ '' before retrying''))
               else ret plans))
          else
            (let sorted_sources = sort_key ms_name sources in
             bnd (expectedDestinationNames mm base sorted_sources fd recorded) (\<lambda>(names, _).
             ret (plans @ [\<lparr>plan_failureDomain = fd, plan_sourceSets = sorted_sources, plan_names = names\<rparr>])))))))"

text \<open>The number of names the status would hold: recorded names and all planned ones.\<close>

definition unionSize :: "string list \<Rightarrow> destinationMachineSetPlan list \<Rightarrow> nat" where
  "unionSize recorded plans = card (set (recorded @ concat (map plan_names plans)))"

definition planMappedWorkerMachineSets ::
  "'w machineManager \<Rightarrow> string \<Rightarrow> fdMapping list \<Rightarrow> failureDomain list \<Rightarrow> failureDomain list \<Rightarrow> string list
   \<Rightarrow> (('w, 'z) exec_scheme, error, destinationMachineSetPlan list) op" where
  "planMappedWorkerMachineSets mm infraID mappings destFDs infraFDs recorded =
     bnd (foldM (planMapping mm infraID destFDs infraFDs recorded) [] mappings) (\<lambda>plans.
       if unionSize recorded plans > maxDestinationWorkerMachineSets
       then fail (Errorf (''recording destination MachineSets for this mapping would hold '' @ itoa (unionSize recorded plans) @
              '' names, exceeding the '' @ itoa maxDestinationWorkerMachineSets @
              '' supported by status.workerMachineSetNames: reduce the mapped source MachineSets''))
       else ret plans)"

section \<open>Creating\<close>

definition msgIdentity :: "string \<Rightarrow> string \<Rightarrow> string \<Rightarrow> string" where
  "msgIdentity nm had want =
     ''destination MachineSet '' @ quote nm @ '' was created for source MachineSet '' @ quote had @
     '' but now maps to '' @ quote want @ '': restore the expected source MachineSets before retrying''"

text \<open>An existing destination must be on the failure domain's vCenter, and, unless its source
  has no running replicas or it carries no source annotation, be annotated with that source.\<close>

definition checkOnServer :: "failureDomain \<Rightarrow> string \<Rightarrow> machineSet \<Rightarrow> error + unit" where
  "checkOnServer fd nm existing =
     bindE (wrapE (msgExtract nm) (ExtractVSphereProviderSpec existing)) (\<lambda>ps.
       if \<not> onServer ps (fd_server fd) then Inl (Errorf (msgCollision nm)) else Inr ())"

definition checkIdentity :: "string \<Rightarrow> machineSet \<Rightarrow> machineSet \<Rightarrow> error + unit" where
  "checkIdentity nm existing source =
     (let had = deref (ms_annotations existing SourceMachineSetAnnotation) in
      if machineSetDesiredReplicas source = 0 then Inr ()
      else if had = [] then Inr ()
      else if had \<noteq> ms_name source then Inl (Errorf (msgIdentity nm had (ms_name source)))
      else Inr ())"

definition recordName :: "string \<Rightarrow> ('w, unit) handler" where
  "recordName nm = modifyStatus (workerMachineSetNames_update (\<lambda>ns. ns @ [nm]))"

definition recordUnless :: "bool \<Rightarrow> string \<Rightarrow> ('w, unit) handler" where
  "recordUnless recovery nm = (if recovery then ret () else recordName nm)"

text \<open>The two branches for one source machine set: its copy exists already, or it has to be
  created. \<open>recovery\<close> is whether the name was recorded before.\<close>

definition adoptCopy ::
  "failureDomain \<Rightarrow> string \<Rightarrow> machineSet \<Rightarrow> bool \<Rightarrow> machineSet \<Rightarrow> ('w, unit) handler" where
  "adoptCopy fd nm source recovery existing =
     bnd (liftE (checkOnServer fd nm existing)) (\<lambda>_.
     bnd (liftE (checkIdentity nm existing source)) (\<lambda>_.
     recordUnless recovery nm))"

definition msgRecreate :: "string \<Rightarrow> string \<Rightarrow> string" where
  "msgRecreate nm src = ''recreating destination MachineSet '' @ quote nm @ '': source MachineSet '' @ quote src @
     '' is already scaled to zero, restore the destination MachineSet before retrying''"

definition msgCreating :: "string \<Rightarrow> string" where
  "msgCreating nm = ''creating worker MachineSet '' @ quote nm"

definition createMissing ::
  "'w rstate ctx \<Rightarrow> 'w machineManager \<Rightarrow> string \<Rightarrow> failureDomain \<Rightarrow> string \<Rightarrow> machineSet \<Rightarrow> bool \<Rightarrow> ('w, unit) handler" where
  "createMissing ctx mm infraID fd nm source recovery =
     (let replicas = machineSetDesiredReplicas source in
      if recovery \<and> replicas = 0 then fail (Errorf (msgRecreate nm (ms_name source)))
      else
        bnd (wrapErr (msgCreating nm)
               (CreateWorkerMachineSet ctx mm nm replicas (Some fd) (Some source) infraID)) (\<lambda>_.
        recordUnless recovery nm))"

text \<open>One source machine set of a plan; the accumulator is \<open>claimedSources\<close> and
  \<open>createdAny\<close>. Any error of the lookup, not only \<open>NotFound\<close>, leads to creation.\<close>

definition createCopy ::
  "'w rstate ctx \<Rightarrow> 'w machineManager \<Rightarrow> string \<Rightarrow> failureDomain \<Rightarrow> string list \<Rightarrow> string
   \<Rightarrow> string list \<times> bool \<Rightarrow> nat \<times> machineSet \<Rightarrow> ('w, string list \<times> bool) handler" where
  "createCopy ctx mm infraID fd names base acc p =
     (case acc of (claimed, created) \<Rightarrow> case p of (si, source) \<Rightarrow>
        if ms_name source \<in> set claimed
        then fail (Errorf (''source MachineSet '' @ quote (ms_name source) @ '' assigned to multiple failure domains''))
        else
          let claimed' = ms_name source # claimed; nm = suffixedWorkerMachineSetName base si in
          if nm \<notin> set names then ret (claimed', created)
          else
            bnd (gets (\<lambda>s. nm \<in> set (workerMachineSetNames (status (mig s))))) (\<lambda>recovery.
            attempt (GetMachineSet mm nm) (\<lambda>r. case r of
              Inr existing \<Rightarrow> bnd (adoptCopy fd nm source recovery existing) (\<lambda>_. ret (claimed', created))
            | Inl _ \<Rightarrow> bnd (createMissing ctx mm infraID fd nm source recovery) (\<lambda>_. ret (claimed', True)))))"

definition createPlan ::
  "'w rstate ctx \<Rightarrow> 'w machineManager \<Rightarrow> string \<Rightarrow> string list \<times> bool \<Rightarrow> destinationMachineSetPlan
   \<Rightarrow> ('w, string list \<times> bool) handler" where
  "createPlan ctx mm infraID acc plan =
     foldM (createCopy ctx mm infraID (plan_failureDomain plan) (plan_names plan)
              (workerMachineSetName infraID (fd_name (plan_failureDomain plan)) (plan_names plan)))
       acc (enumerate 0 (plan_sourceSets plan))"

text \<open>\<open>%v\<close> of a slice of strings.\<close>

definition showNames :: "string list \<Rightarrow> string" where
  "showNames ns = ''['' @ join '' '' ns @ '']''"

definition createMappedWorkerMachineSets ::
  "'w rstate ctx \<Rightarrow> ('w, 'b) reconciler_scheme \<Rightarrow> migration \<Rightarrow> string \<Rightarrow> fdMapping list \<Rightarrow> failureDomain list
   \<Rightarrow> ('w, result) handler" where
  "createMappedWorkerMachineSets ctx r m infraID mappings infraFDs =
     bnd (setProgressing r ConditionWorkloadMigrated ''Creating new worker MachineSets'') (\<lambda>_.
     bnd (gets (\<lambda>s. workerMachineSetNames (status (mig s)))) (\<lambda>recorded.
     bnd (planMappedWorkerMachineSets (machineMgr r) infraID mappings (spec_failureDomains (spec m)) infraFDs recorded) (\<lambda>plans.
     bnd (foldM (createPlan ctx (machineMgr r) infraID) ([], False) plans) (\<lambda>(_, createdAny).
     bnd (missingNames (machineMgr r) (concat (map plan_names plans))) (\<lambda>missing.
     if missing \<noteq> []
     then fail (Errorf (''destination MachineSets '' @ showNames (sort missing) @
            '' are missing and cannot be recreated from the remaining source MachineSets: restore them before retrying''))
     else
       bnd (if createdAny then Eventf EventNormal ''WorkersCreated'' ''New worker MachineSets created on target vCenter''
            else ret ()) (\<lambda>_.
       bnd (setProgressing r ConditionWorkloadMigrated ''Workers created, waiting for machines ready'') (\<lambda>_.
       ret 30)))))))"

section \<open>Existence\<close>

text \<open>\<open>sourceForName\<close>: the source machine set at the index of a positional name.\<close>

definition sourceForName :: "string \<Rightarrow> machineSet list \<Rightarrow> string \<Rightarrow> machineSet option" where
  "sourceForName base sources nm =
     map_of (rev (map (\<lambda>(si, ms). (suffixedWorkerMachineSetName base si, ms)) (enumerate 0 sources))) nm"

text \<open>The loop over the target names of one mapping; \<open>False\<close> as soon as one is absent.\<close>

fun targetsExist ::
  "'w machineManager \<Rightarrow> failureDomain \<Rightarrow> (string \<Rightarrow> machineSet option) \<Rightarrow> string list \<Rightarrow> (('w, 'z) exec_scheme, error, bool) op" where
  "targetsExist mm fd src [] = ret True"
| "targetsExist mm fd src (nm # names) =
     attempt (GetMachineSet mm nm) (\<lambda>r. case r of
       Inl e \<Rightarrow> if IsNotFound e then ret False else fail (Wrapf (msgGet nm) e)
     | Inr existing \<Rightarrow>
         bnd (liftE (checkOnServer fd nm existing)) (\<lambda>_.
         bnd (liftE (case src nm of None \<Rightarrow> Inr () | Some source \<Rightarrow> checkIdentity nm existing source)) (\<lambda>_.
         targetsExist mm fd src names)))"

text \<open>The expected names of one mapping: \<open>None\<close> when the mapping is empty and stays so.\<close>

definition expectedTargets ::
  "'w rstate ctx \<Rightarrow> ('w, 'b) reconciler_scheme \<Rightarrow> string list \<Rightarrow> fdMapping \<Rightarrow> failureDomain \<Rightarrow> string \<Rightarrow> failureDomain option
   \<Rightarrow> ('w, (string list \<times> (string \<Rightarrow> machineSet option)) option) handler" where
  "expectedTargets ctx r recorded mp fd base sourceFDp =
     (let mm = machineMgr r; recordedNames = recordedWorkerMachineSetNames recorded base in
      case sourceFDp of
        None \<Rightarrow> ret (Some (if recordedNames = [] then [base] else recordedNames, \<lambda>_. None))
      | Some sourceFD \<Rightarrow>
          bnd (wrapErr (msgSourceSets (map_source mp))
                 (GetMachineSetsByFailureDomain mm (fd_server sourceFD) (Some sourceFD))) (\<lambda>sources0.
          if sources0 = [] \<and> recordedNames = [] then ret None
          else
            let sources = sort_key ms_name sources0 in
            bnd (expectedDestinationNames mm base sources fd recorded) (\<lambda>(names, legacy).
            if legacy then
              bnd (AnnotateMachineSetLegacyAggregate ctx mm base) (\<lambda>_.
              bnd (if base \<in> set recorded then ret ()
                   else
                     bnd (recordName base) (\<lambda>_.
                     Eventf EventNormal ''LegacyAggregateReplacement''
                       (''Destination MachineSet '' @ base @ '' already holds the aggregate of '' @ itoa (length sources) @
                        '' source MachineSets; no per-source copies created for failure domain '' @ fd_name fd))) (\<lambda>_.
              ret (Some (names, \<lambda>_. None))))
            else ret (Some (names, sourceForName base sources)))))"

fun targetMachineSetsExistLoop ::
  "'w rstate ctx \<Rightarrow> ('w, 'b) reconciler_scheme \<Rightarrow> migration \<Rightarrow> string \<Rightarrow> failureDomain list \<Rightarrow> string list \<Rightarrow> fdMapping list
   \<Rightarrow> ('w, bool) handler" where
  "targetMachineSetsExistLoop ctx r m infraID infraFDs recorded [] = ret True"
| "targetMachineSetsExistLoop ctx r m infraID infraFDs recorded (mp # mps) =
     (case findFailureDomainByName (spec_failureDomains (spec m)) (map_destination mp) of
        None \<Rightarrow> fail (Errorf (msgResolveDest (map_destination mp) (map_source mp)))
      | Some fd \<Rightarrow>
          bnd (resolveWorkerMachineSetName (machineMgr r) infraID (fd_name fd) recorded) (\<lambda>base.
          bnd (expectedTargets ctx r recorded mp fd base (findFailureDomainByName infraFDs (map_source mp))) (\<lambda>t.
          bnd (case t of None \<Rightarrow> ret True | Some (names, src) \<Rightarrow> targetsExist (machineMgr r) fd src names) (\<lambda>ok.
          if \<not> ok then ret False
          else targetMachineSetsExistLoop ctx r m infraID infraFDs recorded mps))))"

definition targetMachineSetsExist ::
  "'w rstate ctx \<Rightarrow> ('w, 'b) reconciler_scheme \<Rightarrow> migration \<Rightarrow> string \<Rightarrow> fdMapping list \<Rightarrow> failureDomain list
   \<Rightarrow> ('w, bool) handler" where
  "targetMachineSetsExist ctx r m infraID mappings infraFDs =
     bnd (gets (\<lambda>s. workerMachineSetNames (status (mig s)))) (\<lambda>recorded.
     targetMachineSetsExistLoop ctx r m infraID infraFDs recorded mappings)"

section \<open>Readiness\<close>

definition readinessMapping ::
  "'w machineManager \<Rightarrow> string \<Rightarrow> failureDomain list \<Rightarrow> failureDomain list \<Rightarrow> string list \<Rightarrow> machineSet list
   \<Rightarrow> failureDomain list \<Rightarrow> fdMapping \<Rightarrow> (('w, 'z) exec_scheme, error, failureDomain list) op" where
  "readinessMapping mm infraID sourceFDs destFDs recorded sets acc mp =
     (case findFailureDomainByName destFDs (map_destination mp) of
        None \<Rightarrow> fail (Errorf (''resolving destination failure domain '' @ quote (map_destination mp)))
      | Some fd \<Rightarrow>
     (case findFailureDomainByName sourceFDs (map_source mp) of
        None \<Rightarrow> ret (acc @ [fd])
      | Some source \<Rightarrow>
          bnd (wrapErr (''listing source machinesets for '' @ quote (fd_name source))
                 (GetMachineSetsByFailureDomain mm (fd_server source) (Some source))) (\<lambda>sources.
          let base = workerMachineSetName infraID (fd_name fd) recorded in
          if sources = [] \<and> recordedWorkerMachineSetNames recorded base = [] \<and>
             \<not> list_ex (\<lambda>ms. ms_name ms = base \<or> isSuffixedMachineSetName (ms_name ms) base) sets
          then ret acc else ret (acc @ [fd]))))"

definition workerReadinessFailureDomains ::
  "'w machineManager \<Rightarrow> string \<Rightarrow> fdMapping list \<Rightarrow> failureDomain list \<Rightarrow> failureDomain list \<Rightarrow> string list
   \<Rightarrow> (('w, 'z) exec_scheme, error, failureDomain list) op" where
  "workerReadinessFailureDomains mm infraID mappings sourceFDs destFDs recorded =
     bnd (wrapErr ''listing worker machinesets'' (ListMachineSets mm)) (\<lambda>sets.
     foldM (readinessMapping mm infraID sourceFDs destFDs recorded sets) [] mappings)"

record workerReadinessStatus =
  wr_ready :: bool
  wr_machinesReady :: int
  wr_machinesTotal :: int
  wr_nodesReady :: int
  wr_nodesTotal :: int

definition machineSetReadiness ::
  "'w machineManager \<Rightarrow> workerReadinessStatus \<Rightarrow> string \<Rightarrow> (('w, 'z) exec_scheme, error, workerReadinessStatus) op" where
  "machineSetReadiness mm st nm =
     bnd (wrapErr (msgGet nm) (GetMachineSet mm nm)) (\<lambda>ms.
     let desired = machineSetDesiredReplicas ms in
     if desired = 0 then ret st
     else
       bnd (wrapErr (''checking machines for '' @ quote nm) (CheckMachinesReady mm nm)) (\<lambda>(machinesOK, mready, mtotal).
       bnd (wrapErr (''checking nodes for '' @ quote nm) (CheckNodesReady mm nm)) (\<lambda>(nodesOK, nready, ntotal).
       ret \<lparr>wr_ready = (wr_ready st \<and> machinesOK \<and> desired \<le> mready \<and> nodesOK \<and> desired \<le> nready),
            wr_machinesReady = i32 (wr_machinesReady st + mready), wr_machinesTotal = i32 (wr_machinesTotal st + mtotal),
            wr_nodesReady = i32 (wr_nodesReady st + nready), wr_nodesTotal = i32 (wr_nodesTotal st + ntotal)\<rparr>)))"

definition failureDomainReadiness ::
  "'w machineManager \<Rightarrow> string \<Rightarrow> string list \<Rightarrow> machineSet list \<Rightarrow> workerReadinessStatus \<Rightarrow> failureDomain
   \<Rightarrow> (('w, 'z) exec_scheme, error, workerReadinessStatus) op" where
  "failureDomainReadiness mm infraID recorded msList st fd =
     bnd (resolveWorkerMachineSetName mm infraID (fd_name fd) recorded) (\<lambda>base.
     foldM (machineSetReadiness mm) st
       (append_missing (workerMachineSetNamesForBase msList base) (recordedWorkerMachineSetNames recorded base)))"

definition checkWorkerReadiness ::
  "'w machineManager \<Rightarrow> failureDomain list \<Rightarrow> string \<Rightarrow> string list \<Rightarrow> (('w, 'z) exec_scheme, error, workerReadinessStatus) op" where
  "checkWorkerReadiness mm fds infraID recorded =
     bnd (wrapErr ''listing machinesets'' (ListMachineSets mm)) (\<lambda>msList.
     foldM (failureDomainReadiness mm infraID recorded msList)
       \<lparr>wr_ready = True, wr_machinesReady = 0, wr_machinesTotal = 0, wr_nodesReady = 0, wr_nodesTotal = 0\<rparr> fds)"

section \<open>Progress\<close>

text \<open>The counters of \<open>updateWorkloadProgress\<close>: total, ready, nodes ready, and whether an error
  occurred. No error leaves the function.\<close>

type_synonym counters = "int \<times> int \<times> int \<times> bool"

definition progressMachineSet :: "'w machineManager \<Rightarrow> counters \<Rightarrow> string \<Rightarrow> (('w, 'z) exec_scheme, error, counters) op" where
  "progressMachineSet mm c nm =
     (case c of (tot, ready, nodes, errs) \<Rightarrow>
        attempt (GetMachineSet mm nm) (\<lambda>g.
        let total1 = (case g of Inr ms \<Rightarrow> (case ms_replicas ms of Some n \<Rightarrow> i32 (tot + n) | None \<Rightarrow> tot) | Inl _ \<Rightarrow> tot) in
        attempt (CheckMachinesReady mm nm) (\<lambda>cm.
        let (total2, ready1, errs1) = (case cm of
              Inr (_, k, t) \<Rightarrow> (if total1 = 0 then i32 (total1 + t) else total1, i32 (ready + k), errs)
            | Inl _ \<Rightarrow> (total1, ready, True)) in
        attempt (CheckNodesReady mm nm) (\<lambda>cn.
        ret (case cn of
              Inr (_, k, _) \<Rightarrow> (total2, ready1, i32 (nodes + k), errs1)
            | Inl _ \<Rightarrow> (total2, ready1, nodes, True))))))"

definition progressFailureDomain ::
  "'w machineManager \<Rightarrow> string \<Rightarrow> string list \<Rightarrow> machineSet list \<Rightarrow> counters \<Rightarrow> failureDomain \<Rightarrow> (('w, 'z) exec_scheme, error, counters) op" where
  "progressFailureDomain mm infraID recorded msList c fd =
     attempt (resolveWorkerMachineSetName mm infraID (fd_name fd) recorded) (\<lambda>r. case r of
       Inl _ \<Rightarrow> (case c of (tot, ready, nodes, _) \<Rightarrow> ret (tot, ready, nodes, True))
     | Inr base \<Rightarrow> foldM (progressMachineSet mm) c (workerMachineSetNamesForBase msList base))"

text \<open>The machines remaining on the source; \<open>None\<close> when they could not all be counted.\<close>

definition sourceRemaining :: "'w machineManager \<Rightarrow> string \<Rightarrow> (('w, 'z) exec_scheme, error, int option) op" where
  "sourceRemaining mm server =
     (if server = [] then ret None
      else attempt (GetMachineSetsByVCenter mm server) (\<lambda>r. case r of
          Inl _ \<Rightarrow> ret None
        | Inr sets \<Rightarrow>
            foldM (\<lambda>acc ms. attempt (CheckMachinesDeleted mm (ms_name ms)) (\<lambda>d. ret (case d of
                Inr (_, k) \<Rightarrow> map_option (\<lambda>n. i32 (n + k)) acc
              | Inl _ \<Rightarrow> None))) (Some 0) sets))"

definition noWorkers :: workerProgress where
  "noWorkers = \<lparr>targetMachinesTotal = 0, targetMachinesReady = 0, targetNodesReady = 0, sourceMachinesRemaining = 0\<rparr>"

definition noControlPlane :: controlPlaneProgress where
  "noControlPlane = \<lparr>cp_replicas = 0, cp_updatedReplicas = 0, cp_readyReplicas = 0\<rparr>"

definition previousProgress :: "migrationProgress option \<Rightarrow> workerProgress \<times> controlPlaneProgress" where
  "previousProgress p = (case p of
      None \<Rightarrow> (noWorkers, noControlPlane)
    | Some q \<Rightarrow> ((case workers q of None \<Rightarrow> noWorkers | Some w \<Rightarrow> w),
                (case controlPlane q of None \<Rightarrow> noControlPlane | Some c \<Rightarrow> c)))"

definition newProgress ::
  "workerProgress \<times> controlPlaneProgress \<Rightarrow> counters \<Rightarrow> int option \<Rightarrow> error + controlPlaneRolloutStatus \<Rightarrow> migrationProgress" where
  "newProgress prev c remaining rollout =
     (case prev of (w, cp) \<Rightarrow> case c of (tot, ready, nodes, errs) \<Rightarrow>
        let w1 = (if \<not> errs \<or> targetMachinesTotal w = 0
                  then w\<lparr>targetMachinesTotal := tot, targetMachinesReady := ready, targetNodesReady := nodes\<rparr> else w);
            w2 = (case remaining of None \<Rightarrow> w1 | Some n \<Rightarrow> w1\<lparr>sourceMachinesRemaining := n\<rparr>);
            cp1 = (case rollout of Inl _ \<Rightarrow> cp
                   | Inr st \<Rightarrow> \<lparr>cp_replicas = rs_replicas st, cp_updatedReplicas = rs_updatedReplicas st,
                              cp_readyReplicas = rs_readyReplicas st\<rparr>)
        in \<lparr>workers = Some w2, controlPlane = Some cp1\<rparr>)"

definition updateWorkloadProgress ::
  "('w, 'b) reconciler_scheme \<Rightarrow> string \<Rightarrow> string \<Rightarrow> ('w, unit) handler" where
  "updateWorkloadProgress r infraID sourceServer =
     bnd (gets mig) (\<lambda>m.
     attempt (ListMachineSets (machineMgr r)) (\<lambda>l.
     let (msList, listErr) = (case l of Inr xs \<Rightarrow> (xs, False) | Inl _ \<Rightarrow> ([], True)) in
     bnd (foldM (progressFailureDomain (machineMgr r) infraID (workerMachineSetNames (status m)) msList)
            (0, 0, 0, listErr) (spec_failureDomains (spec m))) (\<lambda>c.
     bnd (sourceRemaining (machineMgr r) sourceServer) (\<lambda>remaining.
     attempt (CheckControlPlaneRolloutStatus (machineMgr r)) (\<lambda>rollout.
     modifyStatus (progress_update (\<lambda>_. Some (newProgress (previousProgress (progress (status m))) c remaining rollout))))))))"

section \<open>Guarding\<close>

lemma keeps_workers_reads [keeps_rules]:
  "keeps (safe m A) (missingNames mm names)"
  "keeps (safe m A) (planMapping mm infraID destFDs infraFDs recorded plans mp)"
  "keeps (safe m A) (readinessMapping mm infraID sourceFDs destFDs recorded sets acc mp)"
  "keeps (safe m A) (machineSetReadiness mm st nm)"
  "keeps (safe m A) (progressMachineSet mm c nm)"
  "keeps (safe m A) (sourceRemaining mm server)"
  unfolding missingNames_def planMapping_def readinessMapping_def machineSetReadiness_def progressMachineSet_def
    sourceRemaining_def Let_def
  by (intro keeps_rules)+

lemma keeps_targetsExist [keeps_rules]: "keeps (safe m A) (targetsExist mm fd src names)"
proof (induction names)
  case (Cons nm names)
  then show ?case unfolding targetsExist.simps by (intro keeps_rules)
qed (simp only: targetsExist.simps keeps_ret)

lemma keeps_workers [keeps_rules]:
  "keeps (safe m A) (planMappedWorkerMachineSets mm infraID mappings destFDs infraFDs recorded)"
  "keeps (safe m A) (workerReadinessFailureDomains mm infraID mappings sourceFDs destFDs recorded)"
  "keeps (safe m A) (failureDomainReadiness mm infraID recorded msList st fd)"
  "keeps (safe m A) (progressFailureDomain mm infraID recorded msList c fd)"
  "keeps (safe m A) (recordName nm)"
  unfolding planMappedWorkerMachineSets_def workerReadinessFailureDomains_def failureDomainReadiness_def
    progressFailureDomain_def recordName_def
  by (intro keeps_rules)+

lemma keeps_readiness [keeps_rules]:
  "keeps (safe m A) (checkWorkerReadiness mm fds infraID recorded)"
  "keeps (safe m A) (updateWorkloadProgress r infraID sourceServer)"
  unfolding checkWorkerReadiness_def updateWorkloadProgress_def Let_def
  by (intro keeps_rules)+

section \<open>What creation does\<close>

text \<open>The machine sets created in a trace, newest first, and the source each was made from.\<close>

fun createdSets :: "action list \<Rightarrow> machineSet list" where
  "createdSets [] = []"
| "createdSets (MutateCall (CreateMachineSetCall ms) # tr) = ms # createdSets tr"
| "createdSets (_ # tr) = createdSets tr"

definition createdFrom :: "machineSet \<Rightarrow> string" where
  "createdFrom ms = deref (ms_annotations ms SourceMachineSetAnnotation)"

abbreviation recordedNames :: "'w rstate \<Rightarrow> string list" where
  "recordedNames s \<equiv> workerMachineSetNames (status (mig s))"

lemma newWorker_identity:
  "newWorkerMachineSet nm n fd source infraID = Inr new \<Longrightarrow> ms_name new = nm \<and> createdFrom new = ms_name source"
  by (auto simp: newWorkerMachineSet_Inr copyTemplate_def createdFrom_def deref_def
      SourceMachineSetAnnotation_def LegacyAggregateAnnotation_def)

lemma GetMachineSet_effect:
  "GetMachineSet mm nm s = (x, t) \<Longrightarrow> mig t = mig s \<and> createdSets (trace t) = createdSets (trace s)"
  by (auto simp: GetMachineSet_def readCall_def wrapErr_def attempt_app request_app split: prod.splits sum.splits)

lemma Check_effect:
  "Check (executionContext ctx cl k) s = (x, t) \<Longrightarrow> mig t = mig s \<and> createdSets (trace t) = createdSets (trace s)"
  by (auto simp: Check_def executionContext_def WithCheck_def checkPermission_def split: prod.splits sum.splits)

text \<open>A creation either sends nothing and fails, or sends the one new machine set.\<close>

lemma Create_effect:
  assumes "CreateWorkerMachineSet (executionContext ctx cl k) mm nm n (Some fd) (Some source) infraID s = (x, t)"
  shows "mig t = mig s \<and>
    (createdSets (trace t) = createdSets (trace s) \<and> (\<exists>e. x = Inl e) \<or>
     (\<exists>new. newWorkerMachineSet nm n fd source infraID = Inr new \<and> createdSets (trace t) = new # createdSets (trace s)))"
proof (cases "newWorkerMachineSet nm n fd source infraID")
  case (Inl e)
  then have "x = Inl e" "t = s" using assms by (simp_all add: CreateWorkerMachineSet_def bnd_app)
  then show ?thesis by simp
next
  case (Inr new)
  obtain c u where c: "Check (executionContext ctx cl k) s = (c, u)" by fastforce
  with assms Inr Check_effect [OF c] show ?thesis
    by (cases c) (auto simp: CreateWorkerMachineSet_def bnd_app wrapErr_def attempt_app request_app
        split: prod.splits sum.splits)
qed

text \<open>The invariant of the creation loops: \<open>N\<close> are the names recorded at the start, \<open>R\<close> the names
  that may be recorded.\<close>

definition names_ok :: "string list \<Rightarrow> string set \<Rightarrow> 'w rstate \<Rightarrow> bool" where
  "names_ok N R s \<longleftrightarrow> prefix N (recordedNames s) \<and> set (recordedNames s) \<subseteq> R \<and>
     (distinct N \<longrightarrow> distinct (recordedNames s)) \<and> distinct (map createdFrom (createdSets (trace s)))"

definition creating :: "string list \<Rightarrow> string set \<Rightarrow> string list \<times> bool \<Rightarrow> 'w rstate \<Rightarrow> bool" where
  "creating N R acc s \<longleftrightarrow> names_ok N R s \<and> createdFrom ` set (createdSets (trace s)) \<subseteq> set (fst acc) \<and>
     ms_name ` set (createdSets (trace s)) \<subseteq> set (recordedNames s)"

lemma recordName_state: "recordName nm s = (Inr (), s\<lparr>mig := (mig s)\<lparr>status := (status (mig s))\<lparr>workerMachineSetNames :=
     recordedNames s @ [nm]\<rparr>\<rparr>\<rparr>)"
  by (simp add: recordName_def modifyStatus_def)

lemma names_ok_cong:
  "mig t = mig s \<Longrightarrow> createdSets (trace t) = createdSets (trace s) \<Longrightarrow> names_ok N R t = names_ok N R s"
  "mig t = mig s \<Longrightarrow> createdSets (trace t) = createdSets (trace s) \<Longrightarrow> creating N R acc t = creating N R acc s"
  by (simp_all add: names_ok_def creating_def)

lemma recordUnless_inv:
  assumes "names_ok N R s" and "nm \<in> R" and "recovery = (nm \<in> set (recordedNames s))"
    and "recordUnless recovery nm s = (x, t)"
  shows "x = Inr () \<and> names_ok N R t \<and> set (recordedNames t) = insert nm (set (recordedNames s)) \<and> trace t = trace s"
proof (cases recovery)
  case True
  then show ?thesis using assms by (auto simp: recordUnless_def)
next
  case False
  then have t: "x = Inr ()" "recordedNames t = recordedNames s @ [nm]" "trace t = trace s"
    using assms(4) by (auto simp: recordName_state recordUnless_def)
  then show ?thesis using False assms(1-3) by (auto simp: names_ok_def prefix_def)
qed

lemma adoptCopy_inv:
  assumes "creating N R acc s" and "nm \<in> R" and "recovery = (nm \<in> set (recordedNames s))"
    and "adoptCopy fd nm source recovery existing s = (x, t)"
  shows "names_ok N R t \<and> (\<forall>u. x = Inr u \<longrightarrow> creating N R acc t)"
proof (cases "checkOnServer fd nm existing = Inr () \<and> checkIdentity nm existing source = Inr ()")
  case True
  then have "recordUnless recovery nm s = (x, t)"
    using assms(4) by (simp add: adoptCopy_def bnd_app)
  then show ?thesis
    using recordUnless_inv [of N R s nm recovery x t] assms(1-3) by (auto simp: creating_def)
next
  case False
  then have "t = s \<and> (\<exists>e. x = Inl e)"
    using assms(4)
    unfolding adoptCopy_def bnd_app liftE_app by (auto split: sum.splits) (metis+)?
  with assms(1) show ?thesis by (auto simp: creating_def)
qed

lemma createMissing_inv:
  assumes "creating N R (claimed, c) s" and "nm \<in> R" and "recovery = (nm \<in> set (recordedNames s))"
    and "ms_name source \<notin> set claimed"
    and "createMissing (executionContext ctx cl k) mm infraID fd nm source recovery s = (x, t)"
  shows "names_ok N R t \<and> (\<forall>u d. x = Inr u \<longrightarrow> creating N R (ms_name source # claimed, d) t)"
proof (cases "recovery \<and> machineSetDesiredReplicas source = 0")
  case True
  then have "t = s" "x = Inl (Errorf (msgRecreate nm (ms_name source)))"
    using assms(5) by (auto simp: createMissing_def)
  with assms(1) show ?thesis by (auto simp: creating_def)
next
  case False
  let ?create = "CreateWorkerMachineSet (executionContext ctx cl k) mm nm (machineSetDesiredReplicas source) (Some fd) (Some source) infraID"
  obtain y v where y: "?create s = (y, v)" by fastforce
  note eff = Create_effect [OF y]
  have v: "names_ok N R v" "recordedNames v = recordedNames s"
    using eff assms(1,4) by (auto simp: names_ok_def creating_def dest!: newWorker_identity)
  show ?thesis
  proof (cases y)
    case (Inl e)
    then have "t = v" "\<exists>e. x = Inl e"
      using assms(5) False y by (auto simp: createMissing_def Let_def bnd_app wrapErr_def attempt_app)
    with v show ?thesis by auto
  next
    case (Inr z)
    then have "recordUnless recovery nm v = (x, t)"
      using assms(5) False y by (auto simp: createMissing_def Let_def bnd_app wrapErr_def attempt_app)
    from recordUnless_inv [OF v(1) assms(2) _ this] assms(3) v(2)
    have t: "names_ok N R t" "set (recordedNames t) = insert nm (set (recordedNames s))" "trace t = trace v"
      by auto
    with eff Inr assms(1) show ?thesis
      by (auto simp: creating_def image_subset_iff dest!: newWorker_identity)
  qed
qed

lemma createCopy_inv:
  assumes "set names \<subseteq> R"
  shows "hoare (creating N R acc) (createCopy (executionContext ctx cl k) mm infraID fd names base acc p)
    (creating N R) (\<lambda>_. names_ok N R)"
proof (rule hoare_runI)
  fix s x t
  assume inv: "creating N R acc s"
    and run: "createCopy (executionContext ctx cl k) mm infraID fd names base acc p s = (x, t)"
  obtain claimed created si source where acc: "acc = (claimed, created)" and p: "p = (si, source)"
    by (metis surj_pair)
  define nm where "nm = suffixedWorkerMachineSetName base si"
  have ok: "names_ok N R s" "creating N R (ms_name source # claimed, c) s" "creating N R (claimed, c) s" for c
    using inv by (auto simp: creating_def acc)
  show "case x of Inl _ \<Rightarrow> names_ok N R t | Inr acc' \<Rightarrow> creating N R acc' t"
  proof (cases "ms_name source \<in> set claimed \<or> nm \<notin> set names")
    case True
    then show ?thesis
      using run ok by (auto simp: createCopy_def acc p nm_def [symmetric] Let_def split: if_splits)
  next
    case False
    then have R: "nm \<in> R" and fresh: "ms_name source \<notin> set claimed" using assms by auto
    obtain g u where g: "GetMachineSet mm nm s = (g, u)" by fastforce
    have u: "names_ok N R u" "creating N R (ms_name source # claimed, c) u" "creating N R (claimed, c) u"
      "recordedNames u = recordedNames s" for c
      using GetMachineSet_effect [OF g] ok names_ok_cong by metis+
    have run': "(case g of
        Inr existing \<Rightarrow> bnd (adoptCopy fd nm source (nm \<in> set (recordedNames u)) existing) (\<lambda>_. ret (ms_name source # claimed, created))
      | Inl _ \<Rightarrow> bnd (createMissing (executionContext ctx cl k) mm infraID fd nm source (nm \<in> set (recordedNames u)))
                  (\<lambda>_. ret (ms_name source # claimed, True))) u = (x, t)"
      using run False g u(4) by (simp add: createCopy_def acc p nm_def [symmetric] Let_def attempt_app split: sum.splits)
    show ?thesis
    proof (cases g)
      case (Inr existing)
      with run' adoptCopy_inv [OF u(2) R, of _ fd source existing] show ?thesis
        by (fastforce simp: bnd_app split: prod.splits sum.splits)
    next
      case (Inl e)
      with run' createMissing_inv [OF u(3) R _ fresh, of _ ctx cl k mm infraID fd] show ?thesis
        by (fastforce simp: bnd_app split: prod.splits sum.splits)
    qed
  qed
qed

lemma createPlans_inv:
  assumes "\<And>p. p \<in> set plans \<Longrightarrow> set (plan_names p) \<subseteq> R"
  shows "hoare (creating N R acc) (foldM (createPlan (executionContext ctx cl k) mm infraID) acc plans)
    (creating N R) (\<lambda>_. names_ok N R)"
  unfolding createPlan_def by (intro hoare_foldM createCopy_inv assms)

text \<open>Planning and the final check only read.\<close>

definition settled :: "string list \<Rightarrow> machineSet list \<Rightarrow> 'w rstate \<Rightarrow> bool" where
  "settled ns L s \<longleftrightarrow> recordedNames s = ns \<and> createdSets (trace s) = L"

lemma settled_readCall [keeps_rules]: "keeps (settled ns L) (readCall t c)"
  by (auto simp: keeps_def settled_def readCall_def wrapErr_def attempt_app request_app split: prod.splits sum.splits)

lemma settled_effects [keeps_rules]:
  "keeps (settled ns L) (setCondition r ct st why msg)"
  "keeps (settled ns L) (Eventf et title note)"
  by (auto simp: keeps_def settled_def setCondition_def bnd_app timeNow_def split: prod.splits)

lemma settled_reads [keeps_rules]:
  "keeps (settled ns L) (missingNames mm names)"
  "keeps (settled ns L) (planMapping mm infraID destFDs infraFDs recorded plans mp)"
  unfolding missingNames_def planMapping_def resolveWorkerMachineSetName_def expectedDestinationNames_def
    classifyDestinationLayout_def anyCopyExists_def deriveCopy_def GetMachineSetsByFailureDomain_def
    GetMachineSetsByVCenter_def GetMachineSet_def Let_def
  by (intro keeps_rules)+

lemma settled_plan [keeps_rules]: "keeps (settled ns L) (planMappedWorkerMachineSets mm infraID mappings destFDs infraFDs recorded)"
  unfolding planMappedWorkerMachineSets_def by (intro keeps_rules)

lemma plan_size:
  "planMappedWorkerMachineSets mm infraID mappings destFDs infraFDs recorded s = (Inr plans, t) \<Longrightarrow>
     card (set (recorded @ concat (map plan_names plans))) \<le> 256"
  by (auto simp: planMappedWorkerMachineSets_def bnd_Inr unionSize_def maxDestinationWorkerMachineSets_def split: if_splits)

lemma names_ok_length:
  assumes "names_ok N R s" and "distinct N" and "finite R"
  shows "length (recordedNames s) \<le> card R"
  using assms card_mono [of R "set (recordedNames s)"] by (auto simp: names_ok_def distinct_card)

lemma settled_names_ok:
  "settled (recordedNames s) (createdSets (trace s)) t \<Longrightarrow> names_ok N R t = names_ok N R s"
  "settled (recordedNames s) (createdSets (trace s)) t \<Longrightarrow> creating N R acc t = creating N R acc s"
  by (simp_all add: names_ok_def creating_def settled_def)

lemma creation_inv:
  assumes "trace s = []" and "createMappedWorkerMachineSets (executionContext ctx cl k) r m infraID mappings infraFDs s = (x, s')"
  shows "\<exists>R. finite R \<and> card R \<le> max 256 (card (set (recordedNames s))) \<and> names_ok (recordedNames s) R s' \<and>
    ((\<exists>y. x = Inr y) \<longrightarrow> ms_name ` set (createdSets (trace s')) \<subseteq> set (recordedNames s'))"
proof -
  let ?N = "recordedNames s" and ?mm = "machineMgr r"
  obtain s1 where s1: "setProgressing r ConditionWorkloadMigrated ''Creating new worker MachineSets'' s = (Inr (), s1)"
    using setCondition_Inr by blast
  have n1: "settled ?N [] s1"
    by (rule keepsD [OF settled_effects(1) _ s1]) (simp add: settled_def assms(1))
  obtain y s2 where s2: "planMappedWorkerMachineSets ?mm infraID mappings (spec_failureDomains (spec m)) infraFDs ?N s1 = (y, s2)"
    by fastforce
  have n2: "settled ?N [] s2" by (rule keepsD [OF settled_plan n1 s2])
  have eqN: "recordedNames s1 = ?N" using n1 by (simp add: settled_def)
  show ?thesis
  proof (cases y)
    case (Inl e)
    then have "s' = s2" "\<nexists>y. x = Inr y"
      using assms(2) s1 s2 eqN by (auto simp: createMappedWorkerMachineSets_def bnd_app)
    with n2 show ?thesis
      by (intro exI [of _ "set ?N"]) (auto simp: names_ok_def settled_def)
  next
    case (Inr plans)
    define R where "R = set (?N @ concat (map plan_names plans))"
    have small: "card R \<le> 256" unfolding R_def using plan_size s2 Inr by blast
    have sub: "set (plan_names p) \<subseteq> R" if "p \<in> set plans" for p using that by (auto simp: R_def)
    have start: "creating ?N R ([], False) s2"
      using n2 by (auto simp: creating_def names_ok_def settled_def R_def)
    obtain z s3 where s3: "foldM (createPlan (executionContext ctx cl k) ?mm infraID) ([], False) plans s2 = (z, s3)" by fastforce
    note loop = hoareD [OF createPlans_inv [OF sub] start] hoareD_err [OF createPlans_inv [OF sub] start]
    define tail where "tail = (\<lambda>createdAny. bnd (missingNames ?mm (concat (map plan_names plans))) (\<lambda>missing.
       if missing \<noteq> []
       then fail (Errorf (''destination MachineSets '' @ showNames (sort missing) @
              '' are missing and cannot be recreated from the remaining source MachineSets: restore them before retrying''))
       else
         bnd (if createdAny then Eventf EventNormal ''WorkersCreated'' ''New worker MachineSets created on target vCenter''
              else ret ()) (\<lambda>_.
         bnd (setProgressing r ConditionWorkloadMigrated ''Workers created, waiting for machines ready'') (\<lambda>_.
         ret (30 :: result)))))"
    have run: "bnd (foldM (createPlan (executionContext ctx cl k) ?mm infraID) ([], False) plans) (\<lambda>(_, createdAny). tail createdAny) s2 = (x, s')"
      using assms(2) s1 s2 eqN Inr
      unfolding createMappedWorkerMachineSets_def tail_def by (simp add: bnd_app)
    have kt: "keeps (settled ns L) (tail c)" for ns L c
      unfolding tail_def by (intro keeps_rules)
    show ?thesis
    proof (cases z)
      case (Inl e)
      then have "s' = s3" "\<nexists>y. x = Inr y" using run s3 by (auto simp: bnd_app)
      moreover have "names_ok ?N R s3" using loop(2) s3 Inl by blast
      ultimately show ?thesis using small
        by (intro exI [of _ R]) (auto simp: R_def)
    next
      case (Inr acc)
      then have inv: "creating ?N R acc s3" using loop(1) s3 by blast
      have "tail (snd acc) s3 = (x, s')" using run s3 Inr by (simp add: bnd_app split: prod.splits)
      then have "settled (recordedNames s3) (createdSets (trace s3)) s'"
        by (rule keepsD [OF kt, rotated]) (simp add: settled_def)
      with inv have "creating ?N R acc s'" by (simp add: settled_names_ok(2))
      with small show ?thesis
        by (intro exI [of _ R]) (auto simp: R_def creating_def)
    qed
  qed
qed

text \<open>
  C11: creating the destination worker machine sets feeds every source machine set to at most one
  destination: the machine sets created in one pass have pairwise different sources. Recorded
  names are only ever appended to, without duplicates, never beyond the 256 the status can hold
  (unless more were recorded before), and when the pass succeeds every machine set it created is
  recorded by name.
\<close>

theorem creation_bounded_and_recorded:
  assumes "trace s = []" and "distinct (workerMachineSetNames (status (mig s)))"
    and "createMappedWorkerMachineSets (executionContext ctx cl k) r m infraID mappings infraFDs s = (x, s')"
  shows "distinct (map createdFrom (createdSets (trace s'))) \<and>
    prefix (workerMachineSetNames (status (mig s))) (workerMachineSetNames (status (mig s'))) \<and>
    distinct (workerMachineSetNames (status (mig s'))) \<and>
    length (workerMachineSetNames (status (mig s'))) \<le> max 256 (length (workerMachineSetNames (status (mig s)))) \<and>
    ((\<exists>y. x = Inr y) \<longrightarrow> ms_name ` set (createdSets (trace s')) \<subseteq> set (workerMachineSetNames (status (mig s'))))"
proof -
  obtain R where R: "finite R" "card R \<le> max 256 (card (set (recordedNames s)))" "names_ok (recordedNames s) R s'"
    and rec: "(\<exists>y. x = Inr y) \<longrightarrow> ms_name ` set (createdSets (trace s')) \<subseteq> set (recordedNames s')"
    using creation_inv [OF assms(1,3)] by blast
  have "length (recordedNames s') \<le> max 256 (length (recordedNames s))"
    using names_ok_length [OF R(3) assms(2) R(1)] R(2) distinct_card [OF assms(2)] by linarith
  with R(3) rec assms(2) show ?thesis by (auto simp: names_ok_def)
qed

text \<open>Two source machine sets in one failure domain, mapped to \<open>fd-b\<close>.\<close>

definition workersSourceFD :: failureDomain where
  "workersSourceFD = sampleSourceFD\<lparr>fd_server := ''vc1.example.com''\<rparr>"

definition workersMigration :: migration where
  "workersMigration = sampleMigration\<lparr>spec := (spec sampleMigration)\<lparr>spec_failureDomains := [sampleFD]\<rparr>\<rparr>"

definition creationRun :: "(error + result) \<times> migration rstate" where
  "creationRun = createMappedWorkerMachineSets (executionContext None sampleClient workersMigration)
     (sampleReconciler sampleClient sampleInfra twoSources) workersMigration ''c-x1''
     [\<lparr>map_source = ''fd-a'', map_destination = ''fd-b''\<rparr>] [workersSourceFD] (sampleState workersMigration workersMigration)"

theorem creation_bounded_and_recorded_witness:
  "map createdFrom (createdSets (trace (snd creationRun))) = [''w-1'', ''w-0''] \<and>
   distinct (map createdFrom (createdSets (trace (snd creationRun)))) \<and>
   length (workerMachineSetNames (status (mig (snd creationRun)))) \<le> 256"
proof -
  have two: "map createdFrom (createdSets (trace (snd creationRun))) = [''w-1'', ''w-0'']"
    by code_simp
  have s: "trace (sampleState workersMigration workersMigration) = []"
    "workerMachineSetNames (status (mig (sampleState workersMigration workersMigration))) = []"
    by (simp_all add: sampleState_def workersMigration_def sampleMigration_def)
  have run: "createMappedWorkerMachineSets (executionContext None sampleClient workersMigration)
     (sampleReconciler sampleClient sampleInfra twoSources) workersMigration ''c-x1''
     [\<lparr>map_source = ''fd-a'', map_destination = ''fd-b''\<rparr>] [workersSourceFD] (sampleState workersMigration workersMigration) =
     (fst creationRun, snd creationRun)"
    by (simp add: creationRun_def)
  have "distinct (workerMachineSetNames (status (mig (sampleState workersMigration workersMigration))))"
    by (simp add: s)
  from creation_bounded_and_recorded [OF s(1) this run] two show ?thesis by (simp add: s)
qed

section \<open>Guarding\<close>

text \<open>What the worker operations may send: a new machine set made from a source for one of the
  destination failure domains, with the source's replicas, or the legacy annotation.\<close>

definition workerStep :: "failureDomain list \<Rightarrow> mutation \<Rightarrow> bool" where
  "workerStep fds x = (case x of
      CreateMachineSetCall ms \<Rightarrow>
        \<exists>nm fd source infraID. fd \<in> set fds \<and> newWorkerMachineSet nm (machineSetDesiredReplicas source) fd source infraID = Inr ms
    | UpdateMachineSetCall ms \<Rightarrow> \<exists>old. ms = legacyAnnotated old
    | _ \<Rightarrow> False)"

lemma workerStep_intros:
  "fd \<in> set fds \<Longrightarrow> newWorkerMachineSet nm (machineSetDesiredReplicas source) fd source infraID = Inr ms \<Longrightarrow>
     workerStep fds (CreateMachineSetCall ms)"
  "workerStep fds (UpdateMachineSetCall (legacyAnnotated old))"
  by (auto simp: workerStep_def)

lemma findFailureDomain_mem: "findFailureDomainByName fds nm = Some fd \<Longrightarrow> fd \<in> set fds \<and> fd_name fd = nm"
  by (auto simp: findFailureDomainByName_def find_Some_iff)

lemma planMapping_fd:
  assumes "planMapping mm infraID destFDs infraFDs recorded plans mp s = (Inr plans', t)"
  shows "plan_failureDomain ` set plans' \<subseteq> plan_failureDomain ` set plans \<union> set destFDs"
  using assms findFailureDomain_mem
  by (fastforce simp: planMapping_def bnd_Inr Let_def split: option.splits if_splits prod.splits)

lemma plan_fds:
  "planMappedWorkerMachineSets mm infraID mappings destFDs infraFDs recorded s = (Inr plans, t) \<Longrightarrow>
     plan_failureDomain ` set plans \<subseteq> set destFDs"
proof -
  have "foldM (planMapping mm infraID destFDs infraFDs recorded) ps mappings s = (Inr plans, t) \<Longrightarrow>
     plan_failureDomain ` set plans \<subseteq> plan_failureDomain ` set ps \<union> set destFDs" for ps s t
  proof (induction mappings arbitrary: ps s)
    case (Cons mp mps)
    then obtain qs u where q: "planMapping mm infraID destFDs infraFDs recorded ps mp s = (Inr qs, u)"
      and "foldM (planMapping mm infraID destFDs infraFDs recorded) qs mps u = (Inr plans, t)"
      by (auto simp: bnd_Inr)
    then show ?case using Cons.IH [of qs u] planMapping_fd [OF q] by blast
  qed auto
  then show "planMappedWorkerMachineSets mm infraID mappings destFDs infraFDs recorded s = (Inr plans, t) \<Longrightarrow>
     plan_failureDomain ` set plans \<subseteq> set destFDs"
    by (fastforce simp: planMappedWorkerMachineSets_def bnd_Inr split: if_splits)
qed

lemma keeps_recordUnless [keeps_rules]: "keeps (safe m A) (recordUnless b nm)"
  unfolding recordUnless_def by (intro keeps_rules)

lemma keeps_adoptCopy [keeps_rules]: "keeps (safe m A) (adoptCopy fd nm source b existing)"
  unfolding adoptCopy_def by (intro keeps_rules)

context handler_ctx
begin

lemma keeps_createPlan:
  assumes "plan_failureDomain plan \<in> set fds" and "\<And>x. workerStep fds x \<Longrightarrow> A x"
  shows "keeps (safe m A) (createPlan ctx mm infraID acc plan)"
  unfolding createPlan_def createCopy_def createMissing_def Let_def
  by (intro keeps_rules keeps_CreateWorkerMachineSet) (use assms in \<open>auto intro: workerStep_intros\<close>)

lemma keeps_createMapped:
  assumes "\<And>x. workerStep (spec_failureDomains (spec k)) x \<Longrightarrow> A x"
  shows "keeps (safe m A) (createMappedWorkerMachineSets ctx r k infraID mappings infraFDs)"
  unfolding createMappedWorkerMachineSets_def
proof (rule keeps_bnd [OF keeps_setCondition], rule keeps_bnd [OF keeps_gets], rule keeps_bnd_res [OF keeps_workers(1)], goal_cases)
  case (1 _ recorded s plans t)
  then have "plan_failureDomain p \<in> set (spec_failureDomains (spec k))" if "p \<in> set plans" for p
    using plan_fds that by blast
  then show ?case by (intro keeps_rules keeps_foldM_mem keeps_createPlan assms)
qed

lemma keeps_targetMachineSetsExistLoop:
  assumes "\<And>x. workerStep fds x \<Longrightarrow> A x"
  shows "keeps (safe m A) (targetMachineSetsExistLoop ctx r k infraID infraFDs recorded mps)"
proof (induction mps)
  case (Cons mp mps)
  have "keeps (safe m A) (expectedTargets ctx r recorded mp fd base fdp)" for fd base fdp
    unfolding expectedTargets_def Let_def
    by (intro keeps_rules keeps_AnnotateMachineSetLegacyAggregate assms workerStep_intros)
  with Cons show ?case unfolding targetMachineSetsExistLoop.simps by (intro keeps_rules)
qed (simp only: targetMachineSetsExistLoop.simps keeps_ret)

lemma keeps_targetMachineSetsExist:
  assumes "\<And>x. workerStep fds x \<Longrightarrow> A x"
  shows "keeps (safe m A) (targetMachineSetsExist ctx r k infraID mappings infraFDs)"
  unfolding targetMachineSetsExist_def by (intro keeps_rules keeps_targetMachineSetsExistLoop assms)

end

section \<open>What readiness means\<close>

text \<open>The check has read the machine set, and it wants no replicas or was seen with all its
  machines running and all its nodes ready, at least as many as it wants.\<close>

definition seenReady :: "('w, 'z) exec_scheme itself \<Rightarrow> 'w machineManager \<Rightarrow> string \<Rightarrow> bool" where
  "seenReady _ mm nm \<longleftrightarrow> (\<exists>(u :: ('w, 'z) exec_scheme) u' ms. GetMachineSet mm nm u = (Inr ms, u') \<and>
     (machineSetDesiredReplicas ms = 0 \<or>
      (\<exists>(v :: ('w, 'z) exec_scheme) v' k n. CheckMachinesReady mm nm v = (Inr (True, k, n), v') \<and> machineSetDesiredReplicas ms \<le> k) \<and>
      (\<exists>(w :: ('w, 'z) exec_scheme) w' k n. CheckNodesReady mm nm w = (Inr (True, k, n), w') \<and> machineSetDesiredReplicas ms \<le> k)))"

lemma machineSetReadiness_seen:
  fixes s :: "('w, 'z) exec_scheme"
  assumes "machineSetReadiness mm st nm s = (Inr st', s')" and "wr_ready st'"
  shows "wr_ready st \<and> seenReady TYPE(('w, 'z) exec_scheme) mm nm"
proof -
  obtain ms t where g: "GetMachineSet mm nm s = (Inr ms, t)"
    and rest: "(if machineSetDesiredReplicas ms = 0 then ret st
       else
         bnd (wrapErr (''checking machines for '' @ quote nm) (CheckMachinesReady mm nm)) (\<lambda>(machinesOK, mready, mtotal).
         bnd (wrapErr (''checking nodes for '' @ quote nm) (CheckNodesReady mm nm)) (\<lambda>(nodesOK, nready, ntotal).
         ret \<lparr>wr_ready = (wr_ready st \<and> machinesOK \<and> machineSetDesiredReplicas ms \<le> mready \<and> nodesOK \<and> machineSetDesiredReplicas ms \<le> nready),
              wr_machinesReady = i32 (wr_machinesReady st + mready), wr_machinesTotal = i32 (wr_machinesTotal st + mtotal),
              wr_nodesReady = i32 (wr_nodesReady st + nready), wr_nodesTotal = i32 (wr_nodesTotal st + ntotal)\<rparr>))) t = (Inr st', s')"
    using assms(1) unfolding machineSetReadiness_def Let_def by (auto simp: bnd_Inr)
  show ?thesis
  proof (cases "machineSetDesiredReplicas ms = 0")
    case True
    with rest assms(2) g show ?thesis by (auto simp: seenReady_def)
  next
    case False
    with rest obtain a k n v b k' n' w
      where m: "CheckMachinesReady mm nm t = (Inr (a, k, n), v)" and c: "CheckNodesReady mm nm v = (Inr (b, k', n'), w)"
        and st: "wr_ready st' = (wr_ready st \<and> a \<and> machineSetDesiredReplicas ms \<le> k \<and> b \<and> machineSetDesiredReplicas ms \<le> k')"
      by (auto simp: bnd_Inr split: prod.splits)
    have ok: "a = True" "b = True" "wr_ready st" "machineSetDesiredReplicas ms \<le> k" "machineSetDesiredReplicas ms \<le> k'"
      using st assms(2) by simp_all
    from ok(3-5) g m [unfolded ok(1)] c [unfolded ok(2)] show ?thesis unfolding seenReady_def by blast
  qed
qed

lemma foldM_seen:
  fixes s :: "('w, 'z) exec_scheme"
  assumes "foldM (machineSetReadiness mm) st nms s = (Inr st', s')" and "wr_ready st'"
  shows "wr_ready st \<and> (\<forall>nm\<in>set nms. seenReady TYPE(('w, 'z) exec_scheme) mm nm)"
  using assms
proof (induction nms arbitrary: st s)
  case (Cons nm nms)
  then obtain st1 s1 where a: "machineSetReadiness mm st nm s = (Inr st1, s1)"
    and b: "foldM (machineSetReadiness mm) st1 nms s1 = (Inr st', s')"
    by (auto simp: bnd_Inr)
  from Cons.IH [OF b Cons.prems(2)] machineSetReadiness_seen [OF a] show ?case by auto
qed auto

lemma foldM_failureDomains:
  fixes s :: "('w, 'z) exec_scheme"
  assumes "foldM (failureDomainReadiness mm infraID recorded msList) st fds s = (Inr st', s')" and "wr_ready st'"
  shows "wr_ready st \<and> (\<forall>fd\<in>set fds. \<exists>(t :: ('w, 'z) exec_scheme) t' base.
     resolveWorkerMachineSetName mm infraID (fd_name fd) recorded t = (Inr base, t') \<and>
     (\<forall>nm\<in>{base} \<union> set (recordedWorkerMachineSetNames recorded base). seenReady TYPE(('w, 'z) exec_scheme) mm nm))"
  using assms
proof (induction fds arbitrary: st s)
  case (Cons fd fds)
  then obtain st1 s1 where a: "failureDomainReadiness mm infraID recorded msList st fd s = (Inr st1, s1)"
    and b: "foldM (failureDomainReadiness mm infraID recorded msList) st1 fds s1 = (Inr st', s')"
    by (auto simp: bnd_Inr)
  note ih = Cons.IH [OF b Cons.prems(2)]
  from a obtain base t where base: "resolveWorkerMachineSetName mm infraID (fd_name fd) recorded s = (Inr base, t)"
    and loop: "foldM (machineSetReadiness mm) st
       (append_missing (workerMachineSetNamesForBase msList base) (recordedWorkerMachineSetNames recorded base)) t = (Inr st1, s1)"
    by (auto simp: failureDomainReadiness_def bnd_Inr)
  have "base \<in> set (workerMachineSetNamesForBase msList base)" by (simp add: workerMachineSetNamesForBase_def)
  with foldM_seen [OF loop] ih base show ?case by auto
qed auto

text \<open>
  C14: the readiness of the destination workers is reported only when it was seen: for every
  failure domain that is checked, its base machine set and every recorded copy was read, and each
  one wants no replicas or was seen with its machines all running and its nodes all ready, at
  least as many as it wants. A copy that has disappeared makes the check fail instead.
\<close>

theorem readiness_covers_recorded:
  fixes s :: "('w, 'z) exec_scheme"
  assumes "checkWorkerReadiness mm fds infraID recorded s = (Inr st, s')" and "wr_ready st" and "fd \<in> set fds"
  shows "\<exists>(t :: ('w, 'z) exec_scheme) t' base. resolveWorkerMachineSetName mm infraID (fd_name fd) recorded t = (Inr base, t') \<and>
     (\<forall>nm\<in>{base} \<union> set (recordedWorkerMachineSetNames recorded base). seenReady TYPE(('w, 'z) exec_scheme) mm nm)"
proof -
  obtain msList t where "foldM (failureDomainReadiness mm infraID recorded msList)
       \<lparr>wr_ready = True, wr_machinesReady = 0, wr_machinesTotal = 0, wr_nodesReady = 0, wr_nodesTotal = 0\<rparr> fds t = (Inr st, s')"
    using assms(1) by (auto simp: checkWorkerReadiness_def bnd_Inr)
  from foldM_failureDomains [OF this assms(2)] assms(3) show ?thesis by blast
qed

text \<open>A destination machine set that is deliberately empty.\<close>

definition readyCluster :: "migration machineManager" where
  "readyCluster = sampleMM [sampleMachineSet\<lparr>ms_name := workerMachineSetName ''c-x1'' ''fd-b'' [], ms_replicas := Some 0\<rparr>]"

theorem readiness_covers_recorded_witness:
  "\<exists>(t :: migration exec) t' base. resolveWorkerMachineSetName readyCluster ''c-x1'' ''fd-b'' [] t = (Inr base, t') \<and>
     seenReady TYPE(migration exec) readyCluster base"
proof -
  let ?run = "checkWorkerReadiness readyCluster [sampleFD] ''c-x1'' [] sampleExec"
  have ok: "(case fst ?run of Inl _ \<Rightarrow> False | Inr st \<Rightarrow> wr_ready st)"
    by code_simp
  then obtain st where st: "?run = (Inr st, snd ?run)" "wr_ready st"
    by (cases "fst ?run") (auto simp: prod_eq_iff)
  have "fd_name sampleFD = ''fd-b''" by (simp add: sampleFD_def)
  with readiness_covers_recorded [OF st, of sampleFD] show ?thesis by auto
qed

end
