(* ===== verification/Stall.thy ===== *)
theory Stall
  imports Reconciler
begin

text \<open>
  Reporting old workers whose deletion stalls: \<open>oldWorkerStallDetail\<close> and the texts it makes,
  the event note bounded to 1024 bytes and the condition message bounded to 32768 bytes
  (\<open>internal/controller/vmwarecloudfoundationmigration_controller.go\<close>).
\<close>

section \<open>Definitions\<close>

definition maxConditionMessageBytes :: int where
  "maxConditionMessageBytes = 32768"

definition maxEventNoteBytes :: int where
  "maxEventNoteBytes = 1024"

definition oldWorkerStallEventPrefix :: string where
  "oldWorkerStallEventPrefix = ''Old worker deletion stalled: ''"

abbreviation len :: "'a list \<Rightarrow> int" where
  "len xs \<equiv> int (length xs)"

definition truncateToBytes :: "string \<Rightarrow> int \<Rightarrow> string" where
  "truncateToBytes s n = (if n \<le> 0 then [] else if len s \<le> n then s else take (nat n) s)"

record stallDetailPart =
  machineSetName :: string
  part_text :: string
  machineNames :: "string list"

definition joinStallDetailParts :: "stallDetailPart list \<Rightarrow> string" where
  "joinStallDetailParts parts = join ''; '' (map part_text parts)"

definition omitPrefix :: "nat \<Rightarrow> string" where
  "omitPrefix n = ''; ... and '' @ itoa n @ '' more machine(s) omitted''"

definition stallOmitSuffix :: "string list \<Rightarrow> string" where
  "stallOmitSuffix omitted =
     (if omitted = [] then [] else omitPrefix (length omitted) @ '': ['' @ join '', '' omitted @ '']'')"

text \<open>The loop that drops names from the end until the text fits.\<close>

function fitNames :: "string \<Rightarrow> int \<Rightarrow> string list \<Rightarrow> string option" where
  "fitNames countPrefix maxBytes ns =
     (if ns = [] then None
      else let trial = countPrefix @ join '', '' ns @ '']'' in
        if len trial \<le> maxBytes then Some trial else fitNames countPrefix maxBytes (butlast ns))"
  by pat_completeness auto
termination
  by (relation "measure (\<lambda>(_, _, ns). length ns)") auto

declare fitNames.simps [simp del]

definition stallOmitSuffixFit :: "string list \<Rightarrow> int \<Rightarrow> string" where
  "stallOmitSuffixFit omitted maxBytes =
     (if omitted = [] then []
      else if maxBytes \<le> 0 then truncateToBytes (stallOmitSuffix omitted) maxBytes
      else if len (stallOmitSuffix omitted) \<le> maxBytes then stallOmitSuffix omitted
      else
        let countPrefix = omitPrefix (length omitted) @ '': [''; available = maxBytes - len countPrefix - 1 in
        if available \<le> 0 then truncateToBytes (omitPrefix (length omitted)) maxBytes
        else case fitNames countPrefix maxBytes omitted of
          Some t \<Rightarrow> t
        | None \<Rightarrow> truncateToBytes (omitPrefix (length omitted)) maxBytes)"

text \<open>The loop over the parts: the parts included so far and how many names they have; it stops
  at the first part that does not fit.\<close>

fun includeParts ::
  "string list \<Rightarrow> stallDetailPart list \<Rightarrow> nat \<Rightarrow> stallDetailPart list \<Rightarrow> stallDetailPart list \<times> nat" where
  "includeParts allNames included n [] = (included, n)"
| "includeParts allNames included n (p # ps) =
     (let trial = included @ [p]; omitted = drop (n + length (machineNames p)) allNames in
      if len (oldWorkerStallEventPrefix @ joinStallDetailParts trial @ stallOmitSuffix omitted) \<le> maxEventNoteBytes
      then includeParts allNames trial (n + length (machineNames p)) ps
      else (included, n))"

definition boundOldWorkerStallEventNote :: "stallDetailPart list \<Rightarrow> string" where
  "boundOldWorkerStallEventNote parts =
     (let allNames = concat (map machineNames parts); note = oldWorkerStallEventPrefix @ joinStallDetailParts parts in
      if len note \<le> maxEventNoteBytes then note
      else case includeParts allNames [] 0 parts of (included, n) \<Rightarrow>
        (let detail = joinStallDetailParts included; omitted = drop n allNames in
         oldWorkerStallEventPrefix @ detail @
           stallOmitSuffixFit omitted (maxEventNoteBytes - len (oldWorkerStallEventPrefix @ detail))))"

text \<open>\<open>strings.LastIndex\<close>, \<open>-1\<close> when absent.\<close>

definition lastIndex :: "string \<Rightarrow> string \<Rightarrow> int" where
  "lastIndex s sub = (case filter (\<lambda>i. take (length sub) (drop i s) = sub) [0..<length s] of
     [] \<Rightarrow> -1 | is \<Rightarrow> int (last is))"

definition countMachineEntries :: "string \<Rightarrow> nat" where
  "countMachineEntries s =
     (let t = trimSpace s; c = count_list t CHR '')'' in
      if t = [] then 0 else if c > 0 then c else count_list t CHR '','' + 1)"

text \<open>The scan for bracketed lists; each turn continues after the closing bracket.\<close>

function countMachinesInMessage :: "string \<Rightarrow> nat" where
  "countMachinesInMessage msg =
     (case dropWhile (\<lambda>c. c \<noteq> CHR ''['') msg of
        [] \<Rightarrow> 0
      | _ # rest \<Rightarrow>
          (case dropWhile (\<lambda>c. c \<noteq> CHR '']'') rest of
             [] \<Rightarrow> countMachineEntries rest
           | _ # after \<Rightarrow> countMachineEntries (takeWhile (\<lambda>c. c \<noteq> CHR '']'') rest) + countMachinesInMessage after))"
  by pat_completeness auto
termination
proof (relation "measure length", goal_cases)
  case (2 msg a rest b after)
  have "length (b # after) \<le> length rest" and "length (a # rest) \<le> length msg"
    using length_dropWhile_le 2 by metis+
  then show ?case by simp
qed simp

declare countMachinesInMessage.simps [simp del]

text \<open>The cut text back to its last separator.\<close>

definition cutAtSeparator :: "string \<Rightarrow> string" where
  "cutAtSeparator t =
     (if lastIndex t ''; '' > 0 then take (nat (lastIndex t ''; '')) t
      else if lastIndex t '', '' > 0 then take (nat (lastIndex t '', '')) t
      else t)"

definition omittedCount :: "string \<Rightarrow> string \<Rightarrow> nat" where
  "omittedCount msg pre =
     (if countMachinesInMessage pre < countMachinesInMessage msg
      then countMachinesInMessage msg - countMachinesInMessage pre else 1)"

definition boundConditionMessage :: "string \<Rightarrow> string" where
  "boundConditionMessage msg =
     (if len msg \<le> maxConditionMessageBytes then msg
      else
        let est = omitPrefix (countMachinesInMessage msg); maxPrefixLen = maxConditionMessageBytes - len est in
        if maxPrefixLen \<le> 0 then truncateToBytes est maxConditionMessageBytes
        else
          let pre = cutAtSeparator (take (nat maxPrefixLen) msg); suf = omitPrefix (omittedCount msg pre) in
          (if len pre + len suf > maxConditionMessageBytes
           then truncateToBytes pre (maxConditionMessageBytes - len suf) else pre) @ suf)"

text \<open>\<open>time.Duration.Round(time.Second)\<close> and \<open>%s\<close> of the rounded duration.\<close>

definition roundSeconds :: "int \<Rightarrow> int" where
  "roundSeconds d = (if d < 0 then - ((- d + second div 2) div second) else (d + second div 2) div second)"

definition secondsString :: "int \<Rightarrow> string" where
  "secondsString k =
     (let n = nat \<bar>k\<bar>; h = n div 3600; m = (n div 60) mod 60; sec = n mod 60 in
      (if k < 0 then ''-'' else []) @
      (if h > 0 then itoa h @ ''h'' @ itoa m @ ''m'' @ itoa sec @ ''s''
       else if m > 0 then itoa m @ ''m'' @ itoa sec @ ''s''
       else itoa sec @ ''s''))"

definition stallEntry :: "time \<Rightarrow> machine \<Rightarrow> string" where
  "stallEntry now mc =
     mc_name mc @ '' ('' @ secondsString (roundSeconds (now - mc_creationTimestamp mc)) @ '' old'' @
     (case mc_errorReason mc of None \<Rightarrow> [] | Some e \<Rightarrow> '', '' @ e) @ '')''"

definition stallPartText :: "string \<Rightarrow> string list \<Rightarrow> int \<Rightarrow> string" where
  "stallPartText nm entries nodeRemaining =
     nm @ '' has '' @ itoa (length entries) @ '' machine(s) ['' @ join '', '' entries @ ''] and '' @
     itoa_int nodeRemaining @ '' node(s) remaining''"

text \<open>The entries of one machine set; \<open>time.Since\<close> reads the clock for each.\<close>

definition stallEntries ::
  "('w, 'b) reconciler_scheme \<Rightarrow> machine list \<Rightarrow> (('w, 'z) exec_scheme, error, string list) op" where
  "stallEntries r ms = foldM (\<lambda>es mc. bnd (timeNow (r_client r)) (\<lambda>now. ret (es @ [stallEntry now mc]))) [] ms"

definition stallMachineSet ::
  "('w, 'b) reconciler_scheme \<Rightarrow> stallDetailPart list \<times> string list \<Rightarrow> machineSet
   \<Rightarrow> (('w, 'z) exec_scheme, error, stallDetailPart list \<times> string list) op" where
  "stallMachineSet r acc ms =
     (case acc of (parts, keys) \<Rightarrow>
        bnd (ListMachinesForMachineSet (machineMgr r) (ms_name ms)) (\<lambda>machines0.
          if machines0 = [] then ret acc
          else
            let machines = sort_key mc_name machines0; names = map mc_name machines in
            bnd (stallEntries r machines) (\<lambda>entries.
            bnd (CheckNodesDeletedForMachines (machineMgr r) (ms_name ms)) (\<lambda>(_, nodeRemaining).
            ret (parts @ [\<lparr>machineSetName = ms_name ms, part_text = stallPartText (ms_name ms) entries nodeRemaining,
                           machineNames = names\<rparr>],
                 keys @ [ms_name ms @ ''='' @ join '','' (sort names)])))))"

text \<open>Detail, event note and debounce key.\<close>

definition oldWorkerStallDetail ::
  "('w, 'b) reconciler_scheme \<Rightarrow> machineSet list \<Rightarrow> (('w, 'z) exec_scheme, error, string \<times> string \<times> string) op" where
  "oldWorkerStallDetail r sets =
     bnd (foldM (stallMachineSet r) ([], []) sets) (\<lambda>(parts0, keys).
       let parts = sort_key machineSetName parts0 in
       ret (joinStallDetailParts parts, boundOldWorkerStallEventNote parts, join ''|'' (sort keys)))"

lemma keeps_oldWorkerStallDetail [keeps_rules]: "keeps (safe m A) (oldWorkerStallDetail r sets)"
  unfolding oldWorkerStallDetail_def stallMachineSet_def stallEntries_def Let_def
  by (intro keeps_rules)

section \<open>The texts stay within their bounds\<close>

lemma length_truncate: "len (truncateToBytes s n) \<le> max 0 n"
  by (simp add: truncateToBytes_def)

lemma fitNames_bound: "fitNames p n ns = Some t \<Longrightarrow> len t \<le> n"
proof (induction "length ns" arbitrary: ns rule: less_induct)
  case less
  show ?case
  proof (cases "ns = [] \<or> len (p @ join '', '' ns @ '']'') \<le> n")
    case True
    then show ?thesis using less.prems by (auto simp: fitNames.simps [of p n ns] Let_def split: if_splits)
  next
    case False
    then have "fitNames p n (butlast ns) = Some t" and "length (butlast ns) < length ns"
      using less.prems by (auto simp: fitNames.simps [of p n ns] Let_def)
    then show ?thesis by (rule less.hyps [rotated])
  qed
qed

lemma omitSuffixFit_bound: "len (stallOmitSuffixFit omitted n) \<le> max 0 n"
  using length_truncate [of "stallOmitSuffix omitted" n] length_truncate [of "omitPrefix (length omitted)" n]
    fitNames_bound [of "omitPrefix (length omitted) @ '': [''" n omitted]
  by (auto simp: stallOmitSuffixFit_def Let_def split: option.splits)

lemma includeParts_bound:
  assumes "len (oldWorkerStallEventPrefix @ joinStallDetailParts included) \<le> maxEventNoteBytes"
    and "includeParts allNames included n ps = (included', n')"
  shows "len (oldWorkerStallEventPrefix @ joinStallDetailParts included') \<le> maxEventNoteBytes"
  using assms
proof (induction ps arbitrary: included n)
  case (Cons p ps)
  let ?o = "stallOmitSuffix (drop (n + length (machineNames p)) allNames)"
  show ?case
  proof (cases "len (oldWorkerStallEventPrefix @ joinStallDetailParts (included @ [p]) @ ?o) \<le> maxEventNoteBytes")
    case True
    then have "len (oldWorkerStallEventPrefix @ joinStallDetailParts (included @ [p])) \<le> maxEventNoteBytes" by simp
    from Cons.IH [OF this] True Cons.prems(2) show ?thesis by (simp add: Let_def)
  next
    case False
    with Cons.prems show ?thesis by (simp add: Let_def)
  qed
qed simp

lemma prefix_short: "len oldWorkerStallEventPrefix = 29"
  by (simp add: oldWorkerStallEventPrefix_def)

text \<open>
  C39: the note of the warning event about stalled old workers is never longer than the 1024 bytes
  the events API accepts, whatever the machine sets and machines are called and however many
  there are, and it is the full detail whenever that fits.
\<close>

theorem stall_event_note_bounded:
  "len (boundOldWorkerStallEventNote parts) \<le> 1024 \<and>
   (len (oldWorkerStallEventPrefix @ joinStallDetailParts parts) \<le> 1024 \<longleftrightarrow>
      boundOldWorkerStallEventNote parts = oldWorkerStallEventPrefix @ joinStallDetailParts parts)"
proof -
  let ?note = "oldWorkerStallEventPrefix @ joinStallDetailParts parts"
  obtain inc n where inc: "includeParts (concat (map machineNames parts)) [] 0 parts = (inc, n)" by fastforce
  have "len (oldWorkerStallEventPrefix @ joinStallDetailParts inc) \<le> maxEventNoteBytes"
    using includeParts_bound [OF _ inc] prefix_short by (simp add: joinStallDetailParts_def maxEventNoteBytes_def)
  then have fits: "len (boundOldWorkerStallEventNote parts) \<le> 1024"
    using omitSuffixFit_bound [of "drop n (concat (map machineNames parts))"
        "maxEventNoteBytes - len (oldWorkerStallEventPrefix @ joinStallDetailParts inc)"]
    by (auto simp: boundOldWorkerStallEventNote_def Let_def inc maxEventNoteBytes_def)
  show ?thesis
  proof (cases "len ?note \<le> 1024")
    case True
    then show ?thesis using fits by (simp add: boundOldWorkerStallEventNote_def Let_def maxEventNoteBytes_def)
  next
    case False
    then show ?thesis using fits by auto
  qed
qed

lemma itoa_length_mono: "m \<le> n \<Longrightarrow> length (itoa m) \<le> length (itoa n)"
proof (induction n arbitrary: m rule: less_induct)
  case (less n)
  show ?case
  proof (cases "m < 10")
    case True
    then show ?thesis by (simp add: itoa.simps [of m] Suc_le_eq length_greater_0_conv itoa_not_Nil)
  next
    case False
    then have "length (itoa (m div 10)) \<le> length (itoa (n div 10))"
      using less by (intro less.IH) (auto simp: div_le_mono)
    then show ?thesis using False less.prems by (simp add: itoa.simps [of m] itoa.simps [of n])
  qed
qed

lemma omitPrefix_mono: "m \<le> n \<Longrightarrow> length (omitPrefix m) \<le> length (omitPrefix n)"
  by (simp add: omitPrefix_def itoa_length_mono)

lemma omitPrefix_one: "length (omitPrefix 1) \<le> length (omitPrefix n)"
  by (simp add: omitPrefix_def itoa.simps [of "Suc 0"] Suc_le_eq)

text \<open>
  C40: the condition message about stalled old workers is never longer than the 32768 bytes that
  the API accepts for a condition message, and a message within that limit is left unchanged.
\<close>

theorem condition_message_bounded:
  "len (boundConditionMessage msg) \<le> 32768 \<and> (len msg \<le> 32768 \<longleftrightarrow> boundConditionMessage msg = msg)"
proof -
  let ?total = "countMachinesInMessage msg"
  have suf: "length (omitPrefix (omittedCount msg pre)) \<le> length (omitPrefix ?total)" for pre
    using omitPrefix_mono [of "?total - countMachinesInMessage pre" ?total] omitPrefix_one [of ?total]
    by (simp add: omittedCount_def)
  have short: "boundConditionMessage msg = msg" if "len msg \<le> maxConditionMessageBytes"
    using that by (simp add: boundConditionMessage_def)
  have bound: "len (boundConditionMessage msg) \<le> maxConditionMessageBytes"
    if long: "\<not> len msg \<le> maxConditionMessageBytes"
  proof (cases "maxConditionMessageBytes - len (omitPrefix ?total) \<le> 0")
    case True
    then have "boundConditionMessage msg = truncateToBytes (omitPrefix ?total) maxConditionMessageBytes"
      using long by (simp add: boundConditionMessage_def)
    then show ?thesis
      using length_truncate [of "omitPrefix ?total" maxConditionMessageBytes] by (simp add: maxConditionMessageBytes_def)
  next
    case False
    define pre where "pre = cutAtSeparator (take (nat (maxConditionMessageBytes - len (omitPrefix ?total))) msg)"
    define suf' where "suf' = omitPrefix (omittedCount msg pre)"
    have "boundConditionMessage msg =
      (if len pre + len suf' > maxConditionMessageBytes
       then truncateToBytes pre (maxConditionMessageBytes - len suf') else pre) @ suf'"
      using False long by (simp only: boundConditionMessage_def pre_def suf'_def Let_def if_False)
    moreover have "len suf' < maxConditionMessageBytes"
      using suf [of pre] False by (simp add: suf'_def)
    ultimately show ?thesis
      using length_truncate [of pre "maxConditionMessageBytes - len suf'"] by auto
  qed
  show ?thesis
  proof (cases "len msg \<le> maxConditionMessageBytes")
    case True
    with short show ?thesis by (simp add: maxConditionMessageBytes_def)
  next
    case False
    with bound show ?thesis by (auto simp: maxConditionMessageBytes_def)
  qed
qed

end
