(* ===== verification/Workload.thy ===== *)
theory Workload
  imports Workers Stall Infra
begin

text \<open>
  Moving the workload: \<open>ensureWorkloadMigrated\<close>, \<open>ensureCPMSUpdated\<close>,
  \<open>ensureWorkloadMigratedRolloutAndScaleDown\<close>, \<open>scaleDownSourceMachineSets\<close> and
  \<open>oldMachinesAndNodesDeleted\<close>
  (\<open>internal/controller/vmwarecloudfoundationmigration_controller.go\<close>). The handler derives its
  position from the cluster on every reconcile; what it may destroy on the way is the subject of
  the theorems. \<open>m\<close> is the migration as the handler received it and is used for its spec only.
\<close>

section \<open>The control plane\<close>

definition fdsOf :: "infrastructure \<Rightarrow> failureDomain list" where
  "fdsOf infra = (case vsphere infra of None \<Rightarrow> [] | Some p \<Rightarrow> infra_failureDomains p)"

definition poolBlockers :: "poolConvergenceSummary \<Rightarrow> string list" where
  "poolBlockers p =
     (if notUpdatedPools p \<noteq> [] then [''not updated: '' @ join '', '' (notUpdatedPools p)] else []) @
     (if degradedPools p \<noteq> [] then [''degraded: '' @ join '', '' (degradedPools p)] else [])"

definition msgGeneration :: "string \<Rightarrow> int \<Rightarrow> int \<Rightarrow> string" where
  "msgGeneration what gen observed =
     what @ '' (CPMS generation '' @ itoa_int gen @ ''/'' @ itoa_int observed @ '' observed)''"

definition ensureCPMSUpdated :: "'w rstate ctx \<Rightarrow> ('w, 'b) reconciler_scheme \<Rightarrow> string list \<Rightarrow> ('w, result) handler" where
  "ensureCPMSUpdated ctx r targetFDNames =
     bnd (wrapErr ''checking machine config pool convergence'' (CheckPoolsConverged (r_machineConfig r))) (\<lambda>(converged, pools).
     if \<not> converged then
       bnd (setProgressing r ConditionWorkloadMigrated
              (''Waiting for machine config pools to converge ('' @ join '', '' (poolBlockers pools) @ '')'')) (\<lambda>_.
       ret 30)
     else
       bnd (wrapErr ''updating CPMS failure domains'' (UpdateCPMSFailureDomain ctx (machineMgr r) targetFDNames)) (\<lambda>_.
       bnd (wrapErr ''checking CPMS generation'' (IsCPMSGenerationObserved (machineMgr r))) (\<lambda>(_, gen, observed).
       bnd (setProgressing r ConditionWorkloadMigrated
              (msgGeneration ''Waiting for control plane rollout to start'' gen observed)) (\<lambda>_.
       bnd (Eventf EventNormal ''CPMSUpdated'' (''CPMS updated with failure domains '' @ showNames targetFDNames)) (\<lambda>_.
       ret 15)))))"

section \<open>Scaling down\<close>

text \<open>Whether the machines and nodes of every given machine set are gone; the loop goes on after
  the first that is not.\<close>

definition oldMachinesAndNodesDeleted ::
  "'w machineManager \<Rightarrow> machineSet list \<Rightarrow> (('w, 'z) exec_scheme, error, bool) op" where
  "oldMachinesAndNodesDeleted mm sets =
     foldM (\<lambda>allDeleted ms.
       bnd (wrapErr (''checking machine deletion for '' @ quote (ms_name ms)) (CheckMachinesDeleted mm (ms_name ms))) (\<lambda>(gone, _).
       if \<not> gone then ret False
       else
         bnd (wrapErr (''checking node deletion for '' @ quote (ms_name ms))
                (CheckNodesDeletedForMachines mm (ms_name ms))) (\<lambda>(nodesGone, _).
         ret (allDeleted \<and> nodesGone)))) True sets"

text \<open>The loop of Step 6: whether any machine set was scaled.\<close>

definition scaleRunning :: "'w rstate ctx \<Rightarrow> 'w machineManager \<Rightarrow> machineSet list \<Rightarrow> ('w, bool) handler" where
  "scaleRunning ctx mm sets =
     foldM (\<lambda>scaled ms.
       if hasRunningReplicas ms
       then bnd (wrapErr (''scaling old MachineSet '' @ quote (ms_name ms) @ '' to 0'') (ScaleMachineSet ctx mm (ms_name ms) 0)) (\<lambda>_.
            ret True)
       else ret scaled) False sets"

text \<open>The part of Step 6 after the gate.\<close>

definition scaleDownWork :: "'w rstate ctx \<Rightarrow> ('w, 'b) reconciler_scheme \<Rightarrow> machineSet list \<Rightarrow> ('w, bool) handler" where
  "scaleDownWork ctx r old =
     bnd (scaleRunning ctx (machineMgr r) old) (\<lambda>scaledAny.
     if \<not> scaledAny then ret False
     else
       bnd (setProgressing r ConditionWorkloadMigrated ''Old workers scaled down, waiting for deletion'') (\<lambda>_.
       bnd (Eventf EventNormal ''ControlPlaneRolledOut'' ''Control plane rollout complete on target vCenter'') (\<lambda>_.
       bnd (Eventf EventNormal ''OldWorkersScaledDown'' ''Old worker MachineSets scaled to 0'') (\<lambda>_.
       ret True))))"

definition msgRefuse :: "string \<Rightarrow> string \<Rightarrow> string" where
  "msgRefuse what server = ''refusing to '' @ what @ quote server @ '': server is a configured destination failure domain''"

text \<open>The coverage gate and what it protects.\<close>

definition scaleDownCovered ::
  "'w rstate ctx \<Rightarrow> ('w, 'b) reconciler_scheme \<Rightarrow> machineSet list \<Rightarrow> string \<Rightarrow> fdMapping list \<Rightarrow> failureDomain list \<Rightarrow> ('w, bool) handler" where
  "scaleDownCovered ctx r oldMachineSets infraID mappings sourceFDs =
     bnd (gets (\<lambda>s. workerMachineSetNames (status (mig s)))) (\<lambda>recorded.
     bnd (wrapErr ''validating source MachineSet coverage before scale-down''
            (liftE (validateSourceMachineSetCoverage oldMachineSets infraID mappings sourceFDs recorded))) (\<lambda>_.
     scaleDownWork ctx r oldMachineSets))"

text \<open>The names are recovered and published before the gate.\<close>

definition scaleDownGate ::
  "'w rstate ctx \<Rightarrow> ('w, 'b) reconciler_scheme \<Rightarrow> machineSet list \<Rightarrow> string \<Rightarrow> failureDomain list \<Rightarrow> fdMapping list \<Rightarrow> ('w, bool) handler" where
  "scaleDownGate ctx r oldMachineSets infraID sourceFDs mappings =
     bnd (wrapErr ''recovering unrecorded destination MachineSet names before scale-down''
            (recoverUnrecordedDestinationNames (machineMgr r) oldMachineSets infraID mappings sourceFDs)) (\<lambda>_.
     bnd (wrapErr ''persisting destination MachineSet names before scale-down'' (persistWorkerMachineSetNames r)) (\<lambda>_.
     scaleDownCovered ctx r oldMachineSets infraID mappings sourceFDs))"

definition scaleDownSourceMachineSets ::
  "'w rstate ctx \<Rightarrow> ('w, 'b) reconciler_scheme \<Rightarrow> migration \<Rightarrow> machineSet list \<Rightarrow> string \<Rightarrow> string \<Rightarrow> ('w, bool) handler" where
  "scaleDownSourceMachineSets ctx r m oldMachineSets sourceServer infraID =
     (if isConfiguredDestination m sourceServer
      then fail (Errorf (msgRefuse ''scale down and delete MachineSets on '' sourceServer))
      else
        bnd (wrapErr ''getting infrastructure'' (infra_Get (r_config r))) (\<lambda>infra.
        bnd (gets (\<lambda>s. status_mappings (status (mig s))))
          (scaleDownGate ctx r oldMachineSets infraID (filter (\<lambda>fd. fd_server fd = sourceServer) (fdsOf infra)))))"

section \<open>Rollout and deletion\<close>

definition rolloutMessage :: "controlPlaneRolloutStatus \<Rightarrow> string" where
  "rolloutMessage st =
     (let counts = itoa_int (rs_updatedReplicas st) @ ''/'' @ itoa_int (rs_replicas st) @ '' updated, '' @
            itoa_int (rs_readyReplicas st) @ ''/'' @ itoa_int (rs_replicas st) @ '' ready'' in
      if rs_holdReason st \<noteq> []
      then ''Control plane rollout held by ControlPlaneMachineSet condition '' @ rs_holdReason st @ '' ('' @
           (if rs_holdMessage st = [] then ''no message reported'' else rs_holdMessage st) @ ''); '' @ counts
      else ''Control plane rolling out ('' @ counts @ '')'')"

definition stallEventInterval :: int where
  "stallEventInterval = 5 * 60 * second"

definition eventReasonControlPlaneRollout :: string where
  "eventReasonControlPlaneRollout = ''ControlPlaneRollout''"

text \<open>The warning about stalled workers is repeated when the set of machines changes or five
  minutes have passed; \<open>time.Since\<close> is evaluated only when the key is unchanged.\<close>

definition reportStall :: "('w, 'b) reconciler_scheme \<Rightarrow> string \<Rightarrow> string \<Rightarrow> ('w, unit) handler" where
  "reportStall r key note =
     bnd (gets lastStallEventKey) (\<lambda>lastKey.
     bnd (gets lastStallEventTime) (\<lambda>lastTime.
     bnd (if key \<noteq> lastKey then ret True
          else bnd (timeNow (r_client r)) (\<lambda>now. ret (now - lastTime \<ge> stallEventInterval))) (\<lambda>due.
     if \<not> due then ret ()
     else
       bnd (Eventf EventWarning ''OldWorkersStalled'' note) (\<lambda>_.
       bnd (timeNow (r_client r)) (\<lambda>now.
       modify (\<lambda>s. s\<lparr>lastStallEventKey := key, lastStallEventTime := now\<rparr>))))))"

text \<open>Step 8.\<close>

definition deleteSourceMachineSets ::
  "'w rstate ctx \<Rightarrow> ('w, 'b) reconciler_scheme \<Rightarrow> migration \<Rightarrow> string \<Rightarrow> ('w, result) handler" where
  "deleteSourceMachineSets ctx r m sourceServer =
     (if isConfiguredDestination m sourceServer
      then fail (Errorf (msgRefuse ''delete MachineSets on '' sourceServer))
      else
        bnd (wrapErr ''deleting source MachineSets'' (DeleteMachineSetsByVCenter ctx (machineMgr r) sourceServer)) (\<lambda>deleted.
        bnd (if deleted \<noteq> [] then Eventf EventNormal ''SourceWorkersDeleted'' ''Source worker MachineSets deleted'' else ret ()) (\<lambda>_.
        bnd (wrapErr ''listing source MachineSets after delete'' (GetMachineSetsByVCenter (machineMgr r) sourceServer)) (\<lambda>remaining.
        if remaining \<noteq> [] then
          bnd (setProgressing r ConditionWorkloadMigrated ''Deleting source MachineSets'') (\<lambda>_. ret 10)
        else
          bnd (setCondition r ConditionWorkloadMigrated ConditionTrue ReasonCompleted ''Workload migrated to target vCenter'') (\<lambda>_.
          bnd (Eventf EventNormal ''WorkloadMigrated'' ''All workloads migrated to target vCenter'') (\<lambda>_.
          ret 0))))))"

text \<open>Steps 6 to 8, once the control plane has rolled out.\<close>

definition drainSource ::
  "'w rstate ctx \<Rightarrow> ('w, 'b) reconciler_scheme \<Rightarrow> migration \<Rightarrow> string \<Rightarrow> string \<Rightarrow> ('w, result) handler" where
  "drainSource ctx r m sourceServer infraID =
     bnd (wrapErr ''getting old MachineSets'' (GetMachineSetsByVCenter (machineMgr r) sourceServer)) (\<lambda>old.
     bnd (scaleDownSourceMachineSets ctx r m old sourceServer infraID) (\<lambda>requeued.
     if requeued then ret 30
     else
       bnd (oldMachinesAndNodesDeleted (machineMgr r) old) (\<lambda>allDeleted.
       if \<not> allDeleted then
         bnd (wrapErr ''building old worker stall detail'' (oldWorkerStallDetail r old)) (\<lambda>(detail, note, key).
         bnd (setProgressing r ConditionWorkloadMigrated (boundConditionMessage (''Waiting for old worker deletion: '' @ detail))) (\<lambda>_.
         bnd (reportStall r key note) (\<lambda>_.
         ret 30)))
       else deleteSourceMachineSets ctx r m sourceServer)))"

text \<open>The listing of control plane machines for the log is a read whose result is dropped.\<close>

definition ensureWorkloadMigratedRolloutAndScaleDown ::
  "'w rstate ctx \<Rightarrow> ('w, 'b) reconciler_scheme \<Rightarrow> migration \<Rightarrow> ('w, result) handler" where
  "ensureWorkloadMigratedRolloutAndScaleDown ctx r m =
     bnd (wrapErr ''getting infrastructure'' (infra_Get (r_config r))) (\<lambda>infra.
     bnd (gets (\<lambda>s. status_mappings (status (mig s)))) (\<lambda>mappings.
     bnd (liftE (sourceVCenterServer (fdsOf infra) mappings)) (\<lambda>sourceServer.
     bnd (wrapErr ''getting infrastructure ID'' (GetInfrastructureID (r_config r))) (\<lambda>infraID.
     bnd (updateWorkloadProgress r infraID sourceServer) (\<lambda>_.
     bnd (wrapErr ''checking CPMS generation'' (IsCPMSGenerationObserved (machineMgr r))) (\<lambda>(observed, gen, observedGen).
     if \<not> observed then
       bnd (setProgressing r ConditionWorkloadMigrated (msgGeneration ''Waiting for control plane rollout to start'' gen observedGen)) (\<lambda>_.
       bnd (Eventf EventNormal eventReasonControlPlaneRollout (msgGeneration ''waiting for rollout to start'' gen observedGen)) (\<lambda>_.
       ret 15))
     else
       bnd (wrapErr ''checking control plane rollout'' (CheckControlPlaneRolloutStatus (machineMgr r))) (\<lambda>st.
       if \<not> rs_complete st then
         bnd (setProgressing r ConditionWorkloadMigrated (rolloutMessage st)) (\<lambda>_.
         bnd (Eventf EventNormal eventReasonControlPlaneRollout (rolloutMessage st)) (\<lambda>_.
         attempt (ListControlPlaneMachines (machineMgr r)) (\<lambda>_.
         ret 30)))
       else drainSource ctx r m sourceServer infraID)))))))"

section \<open>The handler\<close>

text \<open>Recovering the mapping of a migration that was started before mappings were recorded. The
  names of destinations whose source is empty and unrecorded are recorded in their legacy form.\<close>

definition recoverLegacyName ::
  "'w machineManager \<Rightarrow> string \<Rightarrow> failureDomain list \<Rightarrow> string list \<Rightarrow> string list \<Rightarrow> fdMapping \<Rightarrow> (('w, 'z) exec_scheme, error, string list) op" where
  "recoverLegacyName mm infraID infraFDs recorded names mp =
     (case findFailureDomainByName infraFDs (map_source mp) of
        None \<Rightarrow> fail (Errorf (''recovering source failure domain '' @ quote (map_source mp)))
      | Some sourceFD \<Rightarrow>
          bnd (GetMachineSetsByFailureDomain mm (fd_server sourceFD) (Some sourceFD)) (\<lambda>sources.
          let base = workerMachineSetName infraID (map_destination mp) recorded;
              legacy = legacyMachineSetName infraID (map_destination mp) in
          if sources = [] \<and> recordedWorkerMachineSetNames recorded base = [] then
            (if length legacy > maxGeneratedMachineSetNameLen
             then fail (Errorf (''recovering invalid legacy MachineSet name '' @ quote legacy))
             else ret (names @ [legacy]))
          else ret names))"

definition recoverMappings ::
  "('w, 'b) reconciler_scheme \<Rightarrow> migration \<Rightarrow> string \<Rightarrow> failureDomain list \<Rightarrow> ('w, fdMapping list) handler" where
  "recoverMappings r m infraID infraFDs =
     bnd (wrapErr ''recovering failure domain mappings for an in-flight migration''
            (liftE (seedFailureDomainMappings m infraFDs))) (\<lambda>mappings.
     bnd (foldM (recoverLegacyName (machineMgr r) infraID infraFDs (workerMachineSetNames (status m))) [] mappings) (\<lambda>names.
     bnd (modifyStatus (workerMachineSetNames_update (\<lambda>ns. append_missing ns names) \<circ> status_mappings_update (\<lambda>_. mappings))) (\<lambda>_.
     ret mappings)))"

fun missingTemplate :: "nat \<Rightarrow> failureDomain list \<Rightarrow> error + unit" where
  "missingTemplate i [] = Inr ()"
| "missingTemplate i (fd # fds) =
     (if template (fd_topology fd) = []
      then Inl (Errorf (''spec.failureDomains['' @ itoa i @ ''].topology.template is required (failure domain '' @
             quote (fd_name fd) @ '')''))
      else missingTemplate (Suc i) fds)"

definition msgWorkers :: "workerReadinessStatus \<Rightarrow> string" where
  "msgWorkers st =
     ''Waiting for target workers (machines '' @ itoa_int (wr_machinesReady st) @ ''/'' @ itoa_int (wr_machinesTotal st) @
     '' ready, nodes '' @ itoa_int (wr_nodesReady st) @ ''/'' @ itoa_int (wr_nodesTotal st) @ '' ready)''"

text \<open>Step 2 and what follows it, once every expected destination machine set exists.\<close>

definition awaitWorkers ::
  "'w rstate ctx \<Rightarrow> ('w, 'b) reconciler_scheme \<Rightarrow> migration \<Rightarrow> string \<Rightarrow> fdMapping list \<Rightarrow> failureDomain list \<Rightarrow> ('w, result) handler" where
  "awaitWorkers ctx r m infraID mappings infraFDs =
     bnd (gets (\<lambda>s. workerMachineSetNames (status (mig s)))) (\<lambda>recorded.
     bnd (workerReadinessFailureDomains (machineMgr r) infraID mappings infraFDs (spec_failureDomains (spec m)) recorded) (\<lambda>workerFDs.
     if workerFDs = [] \<and> recorded \<noteq> [] then
       bnd (setProgressing r ConditionWorkloadMigrated ''Waiting for recorded target worker MachineSets to exist'') (\<lambda>_. ret 30)
     else
       bnd (checkWorkerReadiness (machineMgr r) workerFDs infraID recorded) (\<lambda>st.
       if \<not> wr_ready st then
         bnd (setProgressing r ConditionWorkloadMigrated (msgWorkers st)) (\<lambda>_. ret 30)
       else
         bnd (wrapErr ''checking CPMS update state''
                (IsCPMSUpdatedForFailureDomains (machineMgr r) (failureDomainNames (spec_failureDomains (spec m))))) (\<lambda>updated.
         if updated then ensureWorkloadMigratedRolloutAndScaleDown ctx r m
         else ensureCPMSUpdated ctx r (failureDomainNames (spec_failureDomains (spec m)))))))"

definition migrateWorkers ::
  "'w rstate ctx \<Rightarrow> ('w, 'b) reconciler_scheme \<Rightarrow> migration \<Rightarrow> string \<Rightarrow> fdMapping list \<Rightarrow> failureDomain list \<Rightarrow> ('w, result) handler" where
  "migrateWorkers ctx r m infraID mappings infraFDs =
     bnd (liftE (sourceVCenterServer infraFDs mappings)) (\<lambda>sourceServer.
     if isConfiguredDestination m sourceServer
     then fail (Errorf (msgRefuse ''migrate workers from '' sourceServer))
     else
       bnd (updateWorkloadProgress r infraID sourceServer) (\<lambda>_.
       bnd (targetMachineSetsExist ctx r m infraID mappings infraFDs) (\<lambda>allExist.
       if \<not> allExist then createMappedWorkerMachineSets ctx r m infraID mappings infraFDs
       else awaitWorkers ctx r m infraID mappings infraFDs)))"

definition ensureWorkloadMigrated :: "'w rstate ctx \<Rightarrow> ('w, 'b) reconciler_scheme \<Rightarrow> ('w, result) handler" where
  "ensureWorkloadMigrated ctx r =
     bnd (gets mig) (\<lambda>m.
     if spec_failureDomains (spec m) = [] then fail (Errorf ''spec.failureDomains must not be empty'')
     else
       bnd (liftE (missingTemplate 0 (spec_failureDomains (spec m)))) (\<lambda>_.
       bnd (wrapErr ''getting infrastructure'' (infra_Get (r_config r))) (\<lambda>infra.
       if infrastructureName infra = [] then fail (Errorf ''infrastructure status has no InfrastructureName'')
       else
         bnd (if status_mappings (status m) = [] then recoverMappings r m (infrastructureName infra) (fdsOf infra)
              else ret (status_mappings (status m))) (\<lambda>mappings.
         migrateWorkers ctx r m (infrastructureName infra) mappings (fdsOf infra)))))"

section \<open>Guarding\<close>

text \<open>What moving the workload may send: creations and annotations of destination machine sets,
  scaling a machine set to zero, pointing the control plane at the destination failure domains,
  and deleting a machine set that was seen scaled to zero on a vCenter that is no destination.\<close>

definition workloadStep :: "migration \<Rightarrow> mutation \<Rightarrow> bool" where
  "workloadStep m x = (workerStep (spec_failureDomains (spec m)) x \<or> (case x of
      UpdateMachineSetCall ms \<Rightarrow> \<exists>old. ms = old\<lparr>ms_replicas := Some 0\<rparr>
    | UpdateCPMSCall new \<Rightarrow> \<exists>old. retargetCPMS old (failureDomainNames (spec_failureDomains (spec m))) = Inr new
    | DeleteMachineSetCall nm \<Rightarrow>
        \<exists>server ms. \<not> isConfiguredDestination m server \<and> onVCenter server ms \<and> scaledDown ms \<and> ms_name ms = nm
    | _ \<Rightarrow> False))"

lemma workloadStep_intros:
  "workloadStep m (UpdateMachineSetCall (old\<lparr>ms_replicas := Some 0\<rparr>))"
  "retargetCPMS c (failureDomainNames (spec_failureDomains (spec m))) = Inr new \<Longrightarrow> workloadStep m (UpdateCPMSCall new)"
  "\<not> isConfiguredDestination m server \<Longrightarrow> onVCenter server ms \<Longrightarrow> scaledDown ms \<Longrightarrow>
     workloadStep m (DeleteMachineSetCall (ms_name ms))"
  by (auto simp: workloadStep_def)

lemma keeps_deleted [keeps_rules]: "keeps (safe m A) (oldMachinesAndNodesDeleted mm sets)"
  unfolding oldMachinesAndNodesDeleted_def by (intro keeps_rules)

lemma safe_stall [simp]:
  "safe m A (s\<lparr>lastStallEventKey := a, lastStallEventTime := b\<rparr>) = safe m A s"
  by (simp add: safe_def)

lemma keeps_reportStall [keeps_rules]: "keeps (safe m A) (reportStall r key note)"
  unfolding reportStall_def by (intro keeps_rules keeps_modify) simp

lemma keeps_recoverMappings [keeps_rules]: "keeps (safe k A) (recoverMappings r m infraID infraFDs)"
  unfolding recoverMappings_def recoverLegacyName_def Let_def by (intro keeps_rules)

lemma GetMachineSetsByVCenter_on:
  "GetMachineSetsByVCenter mm server s = (Inr sets, t) \<Longrightarrow> ms \<in> set sets \<Longrightarrow> onVCenter server ms"
  by (auto simp: GetMachineSetsByVCenter_def bnd_Inr split: if_splits)

context handler_ctx
begin

lemma keeps_DeleteMachineSetsByVCenter:
  assumes "\<And>ms. onVCenter server ms \<Longrightarrow> scaledDown ms \<Longrightarrow> A (DeleteMachineSetCall (ms_name ms))"
  shows "keeps (safe m A) (DeleteMachineSetsByVCenter ctx mm server)"
  unfolding DeleteMachineSetsByVCenter_def
proof (rule keeps_if [OF keeps_fail], rule keeps_bnd_res [OF keeps_reads(3)], rule keeps_liftE_bnd, goal_cases)
  case (1 s sets t u)
  then show ?case
    by (intro keeps_delete_loop assms)
      (auto simp: forE_unit refuseReplicas_ok scaledDown_def dest: GetMachineSetsByVCenter_on)
qed

lemma keeps_ensureCPMSUpdated:
  "keeps (safe m (workloadStep k)) (ensureCPMSUpdated ctx r (failureDomainNames (spec_failureDomains (spec k))))"
  unfolding ensureCPMSUpdated_def
  by (intro keeps_rules keeps_UpdateCPMSFailureDomain workloadStep_intros)

lemma keeps_scaleRunning:
  "keeps (safe m (workloadStep k)) (scaleRunning ctx mm sets)"
  unfolding scaleRunning_def by (intro keeps_rules keeps_ScaleMachineSet workloadStep_intros)

lemma keeps_scaleDown:
  "keeps (safe m (workloadStep k)) (scaleDownSourceMachineSets ctx r k old server infraID)"
  unfolding scaleDownSourceMachineSets_def scaleDownGate_def scaleDownCovered_def scaleDownWork_def
  by (intro keeps_rules keeps_scaleRunning)

lemma keeps_deleteSource:
  "keeps (safe m (workloadStep k)) (deleteSourceMachineSets ctx r k server)"
proof (cases "isConfiguredDestination k server")
  case False
  then show ?thesis
    unfolding deleteSourceMachineSets_def
    by (simp only: if_False) (intro keeps_rules keeps_DeleteMachineSetsByVCenter workloadStep_intros)
qed (simp add: deleteSourceMachineSets_def keeps_fail)

lemma keeps_rollout:
  "keeps (safe m (workloadStep k)) (ensureWorkloadMigratedRolloutAndScaleDown ctx r k)"
  unfolding ensureWorkloadMigratedRolloutAndScaleDown_def drainSource_def
  by (intro keeps_rules keeps_scaleDown keeps_deleteSource)

lemma keeps_migrateWorkers:
  "keeps (safe m (workloadStep k)) (migrateWorkers ctx r k infraID mappings infraFDs)"
  unfolding migrateWorkers_def awaitWorkers_def
  by (intro keeps_rules keeps_createMapped keeps_targetMachineSetsExist [where fds = "spec_failureDomains (spec k)"] keeps_rollout keeps_ensureCPMSUpdated)
    (simp_all add: workloadStep_def)

end

lemma safe_workload:
  "safe k (workloadStep (mig s)) s \<Longrightarrow>
   safe k (workloadStep (mig s)) (snd (ensureWorkloadMigrated (executionContext ctx cl k) r s))"
  unfolding ensureWorkloadMigrated_def bnd_gets by (erule keeps_snd [rotated]) (intro keeps_rules hc.keeps_migrateWorkers)



section \<open>Scale-down is gated\<close>

text \<open>The call shows the names published in the stored object of \<open>m\<close>, or that this object has
  been replaced by another of the same name.\<close>

definition publishes :: "string list \<Rightarrow> string \<Rightarrow> action \<Rightarrow> bool" where
  "publishes names u a = (case a of
      StatusUpdateCall k \<Rightarrow> set names \<subseteq> set (workerMachineSetNames (status k))
    | MigrationRead (Some l) \<Rightarrow> set names \<subseteq> set (workerMachineSetNames (status l)) \<or> uid l \<noteq> u
    | _ \<Rightarrow> False)"

lemma publishNamesOnce_publishes:
  assumes "publishNamesOnce r m t = (Inr u, s')"
  shows "\<exists>a\<in>set (trace s'). publishes (workerMachineSetNames (status m)) (uid m) a"
  using assms
  by (auto simp: publishNamesOnce_def bnd_app readMigration_def apiResult_def request_app mergeNames_def publishes_def
      split: prod.splits sum.splits if_splits)

lemma mig_is_prims [keeps_rules]:
  "keeps (mig_is x) (request a c)"
  "keeps (mig_is x) (readMigration d)"
  by (auto simp: keeps_def mig_is_def request_app readMigration_def split: prod.splits)

lemma persistNames_publishes:
  assumes "persistWorkerMachineSetNames r s = (Inr u, s')"
  shows "mig s' = mig s \<and> (recordedNames s = [] \<or> (\<exists>a\<in>set (trace s'). publishes (recordedNames s) (uid (mig s)) a))"
proof -
  have run: "(if recordedNames s = [] then ret ()
      else wrapErr ''updating migration status'' (retryOnConflict defaultRetry (publishNamesOnce r (mig s)))) s = (Inr u, s')"
    using assms by (simp add: persistWorkerMachineSetNames_def)
  have "keeps (mig_is (mig s)) (publishNamesOnce r (mig s))"
    unfolding publishNamesOnce_def by (intro keeps_rules)
  then have k: "keeps (mig_is (mig s)) (if recordedNames s = [] then ret ()
      else wrapErr ''updating migration status'' (retryOnConflict defaultRetry (publishNamesOnce r (mig s))))"
    by (intro keeps_rules)
  have "mig_is (mig s) s'" by (rule keepsD [OF k _ run]) (simp add: mig_is_def)
  with run show ?thesis
    by (auto simp: mig_is_def split: if_splits dest!: retry_Inr publishNamesOnce_publishes)
qed

lemma recover_uid:
  assumes "recoverUnrecordedDestinationNames mm msList infraID mappings sourceFDs s = (x, s')"
  shows "uid (mig s') = uid (mig s)"
proof -
  let ?loop = "foldM (recoverMapping mm (mig s) msList infraID sourceFDs) [] mappings"
  obtain q t where loop: "?loop s = (q, t)" by fastforce
  have k: "keeps (mig_is (mig s)) ?loop" by (intro keeps_rules)
  have "mig_is (mig s) t" by (rule keepsD [OF k _ loop]) (simp add: mig_is_def)
  with assms loop show ?thesis
    by (cases q) (auto simp: recoverUnrecordedDestinationNames_def bnd_app modifyStatus_def mig_is_def)
qed

lemma quiet_recover: "keeps quiet (recoverUnrecordedDestinationNames mm msList infraID mappings sourceFDs)"
  unfolding recoverUnrecordedDestinationNames_def resolveWorkerMachineSetName_def classifyDestinationLayout_def
    anyCopyExists_def GetMachineSet_def expectedDestinationNames_def deriveCopy_def recoverMapping_def recoverName_def
    modifyStatus_def Let_def
  by (intro keeps_rules; simp)

lemma quiet_persist: "keeps quiet (persistWorkerMachineSetNames r)"
  unfolding persistWorkerMachineSetNames_def publishNamesOnce_def by (intro keeps_rules; simp)

lemma quiet_infra: "keeps quiet (infra_Get cc)"
  unfolding infra_Get_def by (intro keeps_rules; simp)

lemma infra_keeps_mig: "infra_Get cc s = (x, t) \<Longrightarrow> mig t = mig s"
  by (auto simp: infra_Get_def readCall_def wrapErr_def attempt_app request_app split: prod.splits sum.splits)

lemma since_scaleDownWork: "keeps (since tr) (scaleDownWork (executionContext ctx cl k) r old)"
  unfolding scaleDownWork_def scaleRunning_def ScaleMachineSet_def readCall_def by (intro keeps_rules)


text \<open>A cluster whose only worker machine set already has its copy on the destination.\<close>

definition copiedSet :: machineSet where
  "copiedSet = sampleMachineSet\<lparr>ms_name := ''c-x1-worker-fd-b'', ms_providerValue := RawJSON \<lparr>
     ps_workspace = Some (targetWorkspace None sampleFD ''c-x1''), ps_template = ''t'', ps_networks = [], ps_hardware = []\<rparr>\<rparr>"

definition drainMigration :: migration where
  "drainMigration = workersMigration\<lparr>status := (status workersMigration)\<lparr>
     status_mappings := [\<lparr>map_source = ''fd-a'', map_destination = ''fd-b''\<rparr>]\<rparr>\<rparr>"

definition drainInfra :: infrastructure where
  "drainInfra = sampleInfra\<lparr>vsphere := Some \<lparr>vcenters = [], infra_failureDomains = [workersSourceFD, sampleFD]\<rparr>\<rparr>"

definition scaleRun :: "(error + bool) \<times> migration rstate" where
  "scaleRun = scaleDownSourceMachineSets (executionContext None sampleClient drainMigration)
     (sampleReconciler sampleClient drainInfra [sampleMachineSet, copiedSet]) drainMigration [sampleMachineSet]
     ''vc1.example.com'' ''c-x1'' (sampleState drainMigration drainMigration)"


end
