(* ===== verification/Preflight.thy ===== *)
theory Preflight
  imports NetCheck Workload
begin

text \<open>
  The preflight checks, \<open>internal/controller/preflight.go\<close>, with
  \<open>validateMachineSetNameCollisions\<close> (\<open>failuredomains.go\<close>) and the handler
  \<open>ensureInfrastructurePrepared\<close>. \<open>runPreflightStep\<close> only logs; the deadline of the
  vSphere context is part of what the vSphere client may answer. \<open>fdTemplateMissing\<close> is the loop
  that \<open>ensureWorkloadMigrated\<close> repeats, \<open>missingTemplate 0\<close>.
\<close>

section \<open>Failure domains\<close>

definition fdTemplateMissing :: "failureDomain list \<Rightarrow> error + unit" where
  "fdTemplateMissing fds = missingTemplate 0 fds"

definition errUnsupportedType :: "failureDomain \<Rightarrow> string \<Rightarrow> string \<Rightarrow> error" where
  "errUnsupportedType fd what t =
     Errorf (''failure domain '' @ quote (fd_name fd) @ '' uses unsupported '' @ what @ '' type '' @ quote t)"

definition validateFailureDomainTypes :: "failureDomain list \<Rightarrow> error + unit" where
  "validateFailureDomainTypes fds = forE (\<lambda>fd.
     if regionAffinity fd = Some ''ComputeCluster'' then Inl (errUnsupportedType fd ''region'' ''ComputeCluster'')
     else if zoneAffinity fd = Some ''HostGroup'' then Inl (errUnsupportedType fd ''zone'' ''HostGroup'')
     else Inr ()) fds"

definition errOverlap :: "string \<Rightarrow> string \<Rightarrow> error" where
  "errOverlap previous base = Errorf (''generated MachineSet names for '' @ quote previous @ '' and '' @ quote base @
     '' overlap; rename the destination failure domain'')"

definition errNameLength :: "string \<Rightarrow> error" where
  "errNameLength nm = Errorf (''generated MachineSet name '' @ quote nm @ '' exceeds the '' @ itoa maxGeneratedMachineSetNameLen @
     ''-character Kubernetes label limit; rename the destination failure domain'')"

definition errNameTwice :: "string \<Rightarrow> error" where
  "errNameTwice nm = Errorf (''generated MachineSet name '' @ quote nm @ '' collides with another destination'')"

definition errNameExists :: "string \<Rightarrow> error" where
  "errNameExists nm = Errorf (''generated MachineSet name '' @ quote nm @
     '' collides with existing MachineSet; rename the destination failure domain'')"

definition errNoDestination :: "fdMapping \<Rightarrow> error" where
  "errNoDestination mp = Errorf (''resolving destination failure domain '' @ quote (map_destination mp) @
     '' for mapping from '' @ quote (map_source mp))"

definition errNoSource :: "fdMapping \<Rightarrow> error" where
  "errNoSource mp = Errorf (''resolving source failure domain '' @ quote (map_source mp))"

text \<open>One generated name.\<close>

definition claimName :: "string \<Rightarrow> string list \<Rightarrow> nat \<Rightarrow> error + string list" where
  "claimName base generated si =
     (let nm = suffixedWorkerMachineSetName base si in
      if length nm > maxGeneratedMachineSetNameLen then Inl (errNameLength nm)
      else if nm \<in> set generated then Inl (errNameTwice nm)
      else Inr (generated @ [nm]))"

text \<open>One mapping; the accumulator holds the bases and the names generated so far.\<close>

definition checkCollisions ::
  "('w, 'b) reconciler_scheme \<Rightarrow> string \<Rightarrow> failureDomain list \<Rightarrow> failureDomain list \<Rightarrow> machineSet list \<Rightarrow>
   string list \<times> string list \<Rightarrow> fdMapping \<Rightarrow> ('w, string list \<times> string list) handler" where
  "checkCollisions r infraID sourceFDs destFDs msList acc mp =
     (case findFailureDomainByName destFDs (map_destination mp) of
        None \<Rightarrow> fail (errNoDestination mp)
      | Some fd \<Rightarrow>
          (let base = workerMachineSetName infraID (fd_name fd) [] in
           case find (\<lambda>previous. base = previous \<or> isSuffixedMachineSetName base previous \<or> isSuffixedMachineSetName previous base) (fst acc) of
             Some previous \<Rightarrow> fail (errOverlap previous base)
           | None \<Rightarrow>
               (case findFailureDomainByName sourceFDs (map_source mp) of
                  None \<Rightarrow> fail (errNoSource mp)
                | Some source \<Rightarrow>
                    bnd (wrapErr (''listing machinesets for source failure domain '' @ quote (fd_name source))
                           (GetMachineSetsByFailureDomain (machineMgr r) (fd_server source) (Some source))) (\<lambda>sets.
                    bnd (liftE (foldE (claimName base) (snd acc) [0..<max 1 (length sets)])) (\<lambda>generated.
                    case find (\<lambda>ms. inFamily (ms_name ms) base) msList of
                      Some ms \<Rightarrow> fail (errNameExists (ms_name ms))
                    | None \<Rightarrow> ret (fst acc @ [base], generated))))))"

definition validateMachineSetNameCollisions ::
  "('w, 'b) reconciler_scheme \<Rightarrow> string \<Rightarrow> fdMapping list \<Rightarrow> failureDomain list \<Rightarrow> failureDomain list \<Rightarrow> ('w, unit) handler" where
  "validateMachineSetNameCollisions r infraID mappings sourceFDs destFDs =
     bnd (readCall ''listing machinesets in openshift-machine-api'' (machineSets_list (r_machine r))) (\<lambda>msList.
     bnd (foldM (checkCollisions r infraID sourceFDs destFDs msList) ([], []) mappings) (\<lambda>_.
     ret ()))"

definition countSources :: "('w, 'b) reconciler_scheme \<Rightarrow> failureDomain list \<Rightarrow> nat \<Rightarrow> fdMapping \<Rightarrow> ('w, nat) handler" where
  "countSources r sourceFDs sofar mp =
     (case findFailureDomainByName sourceFDs (map_source mp) of
        None \<Rightarrow> fail (errNoSource mp)
      | Some source \<Rightarrow>
          bnd (wrapErr (''listing machinesets for source failure domain '' @ quote (fd_name source))
                 (GetMachineSetsByFailureDomain (machineMgr r) (fd_server source) (Some source))) (\<lambda>sets.
          ret (sofar + length sets)))"

definition errTooMany :: "nat \<Rightarrow> error" where
  "errTooMany n = Errorf (''failure domain mapping would generate '' @ itoa n @ '' destination MachineSets, exceeding the '' @
     itoa maxDestinationWorkerMachineSets @ '' supported by status.workerMachineSetNames'')"

definition validateDestinationMachineSetCount ::
  "('w, 'b) reconciler_scheme \<Rightarrow> fdMapping list \<Rightarrow> failureDomain list \<Rightarrow> ('w, unit) handler" where
  "validateDestinationMachineSetCount r mappings sourceFDs =
     bnd (foldM (countSources r sourceFDs) 0 mappings) (\<lambda>n.
     if n > maxDestinationWorkerMachineSets then fail (errTooMany n) else ret ())"

definition validateMigrationFailureDomains ::
  "('w, 'b) reconciler_scheme \<Rightarrow> migration \<Rightarrow> ('w, fdMapping list) handler" where
  "validateMigrationFailureDomains r m =
     bnd (wrapErr ''getting infrastructure for failure domain validation'' (infra_Get (r_config r))) (\<lambda>infra.
     bnd (liftE (case vsphere infra of None \<Rightarrow> Inr ()
            | Some p \<Rightarrow> wrapE ''validating source failure domains'' (validateFailureDomainTypes (infra_failureDomains p)))) (\<lambda>_.
     bnd (liftE (validateSourceVCenterCount infra)) (\<lambda>_.
     bnd (liftE (validateSourceFDTopologyDisjoint (fdsOf infra))) (\<lambda>_.
     bnd (liftE (resolveFailureDomainMappings (spec_mappings (spec m)) (fdsOf infra) (spec_failureDomains (spec m)))) (\<lambda>mappings.
     if infrastructureName infra = [] then fail (Errorf ''infrastructure status has no InfrastructureName'')
     else
       bnd (validateMachineSetNameCollisions r (infrastructureName infra) mappings (fdsOf infra) (spec_failureDomains (spec m))) (\<lambda>_.
       bnd (validateDestinationMachineSetCount r mappings (fdsOf infra)) (\<lambda>_.
       ret mappings)))))))"

definition validatePreflightSourceCoverage :: "('w, 'b) reconciler_scheme \<Rightarrow> fdMapping list \<Rightarrow> ('w, unit) handler" where
  "validatePreflightSourceCoverage r mappings =
     bnd (wrapErr ''getting source vCenter'' (GetSourceVCenter (r_config r))) (\<lambda>sourceVC.
     bnd (wrapErr ''getting infrastructure'' (infra_Get (r_config r))) (\<lambda>infra.
     bnd (wrapErr ''getting source MachineSets'' (GetMachineSetsByVCenter (machineMgr r) (vc_server sourceVC))) (\<lambda>msList.
     liftE (validateSourceMachineSetMappingCoverage msList mappings
              (filter (\<lambda>fd. fd_server fd = vc_server sourceVC) (fdsOf infra))))))"

section \<open>The cluster\<close>

definition checkClusterReadiness :: "('w, 'b) reconciler_scheme \<Rightarrow> ('w, unit) handler" where
  "checkClusterReadiness r =
     bnd (wrapErr ''checking cluster readiness'' (GetVSphereMultiVCenterSupport (r_config r))) (\<lambda>support.
     if \<not> mv_featureGateEnabled support then
       fail (Errorf (''feature gate VSphereMultiVCenterDay2 is not enabled for OpenShift '' @ mv_clusterVersion support @
         ''; enable the feature gate before starting migration''))
     else
       bnd (setProgressing r ConditionInfrastructurePrepared ''Validating cluster readiness'') (\<lambda>_.
       if mv_upgradeInProgress support then
         fail (newTransientError (Errorf
           ''cluster upgrade is in progress; wait for ClusterVersion/version Progressing=False before starting migration''))
       else ret ()))"

definition checkOperatorHealth :: "('w, 'b) reconciler_scheme \<Rightarrow> ('w, unit) handler" where
  "checkOperatorHealth r =
     bnd (wrapErr ''checking cluster operator health'' (CheckAllOperatorsHealthy (r_config r))) (\<lambda>(healthy, unhealthy).
     if \<not> healthy then
       fail (newTransientError (Errorf
         (''cluster operators are not healthy; wait for operators to recover before starting migration: '' @ join '', '' unhealthy)))
     else ret ())"

definition vsphereCSIDriverName :: string where
  "vsphereCSIDriverName = ''csi.vsphere.vmware.com''"

definition csiVolumes :: "(string \<times> string option) list \<Rightarrow> string list" where
  "csiVolumes pvs = map fst (filter (\<lambda>pv. snd pv = Some vsphereCSIDriverName) pvs)"

definition errCSIVolumes :: "string list \<Rightarrow> error" where
  "errCSIVolumes blocked = Errorf (''vSphere CSI-backed persistent volumes are not supported for migration; remove PersistentVolumes using driver '' @
     quote vsphereCSIDriverName @ '': '' @ join '', '' (sort blocked))"

definition checkNoVSphereCSIPersistentVolumes :: "'w kubeClient \<Rightarrow> (('w, 'z) exec_scheme, error, unit) op" where
  "checkNoVSphereCSIPersistentVolumes kc =
     bnd (readCall ''listing persistentvolumes'' (persistentVolumes_list kc)) (\<lambda>pvs.
     if csiVolumes pvs = [] then ret () else fail (errCSIVolumes (csiVolumes pvs)))"

definition managementStateRemoved :: string where
  "managementStateRemoved = ''Removed''"

definition managementStateUnmanaged :: string where
  "managementStateUnmanaged = ''Unmanaged''"

definition nestedState :: "string + string option \<Rightarrow> error + string" where
  "nestedState v = (case v of
      Inl t \<Rightarrow> Inl (Wrapf ''reading spec.managementState'' (Errorf t))
    | Inr None \<Rightarrow> Inl (Errorf ''spec.managementState not set'')
    | Inr (Some st) \<Rightarrow> if st = [] then Inl (Errorf ''spec.managementState not set'') else Inr st)"

definition getManagementState :: "'w dynamicClient \<Rightarrow> string \<Rightarrow> string \<Rightarrow> (('w, 'z) exec_scheme, error, string) op" where
  "getManagementState dc gvr nm =
     bnd (request ReadCall (dyn_managementState dc gvr nm)) (\<lambda>v. liftE (nestedState v))"

definition adviceStorage :: string where
  "adviceStorage = ''; consider setting Unmanaged or Removed (only ClusterCSIDriver Removed is required)''"

definition errCSIDriver :: "string \<Rightarrow> error" where
  "errCSIDriver st = Errorf (''vSphere CSI driver is not supported for migration; set ClusterCSIDriver/'' @ vsphereCSIDriverName @
     '' spec.managementState to Removed (current: '' @ st @ '')'')"

definition checkVSphereStorageManagement :: "'w dynamicClient \<Rightarrow> (('w, 'z) exec_scheme, error, string) op" where
  "checkVSphereStorageManagement dc =
     bnd (wrapErr (''vSphere CSI driver is not supported for migration; unable to read ClusterCSIDriver/'' @ vsphereCSIDriverName)
            (getManagementState dc ''clustercsidrivers'' vsphereCSIDriverName)) (\<lambda>csiState.
     if csiState \<noteq> managementStateRemoved then fail (errCSIDriver csiState)
     else
       attempt (getManagementState dc ''storages'' ''cluster'') (\<lambda>res.
       case res of
         Inl e \<Rightarrow> ret (''unable to read Storage/cluster managementState'' @ adviceStorage)
       | Inr st \<Rightarrow>
           if st = managementStateUnmanaged \<or> st = managementStateRemoved then ret []
           else ret (''Storage/cluster managementState is '' @ st @ adviceStorage)))"

definition listDynamicResourceNames :: "'w dynamicClient \<Rightarrow> string \<Rightarrow> (('w, 'z) exec_scheme, error, string list) op" where
  "listDynamicResourceNames dc gvr =
     attempt (request ReadCall (dyn_list dc gvr)) (\<lambda>res.
     case res of
       Inl e \<Rightarrow> if IsNotFound e \<or> IsNoMatchError e then ret [] else fail e
     | Inr items \<Rightarrow> ret (sort (map (\<lambda>(ns, nm). if ns \<noteq> [] then ns @ ''/'' @ nm else nm) items)))"

definition platformMachineHealthChecks :: "string list" where
  "platformMachineHealthChecks = [''openshift-machine-api/machine-api-termination-handler'']"

definition blockersOf :: "string \<Rightarrow> string list \<Rightarrow> string list" where
  "blockersOf kind names = (if names \<noteq> [] then [kind @ '' resources: '' @ join '', '' names] else [])"

definition checkInterferingRolloutResources :: "'w dynamicClient \<Rightarrow> (('w, 'z) exec_scheme, error, unit) op" where
  "checkInterferingRolloutResources dc =
     bnd (wrapErr ''listing machinehealthchecks'' (listDynamicResourceNames dc ''machinehealthchecks'')) (\<lambda>mhcs.
     bnd (wrapErr ''listing clusterautoscalers'' (listDynamicResourceNames dc ''clusterautoscalers'')) (\<lambda>cas.
     bnd (wrapErr ''listing machineautoscalers'' (listDynamicResourceNames dc ''machineautoscalers'')) (\<lambda>mas.
     let blockers = blockersOf ''MachineHealthCheck'' (filter (\<lambda>nm. nm \<notin> set platformMachineHealthChecks) mhcs) @
           blockersOf ''ClusterAutoscaler'' cas @ blockersOf ''MachineAutoscaler'' mas in
     if blockers = [] then ret ()
     else fail (Errorf (''remove interfering rollout resources before migration: '' @ join ''; '' blockers)))))"

section \<open>vSphere\<close>

definition rootTagPrivileges :: "string list" where
  "rootTagPrivileges = [''InventoryService.Tagging.AttachTag'', ''InventoryService.Tagging.CreateCategory'',
     ''InventoryService.Tagging.CreateTag'']"

definition objectAttachPrivileges :: "string list" where
  "objectAttachPrivileges = [''InventoryService.Tagging.ObjectAttachable'']"

definition vmFolderPrivileges :: "string list" where
  "vmFolderPrivileges = [''Folder.Create'']"

text \<open>The map holds the last entry of a privilege; an absent one reads as false.\<close>

definition missingPrivileges :: "(string \<times> bool) list \<Rightarrow> string list \<Rightarrow> string list" where
  "missingPrivileges availability requested =
     sort (filter (\<lambda>p. map_of (rev availability) p \<noteq> Some True) requested)"

definition dcVMFolder :: "'w vsphereClient \<Rightarrow> vSession \<Rightarrow> vsObj \<Rightarrow> (('w, 'z) exec_scheme, error, vsObj) op" where
  "dcVMFolder vc s dc =
     bnd (readCall ''getting datacenter folders'' (dc_vmFolder vc s dc)) (\<lambda>f.
     case f of
       None \<Rightarrow> fail (Errorf (''datacenter '' @ quote (vs_objName dc) @ '' has no VM folder''))
     | Some vmFolder \<Rightarrow>
         if vs_ref vmFolder = [] then fail (Errorf (''datacenter '' @ quote (vs_objName dc) @ '' has no VM folder''))
         else ret vmFolder)"

definition privilegeChecks :: "'w vsphereClient \<Rightarrow> vSession \<Rightarrow> vsObj \<Rightarrow> vsObj \<Rightarrow> vsObj \<Rightarrow> (string \<times> string list \<times> string) list" where
  "privilegeChecks vc s vmFolder dc cluster =
     [(vim_rootFolder vc s, rootTagPrivileges, ''root folder''),
      (vs_ref vmFolder, vmFolderPrivileges, ''VM folder '' @ quote (vs_path vmFolder)),
      (vs_ref dc, objectAttachPrivileges, ''datacenter '' @ quote (vs_path dc)),
      (vs_ref cluster, objectAttachPrivileges, ''cluster '' @ quote (vs_path cluster))]"

definition checkPrivileges ::
  "'w vsphereClient \<Rightarrow> vSession \<Rightarrow> string \<Rightarrow> string \<times> string list \<times> string \<Rightarrow> (('w, 'z) exec_scheme, error, unit) op" where
  "checkPrivileges vc s user = (\<lambda>(entity, privileges, label).
     bnd (readCall (''checking privileges on '' @ label) (auth_hasPrivileges vc s entity user privileges)) (\<lambda>results.
     case results of
       [] \<Rightarrow> fail (Errorf (''no privilege results returned for '' @ label))
     | availability # _ \<Rightarrow>
         (let lacking = missingPrivileges availability privileges in
          if lacking \<noteq> [] then fail (Errorf (''user '' @ quote user @ '' is missing '' @ join '', '' lacking @ '' on '' @ label))
          else ret ())))"

definition validateTargetPrivileges ::
  "'w vsphereClient \<Rightarrow> vSession \<Rightarrow> vsObj \<Rightarrow> vsObj \<Rightarrow> (('w, 'z) exec_scheme, error, unit) op" where
  "validateTargetPrivileges vc s dc cluster =
     bnd (readCall ''getting current vSphere user session'' (vim_userSession vc s)) (\<lambda>us.
     case us of
       None \<Rightarrow> fail (Errorf ''current vSphere user session not found'')
     | Some user \<Rightarrow>
         bnd (dcVMFolder vc s dc) (\<lambda>vmFolder.
         forM (checkPrivileges vc s user) (privilegeChecks vc s vmFolder dc cluster)))"

text \<open>\<open>fmt.Errorf("target <what> %q on %s not found: %w")\<close>.\<close>

definition findTarget ::
  "failureDomain \<Rightarrow> string \<Rightarrow> string \<Rightarrow> ('w, vsObj) apiCall \<Rightarrow> (('w, 'z) exec_scheme, error, vsObj) op" where
  "findTarget fd what nm c = readCall (''target '' @ what @ '' '' @ quote nm @ '' on '' @ fd_server fd @ '' not found'') c"

definition findOptional ::
  "failureDomain \<Rightarrow> string \<Rightarrow> string \<Rightarrow> ('w, vsObj) apiCall \<Rightarrow> (('w, 'z) exec_scheme, error, unit) op" where
  "findOptional fd what nm c = (if nm \<noteq> [] then bnd (findTarget fd what nm c) (\<lambda>_. ret ()) else ret ())"

definition validateTopology ::
  "'w vsphereClient \<Rightarrow> vSession \<Rightarrow> failureDomain \<Rightarrow> (('w, 'z) exec_scheme, error, unit) op" where
  "validateTopology vc s fd =
     (let tp = fd_topology fd in
      bnd (findTarget fd ''datacenter'' (datacenter tp) (find_datacenter vc s (datacenter tp))) (\<lambda>dc.
      bnd (findTarget fd ''cluster'' (computeCluster tp) (find_cluster vc s (computeCluster tp))) (\<lambda>cluster.
      bnd (findTarget fd ''datastore'' (datastore tp) (find_datastore vc s (datastore tp))) (\<lambda>_.
      bnd (forM (\<lambda>nm. bnd (findTarget fd ''network'' nm (find_network vc s nm)) (\<lambda>_. ret ())) (networks tp)) (\<lambda>_.
      bnd (findOptional fd ''resource pool'' (resourcePool tp) (find_resourcePool vc s (resourcePool tp))) (\<lambda>_.
      bnd (findOptional fd ''folder'' (folder tp) (find_folder vc s (folder tp))) (\<lambda>_.
      bnd (findTarget fd ''template'' (template tp) (find_vm vc s (template tp))) (\<lambda>_.
      wrapErr (''validating target privileges for failure domain '' @ quote (fd_name fd))
        (validateTargetPrivileges vc s dc cluster)))))))))"

definition validateFailureDomain ::
  "('w, 'b) reconciler_scheme \<Rightarrow> failureDomain \<Rightarrow> string \<times> string \<Rightarrow> ('w, unit) handler" where
  "validateFailureDomain r fd = (\<lambda>(user, pass).
     bnd (wrapErr (''connecting to target vCenter '' @ fd_server fd)
            (getVSphereSession r (fd_server fd) (datacenter (fd_topology fd)) user pass)) (\<lambda>s.
     validateTopology (r_vsphere r) s fd))"

definition validateTarget ::
  "('w, 'b) reconciler_scheme \<Rightarrow> migration \<Rightarrow> credsByServer \<Rightarrow> failureDomain \<Rightarrow> ('w, credsByServer) handler" where
  "validateTarget r m known fd =
     bnd (setProgressing r ConditionInfrastructurePrepared (''Validating target failure domain '' @ quote (fd_name fd))) (\<lambda>_.
     bnd (targetCredentials r m known (fd_server fd)) (\<lambda>(creds, known').
     bnd (validateFailureDomain r fd creds) (\<lambda>_.
     ret known')))"

definition validateSourceVCenter :: "('w, 'b) reconciler_scheme \<Rightarrow> vcenterSpec \<Rightarrow> ('w, unit) handler" where
  "validateSourceVCenter r sourceVC =
     bnd (wrapErr ''getting source vCenter credentials'' (GetCredentials (r_kube r) (vc_server sourceVC))) (\<lambda>(user, pass).
     case vc_datacenters sourceVC of
       [] \<Rightarrow> fail (Errorf ''source vCenter has no datacenters configured'')
     | [dc] \<Rightarrow>
         bnd (wrapErr (''connecting to source vCenter '' @ vc_server sourceVC)
                (getVSphereSession r (vc_server sourceVC) dc user pass)) (\<lambda>s.
         bnd (readCall (''source datacenter '' @ quote dc @ '' not accessible'') (find_datacenter (r_vsphere r) s dc)) (\<lambda>_.
         ret ()))
     | dcs \<Rightarrow> fail (Errorf (''source vCenter must have exactly one datacenter configured, found '' @ itoa (length dcs))))"

definition validatePreflightVSphere :: "('w, 'b) reconciler_scheme \<Rightarrow> migration \<Rightarrow> ('w, unit) handler" where
  "validatePreflightVSphere r m =
     bnd (wrapErr ''getting source vCenter'' (GetSourceVCenter (r_config r))) (\<lambda>sourceVC.
     bnd (validateSourceVCenter r sourceVC) (\<lambda>_.
     bnd (foldM (validateTarget r m) [] (spec_failureDomains (spec m))) (\<lambda>_.
     ret ())))"

section \<open>All checks\<close>

text \<open>\<open>defer\<close>: the clean-up runs however the operation ends, and its own outcome is dropped.\<close>

definition deferred :: "('s, 'e, 'a) op \<Rightarrow> ('s, 'e, 'b) op \<Rightarrow> ('s, 'e, 'a) op" where
  "deferred m cleanup = attempt m (\<lambda>res. attempt cleanup (\<lambda>_. liftE res))"

text \<open>The checks of the spec alone.\<close>

definition validateSpec :: "migration \<Rightarrow> error + unit" where
  "validateSpec m =
     (let fds = spec_failureDomains (spec m) in
      if fds = [] then Inl (Errorf ''spec.failureDomains must not be empty'')
      else bindE (validateUniqueFailureDomainNames fds) (\<lambda>_.
        bindE (fdTemplateMissing fds) (\<lambda>_.
        bindE (validateFailureDomainTypes fds) (\<lambda>_.
        bindE (validateFailureDomainServers fds) (\<lambda>_.
        if secret_name (targetCredentialsSecret (spec m)) = []
        then Inl (Errorf ''spec.targetVCenterCredentialsSecret.name must not be empty'') else Inr ())))))"

definition requireSecret :: "('w, 'b) reconciler_scheme \<Rightarrow> migration \<Rightarrow> ('w, unit) handler" where
  "requireSecret r m =
     (let ref = targetCredentialsSecret (spec m);
          ns = (if secret_namespace ref = [] then namespace m else secret_namespace ref) in
      bnd (readCall (''target credentials secret '' @ ns @ ''/'' @ secret_name ref @ '' not found'')
             (secrets_get (r_kube r) ns (secret_name ref))) (\<lambda>_.
      ret ()))"

definition checkCluster :: "('w, 'b) reconciler_scheme \<Rightarrow> ('w, string) handler" where
  "checkCluster r =
     bnd (checkClusterReadiness r) (\<lambda>_.
     bnd (checkOperatorHealth r) (\<lambda>_.
     bnd (checkNoVSphereCSIPersistentVolumes (r_kube r)) (\<lambda>_.
     bnd (checkVSphereStorageManagement (r_dynamic r)) (\<lambda>storageWarning.
     bnd (checkInterferingRolloutResources (r_dynamic r)) (\<lambda>_.
     ret storageWarning)))))"

text \<open>The part during which sessions are open, and the recording of the mapping at its end.\<close>

definition checkVSphere ::
  "'w rstate ctx \<Rightarrow> ('w, 'b) reconciler_scheme \<Rightarrow> migration \<Rightarrow> fdMapping list \<Rightarrow> ('w, unit) handler" where
  "checkVSphere ctx r m mappings =
     bnd (validatePreflightVSphere r m) (\<lambda>_.
     bnd (wrapErr ''getting source vCenter'' (GetSourceVCenter (r_config r))) (\<lambda>sourceVC.
     bnd (checkNetworkingViaProbeVMs ctx r m sourceVC) (\<lambda>_.
     modifyStatus (status_mappings_update (\<lambda>_. mappings)))))"

definition preflightMessage :: "string \<Rightarrow> string" where
  "preflightMessage storageWarning =
     ''Preflight validation passed'' @ (if storageWarning \<noteq> [] then ''; warning: '' @ storageWarning else [])"

definition runPreflightChecks :: "'w rstate ctx \<Rightarrow> ('w, 'b) reconciler_scheme \<Rightarrow> ('w, string) handler" where
  "runPreflightChecks ctx r =
     bnd (gets mig) (\<lambda>m.
     bnd (liftE (validateSpec m)) (\<lambda>_.
     bnd (requireSecret r m) (\<lambda>_.
     bnd (validateMigrationFailureDomains r m) (\<lambda>mappings.
     bnd (validatePreflightSourceCoverage r mappings) (\<lambda>_.
     bnd (checkCluster r) (\<lambda>storageWarning.
     bnd (deferred (checkVSphere ctx r m mappings) (ClearSessions r)) (\<lambda>_.
     ret (preflightMessage storageWarning))))))))"

definition ensureInfrastructurePrepared :: "'w rstate ctx \<Rightarrow> ('w, 'b) reconciler_scheme \<Rightarrow> ('w, result) handler" where
  "ensureInfrastructurePrepared ctx r =
     bnd (setProgressing r ConditionInfrastructurePrepared ''Validating preflight checks'') (\<lambda>_.
     bnd (runPreflightChecks ctx r) (\<lambda>message.
     bnd (setCondition r ConditionInfrastructurePrepared ConditionTrue ReasonCompleted message) (\<lambda>_.
     bnd (Eventf EventNormal ''InfrastructurePrepared'' ''Preflight validation passed'') (\<lambda>_.
     ret 0))))"

section \<open>Guarding\<close>

lemma keeps_preflight_reads [keeps_rules]:
  "keeps (safe k A) (checkCollisions r infraID sourceFDs destFDs msList acc mp)"
  "keeps (safe k A) (countSources r sourceFDs n mp)"
  "keeps (safe k A) (checkClusterReadiness r)"
  "keeps (safe k A) (checkOperatorHealth r)"
  "keeps (safe k A) (checkNoVSphereCSIPersistentVolumes kc)"
  "keeps (safe k A) (getManagementState dc gvr nm)"
  "keeps (safe k A) (listDynamicResourceNames dc gvr)"
  "keeps (safe k A) (dcVMFolder vc s d)"
  "keeps (safe k A) (checkPrivileges vc s user check)"
  "keeps (safe k A) (findTarget fd what nm c)"
  "keeps (safe k A) (findOptional fd what nm c)"
  "keeps (safe k A) (requireSecret r m)"
  unfolding checkCollisions_def countSources_def checkClusterReadiness_def checkOperatorHealth_def
    checkNoVSphereCSIPersistentVolumes_def getManagementState_def listDynamicResourceNames_def dcVMFolder_def
    checkPrivileges_def findTarget_def findOptional_def requireSecret_def Let_def split_def
  by (intro keeps_rules; simp)+

lemma keeps_preflight_checks [keeps_rules]:
  "keeps (safe k A) (validateMachineSetNameCollisions r infraID mappings sourceFDs destFDs)"
  "keeps (safe k A) (validateDestinationMachineSetCount r mappings sourceFDs)"
  "keeps (safe k A) (checkVSphereStorageManagement dc)"
  "keeps (safe k A) (checkInterferingRolloutResources dc)"
  "keeps (safe k A) (validateTargetPrivileges vc s d cluster)"
  "keeps (safe k A) (validatePreflightSourceCoverage r mappings)"
  "keeps (safe k A) (validateSourceVCenter r sourceVC)"
  unfolding validateMachineSetNameCollisions_def validateDestinationMachineSetCount_def checkVSphereStorageManagement_def
    checkInterferingRolloutResources_def validateTargetPrivileges_def validatePreflightSourceCoverage_def
    validateSourceVCenter_def Let_def split_def
  by (intro keeps_rules)+

lemma keeps_preflight_groups [keeps_rules]:
  "keeps (safe k A) (validateMigrationFailureDomains r m)"
  "keeps (safe k A) (checkCluster r)"
  "keeps (safe k A) (validatePreflightVSphere r m)"
  unfolding validateMigrationFailureDomains_def checkCluster_def validatePreflightVSphere_def validateTarget_def
    validateFailureDomain_def validateTopology_def Let_def split_def
  by (intro keeps_rules)+

lemma keeps_deferred [keeps_rules]: "keeps P m \<Longrightarrow> keeps P c \<Longrightarrow> keeps P (deferred m c)"
  unfolding deferred_def by (intro keeps_rules)

context handler_ctx
begin

lemma keeps_runPreflightChecks:
  assumes "\<And>x. probeStep (r_vsphere r) x \<Longrightarrow> A x" and "range_order (r_iter r)"
  shows "keeps (safe m A) (runPreflightChecks ctx r)"
  unfolding runPreflightChecks_def checkVSphere_def by (intro keeps_rules keeps_checkNetworking assms)

lemma keeps_ensureInfrastructurePrepared:
  assumes "\<And>x. probeStep (r_vsphere r) x \<Longrightarrow> A x" and "range_order (r_iter r)"
  shows "keeps (safe m A) (ensureInfrastructurePrepared ctx r)"
  unfolding ensureInfrastructurePrepared_def by (intro keeps_rules keeps_runPreflightChecks assms)

end

section \<open>The checks change conditions only\<close>

context frame
begin

lemma frame_cache [keeps_rules]:
  "keeps P (cacheInsert k v)" "keeps P (cacheDelete k)" "keeps P (waitTicks vc)"
  by (auto simp: keeps_def cache tick cacheInsert_def cacheDelete_def waitTicks_def split: prod.splits)

lemma frame_reads [keeps_rules]:
  "keeps P (infra_Get cc)"
  "keeps P (GetSourceVCenter cc)"
  "keeps P (GetInfrastructureID cc)"
  "keeps P (GetCredentials kc server)"
  "keeps P (getTargetCredentials kc m server)"
  "keeps P (GetMachineSetsByVCenter mm server)"
  "keeps P (GetMachineSetsByFailureDomain mm server fdp)"
  "keeps P (getVSphereSession r p q u v)"
  "keeps P (ClearSessions r)"
  unfolding infra_Get_def GetSourceVCenter_def GetInfrastructureID_def GetCredentials_def getTargetCredentials_def
    GetVCenterCredsFromSecret_def GetMachineSetsByVCenter_def GetMachineSetsByFailureDomain_def getVSphereSession_def
    GetOrCreate_def NewSession_def ClearSessions_def clearSession_def session_Close_def ListMachineSets_def Let_def split_def
  by (intro keeps_rules)+

lemma frame_probe_reads [keeps_rules]:
  "keeps P (isProbeVM vc s vm)"
  "keeps P (probeFolder vc s ps)"
  "keeps P (probeResourcePool vc s ps)"
  "keeps P (singleNICDeviceChange vc s tmpl net)"
  "keeps P (readGuestNetworks vc s vm)"
  "keeps P (GetVMNetworks vc s nm)"
  unfolding isProbeVM_def probeFolder_def probeResourcePool_def singleNICDeviceChange_def readGuestNetworks_def
    GetVMNetworks_def Let_def
  by (intro keeps_rules; simp)+

lemma frame_wait [keeps_rules]: "keeps P (WaitForGuestNetworks vc s vm)"
proof -
  have "keeps P (pollGuest vc s vm n)" for n
    by (induction n) (auto simp: pollOnce_def intro!: keeps_rules)
  then show ?thesis unfolding WaitForGuestNetworks_def by (intro keeps_rules)
qed

lemma frame_probes [keeps_rules]:
  "keeps P (DestroyProbeVM (executionContext ctx cl k) vc s vm)"
  "keeps P (vsphereDo (executionContext ctx cl k) vc s t x)"
  unfolding DestroyProbeVM_def vsphereDo_def Let_def by (intro keeps_rules)+

lemma frame_create [keeps_rules]:
  "keeps P (ReapProbeVMs (executionContext ctx cl k) vc s pre)"
  "keeps P (CreateProbeVM (executionContext ctx cl k) vc iter s ps)"
  unfolding ReapProbeVMs_def reapVM_def CreateProbeVM_def cloneProbe_def cleanupFailedClone_def
  by (intro keeps_rules)+

lemma frame_network [keeps_rules]:
  "keeps P (targetCredentials r m known server)"
  "keeps P (checkNetworkingViaProbeVMs (executionContext ctx cl k) r m sourceVC)"
  unfolding checkNetworkingViaProbeVMs_def checkFDNetworking_def probeFD_def observeProbe_def sourceNetworks_def
    collectSourceNetworks_def nodeNetworks_def targetCredentials_def reportMismatches_def Let_def split_def
  by (intro keeps_rules)+

lemma frame_cluster [keeps_rules]:
  "keeps P (checkCluster r)"
  "keeps P (validatePreflightSourceCoverage r mappings)"
  "keeps P (requireSecret r m)"
  unfolding checkCluster_def checkClusterReadiness_def checkOperatorHealth_def checkNoVSphereCSIPersistentVolumes_def
    checkVSphereStorageManagement_def getManagementState_def checkInterferingRolloutResources_def listDynamicResourceNames_def
    GetVSphereMultiVCenterSupport_def CheckAllOperatorsHealthy_def validatePreflightSourceCoverage_def requireSecret_def
    Let_def split_def
  by (intro keeps_rules)+

lemma frame_mapping [keeps_rules]: "keeps P (validateMigrationFailureDomains r m)"
  unfolding validateMigrationFailureDomains_def validateMachineSetNameCollisions_def checkCollisions_def
    validateDestinationMachineSetCount_def countSources_def Let_def
  by (intro keeps_rules)

lemma frame_vsphere [keeps_rules]: "keeps P (validatePreflightVSphere r m)"
  unfolding validatePreflightVSphere_def validateSourceVCenter_def validateTarget_def validateFailureDomain_def
    validateTopology_def findTarget_def findOptional_def validateTargetPrivileges_def dcVMFolder_def checkPrivileges_def
    Let_def split_def
  by (intro keeps_rules)

end

section \<open>Names accepted by preflight\<close>

definition apart :: "string \<Rightarrow> string \<Rightarrow> bool" where
  "apart a b \<longleftrightarrow> \<not> inFamily a b \<and> \<not> inFamily b a"

abbreviation destinationBase :: "string \<Rightarrow> fdMapping \<Rightarrow> string" where
  "destinationBase infraID mp \<equiv> workerMachineSetName infraID (map_destination mp) []"

lemma find_name: "findFailureDomainByName fds nm = Some fd \<Longrightarrow> fd_name fd = nm"
  by (auto simp: findFailureDomainByName_def find_Some_iff)

lemma checkCollisions_Inr:
  assumes "checkCollisions r infraID sourceFDs destFDs msList acc mp s = (Inr acc', s')"
  shows "fst acc' = fst acc @ [destinationBase infraID mp] \<and> (\<forall>b \<in> set (fst acc). apart b (destinationBase infraID mp)) \<and>
    (\<forall>ms \<in> set msList. \<not> inFamily (ms_name ms) (destinationBase infraID mp))"
  using assms
  by (auto simp: checkCollisions_def Let_def bnd_Inr apart_def inFamily_def find_None_iff dest!: find_name split: option.splits)

lemma collisions_loop:
  assumes "foldM (checkCollisions r infraID sourceFDs destFDs msList) acc mappings s = (Inr acc', s')"
    and "sorted_wrt apart (fst acc)"
  shows "sorted_wrt apart (fst acc @ map (destinationBase infraID) mappings) \<and>
    (\<forall>mp \<in> set mappings. \<forall>ms \<in> set msList. \<not> inFamily (ms_name ms) (destinationBase infraID mp))"
  using assms
proof (induction mappings arbitrary: acc s)
  case (Cons mp mappings)
  then obtain acc1 t where one: "checkCollisions r infraID sourceFDs destFDs msList acc mp s = (Inr acc1, t)"
    and rest: "foldM (checkCollisions r infraID sourceFDs destFDs msList) acc1 mappings t = (Inr acc', s')"
    by (auto simp: bnd_Inr)
  note c = checkCollisions_Inr [OF one]
  have "sorted_wrt apart (fst acc1)" using c Cons.prems(2) by (auto simp: sorted_wrt_append)
  from Cons.IH [OF rest this] c show ?case by auto
qed simp

text \<open>The families of all destinations of a mapping are apart and no machine set listed is in one.\<close>

definition names_free :: "string \<Rightarrow> fdMapping list \<Rightarrow> machineSet list \<Rightarrow> bool" where
  "names_free infraID mappings msList \<longleftrightarrow> sorted_wrt apart (map (destinationBase infraID) mappings) \<and>
     (\<forall>mp \<in> set mappings. \<forall>ms \<in> set msList. \<not> inFamily (ms_name ms) (destinationBase infraID mp))"

lemma collisions_free:
  assumes "validateMachineSetNameCollisions r infraID mappings sourceFDs destFDs s = (Inr (), s')"
  shows "\<exists>msList w w'. machineSets_list (r_machine r) w = (Inr msList, w') \<and> names_free infraID mappings msList"
proof -
  from assms obtain msList w w' t acc u where "machineSets_list (r_machine r) w = (Inr msList, w')"
    and loop: "foldM (checkCollisions r infraID sourceFDs destFDs msList) ([], []) mappings t = (Inr acc, u)"
    by (auto simp: validateMachineSetNameCollisions_def bnd_Inr readCall_Inr)
  moreover have "names_free infraID mappings msList"
    using collisions_loop [OF loop] by (simp add: names_free_def)
  ultimately show ?thesis by blast
qed

section \<open>What a passed preflight shows\<close>

text \<open>The reads on which a passed preflight rests, each at its own point of the run.\<close>

definition cluster_passed :: "('w, 'b) reconciler_scheme \<Rightarrow> bool" where
  "cluster_passed r \<longleftrightarrow>
     (\<exists>cv fgs w w1 w2 w3. clusterVersions_get (r_config r) ''version'' w = (Inr cv, w1) \<and> \<not> isClusterVersionProgressing cv \<and>
        featureGates_get (r_config r) ''cluster'' w2 = (Inr fgs, w3) \<and>
        isFeatureGateEnabledForVersion fgs (trimSpace (desiredVersion cv)) featureGateVSphereMultiVCenterDay2 = Inr True) \<and>
     (\<exists>ops w w'. clusterOperators_list (r_config r) w = (Inr ops, w') \<and>
        (\<forall>co \<in> set ops. co_name co \<notin> ExcludedOperators \<longrightarrow> isOperatorHealthy co)) \<and>
     (\<exists>pvs w w'. persistentVolumes_list (r_kube r) w = (Inr pvs, w') \<and> csiVolumes pvs = []) \<and>
     (\<exists>w w'. dyn_managementState (r_dynamic r) ''clustercsidrivers'' vsphereCSIDriverName w = (Inr (Inr (Some managementStateRemoved)), w'))"

definition mapping_passed :: "('w, 'b) reconciler_scheme \<Rightarrow> migration \<Rightarrow> fdMapping list \<Rightarrow> bool" where
  "mapping_passed r m mappings \<longleftrightarrow> (\<exists>infra msList w w1 w2 w3.
     infrastructures_get (r_config r) InfrastructureName w = (Inr infra, w1) \<and>
     validateSourceVCenterCount infra = Inr () \<and> validateSourceFDTopologyDisjoint (fdsOf infra) = Inr () \<and>
     resolveFailureDomainMappings (spec_mappings (spec m)) (fdsOf infra) (spec_failureDomains (spec m)) = Inr mappings \<and>
     machineSets_list (r_machine r) w2 = (Inr msList, w3) \<and> names_free (infrastructureName infra) mappings msList)"

definition coverage_passed :: "('w, 'b) reconciler_scheme \<Rightarrow> fdMapping list \<Rightarrow> bool" where
  "coverage_passed r mappings \<longleftrightarrow> (\<exists>server infra msList w w1 (s :: 'w rstate) s'.
     infrastructures_get (r_config r) InfrastructureName w = (Inr infra, w1) \<and>
     GetMachineSetsByVCenter (machineMgr r) server s = (Inr msList, s') \<and>
     validateSourceMachineSetMappingCoverage msList mappings (filter (\<lambda>fd. fd_server fd = server) (fdsOf infra)) = Inr ())"

lemma nestedState_Inr: "nestedState v = Inr st \<Longrightarrow> v = Inr (Some st)"
  by (auto simp: nestedState_def split: sum.splits option.splits if_splits)

lemma readiness_passed:
  assumes "checkClusterReadiness r s = (Inr (), s')"
  shows "\<exists>cv fgs w w1 w2 w3. clusterVersions_get (r_config r) ''version'' w = (Inr cv, w1) \<and> \<not> isClusterVersionProgressing cv \<and>
        featureGates_get (r_config r) ''cluster'' w2 = (Inr fgs, w3) \<and>
        isFeatureGateEnabledForVersion fgs (trimSpace (desiredVersion cv)) featureGateVSphereMultiVCenterDay2 = Inr True"
proof -
  from assms obtain support t where "GetVSphereMultiVCenterSupport (r_config r) s = (Inr support, t)"
    "mv_featureGateEnabled support" "\<not> mv_upgradeInProgress support"
    by (auto simp: checkClusterReadiness_def bnd_Inr split: if_splits)
  then obtain cv fgs w w1 w2 w3 where "clusterVersions_get (r_config r) ''version'' w = (Inr cv, w1)"
    "\<not> isClusterVersionProgressing cv" "featureGates_get (r_config r) ''cluster'' w2 = (Inr fgs, w3)"
    "isFeatureGateEnabledForVersion fgs (trimSpace (desiredVersion cv)) featureGateVSphereMultiVCenterDay2 = Inr True"
    by (auto simp: GetVSphereMultiVCenterSupport_def Let_def bnd_Inr readCall_Inr split: if_splits)
  then show ?thesis by blast
qed

lemma operators_passed:
  assumes "checkOperatorHealth r s = (Inr (), s')"
  shows "\<exists>ops w w'. clusterOperators_list (r_config r) w = (Inr ops, w') \<and>
    (\<forall>co \<in> set ops. co_name co \<notin> ExcludedOperators \<longrightarrow> isOperatorHealthy co)"
  using assms
  by (auto simp: checkOperatorHealth_def CheckAllOperatorsHealthy_def Let_def bnd_Inr readCall_Inr filter_empty_conv
      split: if_splits)

lemma storage_passed:
  assumes "checkVSphereStorageManagement dc s = (Inr warning, s')"
  shows "\<exists>w w'. dyn_managementState dc ''clustercsidrivers'' vsphereCSIDriverName w = (Inr (Inr (Some managementStateRemoved)), w')"
proof -
  from assms obtain t where "getManagementState dc ''clustercsidrivers'' vsphereCSIDriverName s = (Inr managementStateRemoved, t)"
    by (auto simp: checkVSphereStorageManagement_def bnd_Inr split: if_splits)
  then show ?thesis
    by (auto simp: getManagementState_def bnd_Inr request_Inr dest!: nestedState_Inr)
qed

lemma checkCluster_passed:
  assumes "checkCluster r s = (Inr warning, s')"
  shows "cluster_passed r"
proof -
  from assms obtain s1 s2 s3 s4 s5 where steps: "checkClusterReadiness r s = (Inr (), s1)" "checkOperatorHealth r s1 = (Inr (), s2)"
    "checkNoVSphereCSIPersistentVolumes (r_kube r) s2 = (Inr (), s3)"
    "checkVSphereStorageManagement (r_dynamic r) s3 = (Inr warning, s4)"
    by (auto simp: checkCluster_def bnd_Inr)
  have "\<exists>pvs w w'. persistentVolumes_list (r_kube r) w = (Inr pvs, w') \<and> csiVolumes pvs = []"
    using steps(3) by (auto simp: checkNoVSphereCSIPersistentVolumes_def bnd_Inr readCall_Inr split: if_splits)
  then show ?thesis
    unfolding cluster_passed_def
    using readiness_passed [OF steps(1)] operators_passed [OF steps(2)] storage_passed [OF steps(4)] by blast
qed

lemma mapping_check_passed:
  assumes "validateMigrationFailureDomains r m s = (Inr mappings, s')"
  shows "mapping_passed r m mappings"
proof -
  from assms obtain infra t u v where "infra_Get (r_config r) s = (Inr infra, t)"
    and "validateSourceVCenterCount infra = Inr ()" "validateSourceFDTopologyDisjoint (fdsOf infra) = Inr ()"
      "resolveFailureDomainMappings (spec_mappings (spec m)) (fdsOf infra) (spec_failureDomains (spec m)) = Inr mappings"
    and "validateMachineSetNameCollisions r (infrastructureName infra) mappings (fdsOf infra) (spec_failureDomains (spec m)) u = (Inr (), v)"
    by (auto simp: validateMigrationFailureDomains_def bnd_Inr split: if_splits)
  then show ?thesis
    unfolding mapping_passed_def infra_Get_def readCall_Inr using collisions_free by blast
qed

lemma coverage_check_passed:
  assumes "validatePreflightSourceCoverage r mappings s = (Inr (), s')"
  shows "coverage_passed r mappings"
proof -
  from assms obtain sourceVC :: vcenterSpec and infra msList t u where "infra_Get (r_config r) t = (Inr infra, u)"
    "GetMachineSetsByVCenter (machineMgr r) (vc_server sourceVC) u = (Inr msList, s')"
    "validateSourceMachineSetMappingCoverage msList mappings (filter (\<lambda>fd. fd_server fd = vc_server sourceVC) (fdsOf infra)) = Inr ()"
    by (auto simp: validatePreflightSourceCoverage_def bnd_Inr)
  then show ?thesis unfolding coverage_passed_def infra_Get_def readCall_Inr by blast
qed

lemma deferred_run:
  assumes "deferred m c s = (res, s')"
  shows "\<exists>t. m s = (res, t) \<and> s' = snd (c t)"
  using assms by (auto simp: deferred_def attempt_app split: prod.splits)

text \<open>The last part: on failure nothing is recorded, on success exactly the mapping.\<close>

lemma checkVSphere_run:
  assumes run: "checkVSphere (executionContext ctx cl k) r m mappings s = (res, s')" and "unaltered b s"
  shows "case res of Inl e \<Rightarrow> unaltered b s'
    | Inr _ \<Rightarrow> unaltered (b\<lparr>status := (status b)\<lparr>status_mappings := mappings\<rparr>\<rparr>) s' \<and>
        (\<exists>sourceVC t u. checkNetworkingViaProbeVMs (executionContext ctx cl k) r m sourceVC t = (Inr (), u))"
proof -
  let ?keep = "modifyStatus (status_mappings_update (\<lambda>_. mappings))"
  have pre: "hoare (unaltered b) (validatePreflightVSphere r m) (\<lambda>_. unaltered b) (\<lambda>_. unaltered b)"
    "hoare (unaltered b) (wrapErr w (GetSourceVCenter (r_config r))) (\<lambda>_. unaltered b) (\<lambda>_. unaltered b)" for w
    by (intro keeps_hoare keeps_rules)+
  let ?passed = "\<exists>sourceVC t u. checkNetworkingViaProbeVMs (executionContext ctx cl k) r m sourceVC t = (Inr (), u)"
  have net: "hoare (unaltered b) (checkNetworkingViaProbeVMs (executionContext ctx cl k) r m sourceVC)
      (\<lambda>_ s. unaltered b s \<and> ?passed) (\<lambda>_. unaltered b)" for sourceVC
    by (rule hoareI) (auto intro: keepsD [OF un.frame_network(2)])
  have rec: "hoare (\<lambda>s. unaltered b s \<and> ?passed) ?keep
      (\<lambda>_ s. unaltered (b\<lparr>status := (status b)\<lparr>status_mappings := mappings\<rparr>\<rparr>) s \<and> ?passed) (\<lambda>_. unaltered b)"
    by (rule hoareI) (auto simp: modifyStatus_def unaltered_def bare_def)
  have "hoare (unaltered b) (checkVSphere (executionContext ctx cl k) r m mappings)
      (\<lambda>_ s. unaltered (b\<lparr>status := (status b)\<lparr>status_mappings := mappings\<rparr>\<rparr>) s \<and> ?passed) (\<lambda>_. unaltered b)"
    unfolding checkVSphere_def
    by (rule hoare_bnd [OF pre(1) hoare_bnd [OF pre(2) hoare_bnd [OF net rec]]])
  with assms show ?thesis by (cases res) (auto dest: hoareD hoareD_err)
qed

text \<open>A read-only step adds what its success shows.\<close>

lemma unaltered_step:
  assumes "keeps (unaltered b) m" and "\<And>s x s'. m s = (Inr x, s') \<Longrightarrow> G x"
    and "\<And>x. G x \<Longrightarrow> hoare (unaltered b) (f x) Q (\<lambda>_. unaltered b)"
  shows "hoare (unaltered b) (bnd m f) Q (\<lambda>_. unaltered b)"
proof (rule hoare_bnd [where R = "\<lambda>x s. unaltered b s \<and> G x"])
  show "hoare (unaltered b) m (\<lambda>x s. unaltered b s \<and> G x) (\<lambda>_. unaltered b)"
    using assms(1,2) by (auto intro!: hoareI dest: keepsD)
  show "hoare (\<lambda>s. unaltered b s \<and> G x) (f x) Q (\<lambda>_. unaltered b)" for x
    using assms(3) [of x] by (auto simp: hoare_def)
qed

abbreviation with_mappings :: "migration \<Rightarrow> fdMapping list \<Rightarrow> migration" where
  "with_mappings b mappings \<equiv> b\<lparr>status := (status b)\<lparr>status_mappings := mappings\<rparr>\<rparr>"

lemma vsphere_phase:
  assumes "range_order (r_iter r)"
  shows "hoare (unaltered b) (deferred (checkVSphere (executionContext ctx cl k) r m mappings) (ClearSessions r))
    (\<lambda>_ s. unaltered (with_mappings b mappings) s \<and> sessionCache s = [] \<and>
       (\<exists>infraID sources. sources \<noteq> [] \<and> (\<forall>fd \<in> set (spec_failureDomains (spec m)). probed r infraID sources fd)))
    (\<lambda>_. unaltered b)"
proof (rule hoare_runI)
  fix s res s'
  assume pre: "unaltered b s"
    and "deferred (checkVSphere (executionContext ctx cl k) r m mappings) (ClearSessions r) s = (res, s')"
  then obtain t where run: "checkVSphere (executionContext ctx cl k) r m mappings s = (res, t)"
    and s': "s' = snd (ClearSessions r t)" by (auto dest: deferred_run)
  have clear: "unaltered c t \<Longrightarrow> unaltered c s'" for c unfolding s' by (rule keeps_snd [OF un.frame_reads(9)])
  have empty: "sessionCache s' = []" using ClearSessions_empties [OF assms, of t] by (auto simp: s')
  show "case res of Inl e \<Rightarrow> unaltered b s' | Inr _ \<Rightarrow> unaltered (with_mappings b mappings) s' \<and> sessionCache s' = [] \<and>
      (\<exists>infraID sources. sources \<noteq> [] \<and> (\<forall>fd \<in> set (spec_failureDomains (spec m)). probed r infraID sources fd))"
    using checkVSphere_run [OF run, of b] pre clear empty network_check_passed by (cases res) (auto, blast)
qed

lemma runPreflightChecks_run:
  assumes "range_order (r_iter r)" and "runPreflightChecks (executionContext ctx cl k) r s = (res, s')"
  shows "case res of Inl e \<Rightarrow> unaltered (bare (mig s)) s'
    | Inr _ \<Rightarrow> (\<exists>mappings. unaltered (with_mappings (bare (mig s)) mappings) s' \<and> sessionCache s' = [] \<and>
        validateSpec (mig s) = Inr () \<and> mapping_passed r (mig s) mappings \<and> coverage_passed r mappings \<and> cluster_passed r \<and>
        (\<exists>infraID sources. sources \<noteq> [] \<and> (\<forall>fd \<in> set (spec_failureDomains (spec (mig s))). probed r infraID sources fd)))"
proof -
  let ?m = "mig s" and ?b = "bare (mig s)"
  let ?net = "\<exists>infraID sources. sources \<noteq> [] \<and> (\<forall>fd \<in> set (spec_failureDomains (spec ?m)). probed r infraID sources fd)"
  let ?Q = "\<lambda>_ s. \<exists>mappings. unaltered (with_mappings ?b mappings) s \<and> sessionCache s = [] \<and>
       validateSpec ?m = Inr () \<and> mapping_passed r ?m mappings \<and> coverage_passed r mappings \<and> cluster_passed r \<and> ?net"
  let ?rest = "\<lambda>mappings. bnd (validatePreflightSourceCoverage r mappings) (\<lambda>_. bnd (checkCluster r) (\<lambda>storageWarning.
     bnd (deferred (checkVSphere (executionContext ctx cl k) r ?m mappings) (ClearSessions r)) (\<lambda>_.
     ret (preflightMessage storageWarning))))"
  have rest: "hoare (unaltered ?b) (?rest mappings) ?Q (\<lambda>_. unaltered ?b)"
    if "validateSpec ?m = Inr ()" "mapping_passed r ?m mappings" for mappings
  proof (rule unaltered_step [where G = "\<lambda>_. coverage_passed r mappings"])
    assume cov: "coverage_passed r mappings"
    show "hoare (unaltered ?b) (bnd (checkCluster r) (\<lambda>storageWarning.
       bnd (deferred (checkVSphere (executionContext ctx cl k) r ?m mappings) (ClearSessions r)) (\<lambda>_.
       ret (preflightMessage storageWarning)))) ?Q (\<lambda>_. unaltered ?b)"
      by (rule unaltered_step [where G = "\<lambda>_. cluster_passed r"], intro keeps_rules, erule checkCluster_passed,
          rule hoare_bnd [OF vsphere_phase [OF assms(1)]], rule hoare_ret) (use that cov in blast)
  qed (auto intro: keeps_rules coverage_check_passed)
  have "hoare (unaltered ?b)
    (bnd (liftE (validateSpec ?m)) (\<lambda>_. bnd (requireSecret r ?m) (\<lambda>_. bnd (validateMigrationFailureDomains r ?m) ?rest)))
    ?Q (\<lambda>_. unaltered ?b)"
    by (rule unaltered_step [where G = "\<lambda>_. validateSpec ?m = Inr ()"], intro keeps_rules, simp,
        rule unaltered_step [where G = "\<lambda>_. True"], intro keeps_rules, simp,
        rule unaltered_step [where G = "mapping_passed r ?m"], intro keeps_rules, erule mapping_check_passed, erule rest)
  from hoareD [OF this unaltered_refl] hoareD_err [OF this unaltered_refl] assms(2) show ?thesis
    by (cases res) (simp_all add: runPreflightChecks_def)
qed


text \<open>The cluster of the networking preflight's witness passes all checks.\<close>

lemma net_clear: "steady netMigration (ClearSessions netReconciler) (\<lambda>_. True)"
proof -
  have del: "steady netMigration (cacheDelete key) (\<lambda>_. True)" for key
    by (rule steadyI) (simp add: cacheDelete_def)
  have "steady netMigration (clearSession netVSphere key) (\<lambda>_. True)" for key
  proof -
    have close: "steady netMigration (bnd (session_Close netVSphere v) (\<lambda>_. cacheDelete key)) (\<lambda>_. True)" for v
      unfolding session_Close_def by (rule steady_rules refl del | simp add: net_answers)+
    show ?thesis
      unfolding clearSession_def
      by (rule steady_bnd [OF steady_gets [where P = "\<lambda>_. True"]]) (auto intro: steady_ret close split: option.split)
  qed
  then show ?thesis
    unfolding ClearSessions_def forM_def net_fields
    by - (rule steady_bnd [OF steady_gets [where P = "\<lambda>_. True"]], simp, rule steady_foldM, simp_all)
qed

definition netMapping :: fdMapping where
  "netMapping = \<lparr>map_source = ''e'', map_destination = ''d''\<rparr>"

lemma net_sets [steady_rules]:
  "server \<noteq> [] \<Longrightarrow> P [] \<Longrightarrow> steady netMigration (GetMachineSetsByVCenter (machineMgr netReconciler) server) P"
  "server \<noteq> [] \<Longrightarrow> P [] \<Longrightarrow> steady netMigration (GetMachineSetsByFailureDomain (machineMgr netReconciler) server (Some fd)) P"
  unfolding GetMachineSetsByVCenter_def GetMachineSetsByFailureDomain_def
  by (simp, (rule steady_rules refl | simp add: machineMgr_def NewMachineManager_def net_fields sampleMachineClient_def)+)+

lemma net_platform: "vsphere netInfra = Some \<lparr>vcenters = [netSource], infra_failureDomains = [netFD\<lparr>fd_name := ''e'', fd_server := ''a''\<rparr>]\<rparr>"
  by (simp add: netInfra_def)

lemma net_infra [steady_rules]:
  "P netInfra \<Longrightarrow> steady netMigration (infra_Get netConfig) P"
  "Q netSource \<Longrightarrow> steady netMigration (GetSourceVCenter netConfig) Q"
  unfolding GetSourceVCenter_def infra_Get_def
  by (rule steady_rules refl | simp add: net_answers net_platform)+

lemma net_pure:
  "validateSpec netMigration = Inr ()"
  "validateSourceVCenterCount netInfra = Inr ()"
  "fdsOf netInfra = [netFD\<lparr>fd_name := ''e'', fd_server := ''a''\<rparr>]"
  "validateFailureDomainTypes [netFD\<lparr>fd_name := ''e'', fd_server := ''a''\<rparr>] = Inr ()"
  "spec_failureDomains (spec netMigration) = [netFD]" "spec_mappings (spec netMigration) = []"
  "claimName (workerMachineSetName ''i'' ''d'' []) [] 0 = Inr [workerMachineSetName ''i'' ''d'' []]"
  by code_simp+

lemma net_names:
  "findFailureDomainByName [netFD] ''d'' = Some netFD"
  "findFailureDomainByName [netFD\<lparr>fd_name := ''e'', fd_server := ''a''\<rparr>] ''e'' = Some (netFD\<lparr>fd_name := ''e'', fd_server := ''a''\<rparr>)"
  "fd_name netFD = ''d''" "fd_server netFD = ''b''"
  by (simp_all add: findFailureDomainByName_def netFD_def)

lemma net_collisions: "steady netMigration
  (validateMachineSetNameCollisions netReconciler ''i'' [netMapping] [netFD\<lparr>fd_name := ''e'', fd_server := ''a''\<rparr>] [netFD]) (\<lambda>x. x = ())"
  unfolding validateMachineSetNameCollisions_def checkCollisions_def Let_def
  by (rule steady_rules refl | simp add: netMapping_def net_names net_fields sampleMachineClient_def net_pure)+

lemma net_count: "steady netMigration
  (validateDestinationMachineSetCount netReconciler [netMapping] [netFD\<lparr>fd_name := ''e'', fd_server := ''a''\<rparr>]) (\<lambda>x. x = ())"
  unfolding validateDestinationMachineSetCount_def countSources_def
  by (rule steady_rules refl | simp add: netMapping_def net_names)+

lemma net_mapping: "steady netMigration (validateMigrationFailureDomains netReconciler netMigration) (\<lambda>x. x = [netMapping])"
  unfolding validateMigrationFailureDomains_def net_fields
  by (rule steady_rules refl net_collisions net_count | simp add: net_pure net_platform net_id resolveFailureDomainMappings_def
      netMapping_def [symmetric] net_names)+

lemma net_coverage: "steady netMigration (validatePreflightSourceCoverage netReconciler [netMapping]) (\<lambda>x. x = ())"
  unfolding validatePreflightSourceCoverage_def net_fields
  by (rule steady_rules refl | simp add: netSource_def validateSourceMachineSetMappingCoverage_def forEachRunningSourceMachineSet_def)+

lemma net_secret: "steady netMigration (requireSecret netReconciler netMigration) (\<lambda>x. x = ())"
  unfolding requireSecret_def Let_def net_fields
  by (rule steady_rules refl | simp add: netKube_def)+

lemma net_trim: "trimSpace ''5'' = ''5''"
  by code_simp

lemma net_cluster: "steady netMigration (checkCluster netReconciler) (\<lambda>x. x = [])"
  unfolding checkCluster_def checkClusterReadiness_def checkOperatorHealth_def checkNoVSphereCSIPersistentVolumes_def
    checkVSphereStorageManagement_def getManagementState_def checkInterferingRolloutResources_def listDynamicResourceNames_def
    GetVSphereMultiVCenterSupport_def CheckAllOperatorsHealthy_def Let_def net_fields
  by (rule steady_rules refl | simp add: net_answers net_fields net_trim isClusterVersionProgressing_def sampleClient_def csiVolumes_def
      sampleDynamicClient_def nestedState_def managementStateRemoved_def blockersOf_def)+

lemma net_target: "steady netMigration (validateTopology netVSphere v netFD) (\<lambda>x. x = ())"
  unfolding validateTopology_def findTarget_def findOptional_def validateTargetPrivileges_def dcVMFolder_def
    privilegeChecks_def checkPrivileges_def Let_def
  by (rule steady_rules refl | simp add: net_answers netFD_def rootTagPrivileges_def objectAttachPrivileges_def
      vmFolderPrivileges_def missingPrivileges_def)+

lemma net_vsphere: "steady netMigration (validatePreflightVSphere netReconciler netMigration) (\<lambda>x. x = ())"
proof -
  have target: "steady netMigration (validateFailureDomain netReconciler netFD (''u'', ''u'')) (\<lambda>x. x = ())"
    unfolding validateFailureDomain_def net_fields split
    by (rule steady_bnd [OF steady_wrapErr [OF net_session] net_target])
  have source: "steady netMigration (validateSourceVCenter netReconciler netSource) (\<lambda>x. x = ())"
    unfolding validateSourceVCenter_def net_fields netSource_def [THEN arg_cong, of vc_datacenters, simplified]
    by (rule steady_bnd_eq, rule steady_wrapErr, rule net_creds, rule refl, simp,
        rule steady_bnd [OF steady_wrapErr [OF net_session]])
      (rule steady_rules refl | simp add: net_answers)+
  have "steady netMigration (validateTarget netReconciler netMigration [] netFD) (\<lambda>_. True)"
    unfolding validateTarget_def targetCredentials_def net_fields
    by (rule steady_rules refl target | simp add: net_fields sampleClient_def)+
  then show ?thesis
    unfolding validatePreflightVSphere_def net_fields net_pure
    by - (rule steady_bnd_eq, rule steady_wrapErr, rule net_infra, rule refl, rule steady_bnd_eq [OF source],
      rule steady_bnd [where Q = "\<lambda>_. True"], simp, rule steady_bnd, assumption, (rule steady_ret, simp)+)
qed

lemma net_checkVSphere: "steady netMigration (deferred (checkVSphere netCtx netReconciler netMigration mappings) (ClearSessions netReconciler)) (\<lambda>_. True)"
proof -
  have "steady netMigration (checkVSphere netCtx netReconciler netMigration mappings) (\<lambda>_. True)"
    unfolding checkVSphere_def net_fields
    by (rule steady_bnd_eq [OF net_vsphere], rule steady_bnd_eq, rule steady_wrapErr, rule net_infra, rule refl, rule steady_bnd [OF net_passes],
        rule steady_modifyStatus, simp)
  then show ?thesis
    unfolding deferred_def by (rule steady_attempt) (rule steady_attempt [OF net_clear], rule steady_liftE, simp_all)
qed

lemma net_preflight:
  "\<exists>msg s'. runPreflightChecks netCtx netReconciler (sampleState netMigration netMigration) = (Inr msg, s')"
proof -
  have "steady netMigration (bnd (liftE (validateSpec netMigration)) (\<lambda>_. bnd (requireSecret netReconciler netMigration) (\<lambda>_.
     bnd (validateMigrationFailureDomains netReconciler netMigration) (\<lambda>mappings.
     bnd (validatePreflightSourceCoverage netReconciler mappings) (\<lambda>_. bnd (checkCluster netReconciler) (\<lambda>storageWarning.
     bnd (deferred (checkVSphere netCtx netReconciler netMigration mappings) (ClearSessions netReconciler)) (\<lambda>_.
     ret (preflightMessage storageWarning)))))))) (\<lambda>_. True)"
    by (rule steady_bnd_eq, rule steady_liftE, rule net_pure, rule refl, rule steady_bnd_eq [OF net_secret],
        rule steady_bnd_eq [OF net_mapping], rule steady_bnd_eq [OF net_coverage], rule steady_bnd_eq [OF net_cluster],
        rule steady_bnd [OF net_checkVSphere], rule steady_ret, simp)
  from steadyD [OF this, of "sampleState netMigration netMigration"] show ?thesis
    by (auto simp: runPreflightChecks_def sampleState_def)
qed


end
