(* ===== verification/Tags.thy ===== *)
theory Tags
  imports Probe
begin

text \<open>
  vSphere tags and folders, \<open>internal/vsphere/tags.go\<close> and \<open>internal/vsphere/folder.go\<close>.
  The checks that a session or an object is not nil have no counterpart: the callers pass
  objects they have just found. Each creation is preceded by the permission check.
\<close>

section \<open>Categories\<close>

definition TagCategoryRegion :: string where
  "TagCategoryRegion = ''openshift-region''"

definition TagCategoryZone :: string where
  "TagCategoryZone = ''openshift-zone''"

definition TagCategoryRegionDescription :: string where
  "TagCategoryRegionDescription = ''OpenShift region for failure domain topology''"

definition TagCategoryZoneDescription :: string where
  "TagCategoryZoneDescription = ''OpenShift zone for failure domain topology''"

definition ClusterOwnershipDescription :: string where
  "ClusterOwnershipDescription = ''Added by openshift-install do not remove''"

definition tagCategoryAssociableTypes :: "string list" where
  "tagCategoryAssociableTypes = [''Datacenter'', ''ClusterComputeResource'', ''Datastore'', ''Folder'']"

definition requiredTagCategoryAssociableTypes :: "string list" where
  "requiredTagCategoryAssociableTypes = [''Datacenter'', ''ClusterComputeResource'']"

definition clusterOwnershipAssociableTypes :: "string list" where
  "clusterOwnershipAssociableTypes = [''urn:vim25:VirtualMachine'', ''urn:vim25:ResourcePool'', ''urn:vim25:Folder'',
     ''urn:vim25:Datastore'', ''urn:vim25:StoragePod'']"

definition requiredClusterOwnershipAssociableTypes :: "string list" where
  "requiredClusterOwnershipAssociableTypes = [''urn:vim25:VirtualMachine'', ''urn:vim25:Folder'']"

definition ClusterOwnershipCategoryName :: "string \<Rightarrow> string" where
  "ClusterOwnershipCategoryName infraID = ''openshift-'' @ infraID"

text \<open>\<open>strings.Contains\<close>.\<close>

fun containsText :: "string \<Rightarrow> string \<Rightarrow> bool" where
  "containsText sub [] = (sub = [])"
| "containsText sub (c # cs) = (prefix sub (c # cs) \<or> containsText sub cs)"

definition isAlreadyExists :: "error \<Rightarrow> bool" where
  "isAlreadyExists e = containsText ''already_exists'' (error_text e)"

definition normalizeAssociableType :: "string \<Rightarrow> string" where
  "normalizeAssociableType t = trimPrefix t ''urn:vim25:''"

definition missingAssociableTypes :: "string list \<Rightarrow> string list \<Rightarrow> string list" where
  "missingAssociableTypes existing required =
     filter (\<lambda>t. normalizeAssociableType t \<notin> set (map normalizeAssociableType existing)) required"

definition incompatibilities :: "tagCategory \<Rightarrow> string \<Rightarrow> string list \<Rightarrow> string list" where
  "incompatibilities category cardinality requiredTypes =
     (if cat_cardinality category \<noteq> cardinality
      then [''cardinality '' @ quote (cat_cardinality category) @ '' does not match required '' @ quote cardinality] else []) @
     (let lacking = missingAssociableTypes (cat_associableTypes category) requiredTypes in
      if lacking \<noteq> [] then [''missing required associable types '' @ join '', '' lacking] else [])"

definition validateExistingCategory :: "tagCategory \<Rightarrow> string \<Rightarrow> string \<Rightarrow> string list \<Rightarrow> error + unit" where
  "validateExistingCategory category nm cardinality requiredTypes =
     (let bad = incompatibilities category cardinality requiredTypes in
      if bad = [] then Inr ()
      else Inl (Errorf (''existing tag category '' @ quote nm @ '' is incompatible: '' @ join ''; '' bad @
             ''; update the category in the vSphere UI or delete it and let the operator recreate it'')))"

section \<open>Looking up tags\<close>

definition attachedInCategory ::
  "'w vsphereClient \<Rightarrow> vSession \<Rightarrow> string \<Rightarrow> tagCategory \<Rightarrow> vsObj \<Rightarrow> (('w, 'z) exec_scheme, error, bool) op" where
  "attachedInCategory vc s categoryName category v =
     bnd (readCall (''listing tags for category '' @ quote categoryName) (tags_listForCategory vc s (cat_id category))) (\<lambda>ids.
     if ids = [] then ret False
     else
       bnd (readCall (''listing attached tags on '' @ vs_ref v) (tags_listAttached vc s (vs_ref v))) (\<lambda>attached.
       ret (list_ex (\<lambda>t. t \<in> set ids) attached)))"

definition ObjectHasTagInCategory ::
  "'w vsphereClient \<Rightarrow> vSession \<Rightarrow> string \<Rightarrow> vsObj \<Rightarrow> (('w, 'z) exec_scheme, error, bool) op" where
  "ObjectHasTagInCategory vc s categoryName v =
     attempt (request ReadCall (tags_getCategory vc s categoryName)) (\<lambda>res.
     case res of
       Inl e \<Rightarrow> if IsNotFound e then ret False else fail (Wrapf (''getting tag category '' @ quote categoryName) e)
     | Inr None \<Rightarrow> ret False
     | Inr (Some category) \<Rightarrow>
         if cat_id category = [] then ret False else attachedInCategory vc s categoryName category v)"

section \<open>Creating categories and tags\<close>

text \<open>A change that fails with its own error, which the caller inspects.\<close>

definition vsphereTry ::
  "('w, 'z) exec_scheme ctx \<Rightarrow> 'w vsphereClient \<Rightarrow> vSession \<Rightarrow> vsphere_call \<Rightarrow>
   (error + string \<Rightarrow> (('w, 'z) exec_scheme, error, 'a) op) \<Rightarrow> (('w, 'z) exec_scheme, error, 'a) op" where
  "vsphereTry ctx vc s x k =
     bnd (Check ctx) (\<lambda>_. attempt (request (MutateCall (VSphereCall s x)) (vsphere_do vc s x)) k)"

definition createCategory ::
  "('w, 'z) exec_scheme ctx \<Rightarrow> 'w vsphereClient \<Rightarrow> vSession \<Rightarrow> tagCategory \<Rightarrow> string list \<Rightarrow> (('w, 'z) exec_scheme, error, string) op" where
  "createCategory ctx vc s cat requiredTypes =
     vsphereTry ctx vc s (CreateCategory cat) (\<lambda>res.
     case res of
       Inr i \<Rightarrow> ret i
     | Inl e \<Rightarrow>
         if isAlreadyExists e then
           bnd (readCall (''creating tag category '' @ quote (cat_name cat) @ '' (already exists but get failed)'')
                  (tags_getCategory vc s (cat_name cat))) (\<lambda>found.
           case found of
             None \<Rightarrow> fail nilDereference
           | Some existing \<Rightarrow>
               bnd (liftE (validateExistingCategory existing (cat_name cat) (cat_cardinality cat) requiredTypes)) (\<lambda>_.
               ret (cat_id existing)))
         else fail (Wrapf (''creating tag category '' @ quote (cat_name cat)) e))"

text \<open>An error of the first lookup counts as absence.\<close>

definition ensureTagCategory ::
  "('w, 'z) exec_scheme ctx \<Rightarrow> 'w vsphereClient \<Rightarrow> vSession \<Rightarrow> string \<Rightarrow> string \<Rightarrow> string \<Rightarrow> string list \<Rightarrow> string list \<Rightarrow>
   (('w, 'z) exec_scheme, error, string) op" where
  "ensureTagCategory ctx vc s nm description cardinality types requiredTypes =
     attempt (request ReadCall (tags_getCategory vc s nm)) (\<lambda>res.
     let create = createCategory ctx vc s \<lparr>cat_id = [], cat_name = nm, cat_description = description,
           cat_cardinality = cardinality, cat_associableTypes = types\<rparr> requiredTypes in
     case res of
       Inr (Some existing) \<Rightarrow>
         if cat_id existing = [] then create
         else bnd (liftE (validateExistingCategory existing nm cardinality requiredTypes)) (\<lambda>_. ret (cat_id existing))
     | _ \<Rightarrow> create)"

definition EnsureTagCategory ::
  "('w, 'z) exec_scheme ctx \<Rightarrow> 'w vsphereClient \<Rightarrow> vSession \<Rightarrow> string \<Rightarrow> string \<Rightarrow> string \<Rightarrow> (('w, 'z) exec_scheme, error, string) op" where
  "EnsureTagCategory ctx vc s nm description cardinality =
     ensureTagCategory ctx vc s nm description cardinality tagCategoryAssociableTypes requiredTagCategoryAssociableTypes"

definition createTag :: "('w, 'z) exec_scheme ctx \<Rightarrow> 'w vsphereClient \<Rightarrow> vSession \<Rightarrow> tagObj \<Rightarrow> (('w, 'z) exec_scheme, error, string) op" where
  "createTag ctx vc s tag =
     vsphereTry ctx vc s (CreateTag tag) (\<lambda>res.
     case res of
       Inr i \<Rightarrow> ret i
     | Inl e \<Rightarrow>
         if isAlreadyExists e then
           bnd (readCall (''creating tag '' @ quote (tag_name tag) @ '' (already exists but get failed)'')
                  (tags_getTag vc s (tag_name tag) (tag_categoryID tag))) (\<lambda>found.
           case found of None \<Rightarrow> fail nilDereference | Some existing \<Rightarrow> ret (tag_id existing))
         else fail (Wrapf (''creating tag '' @ quote (tag_name tag) @ '' in category '' @ tag_categoryID tag) e))"

definition EnsureTag ::
  "('w, 'z) exec_scheme ctx \<Rightarrow> 'w vsphereClient \<Rightarrow> vSession \<Rightarrow> string \<Rightarrow> string \<Rightarrow> string \<Rightarrow> (('w, 'z) exec_scheme, error, string) op" where
  "EnsureTag ctx vc s categoryID nm description =
     attempt (request ReadCall (tags_getTag vc s nm categoryID)) (\<lambda>res.
     let create = createTag ctx vc s \<lparr>tag_id = [], tag_name = nm, tag_description = description, tag_categoryID = categoryID\<rparr> in
     case res of
       Inr (Some existing) \<Rightarrow> if tag_id existing = [] then create else ret (tag_id existing)
     | _ \<Rightarrow> create)"

definition AttachTag ::
  "('w, 'z) exec_scheme ctx \<Rightarrow> 'w vsphereClient \<Rightarrow> vSession \<Rightarrow> string \<Rightarrow> vsObj \<Rightarrow> (('w, 'z) exec_scheme, error, bool) op" where
  "AttachTag ctx vc s tagID v =
     (if tagID = [] then ret False
      else vsphereTry ctx vc s (AttachTagCall tagID (vs_ref v)) (\<lambda>res.
        case res of
          Inr _ \<Rightarrow> ret True
        | Inl e \<Rightarrow> if isAlreadyExists e then ret False
                   else fail (Wrapf (''attaching tag '' @ tagID @ '' to '' @ vs_ref v) e)))"

definition EnsureClusterOwnershipTag ::
  "('w, 'z) exec_scheme ctx \<Rightarrow> 'w vsphereClient \<Rightarrow> vSession \<Rightarrow> string \<Rightarrow> (('w, 'z) exec_scheme, error, string) op" where
  "EnsureClusterOwnershipTag ctx vc s infraID =
     (if infraID = [] then fail (Errorf ''infraID must not be empty'')
      else
        bnd (wrapErr ''creating cluster ownership tag category''
               (ensureTagCategory ctx vc s (ClusterOwnershipCategoryName infraID) ClusterOwnershipDescription ''SINGLE''
                  clusterOwnershipAssociableTypes requiredClusterOwnershipAssociableTypes)) (\<lambda>catID.
        wrapErr ''creating cluster ownership tag'' (EnsureTag ctx vc s catID infraID ClusterOwnershipDescription)))"

definition AttachClusterOwnershipTag ::
  "('w, 'z) exec_scheme ctx \<Rightarrow> 'w vsphereClient \<Rightarrow> vSession \<Rightarrow> string \<Rightarrow> vsObj \<Rightarrow> (('w, 'z) exec_scheme, error, unit) op" where
  "AttachClusterOwnershipTag ctx vc s tagID fol =
     bnd (wrapErr (''attaching cluster ownership tag to folder '' @ vs_ref fol) (AttachTag ctx vc s tagID fol)) (\<lambda>_. ret ())"

definition CreateRegionAndZoneTags ::
  "('w, 'z) exec_scheme ctx \<Rightarrow> 'w vsphereClient \<Rightarrow> vSession \<Rightarrow> string \<Rightarrow> string \<Rightarrow> (('w, 'z) exec_scheme, error, string \<times> string) op" where
  "CreateRegionAndZoneTags ctx vc s region zone =
     bnd (wrapErr ''creating region tag category''
            (EnsureTagCategory ctx vc s TagCategoryRegion TagCategoryRegionDescription ''SINGLE'')) (\<lambda>regionCat.
     bnd (wrapErr ''creating zone tag category''
            (EnsureTagCategory ctx vc s TagCategoryZone TagCategoryZoneDescription ''SINGLE'')) (\<lambda>zoneCat.
     bnd (wrapErr ''creating region tag'' (EnsureTag ctx vc s regionCat region (''OpenShift region '' @ region))) (\<lambda>regionTag.
     bnd (wrapErr ''creating zone tag'' (EnsureTag ctx vc s zoneCat zone (''OpenShift zone '' @ zone))) (\<lambda>zoneTag.
     ret (regionTag, zoneTag)))))"

definition AttachFailureDomainTags ::
  "('w, 'z) exec_scheme ctx \<Rightarrow> 'w vsphereClient \<Rightarrow> vSession \<Rightarrow> string \<Rightarrow> string \<Rightarrow> vsObj \<Rightarrow> vsObj \<Rightarrow> (('w, 'z) exec_scheme, error, unit) op" where
  "AttachFailureDomainTags ctx vc s regionTagID zoneTagID dc cluster =
     bnd (if regionTagID \<noteq> [] then
            bnd (wrapErr (''attaching region tag to datacenter '' @ vs_ref dc) (AttachTag ctx vc s regionTagID dc)) (\<lambda>_. ret ())
          else ret ()) (\<lambda>_.
     if zoneTagID \<noteq> [] then
       bnd (wrapErr (''attaching zone tag to cluster '' @ vs_ref cluster) (AttachTag ctx vc s zoneTagID cluster)) (\<lambda>_. ret ())
     else ret ())"

section \<open>Folders\<close>

definition parseFolderName :: "string \<Rightarrow> string \<Rightarrow> string" where
  "parseFolderName dc path =
     (let p = trimSpace path in
      if p = [] then []
      else case cutPrefix p (''/'' @ dc @ ''/vm/'') of
        Some rest \<Rightarrow> rest
      | None \<Rightarrow> (case cutPrefix p (dc @ ''/vm/'') of
          Some rest \<Rightarrow> rest
        | None \<Rightarrow> trimPrefix p ''/''))"

definition GetVMFolder :: "'w vsphereClient \<Rightarrow> vSession \<Rightarrow> string \<Rightarrow> (('w, 'z) exec_scheme, error, vsObj) op" where
  "GetVMFolder vc s folderPath =
     (let searchPath = ''/'' @ sess_datacenter s @ ''/vm/'' @ parseFolderName (sess_datacenter s) folderPath in
      readCall (''finding folder '' @ quote searchPath) (find_folder vc s searchPath))"

definition createPart ::
  "('w, 'z) exec_scheme ctx \<Rightarrow> 'w vsphereClient \<Rightarrow> vSession \<Rightarrow> vsObj \<Rightarrow> string \<Rightarrow> (('w, 'z) exec_scheme, error, vsObj) op" where
  "createPart ctx vc s parent part =
     (if part = [] then ret parent
      else bnd (vsphereDo ctx vc s (''creating folder '' @ quote part) (CreateFolder parent part)) (\<lambda>ref.
        ret \<lparr>vs_ref = ref, vs_path = []\<rparr>))"

definition CreateVMFolder ::
  "('w, 'z) exec_scheme ctx \<Rightarrow> 'w vsphereClient \<Rightarrow> vSession \<Rightarrow> string \<Rightarrow> (('w, 'z) exec_scheme, error, vsObj) op" where
  "CreateVMFolder ctx vc s folderPath =
     (let folderName = parseFolderName (sess_datacenter s) folderPath in
      bnd (readCall (''finding datacenter '' @ quote (sess_datacenter s)) (find_datacenter vc s (sess_datacenter s))) (\<lambda>dc.
      bnd (readCall ''getting datacenter folders'' (dc_vmFolder vc s dc)) (\<lambda>f.
      case f of
        None \<Rightarrow> fail (Errorf (''datacenter '' @ quote (sess_datacenter s) @ '' has no VM folder''))
      | Some vmFolder \<Rightarrow>
          bnd (foldM (createPart ctx vc s) vmFolder (splitOn CHR ''/'' [] folderName)) (\<lambda>_.
          wrapErr (''looking up created folder '' @ quote folderName) (GetVMFolder vc s folderName)))))"

definition DeleteVMFolder ::
  "('w, 'z) exec_scheme ctx \<Rightarrow> 'w vsphereClient \<Rightarrow> vSession \<Rightarrow> vsObj \<Rightarrow> (('w, 'z) exec_scheme, error, unit) op" where
  "DeleteVMFolder ctx vc s fol =
     bnd (vsphereDo ctx vc s (''destroying folder '' @ vs_path fol) (DestroyFolder fol)) (\<lambda>task.
     bnd (readCall (''waiting for folder destroy '' @ vs_path fol) (task_result vc s task)) (\<lambda>_.
     ret ()))"

section \<open>Guarding\<close>

lemma keeps_tag_reads [keeps_rules]:
  "keeps (safe m A) (attachedInCategory vc s nm category v)"
  "keeps (safe m A) (ObjectHasTagInCategory vc s nm v)"
  "keeps (safe m A) (GetVMFolder vc s path)"
  unfolding attachedInCategory_def ObjectHasTagInCategory_def GetVMFolder_def Let_def
  by (intro keeps_rules; simp)+

context guarded_ctx
begin

lemma keeps_vsphereTry:
  "A (VSphereCall s x) \<Longrightarrow> (\<And>r. keeps (safe m A) (k r)) \<Longrightarrow> keeps (safe m A) (vsphereTry ctx vc s x k)"
  unfolding vsphereTry_def by (rule keeps_checked_attempt)

lemma keeps_ensureTagCategory:
  assumes "A (VSphereCall s (CreateCategory \<lparr>cat_id = [], cat_name = nm, cat_description = description,
     cat_cardinality = cardinality, cat_associableTypes = types\<rparr>))"
  shows "keeps (safe m A) (ensureTagCategory ctx vc s nm description cardinality types required)"
  unfolding ensureTagCategory_def createCategory_def Let_def
  by (intro keeps_rules keeps_vsphereTry assms) simp

lemma keeps_EnsureTag:
  assumes "A (VSphereCall s (CreateTag \<lparr>tag_id = [], tag_name = nm, tag_description = description, tag_categoryID = cat\<rparr>))"
  shows "keeps (safe m A) (EnsureTag ctx vc s cat nm description)"
  unfolding EnsureTag_def createTag_def Let_def
  by (intro keeps_rules keeps_vsphereTry assms) simp

lemma keeps_AttachTag:
  assumes "tagID \<noteq> [] \<Longrightarrow> A (VSphereCall s (AttachTagCall tagID (vs_ref v)))"
  shows "keeps (safe m A) (AttachTag ctx vc s tagID v)"
proof (cases "tagID = []")
  case False
  with assms show ?thesis
    unfolding AttachTag_def by (simp, intro keeps_rules keeps_vsphereTry) simp
qed (simp add: AttachTag_def keeps_ret)

lemma keeps_CreateVMFolder:
  assumes "\<And>parent part. part \<in> set (splitOn CHR ''/'' [] (parseFolderName (sess_datacenter s) path)) \<Longrightarrow> part \<noteq> [] \<Longrightarrow>
     A (VSphereCall s (CreateFolder parent part))"
  shows "keeps (safe m A) (CreateVMFolder ctx vc s path)"
proof -
  have parts: "keeps (safe m A) (foldM (createPart ctx vc s) f (splitOn CHR ''/'' [] (parseFolderName (sess_datacenter s) path)))" for f
  proof (rule keeps_foldM_mem)
    fix parent part
    assume "part \<in> set (splitOn CHR ''/'' [] (parseFolderName (sess_datacenter s) path))"
    then show "keeps (safe m A) (createPart ctx vc s parent part)"
      using assms [of part parent] unfolding createPart_def
      by (cases "part = []") (auto intro!: keeps_rules keeps_vsphereDo)
  qed
  show ?thesis
    unfolding CreateVMFolder_def Let_def
    by (intro keeps_bnd keeps_readCall keeps_option keeps_fail keeps_wrapErr keeps_tag_reads parts)
qed

end

end
