(* ===== verification/Destination.thy ===== *)
theory Destination
  imports Tags NetCheck
begin

text \<open>
  Initialising the destination: \<open>ensureDestinationInitialized\<close> and
  \<open>ensureFolderAndOwnership\<close>
  (\<open>internal/controller/vmwarecloudfoundationmigration_controller.go\<close>). The two maps that avoid
  repeated work within one reconcile are lists of their keys; \<open>m\<close> is the migration of the
  reconcile, of which the spec and the namespace are read.
\<close>

section \<open>Definitions\<close>

record serverDC =
  sd_server :: string
  sd_datacenter :: string

record tagTarget =
  tt_server :: string
  tt_datacenter :: string
  tt_objectType :: string
  tt_objectName :: string
  tt_tagValue :: string

definition regionAttachmentKey :: "failureDomain \<Rightarrow> tagTarget" where
  "regionAttachmentKey fd = \<lparr>tt_server = fd_server fd, tt_datacenter = datacenter (fd_topology fd), tt_objectType = ''datacenter'',
     tt_objectName = datacenter (fd_topology fd), tt_tagValue = fd_region fd\<rparr>"

definition zoneAttachmentKey :: "failureDomain \<Rightarrow> tagTarget" where
  "zoneAttachmentKey fd = \<lparr>tt_server = fd_server fd, tt_datacenter = datacenter (fd_topology fd), tt_objectType = ''cluster'',
     tt_objectName = computeCluster (fd_topology fd), tt_tagValue = fd_zone fd\<rparr>"

definition msgAt :: "string \<Rightarrow> string \<Rightarrow> failureDomain \<Rightarrow> string" where
  "msgAt what infraID fd = what @ quote infraID @ '' on '' @ fd_server fd @ ''/'' @ datacenter (fd_topology fd)"

text \<open>Whether the folder is there and carries the ownership tag; a lookup error other than
  \<open>find.NotFoundError\<close> is reported.\<close>

definition folderConfigured ::
  "('w, 'b) reconciler_scheme \<Rightarrow> vSession \<Rightarrow> failureDomain \<Rightarrow> string \<Rightarrow> ('w, bool) handler" where
  "folderConfigured r s fd infraID =
     attempt (GetVMFolder (r_vsphere r) s infraID) (\<lambda>res.
     case res of
       Inl e \<Rightarrow> if \<not> IsNotFound e then fail (Wrapf (msgAt ''checking for existing VM folder '' infraID fd) e) else ret False
     | Inr existing \<Rightarrow>
         wrapErr (msgAt ''checking ownership tag on folder '' infraID fd)
           (ObjectHasTagInCategory (r_vsphere r) s (ClusterOwnershipCategoryName infraID) existing))"

text \<open>Creating the folder; when that fails it may already exist, and then the existing one is used.\<close>

definition createOrGetFolder ::
  "'w rstate ctx \<Rightarrow> ('w, 'b) reconciler_scheme \<Rightarrow> vSession \<Rightarrow> failureDomain \<Rightarrow> string \<Rightarrow> ('w, vsObj) handler" where
  "createOrGetFolder ctx r s fd infraID =
     attempt (CreateVMFolder ctx (r_vsphere r) s infraID) (\<lambda>res.
     case res of
       Inr fol \<Rightarrow> ret fol
     | Inl e \<Rightarrow>
         attempt (GetVMFolder (r_vsphere r) s infraID) (\<lambda>again.
         case again of
           Inl _ \<Rightarrow> fail (Wrapf (msgAt ''creating VM folder '' infraID fd) e)
         | Inr fol \<Rightarrow> ret fol))"

definition ensureFolderAndOwnership ::
  "'w rstate ctx \<Rightarrow> ('w, 'b) reconciler_scheme \<Rightarrow> vSession \<Rightarrow> failureDomain \<Rightarrow> string \<Rightarrow> serverDC \<Rightarrow> serverDC list \<Rightarrow> ('w, serverDC list) handler" where
  "ensureFolderAndOwnership ctx r s fd infraID key folderCreated =
     bnd (folderConfigured r s fd infraID) (\<lambda>done.
     if done then ret (append_new folderCreated key)
     else
       bnd (setProgressing r ConditionDestinationInitialized (msgAt ''Creating VM folder '' infraID fd)) (\<lambda>_.
       bnd (createOrGetFolder ctx r s fd infraID) (\<lambda>fol.
       bnd (setProgressing r ConditionDestinationInitialized
              (''Creating cluster ownership tag for '' @ quote infraID @ '' on '' @ fd_server fd)) (\<lambda>_.
       bnd (wrapErr (''ensuring cluster ownership tag for '' @ quote infraID @ '' on '' @ fd_server fd)
              (EnsureClusterOwnershipTag ctx (r_vsphere r) s infraID)) (\<lambda>tagID.
       bnd (wrapErr (msgAt ''attaching cluster ownership tag to folder '' infraID fd)
              (AttachClusterOwnershipTag ctx (r_vsphere r) s tagID fol)) (\<lambda>_.
       ret (append_new folderCreated key)))))))"

text \<open>Whether a tag is still needed: not handled in this reconcile and not on the object.\<close>

definition needsTag ::
  "('w, 'b) reconciler_scheme \<Rightarrow> vSession \<Rightarrow> string \<Rightarrow> string \<Rightarrow> vsObj \<Rightarrow> tagTarget \<Rightarrow> tagTarget list \<Rightarrow> ('w, bool) handler" where
  "needsTag r s t category v key tagAttached =
     (if key \<in> set tagAttached then ret False
      else bnd (wrapErr t (ObjectHasTagInCategory (r_vsphere r) s category v)) (\<lambda>has. ret (\<not> has)))"

definition ensureFDTag ::
  "'w rstate ctx \<Rightarrow> ('w, 'b) reconciler_scheme \<Rightarrow> vSession \<Rightarrow> failureDomain \<Rightarrow> string \<Rightarrow> string \<Rightarrow> string \<Rightarrow> string \<Rightarrow> bool \<Rightarrow> ('w, string) handler" where
  "ensureFDTag ctx r s fd kind category description tagValue need =
     (if \<not> need then ret []
      else
        bnd (wrapErr (''failed to create '' @ kind @ '' tag category for failure domain '' @ quote (fd_name fd))
               (EnsureTagCategory ctx (r_vsphere r) s category description ''SINGLE'')) (\<lambda>catID.
        wrapErr (''failed to create '' @ kind @ '' tag for failure domain '' @ quote (fd_name fd))
          (EnsureTag ctx (r_vsphere r) s catID tagValue (''OpenShift '' @ kind @ '' '' @ tagValue))))"

definition attachFDTags ::
  "'w rstate ctx \<Rightarrow> ('w, 'b) reconciler_scheme \<Rightarrow> vSession \<Rightarrow> failureDomain \<Rightarrow> vsObj \<Rightarrow> vsObj \<Rightarrow> bool \<Rightarrow> bool \<Rightarrow> ('w, unit) handler" where
  "attachFDTags ctx r s fd dc cluster needRegion needZone =
     bnd (setProgressing r ConditionDestinationInitialized (''Creating tags for failure domain '' @ quote (fd_name fd))) (\<lambda>_.
     bnd (ensureFDTag ctx r s fd ''region'' TagCategoryRegion TagCategoryRegionDescription (fd_region fd) needRegion) (\<lambda>regionTagID.
     bnd (ensureFDTag ctx r s fd ''zone'' TagCategoryZone TagCategoryZoneDescription (fd_zone fd) needZone) (\<lambda>zoneTagID.
     wrapErr (''attaching tags for failure domain '' @ quote (fd_name fd))
       (AttachFailureDomainTags ctx (r_vsphere r) s regionTagID zoneTagID dc cluster))))"

text \<open>The tags of one failure domain. Both kinds end up marked as handled, whether they were found
  or attached.\<close>

definition ensureFDTags ::
  "'w rstate ctx \<Rightarrow> ('w, 'b) reconciler_scheme \<Rightarrow> vSession \<Rightarrow> failureDomain \<Rightarrow> tagTarget list \<Rightarrow> ('w, tagTarget list) handler" where
  "ensureFDTags ctx r s fd tagAttached =
     (let tp = fd_topology fd in
      bnd (readCall (''finding datacenter '' @ quote (datacenter tp)) (find_datacenter (r_vsphere r) s (datacenter tp))) (\<lambda>dc.
      bnd (readCall (''finding cluster '' @ quote (computeCluster tp)) (find_cluster (r_vsphere r) s (computeCluster tp))) (\<lambda>cluster.
      bnd (needsTag r s (''checking region tags on datacenter '' @ quote (datacenter tp)) TagCategoryRegion dc
             (regionAttachmentKey fd) tagAttached) (\<lambda>needRegion.
      bnd (needsTag r s (''checking zone tags on cluster '' @ quote (computeCluster tp)) TagCategoryZone cluster
             (zoneAttachmentKey fd) tagAttached) (\<lambda>needZone.
      bnd (if \<not> needRegion \<and> \<not> needZone then ret () else attachFDTags ctx r s fd dc cluster needRegion needZone) (\<lambda>_.
      ret (append_new (append_new tagAttached (regionAttachmentKey fd)) (zoneAttachmentKey fd))))))))"

definition initializeFD ::
  "'w rstate ctx \<Rightarrow> ('w, 'b) reconciler_scheme \<Rightarrow> migration \<Rightarrow> string \<Rightarrow> serverDC list \<times> tagTarget list \<Rightarrow> failureDomain \<Rightarrow>
   ('w, serverDC list \<times> tagTarget list) handler" where
  "initializeFD ctx r m infraID = (\<lambda>(folderCreated, tagAttached) fd.
     let key = \<lparr>sd_server = fd_server fd, sd_datacenter = datacenter (fd_topology fd)\<rparr> in
     bnd (wrapErr (''getting credentials for '' @ fd_server fd) (getTargetCredentials (r_kube r) m (fd_server fd))) (\<lambda>(user, pass).
     bnd (wrapErr (''connecting to '' @ fd_server fd @ ''/'' @ datacenter (fd_topology fd))
            (getVSphereSession r (fd_server fd) (datacenter (fd_topology fd)) user pass)) (\<lambda>s.
     bnd (if key \<in> set folderCreated then ret folderCreated
          else ensureFolderAndOwnership ctx r s fd infraID key folderCreated) (\<lambda>folderCreated'.
     bnd (ensureFDTags ctx r s fd tagAttached) (\<lambda>tagAttached'.
     ret (folderCreated', tagAttached'))))))"

definition initializeDestination :: "'w rstate ctx \<Rightarrow> ('w, 'b) reconciler_scheme \<Rightarrow> migration \<Rightarrow> ('w, result) handler" where
  "initializeDestination ctx r m =
     bnd (setProgressing r ConditionDestinationInitialized ''Initializing destination vCenter'') (\<lambda>_.
     bnd (wrapErr ''getting infrastructure ID'' (GetInfrastructureID (r_config r))) (\<lambda>infraID.
     bnd (foldM (initializeFD ctx r m infraID) ([], []) (spec_failureDomains (spec m))) (\<lambda>_.
     bnd (setCondition r ConditionDestinationInitialized ConditionTrue ReasonCompleted
            ''Destination vCenter initialized with folders and tags'') (\<lambda>_.
     bnd (Eventf EventNormal ''DestinationInitialized'' ''VM folders and tags created on target vCenter'') (\<lambda>_.
     ret 0)))))"

definition ensureDestinationInitialized :: "'w rstate ctx \<Rightarrow> ('w, 'b) reconciler_scheme \<Rightarrow> ('w, result) handler" where
  "ensureDestinationInitialized ctx r = bnd (gets mig) (initializeDestination ctx r)"

section \<open>Guarding\<close>

text \<open>What the handler may create: folders that are parts of the cluster's folder path, the three tag
  categories, the tags of the cluster and of the failure domains' regions and zones; and it may
  attach tags. It destroys nothing.\<close>

definition destinationCategory :: "string \<Rightarrow> tagCategory \<Rightarrow> bool" where
  "destinationCategory infraID c \<longleftrightarrow> cat_cardinality c = ''SINGLE'' \<and>
     (cat_name c \<in> {TagCategoryRegion, TagCategoryZone} \<and> cat_associableTypes c = tagCategoryAssociableTypes \<or>
      cat_name c = ClusterOwnershipCategoryName infraID \<and> cat_associableTypes c = clusterOwnershipAssociableTypes)"

definition destinationStep :: "string \<Rightarrow> failureDomain list \<Rightarrow> mutation \<Rightarrow> bool" where
  "destinationStep infraID fds x = (case x of
      VSphereCall s (CreateFolder parent part) \<Rightarrow>
        part \<noteq> [] \<and> part \<in> set (splitOn CHR ''/'' [] (parseFolderName (sess_datacenter s) infraID))
    | VSphereCall s (CreateCategory c) \<Rightarrow> destinationCategory infraID c
    | VSphereCall s (CreateTag t) \<Rightarrow> tag_name t = infraID \<or> tag_name t \<in> fd_region ` set fds \<union> fd_zone ` set fds
    | VSphereCall s (AttachTagCall i ref) \<Rightarrow> i \<noteq> []
    | _ \<Rightarrow> False)"

lemma destinationStep_simps [simp]:
  "destinationStep infraID fds (VSphereCall s (CreateFolder parent part)) \<longleftrightarrow>
     part \<noteq> [] \<and> part \<in> set (splitOn CHR ''/'' [] (parseFolderName (sess_datacenter s) infraID))"
  "destinationStep infraID fds (VSphereCall s (CreateCategory c)) = destinationCategory infraID c"
  "destinationStep infraID fds (VSphereCall s (CreateTag t)) \<longleftrightarrow>
     tag_name t = infraID \<or> tag_name t \<in> fd_region ` set fds \<union> fd_zone ` set fds"
  "destinationStep infraID fds (VSphereCall s (AttachTagCall i ref)) \<longleftrightarrow> i \<noteq> []"
  by (simp_all add: destinationStep_def)

lemma keeps_destination_reads [keeps_rules]:
  "keeps (safe k A) (folderConfigured r s fd infraID)"
  "keeps (safe k A) (needsTag r s t category v key tagAttached)"
  unfolding folderConfigured_def needsTag_def by (intro keeps_rules)+

context handler_ctx
begin

lemma keeps_ownership:
  assumes "\<And>x. destinationStep infraID fds x \<Longrightarrow> A x"
  shows "keeps (safe m A) (ensureFolderAndOwnership ctx r s fd infraID key done)"
  unfolding ensureFolderAndOwnership_def createOrGetFolder_def EnsureClusterOwnershipTag_def AttachClusterOwnershipTag_def
  by (intro keeps_bnd keeps_if keeps_ret keeps_fail keeps_attempt keeps_sum keeps_wrapErr keeps_setCondition
      keeps_destination_reads keeps_tag_reads keeps_CreateVMFolder keeps_ensureTagCategory keeps_EnsureTag keeps_AttachTag assms)
    (simp_all add: destinationCategory_def)

lemma keeps_fdTags:
  assumes "\<And>x. destinationStep infraID fds x \<Longrightarrow> A x" and "fd \<in> set fds"
  shows "keeps (safe m A) (ensureFDTags ctx r s fd done)"
  unfolding ensureFDTags_def attachFDTags_def ensureFDTag_def AttachFailureDomainTags_def EnsureTagCategory_def Let_def
  by (intro keeps_bnd keeps_if keeps_ret keeps_wrapErr keeps_setCondition keeps_readCall
      keeps_destination_reads keeps_ensureTagCategory keeps_EnsureTag keeps_AttachTag assms)
    (use assms(2) in \<open>simp_all add: destinationCategory_def\<close>)

lemma keeps_initialize:
  assumes "\<And>x. destinationStep infraID fds x \<Longrightarrow> A x"
  shows "keeps (safe m A) (foldM (initializeFD ctx r mg infraID) acc fds)"
proof (rule keeps_foldM_mem)
  fix acc fd
  assume "fd \<in> set fds"
  with assms show "keeps (safe m A) (initializeFD ctx r mg infraID acc fd)"
    unfolding initializeFD_def Let_def split_def
    by (intro keeps_bnd keeps_if keeps_ret keeps_wrapErr keeps_creds keeps_getVSphereSession
        keeps_ownership keeps_fdTags) simp_all
qed

lemma keeps_initializeDestination:
  assumes "\<And>infraID x. destinationStep infraID (spec_failureDomains (spec mg)) x \<Longrightarrow> A x"
  shows "keeps (safe m A) (initializeDestination ctx r mg)"
  unfolding initializeDestination_def by (intro keeps_rules keeps_initialize assms)

end

section \<open>Initialising again\<close>

text \<open>A vCenter in which the cluster's folder exists and every object carries a tag \<open>t\<close> of every
  category.\<close>

definition configured :: "'w vsphereClient \<Rightarrow> string \<Rightarrow> bool" where
  "configured vc t \<longleftrightarrow> (\<forall>s w.
     (\<forall>p. \<exists>f w'. find_folder vc s p w = (Inr f, w')) \<and>
     (\<forall>nm. \<exists>c w'. tags_getCategory vc s nm w = (Inr (Some c), w') \<and> cat_id c \<noteq> []) \<and>
     (\<forall>i. \<exists>ids w'. tags_listForCategory vc s i w = (Inr ids, w') \<and> t \<in> set ids) \<and>
     (\<forall>ref. \<exists>ids w'. tags_listAttached vc s ref w = (Inr ids, w') \<and> t \<in> set ids))"

lemma configured_has_tag:
  assumes "configured vc t" and run: "ObjectHasTagInCategory vc s nm v st = (Inr x, st')"
  shows x
proof -
  obtain c w1 where "tags_getCategory vc s nm (world st) = (Inr (Some c), w1)" "cat_id c \<noteq> []"
    using assms(1) unfolding configured_def by blast
  with run obtain st1 where att: "attachedInCategory vc s nm c v st1 = (Inr x, st')"
    by (auto simp: ObjectHasTagInCategory_def attempt_app request_app apiResult_def)
  obtain ids w2 where "tags_listForCategory vc s (cat_id c) (world st1) = (Inr ids, w2)" and ids: "t \<in> set ids"
    using assms(1) unfolding configured_def by blast
  moreover obtain ids' w3 where "tags_listAttached vc s (vs_ref v) w2 = (Inr ids', w3)" and "t \<in> set ids'"
    using assms(1) unfolding configured_def by blast
  moreover have "ids \<noteq> []" using ids by auto
  ultimately show x using ids att by (auto simp: attachedInCategory_def bnd_Inr readCall_Inr list_ex_iff)
qed

lemma configured_folder:
  assumes "configured (r_vsphere r) t" and run: "folderConfigured r s fd infraID st = (Inr x, st')"
  shows x
proof -
  define p where "p = ''/'' @ sess_datacenter s @ ''/vm/'' @ parseFolderName (sess_datacenter s) infraID"
  obtain f w where "find_folder (r_vsphere r) s p (world st) = (Inr f, w)"
    using assms(1) unfolding configured_def by blast
  then have "GetVMFolder (r_vsphere r) s infraID st = (Inr f, st\<lparr>world := w, trace := ReadCall # trace st\<rparr>)"
    unfolding GetVMFolder_def Let_def p_def [symmetric] readCall_Inr by blast
  with run show x
    by (simp add: folderConfigured_def attempt_app) (erule configured_has_tag [OF assms(1)])
qed

lemma quiet_destination_reads:
  "keeps quiet (ObjectHasTagInCategory vc s category v)"
  "keeps quiet (GetVMFolder vc s p)"
  "keeps quiet (folderConfigured r s fd infraID)"
  "keeps quiet (needsTag r s tx category v key tagAttached)"
  unfolding folderConfigured_def needsTag_def ObjectHasTagInCategory_def attachedInCategory_def GetVMFolder_def Let_def readCall_def
  by (intro keeps_rules; simp)+

lemma quiet_ownership:
  assumes "configured (r_vsphere r) t"
  shows "keeps quiet (ensureFolderAndOwnership ctx r s fd infraID key acc)"
  unfolding ensureFolderAndOwnership_def
  by (rule keeps_bnd_res) (auto intro: quiet_destination_reads keeps_ret dest: configured_folder [OF assms])

lemma needsTag_configured:
  "configured (r_vsphere r) t \<Longrightarrow> needsTag r s tx category v key acc st = (Inr x, st') \<Longrightarrow> \<not> x"
  by (auto simp: needsTag_def bnd_Inr dest: configured_has_tag split: if_splits)

lemma quiet_FDTags:
  assumes "configured (r_vsphere r) t"
  shows "keeps quiet (ensureFDTags ctx r s fd acc)"
proof -
  have need: "keeps quiet (bnd (needsTag r s tx category v key acc) f)" if "keeps quiet (f False)"
    for tx category v key and f :: "bool \<Rightarrow> ('a rstate, error, tagTarget list) op"
    by (rule keeps_bnd_res) (use that in \<open>auto intro: quiet_destination_reads dest: needsTag_configured [OF assms]\<close>)
  show ?thesis
    unfolding ensureFDTags_def Let_def by (intro keeps_bnd only_readCall need) (simp_all add: keeps_bnd keeps_ret)
qed

lemma quiet_getters:
  "keeps quiet (GetInfrastructureID cc)"
  "keeps quiet (getTargetCredentials kc mg server)"
  "keeps quiet (getVSphereSession r a b c d)"
  unfolding GetInfrastructureID_def infra_Get_def getTargetCredentials_def GetVCenterCredsFromSecret_def
    getVSphereSession_def GetOrCreate_def NewSession_def readCall_def Let_def
  by (intro keeps_rules; simp)+

lemma quiet_initializeDestination:
  assumes "configured (r_vsphere r) t"
  shows "keeps quiet (initializeDestination ctx r mg)"
  unfolding initializeDestination_def initializeFD_def Let_def split_def
  by (intro keeps_rules quiet_ownership [OF assms] quiet_FDTags [OF assms] quiet_getters) simp_all

section \<open>The initialised destination\<close>

lemma initialize_steps:
  fixes s :: "'w rstate"
  assumes "initializeDestination (executionContext ctx (r_client r) k) r m s = (res, s')" and "trace s = []"
  shows "quiet s' \<or> (\<exists>infraID (st :: 'w rstate) st'. GetInfrastructureID (r_config r) st = (Inr infraID, st') \<and>
    trace_ok k (destinationStep infraID (spec_failureDomains (spec m))) (trace s'))"
proof -
  let ?c = "executionContext ctx (r_client r) k"
  obtain s1 where s1: "setProgressing r ConditionDestinationInitialized ''Initializing destination vCenter'' s = (Inr (), s1)"
    using setCondition_Inr by blast
  then have t1: "trace s1 = []" using setCondition_state assms(2) by metis
  then have q1: "quiet s1" and ok1: "safe k A s1" for A by (simp_all add: only_def safe_def)
  obtain x s2 where s2: "wrapErr ''getting infrastructure ID'' (GetInfrastructureID (r_config r)) s1 = (x, s2)" by fastforce
  have q2: "quiet s2" by (rule keepsD [OF keeps_wrapErr [OF quiet_getters(1)] q1 s2])
  have ok2: "safe k A s2" for A by (rule keepsD [OF keeps_wrapErr [OF keeps_infra(5)] ok1 s2])
  show ?thesis
  proof (cases x)
    case (Inl e)
    with assms(1) s1 s2 q2 show ?thesis by (simp add: initializeDestination_def bnd_app)
  next
    case (Inr infraID)
    let ?A = "destinationStep infraID (spec_failureDomains (spec m))"
    have k: "keeps (safe k ?A) (bnd (foldM (initializeFD ?c r m infraID) ([], []) (spec_failureDomains (spec m)))
        (\<lambda>_. bnd (setCondition r ConditionDestinationInitialized ConditionTrue ReasonCompleted
            ''Destination vCenter initialized with folders and tags'') (\<lambda>_.
          bnd (Eventf EventNormal ''DestinationInitialized'' ''VM folders and tags created on target vCenter'') (\<lambda>_.
          ret 0))))" (is "keeps _ ?rest")
      by (intro keeps_rules hc.keeps_initialize)
    have run: "?rest s2 = (res, s')"
      using assms(1) s1 s2 Inr by (simp add: initializeDestination_def bnd_app)
    have "safe k ?A s'" by (rule keepsD [OF k ok2 run])
    moreover have "GetInfrastructureID (r_config r) s1 = (Inr infraID, s2)" using s2 Inr by simp
    ultimately show ?thesis unfolding safe_def by blast
  qed
qed


text \<open>The sample cluster, already initialised.\<close>

lemma net_tags:
  "tags_getCategory netVSphere v nm = (\<lambda>w. (Inr (Some \<lparr>cat_id = ''c'', cat_name = nm, cat_description = [],
     cat_cardinality = ''SINGLE'', cat_associableTypes = []\<rparr>), w))"
  "tags_listForCategory netVSphere v i = (\<lambda>w. (Inr [''t''], w))"
  "tags_listAttached netVSphere v ref = (\<lambda>w. (Inr [''t''], w))"
  "find_folder netVSphere v p = (\<lambda>w. (Inr \<lparr>vs_ref = p, vs_path = p\<rparr>, w))"
  by (simp_all add: netVSphere_def sampleVSphereClient_def Let_def)

lemma net_configured: "configured netVSphere ''t''"
  by (simp add: configured_def net_tags)

lemma net_hasTag [steady_rules]: "P True \<Longrightarrow> steady netMigration (ObjectHasTagInCategory netVSphere v nm x) P"
  unfolding ObjectHasTagInCategory_def attachedInCategory_def
  by (rule steady_rules refl | simp add: net_tags)+

lemma net_folder:
  "steady netMigration (ensureFolderAndOwnership ctx netReconciler v fd i key acc) (\<lambda>_. True)"
  unfolding ensureFolderAndOwnership_def folderConfigured_def GetVMFolder_def net_fields Let_def
  by (rule steady_bnd_eq [where v = True]) (rule steady_rules refl | simp add: net_tags)+

lemma net_needs: "steady netMigration (needsTag netReconciler v tx category x key acc) (\<lambda>b. b = False)"
  unfolding needsTag_def net_fields
  by (cases "key \<in> set acc") (simp_all, (rule steady_rules refl | simp)+)

lemma net_find:
  "steady netMigration (readCall tx (find_datacenter netVSphere v q)) (\<lambda>_. True)"
  "steady netMigration (readCall tx (find_cluster netVSphere v q)) (\<lambda>_. True)"
  by (rule steady_readCall; simp add: net_answers)+

lemma net_fdTags: "steady netMigration (ensureFDTags ctx netReconciler v netFD acc) (\<lambda>_. True)"
  unfolding ensureFDTags_def Let_def net_fields
  by (rule steady_bnd [OF net_find(1)], rule steady_bnd [OF net_find(2)],
      rule steady_bnd_eq [OF net_needs], rule steady_bnd_eq [OF net_needs], rule steady_bnd_eq [where v = "()"])
    (simp_all add: steady_ret)

lemma net_initialized: "steady netMigration (initializeDestination netCtx netReconciler netMigration) (\<lambda>x. x = 0)"
proof -
  have id: "steady netMigration (GetInfrastructureID (r_config netReconciler)) (\<lambda>x. x = ''i'')"
    unfolding GetInfrastructureID_def infra_Get_def net_fields
    by (rule steady_rules refl | simp add: net_answers net_id)+
  have cond: "steady netMigration (setCondition netReconciler c st why msg) (\<lambda>_. True)" for c st why msg
    by (rule steady_setCondition) (simp_all add: net_fields sampleClient_def)
  have fd: "steady netMigration (initializeFD netCtx netReconciler netMigration ''i'' ([], []) netFD) (\<lambda>_. True)"
    unfolding initializeFD_def Let_def net_fields prod.case
    by (rule steady_bnd_eq, rule steady_wrapErr, rule net_creds, rule refl, simp,
        rule steady_bnd [OF steady_wrapErr [OF net_session]], rule steady_bnd [OF net_folder],
        rule steady_bnd [OF net_fdTags], simp add: steady_ret)
  have fds: "spec_failureDomains (spec netMigration) = [netFD]" by (simp add: netMigration_def)
  show ?thesis
    unfolding initializeDestination_def fds
    by (rule steady_bnd [OF cond], rule steady_bnd_eq, rule steady_wrapErr [OF id], simp,
        rule steady_bnd [where Q = "\<lambda>_. True"], rule steady_bnd [OF fd], simp add: steady_ret,
        rule steady_bnd [OF cond], rule steady_bnd_eq, rule steady_Eventf, rule refl, simp add: steady_ret)
qed

definition initRun :: "(error + result) \<times> migration rstate" where
  "initRun = ensureDestinationInitialized netCtx netReconciler (sampleState netMigration netMigration)"


end
