(* ===== verification/Cleanup.thy ===== *)
theory Cleanup
  imports Status Infra
begin

text \<open>
  The two handlers that change the cluster's configuration of vCenters:
  \<open>ensureMultiSiteConfigured\<close> (with \<open>hasTargetVCenterConfiguration\<close> of \<open>preflight.go\<close>) adds
  the destination vCenters beside the source, \<open>ensureSourceCleaned\<close> removes the source
  (\<open>internal/controller/vmwarecloudfoundationmigration_controller.go\<close>). Removing is bound to
  the source vCenter that is recorded in the status before the first side effect.
\<close>

section \<open>Adding the destination vCenters\<close>

text \<open>The sets of names and of \<open>name|server\<close> keys that the Infrastructure configures.\<close>

definition fdKey :: "failureDomain \<Rightarrow> string" where
  "fdKey fd = fd_name fd @ ''|'' @ fd_server fd"

definition targetsConfigured :: "vspherePlatform \<Rightarrow> failureDomain list \<Rightarrow> bool" where
  "targetsConfigured p fds = list_all (\<lambda>fd. fd_server fd \<in> vc_server ` set (vcenters p) \<and>
     fdKey fd \<in> fdKey ` set (infra_failureDomains p)) fds"

definition hasTargetVCenterConfiguration :: "('w, 'b) reconciler_scheme \<Rightarrow> migration \<Rightarrow> ('w, bool) handler" where
  "hasTargetVCenterConfiguration r m =
     (if spec_failureDomains (spec m) = [] then ret False
      else
        bnd (wrapErr ''getting infrastructure for target vCenter check'' (infra_Get (r_config r))) (\<lambda>infra.
          case vsphere infra of
            None \<Rightarrow> ret False
          | Some p \<Rightarrow> ret (targetsConfigured p (spec_failureDomains (spec m)))))"

text \<open>The loop over the failure domains; the accumulator is \<open>credsSecret\<close> and the set
  \<open>processedServers\<close>.\<close>

definition addServerCreds ::
  "'w rstate ctx \<Rightarrow> ('w, 'b) reconciler_scheme \<Rightarrow> migration \<Rightarrow> secretObj \<times> string list \<Rightarrow> failureDomain \<Rightarrow> ('w, secretObj \<times> string list) handler" where
  "addServerCreds ctx r m acc fd =
     (case acc of (sec, processed) \<Rightarrow>
        if fd_server fd \<in> set processed then ret acc
        else
          bnd (wrapErr (''getting credentials for '' @ fd_server fd)
                 (getTargetCredentials (r_kube r) m (fd_server fd))) (\<lambda>(u, p).
          bnd (wrapErr (''adding target credentials for '' @ fd_server fd)
                 (AddTargetVCenterCreds ctx (r_kube r) sec (fd_server fd) u p)) (\<lambda>sec'.
          ret (sec', fd_server fd # processed))))"

definition configureTargets :: "'w rstate ctx \<Rightarrow> ('w, 'b) reconciler_scheme \<Rightarrow> migration \<Rightarrow> ('w, unit) handler" where
  "configureTargets ctx r m =
     bnd (setProgressing r ConditionMultiSiteConfigured ''Configuring multi-site vCenter'') (\<lambda>_.
     bnd (wrapErr ''getting vsphere-creds secret'' (GetVSphereCredsSecret (r_kube r))) (\<lambda>sec.
     bnd (foldM (addServerCreds ctx r m) (sec, []) (spec_failureDomains (spec m))) (\<lambda>_.
     bnd (setProgressing r ConditionMultiSiteConfigured ''Updating Infrastructure'') (\<lambda>_.
     bnd (wrapErr ''getting infrastructure'' (infra_Get (r_config r))) (\<lambda>infra.
     bnd (wrapErr ''adding target vCenter to infrastructure''
            (AddTargetVCenter ctx (r_iter r) (r_config r) infra (spec_failureDomains (spec m)))) (\<lambda>_.
     bnd (setProgressing r ConditionMultiSiteConfigured ''Updating cloud-provider-config'') (\<lambda>_.
     bnd (wrapErr ''getting cloud-provider-config'' (GetCloudProviderConfig (r_kube r))) (\<lambda>cm.
     bnd (wrapErr ''adding target vCenter to cloud-provider-config''
            (AddTargetVCenterToConfig ctx (r_iter r) (r_yaml r) (r_kube r) cm (spec_failureDomains (spec m)))) (\<lambda>_.
     bnd (setProgressing r ConditionMultiSiteConfigured ''Restarting MCO pods'') (\<lambda>_.
     bnd (wrapErr ''syncing controller config (MCO restart)'' (syncControllerConfig ctx (r_kube r))) (\<lambda>_.
     bnd (setProgressing r ConditionMultiSiteConfigured ''Restarting vSphere pods'') (\<lambda>_.
     bnd (wrapErr ''restarting vSphere pods'' (RestartVSpherePods ctx (r_kube r))) (\<lambda>_.
     setCondition r ConditionMultiSiteConfigured ConditionFalse ReasonWaitingForVSpherePods
       ''Waiting for vSphere pods to become ready'')))))))))))))"

definition waitsForPods :: "migration \<Rightarrow> bool" where
  "waitsForPods m = (case FindStatusCondition (conditions (status m)) ConditionMultiSiteConfigured of
      None \<Rightarrow> False | Some c \<Rightarrow> cond_reason c = ReasonWaitingForVSpherePods)"

definition ensureMultiSiteConfigured :: "'w rstate ctx \<Rightarrow> ('w, 'b) reconciler_scheme \<Rightarrow> ('w, result) handler" where
  "ensureMultiSiteConfigured ctx r =
     bnd (gets mig) (\<lambda>m.
     bnd (hasTargetVCenterConfiguration r m) (\<lambda>configApplied.
     bnd (if configApplied \<and> waitsForPods m then ret () else configureTargets ctx r m) (\<lambda>_.
     bnd (setCondition r ConditionMultiSiteConfigured ConditionFalse ReasonWaitingForVSpherePods
            ''Waiting for vSphere pods to become ready'') (\<lambda>_.
     bnd (wrapErr ''checking vSphere pods readiness'' (CheckVSpherePodsReady (r_kube r))) (\<lambda>st.
       if \<not> vp_allReady st then ret 15
       else
         bnd (setCondition r ConditionMultiSiteConfigured ConditionTrue ReasonCompleted
                ''Multi-site vCenter configured and pods ready'') (\<lambda>_.
         bnd (Eventf EventNormal ''MultiSiteConfigured'' ''Cluster configured for both source and target vCenters'') (\<lambda>_.
         ret 0)))))))"

section \<open>Removing the source vCenter\<close>

text \<open>The first part of the handler: which server is the source, persisted before any side
  effect. \<open>m\<close> is the migration as the handler received it: the handler changes only
  conditions of it before the source is resolved.\<close>

definition resolveSourceServer :: "('w, 'b) reconciler_scheme \<Rightarrow> migration \<Rightarrow> infrastructure \<Rightarrow> ('w, string) handler" where
  "resolveSourceServer r m infra =
     (if sourceVCenter (status m) \<noteq> [] then ret (sourceVCenter (status m))
       else case map vc_server (case vsphere infra of None \<Rightarrow> [] | Some p \<Rightarrow> vcenters p) of
         [] \<Rightarrow> fail (Errorf ''determining source vCenter: no vCenters configured in infrastructure and none recorded in status'')
       | first # _ \<Rightarrow>
           bnd (if isConfiguredDestination m first then
                  bnd (wrapErr ''getting migration to recover source vCenter identity''
                         (readMigration (mig_get (r_client r) (namespace m) (name m)))) (\<lambda>latest.
                  if sourceVCenter (status latest) = []
                  then fail (Errorf (''refusing to clean up '' @ quote first @
                         '': server is a configured destination failure domain and no source is recorded in status''))
                  else ret (sourceVCenter (status latest)))
                else ret first) (\<lambda>server.
           bnd (wrapErr ''persisting source vCenter identity'' (persistSourceVCenter r server)) (\<lambda>_.
           ret server)))"

text \<open>The loop that builds the credentials map of the metadata; \<open>user:password\<close> per server.\<close>

definition addMetadataCreds ::
  "('w, 'b) reconciler_scheme \<Rightarrow> migration \<Rightarrow> (string \<Rightarrow> string option) \<Rightarrow> failureDomain \<Rightarrow> ('w, string \<Rightarrow> string option) handler" where
  "addMetadataCreds r m creds fd =
     (if creds (fd_server fd) \<noteq> None then ret creds
      else
        bnd (attempt (getTargetCredentials (r_kube r) m (fd_server fd)) (\<lambda>x. case x of
               Inr up \<Rightarrow> ret up
             | Inl _ \<Rightarrow> wrapErr (''getting credentials for metadata for '' @ fd_server fd)
                         (GetCredentials (r_kube r) (fd_server fd)))) (\<lambda>(u, p).
        ret (creds(fd_server fd \<mapsto> u @ '':'' @ p))))"

text \<open>The rest of the handler, for the resolved server.\<close>

definition removeSourceServer :: "'w rstate ctx \<Rightarrow> ('w, 'b) reconciler_scheme \<Rightarrow> infrastructure \<Rightarrow> string \<Rightarrow> ('w, unit) handler" where
  "removeSourceServer ctx r infra server =
     bnd (setProgressing r ConditionSourceCleaned ''Removing source vCenter from Infrastructure'') (\<lambda>_.
     bnd (wrapErr ''removing source vCenter from infrastructure''
            (RemoveSourceVCenter ctx (r_config r) infra server)) (\<lambda>_.
     bnd (setProgressing r ConditionSourceCleaned ''Removing source vCenter from cloud-provider-config'') (\<lambda>_.
     bnd (wrapErr ''getting cloud-provider-config'' (GetCloudProviderConfig (r_kube r))) (\<lambda>cm.
     bnd (wrapErr ''removing source vCenter from cloud-provider-config''
            (RemoveSourceVCenterFromConfig ctx (r_yaml r) (r_kube r) cm server)) (\<lambda>_.
     bnd (setProgressing r ConditionSourceCleaned ''Removing source credentials from vsphere-creds'') (\<lambda>_.
     bnd (wrapErr ''getting vsphere-creds secret'' (GetVSphereCredsSecret (r_kube r))) (\<lambda>sec.
     bnd (wrapErr ''removing source credentials''
            (RemoveSourceVCenterCreds ctx (r_kube r) (Some sec) server)) (\<lambda>_.
     bnd (setProgressing r ConditionSourceCleaned ''Restarting vSphere pods after source removal'') (\<lambda>_.
     wrapErr ''restarting vSphere pods'' (RestartVSpherePods ctx (r_kube r)))))))))))"

definition saveMetadata :: "'w rstate ctx \<Rightarrow> ('w, 'b) reconciler_scheme \<Rightarrow> migration \<Rightarrow> ('w, unit) handler" where
  "saveMetadata ctx r m =
     bnd (setProgressing r ConditionSourceCleaned ''Generating migration metadata'') (\<lambda>_.
     bnd (wrapErr ''getting infrastructure for metadata'' (infra_Get (r_config r))) (\<lambda>infra.
     bnd (foldM (addMetadataCreds r m) (\<lambda>_. None) (spec_failureDomains (spec m))) (\<lambda>creds.
     bnd (wrapErr ''generating metadata'' (liftE (GenerateMetadata (spec_failureDomains (spec m)) (Some infra) creds))) (\<lambda>md.
     wrapErr ''saving metadata''
       (SaveToSecret ctx (r_kube r) md (namespace m) (GetMetadataSecretName (name m)))))))"

definition cleanServer :: "'w rstate ctx \<Rightarrow> ('w, 'b) reconciler_scheme \<Rightarrow> migration \<Rightarrow> infrastructure \<Rightarrow> string \<Rightarrow> ('w, result) handler" where
  "cleanServer ctx r m infra server =
     bnd (removeSourceServer ctx r infra server) (\<lambda>_.
     bnd (saveMetadata ctx r m) (\<lambda>_.
     bnd (setCondition r ConditionSourceCleaned ConditionTrue ReasonCompleted ''Source vCenter cleaned'') (\<lambda>_.
     bnd (Eventf EventNormal ''SourceCleaned'' ''Source vCenter removed from cluster configuration'') (\<lambda>_.
     ret 0))))"

definition ensureSourceCleaned :: "'w rstate ctx \<Rightarrow> ('w, 'b) reconciler_scheme \<Rightarrow> ('w, result) handler" where
  "ensureSourceCleaned ctx r =
     bnd (gets mig) (\<lambda>m.
     bnd (setProgressing r ConditionSourceCleaned ''Cleaning up source vCenter'') (\<lambda>_.
     bnd (wrapErr ''getting infrastructure'' (infra_Get (r_config r))) (\<lambda>infra.
     bnd (resolveSourceServer r m infra) (\<lambda>server.
       if isConfiguredDestination m server
       then fail (Errorf (''refusing to clean up '' @ quote server @ '': server is a configured destination failure domain''))
       else cleanServer ctx r m infra server))))"

section \<open>Guarding\<close>

lemma keeps_hasTarget [keeps_rules]: "keeps (safe k A) (hasTargetVCenterConfiguration r m)"
  unfolding hasTargetVCenterConfiguration_def by (intro keeps_rules)

lemma keeps_resolveSourceServer [keeps_rules]: "keeps (safe k A) (resolveSourceServer r m infra)"
  unfolding resolveSourceServer_def by (intro keeps_rules)

lemma keeps_addMetadataCreds [keeps_rules]: "keeps (safe k A) (addMetadataCreds r m creds fd)"
  unfolding addMetadataCreds_def by (intro keeps_rules)

text \<open>The mutations that each of the two handlers may send.\<close>

definition configStep :: "yamlCodec \<Rightarrow> (string list \<Rightarrow> string list) \<Rightarrow> failureDomain list \<Rightarrow> mutation \<Rightarrow> bool" where
  "configStep codec iter fds x = (case x of
      UpdateInfrastructureCall i \<Rightarrow>
        \<exists>infra p. vsphere infra = Some p \<and> i = infra\<lparr>vsphere := Some (addTargets iter p fds)\<rparr>
    | UpdateSecretCall sec \<Rightarrow>
        \<exists>old server u p. server \<in> fd_server ` set fds \<and> sec = addCreds old server u p
    | UpdateConfigMapCall cm \<Rightarrow> \<exists>old cfg. encodeConfig codec old (addConfigTargets iter fds cfg) = Inr cm
    | DeletePodCall ns n \<Rightarrow> True
    | _ \<Rightarrow> False)"

definition cleanupStep :: "yamlCodec \<Rightarrow> string \<Rightarrow> mutation \<Rightarrow> bool" where
  "cleanupStep codec server x = (case x of
      UpdateInfrastructureCall i \<Rightarrow>
        \<exists>infra p q. vsphere infra = Some p \<and> removeSource p server = Inr q \<and> i = infra\<lparr>vsphere := Some q\<rparr>
    | UpdateSecretCall sec \<Rightarrow>
        (\<exists>old. sec = removeCreds old server) \<or> (\<exists>old md. sec = updatedMetadataSecret old md)
    | CreateSecretCall sec \<Rightarrow> \<exists>md ns nm. sec = newMetadataSecret md ns nm
    | UpdateConfigMapCall cm \<Rightarrow> \<exists>old cfg. encodeConfig codec old (removeConfigSource server cfg) = Inr cm
    | DeletePodCall ns n \<Rightarrow> True
    | _ \<Rightarrow> False)"

lemma configStep_intros:
  "vsphere infra = Some p \<Longrightarrow> configStep codec iter fds (UpdateInfrastructureCall (infra\<lparr>vsphere := Some (addTargets iter p fds)\<rparr>))"
  "fd \<in> set fds \<Longrightarrow> configStep codec iter fds (UpdateSecretCall (addCreds old (fd_server fd) u pw))"
  "encodeConfig codec cm (addConfigTargets iter fds cfg) = Inr new \<Longrightarrow> configStep codec iter fds (UpdateConfigMapCall new)"
  "configStep codec iter fds (DeletePodCall ns n)"
  by (auto simp: configStep_def)

lemma cleanupStep_intros:
  "vsphere infra = Some p \<Longrightarrow> removeSource p server = Inr q \<Longrightarrow>
     cleanupStep codec server (UpdateInfrastructureCall (infra\<lparr>vsphere := Some q\<rparr>))"
  "cleanupStep codec server (UpdateSecretCall (removeCreds old server))"
  "cleanupStep codec server (UpdateSecretCall (updatedMetadataSecret old md))"
  "cleanupStep codec server (CreateSecretCall (newMetadataSecret md ns nm))"
  "encodeConfig codec cm (removeConfigSource server cfg) = Inr new \<Longrightarrow> cleanupStep codec server (UpdateConfigMapCall new)"
  "cleanupStep codec server (DeletePodCall ns n)"
  by (auto simp: cleanupStep_def)

context handler_ctx
begin

lemma keeps_addServerCreds:
  assumes "fd \<in> set fds"
  shows "keeps (safe m (configStep codec iter fds)) (addServerCreds ctx r k acc fd)"
  unfolding addServerCreds_def
  by (intro keeps_rules keeps_AddTargetVCenterCreds configStep_intros assms)

lemma keeps_configureTargets:
  "keeps (safe m (configStep (r_yaml r) (r_iter r) (spec_failureDomains (spec k)))) (configureTargets ctx r k)"
  unfolding configureTargets_def
  by (intro keeps_bnd keeps_wrapErr keeps_setCondition keeps_creds keeps_foldM_mem keeps_addServerCreds keeps_infra
      keeps_cloud keeps_AddTargetVCenter keeps_AddTargetVCenterToConfig keeps_syncControllerConfig
      keeps_RestartVSpherePods configStep_intros)

lemma keeps_removeSourceServer:
  assumes "\<And>x. cleanupStep (r_yaml r) server x \<Longrightarrow> A x"
  shows "keeps (safe m A) (removeSourceServer ctx r infra server)"
  unfolding removeSourceServer_def
  by (intro keeps_bnd keeps_wrapErr keeps_setCondition keeps_creds keeps_cloud keeps_RemoveSourceVCenter
      keeps_RemoveSourceVCenterFromConfig keeps_RemoveSourceVCenterCreds keeps_RestartVSpherePods cleanupStep_intros assms)

lemma keeps_saveMetadata:
  assumes "\<And>x. cleanupStep codec server x \<Longrightarrow> A x"
  shows "keeps (safe m A) (saveMetadata ctx r k)"
  unfolding saveMetadata_def by (intro keeps_rules keeps_SaveToSecret cleanupStep_intros assms)

lemma keeps_cleanServer:
  assumes "\<And>x. cleanupStep (r_yaml r) server x \<Longrightarrow> A x"
  shows "keeps (safe m A) (cleanServer ctx r k infra server)"
  unfolding cleanServer_def by (intro keeps_rules keeps_removeSourceServer keeps_saveMetadata assms)

end

section \<open>The calls of cleaning up\<close>

lemmas creds_defs = GetVSphereCredsSecret_def GetVCenterCredsFromSecret_def GetCredentials_def getTargetCredentials_def
  AddTargetVCenterCreds_def RemoveSourceVCenterCreds_def SaveToSecret_def
lemmas config_defs = GetCloudProviderConfig_def marshalAndUpdateConfig_def RemoveSourceVCenterFromConfig_def
  RestartVSpherePods_def DeletePodsByLabel_def deletePod_def infra_Get_def RemoveSourceVCenter_def

lemma since_cleanup:
  "keeps (since tr) (removeSourceServer (executionContext ctx cl k) r infra server)"
  "keeps (since tr) (saveMetadata (executionContext ctx cl k) r m)"
  unfolding removeSourceServer_def saveMetadata_def addMetadataCreds_def creds_defs config_defs readCall_def Let_def
  by (intro keeps_rules)+

lemma quiet_resolve: "keeps quiet (resolveSourceServer r m infra)"
  unfolding resolveSourceServer_def persistSourceVCenter_def recordSourceOnce_def modifyStatus_def
  by (intro keeps_rules; simp)

lemma quiet_infra_Get: "keeps quiet (infra_Get cc)"
  unfolding infra_Get_def by (intro keeps_rules) simp

section \<open>The source is recorded first\<close>

text \<open>The call shows that \<open>server\<close> is recorded as the source in the stored object of \<open>m\<close>,
  or that this object has been replaced by another of the same name.\<close>

definition records :: "string \<Rightarrow> migration \<Rightarrow> action \<Rightarrow> bool" where
  "records server m a = (case a of
      StatusUpdateCall k \<Rightarrow> sourceVCenter (status k) = server
    | MigrationRead (Some l) \<Rightarrow> sourceVCenter (status l) = server \<or> uid l \<noteq> uid m
    | _ \<Rightarrow> False)"

lemma recordSourceOnce_records:
  assumes "recordSourceOnce r m server t = (Inr u, s')"
  shows "\<exists>a\<in>set (trace s'). records server m a"
  using assms
  by (auto simp: recordSourceOnce_def bnd_app readMigration_def apiResult_def request_app modifyStatus_def records_def
      withSource_def split: prod.splits sum.splits if_splits)

lemma persistSourceVCenter_records:
  assumes "persistSourceVCenter r server s = (Inr u, s')"
  shows "\<exists>a\<in>set (trace s'). records server (mig s) a"
  using assms recordSourceOnce_records by (fastforce simp: persistSourceVCenter_def bnd_app dest: retry_Inr)

lemma resolveSourceServer_records:
  assumes "resolveSourceServer r m infra s = (Inr server, s')" and "uid (mig s) = uid m"
  shows "sourceVCenter (status m) = server \<or> (\<exists>a\<in>set (trace s'). records server m a)"
proof -
  have eq: "records server (mig t) = records server m" if "mig t = mig s" for t
    using that assms(2) by (auto simp: records_def fun_eq_iff split: action.splits option.splits)
  show ?thesis
    using assms(1) persistSourceVCenter_records [of r server] eq
    by (fastforce simp: resolveSourceServer_def bnd_Inr readMigration_mig
        split: if_splits list.splits option.splits dest: readMigration_mig)
qed

lemma since_cleanServer: "keeps (since tr) (cleanServer (executionContext ctx cl k) r m infra server)"
  unfolding cleanServer_def by (intro keeps_rules since_cleanup)

lemma infra_Get_mig: "infra_Get cc s = (x, t) \<Longrightarrow> mig t = mig s"
  by (auto simp: infra_Get_def readCall_def wrapErr_def attempt_app request_app split: prod.splits sum.splits)

text \<open>Either the handler ends without any mutation, or it reaches the work on a server that is no
  destination, from a state without mutations in which the server is recorded.\<close>

lemma ensureSourceCleaned_parts:
  assumes "trace s = []" and "ensureSourceCleaned ctx r s = (x, s')"
  shows "quiet s' \<or> (\<exists>infra server t. quiet t \<and> \<not> isConfiguredDestination (mig s) server \<and>
      (sourceVCenter (status (mig s)) = server \<or> (\<exists>a\<in>set (trace t). records server (mig s) a)) \<and>
      (\<forall>k A. safe k A t) \<and> cleanServer ctx r (mig s) infra server t = (x, s'))"
proof -
  obtain y s1 where s1: "setProgressing r ConditionSourceCleaned ''Cleaning up source vCenter'' s = (Inr y, s1)"
    using setCondition_Inr by blast
  with assms(1) setCondition_state have t1: "trace s1 = []" "uid (mig s1) = uid (mig s)" by metis+
  then have ok1: "quiet s1" "safe k A s1" for k A by (simp_all add: only_def safe_def)
  obtain y2 s2 where s2: "wrapErr ''getting infrastructure'' (infra_Get (r_config r)) s1 = (y2, s2)" by fastforce
  have ok2: "quiet s2" "safe k A s2" for k A
    using keepsD [OF keeps_wrapErr [OF quiet_infra_Get] ok1(1) s2]
      keepsD [OF keeps_wrapErr [OF keeps_infra(1)] ok1(2) s2] by auto
  show ?thesis
  proof (cases y2)
    case (Inl e)
    then show ?thesis using assms(2) s1 s2 ok2 by (simp add: ensureSourceCleaned_def bnd_app)
  next
    case (Inr infra)
    with s2 t1 have u2: "uid (mig s2) = uid (mig s)" using infra_Get_mig by fastforce
    obtain y3 s3 where s3: "resolveSourceServer r (mig s) infra s2 = (y3, s3)" by fastforce
    have ok3: "quiet s3" "safe k A s3" for k A
      using keepsD [OF quiet_resolve ok2(1) s3] keepsD [OF keeps_resolveSourceServer ok2(2) s3] by auto
    show ?thesis
    proof (cases y3)
      case (Inl e)
      then show ?thesis using assms(2) s1 s2 s3 Inr ok3 by (simp add: ensureSourceCleaned_def bnd_app)
    next
      case res: (Inr server)
      have run: "(if isConfiguredDestination (mig s) server
          then fail (Errorf (''refusing to clean up '' @ quote server @ '': server is a configured destination failure domain''))
          else cleanServer ctx r (mig s) infra server) s3 = (x, s')"
        using assms(2) s1 s2 s3 Inr res by (simp add: ensureSourceCleaned_def bnd_app)
      have rec: "sourceVCenter (status (mig s)) = server \<or> (\<exists>a\<in>set (trace s3). records server (mig s) a)"
        using resolveSourceServer_records [of r "mig s" infra s2 server s3] s3 res u2 by simp
      show ?thesis
      proof (cases "isConfiguredDestination (mig s) server")
        case True
        with run ok3 show ?thesis by simp
      next
        case False
        with run have "cleanServer ctx r (mig s) infra server s3 = (x, s')" by simp
        with False ok3 rec show ?thesis by blast
      qed
    qed
  qed
qed


text \<open>A cluster with the source \<open>vc1\<close> and the target \<open>vc2\<close>, in the middle of a migration.\<close>

definition bothVCenters :: infrastructure where
  "bothVCenters = sampleInfra\<lparr>vsphere := Some \<lparr>
     vcenters = [\<lparr>vc_server = ''vc1'', vc_port = 443, vc_datacenters = []\<rparr>, \<lparr>vc_server = ''vc2'', vc_port = 443, vc_datacenters = []\<rparr>],
     infra_failureDomains = [sampleServerFD ''vc1'', sampleServerFD ''vc2'']\<rparr>\<rparr>"

definition cleanupMigration :: migration where
  "cleanupMigration = sampleMigration\<lparr>spec := (spec sampleMigration)\<lparr>spec_failureDomains := [sampleServerFD ''vc2'']\<rparr>\<rparr>"

definition cleanupRun :: "(error + result) \<times> migration rstate" where
  "cleanupRun = ensureSourceCleaned (executionContext None sampleClient cleanupMigration)
     (sampleReconciler sampleClient bothVCenters []) (sampleState cleanupMigration cleanupMigration)"


section \<open>Configuring the destinations\<close>

lemma safe_multiSite:
  "safe k (configStep (r_yaml r) (r_iter r) (spec_failureDomains (spec (mig s)))) s \<Longrightarrow>
   safe k (configStep (r_yaml r) (r_iter r) (spec_failureDomains (spec (mig s))))
     (snd (ensureMultiSiteConfigured (executionContext ctx cl k) r s))"
  unfolding ensureMultiSiteConfigured_def bnd_gets by (erule keeps_snd [rotated]) (intro keeps_rules hc.keeps_configureTargets)

text \<open>Cleaning up, whatever server is resolved.\<close>

definition cleanupAllowed :: "yamlCodec \<Rightarrow> migration \<Rightarrow> mutation \<Rightarrow> bool" where
  "cleanupAllowed codec m x \<longleftrightarrow> (\<exists>server. \<not> isConfiguredDestination m server \<and> cleanupStep codec server x)"

lemma safe_sourceCleaned:
  "safe k (cleanupAllowed (r_yaml r) (mig s)) s \<Longrightarrow>
   safe k (cleanupAllowed (r_yaml r) (mig s)) (snd (ensureSourceCleaned (executionContext ctx cl k) r s))"
proof (unfold ensureSourceCleaned_def bnd_gets, erule keeps_snd [rotated],
    intro keeps_bnd keeps_setCondition keeps_wrapErr keeps_infra keeps_resolveSourceServer)
  fix infra server
  show "keeps (safe k (cleanupAllowed (r_yaml r) (mig s)))
     (if isConfiguredDestination (mig s) server
      then fail (Errorf (''refusing to clean up '' @ quote server @ '': server is a configured destination failure domain''))
      else cleanServer (executionContext ctx cl k) r (mig s) infra server)"
    by (cases "isConfiguredDestination (mig s) server")
      (auto simp: cleanupAllowed_def intro!: keeps_fail hc.keeps_cleanServer)
qed



end
