(* ===== verification/Ready.thy ===== *)
theory Ready
  imports Reconciler
begin

text \<open>
  The readiness gate \<open>ensureReady\<close> and its stability window
  (\<open>internal/controller/vmwarecloudfoundationmigration_controller.go\<close>): Ready=True is committed
  only after six stable observations, at least thirty seconds apart, with no failing check and no
  gap above ninety seconds between checks.
\<close>

section \<open>Definitions\<close>

definition readyStabilityThreshold :: int where
  "readyStabilityThreshold = 6"

definition readyStabilityCheckGap :: int where
  "readyStabilityCheckGap = 90 * second"

definition readyStabilityObservationInterval :: int where
  "readyStabilityObservationInterval = 30 * second"

definition resetReadyStability :: "('w, unit) handler" where
  "resetReadyStability = modify (\<lambda>s. s\<lparr>readyStabilityCount := 0, lastCountedStabilityCheck := 0\<rparr>)"

text \<open>A check whose failure restarts the window.\<close>

definition readyCheck :: "string \<Rightarrow> ('w, 'a) handler \<Rightarrow> ('w, 'a) handler" where
  "readyCheck t c = attempt c (\<lambda>r. case r of
     Inl e \<Rightarrow> bnd resetReadyStability (\<lambda>_. fail (Wrapf t e))
   | Inr x \<Rightarrow> ret x)"

definition enterReadyCheck :: "('w, 'b) reconciler_scheme \<Rightarrow> ('w, unit) handler" where
  "enterReadyCheck r =
     bnd (gets lastReadyStabilityCheck) (\<lambda>last.
     bnd (if last \<noteq> 0
          then bnd (timeNow (r_client r)) (\<lambda>now.
                 if now - last > readyStabilityCheckGap then resetReadyStability else ret ())
          else ret ()) (\<lambda>_.
     bnd (timeNow (r_client r)) (\<lambda>now.
     modify (\<lambda>s. s\<lparr>lastReadyStabilityCheck := now\<rparr>))))"

definition nonTargetVCenter :: "migration \<Rightarrow> infrastructure \<Rightarrow> string" where
  "nonTargetVCenter m infra =
     (case vsphere infra of
        None \<Rightarrow> []
      | Some p \<Rightarrow>
         (case find (\<lambda>vc. vc_server vc \<notin> fd_server ` set (spec_failureDomains (spec m))) (vcenters p) of
            None \<Rightarrow> [] | Some vc \<Rightarrow> vc_server vc))"

definition blocker :: "string \<Rightarrow> string list \<Rightarrow> string list" where
  "blocker label names = (if names = [] then [] else [label @ join '', '' names])"

definition readyBlockers ::
  "bool \<times> operatorStabilitySummary \<Rightarrow> bool \<times> poolConvergenceSummary \<Rightarrow> string \<Rightarrow> string list" where
  "readyBlockers ops pools nonTarget =
     (if fst ops then []
      else blocker ''unavailable='' (unavailableOperators (snd ops)) @
           blocker ''progressing='' (progressingOperators (snd ops)) @
           blocker ''degraded='' (degradedOperators (snd ops))) @
     (if fst pools then []
      else blocker ''pools-not-updated='' (notUpdatedPools (snd pools)) @
           blocker ''pools-degraded='' (degradedPools (snd pools))) @
     (if nonTarget \<noteq> [] then [''non-target vCenter '' @ quote nonTarget @ '' still present in Infrastructure''] else [])"

definition countStable :: "('w, 'b) reconciler_scheme \<Rightarrow> ('w, unit) handler" where
  "countStable r =
     bnd (gets lastCountedStabilityCheck) (\<lambda>last.
     bnd (if last = 0 then ret True
          else bnd (timeNow (r_client r)) (\<lambda>now. ret (now - last \<ge> readyStabilityObservationInterval))) (\<lambda>counts.
     if counts
     then bnd (timeNow (r_client r)) (\<lambda>now.
            modify (\<lambda>s. s\<lparr>lastCountedStabilityCheck := now, readyStabilityCount := readyStabilityCount s + 1\<rparr>))
     else ret ()))"

definition commitReady :: "('w, 'b) reconciler_scheme \<Rightarrow> ('w, result) handler" where
  "commitReady r =
     bnd (timeNow (r_client r)) (\<lambda>now.
     bnd (modifyStatus (completionTime_update (\<lambda>_. Some now))) (\<lambda>_.
     bnd (setCondition r ConditionReady ConditionTrue ReasonCompleted
            ''Migration complete, all operators healthy and node pools converged'') (\<lambda>_.
     bnd (Eventf EventNormal ''MigrationComplete'' ''Migration completed successfully'') (\<lambda>_.
     ret 0))))"

definition sustainReady :: "('w, 'b) reconciler_scheme \<Rightarrow> ('w, result) handler" where
  "sustainReady r =
     bnd (countStable r) (\<lambda>_.
     bnd (gets readyStabilityCount) (\<lambda>n.
     if n < readyStabilityThreshold
     then bnd (setProgressing r ConditionReady
                 (''Waiting for sustained cluster stability ('' @ itoa_int n @ ''/'' @ itoa_int readyStabilityThreshold @ '')''))
            (\<lambda>_. ret 30)
     else commitReady r))"

definition ensureReady :: "('w, 'b) reconciler_scheme \<Rightarrow> ('w, result) handler" where
  "ensureReady r =
     bnd (enterReadyCheck r) (\<lambda>_.
     bnd (setProgressing r ConditionReady ''Verifying final cluster state'') (\<lambda>_.
     bnd (readyCheck ''checking operator stability'' (CheckAllOperatorsStable (r_config r))) (\<lambda>ops.
     bnd (readyCheck ''checking machine config pool convergence'' (CheckPoolsConverged (r_machineConfig r))) (\<lambda>pools.
     bnd (readyCheck ''getting infrastructure for readiness check'' (infra_Get (r_config r))) (\<lambda>infra.
     bnd (gets mig) (\<lambda>m.
     let blockers = readyBlockers ops pools (nonTargetVCenter m infra) in
     if blockers \<noteq> []
     then bnd resetReadyStability (\<lambda>_.
          bnd (setProgressing r ConditionReady (''Migration not ready: '' @ join ''; '' blockers)) (\<lambda>_.
          ret 30))
     else sustainReady r))))))"

section \<open>Guarding\<close>

lemma safe_ready_fields [simp]:
  "safe m A (s\<lparr>readyStabilityCount := n, lastCountedStabilityCheck := t\<rparr>) = safe m A s"
  "safe m A (s\<lparr>lastCountedStabilityCheck := t, readyStabilityCount := n\<rparr>) = safe m A s"
  "safe m A (s\<lparr>lastReadyStabilityCheck := t\<rparr>) = safe m A s"
  by (simp_all add: safe_def)

lemma keeps_ready_modify [keeps_rules]:
  "keeps (safe m A) resetReadyStability"
  "keeps (safe m A) (modify (\<lambda>s. s\<lparr>lastReadyStabilityCheck := t\<rparr>))"
  "keeps (safe m A) (modify (\<lambda>s. s\<lparr>lastCountedStabilityCheck := t, readyStabilityCount := readyStabilityCount s + 1\<rparr>))"
  by (simp_all add: keeps_def resetReadyStability_def)

lemma keeps_ensureReady [keeps_rules]: "keeps (safe m A) (ensureReady r)"
  unfolding ensureReady_def enterReadyCheck_def readyCheck_def sustainReady_def countStable_def commitReady_def Let_def
  by (intro keeps_rules)

section \<open>The stability window\<close>

text \<open>\<open>W\<close> lists the times of the counted observations, newest first; consecutive ones are at
  least the observation interval apart.\<close>

fun spaced :: "time list \<Rightarrow> bool" where
  "spaced (t # u # ts) = (u + readyStabilityObservationInterval \<le> t \<and> spaced (u # ts))"
| "spaced _ = True"

definition window :: "time list \<Rightarrow> 'w rstate \<Rightarrow> bool" where
  "window W s \<longleftrightarrow> readyStabilityCount s = int (length W) \<and> spaced W \<and>
     lastCountedStabilityCheck s = (if W = [] then 0 else hd W) \<and> (W \<noteq> [] \<longrightarrow> hd W > 0)"

definition has_window :: "'w rstate \<Rightarrow> bool" where
  "has_window s \<longleftrightarrow> (\<exists>W. window W s)"

text \<open>What the code needs of the clock: it is past the zero time and does not run backwards
  between two consecutive reads.\<close>

definition clock_ok :: "'w migrationClient \<Rightarrow> bool" where
  "clock_ok cl \<longleftrightarrow> (\<forall>w. 0 < fst (clock cl w) \<and> fst (clock cl w) \<le> fst (clock cl (snd (clock cl w))))"

lemma spaced_span: "spaced W \<Longrightarrow> W \<noteq> [] \<Longrightarrow> int (length W - 1) * readyStabilityObservationInterval \<le> hd W - last W"
proof (induction W rule: spaced.induct)
  case (1 t u ts)
  then show ?case by (simp add: algebra_simps)
qed simp_all

lemma window_mig [simp]:
  "window W (s\<lparr>mig := x\<rparr>) = window W s" "window W (s\<lparr>world := w\<rparr>) = window W s"
  "window W (s\<lparr>trace := tr\<rparr>) = window W s" "window W (s\<lparr>lastReadyStabilityCheck := t\<rparr>) = window W s"
  by (simp_all add: window_def)

lemma has_window_upd [simp]:
  "has_window (s\<lparr>mig := x\<rparr>) = has_window s" "has_window (s\<lparr>world := w\<rparr>) = has_window s"
  "has_window (s\<lparr>trace := tr\<rparr>) = has_window s" "has_window (s\<lparr>lastReadyStabilityCheck := t\<rparr>) = has_window s"
  by (simp_all add: has_window_def)

lemma window_reset: "window [] (s\<lparr>readyStabilityCount := 0, lastCountedStabilityCheck := 0\<rparr>)"
  by (simp add: window_def)

text \<open>Calls and condition updates leave the window alone.\<close>

lemma keeps_has_window [keeps_rules]:
  "keeps has_window (request a c)"
  "keeps has_window (timeNow cl)"
  "keeps has_window (Eventf t why note)"
  "keeps has_window (modify (\<lambda>s. s\<lparr>mig := f s\<rparr>))"
  "keeps has_window (modify (\<lambda>s. s\<lparr>lastReadyStabilityCheck := t'\<rparr>))"
  "keeps has_window resetReadyStability"
  using window_reset
  by (auto simp: keeps_def has_window_def request_app timeNow_def Eventf_def resetReadyStability_def split: prod.splits)

lemma keeps_has_window_ops [keeps_rules]:
  "keeps has_window (readCall t c)"
  "keeps has_window (setCondition r ty st why msg)"
  "keeps has_window (modifyStatus f)"
  unfolding readCall_def setCondition_def modifyStatus_def by (intro keeps_rules)+

lemma window_countStable:
  assumes "clock_ok (r_client r)" and "window W s" and "countStable r s = (x, s')"
  shows "(window W s' \<or> (\<exists>t. window (t # W) s')) \<and> mig s' = mig s \<and> x = Inr ()"
proof (cases "W = []")
  case True
  obtain t w where c: "clock (r_client r) (world s) = (t, w)" by fastforce
  then have "0 < t" using assms(1) unfolding clock_ok_def by (metis fst_conv)
  with assms c True show ?thesis
    by (auto simp: countStable_def bnd_app timeNow_def window_def)
next
  case False
  then have last: "lastCountedStabilityCheck s = hd W" "hd W > 0" using assms(2) by (auto simp: window_def)
  obtain t w where c: "clock (r_client r) (world s) = (t, w)" by fastforce
  obtain t' w' where c': "clock (r_client r) w = (t', w')" by fastforce
  have "0 < t'" "t \<le> t'" using assms(1) c c' unfolding clock_ok_def by (metis fst_conv snd_conv)+
  then show ?thesis
    using assms(2,3) c c' last False
    by (cases W) (auto simp: countStable_def bnd_app timeNow_def window_def split: if_splits)
qed

lemma has_window_countStable: "clock_ok (r_client r) \<Longrightarrow> keeps has_window (countStable r)"
  unfolding keeps_def has_window_def
  by (intro allI impI, elim exE, drule window_countStable, assumption, rule prod.collapse [symmetric]) auto

text \<open>The window exists and the Ready condition is not True.\<close>

definition not_ready :: "'w rstate \<Rightarrow> bool" where
  "not_ready s \<longleftrightarrow> has_window s \<and> \<not> isConditionTrue (mig s) ConditionReady"

lemma keeps_not_ready [keeps_rules]:
  "keeps not_ready (request a c)"
  "keeps not_ready (timeNow cl)"
  "keeps not_ready (Eventf t why note)"
  "keeps not_ready resetReadyStability"
  using window_reset
  by (auto simp: keeps_def not_ready_def has_window_def request_app timeNow_def Eventf_def resetReadyStability_def
      split: prod.splits)

lemma keeps_not_ready_ops [keeps_rules]:
  "keeps not_ready (readCall t c)"
  "st \<noteq> ConditionTrue \<Longrightarrow> keeps not_ready (setCondition r ConditionReady st why msg)"
proof -
  show "keeps not_ready (readCall t c)" unfolding readCall_def by (intro keeps_rules)
  show "keeps not_ready (setCondition r ConditionReady st why msg)" if "st \<noteq> ConditionTrue"
    using that by (auto simp: keeps_def setCondition_def bnd_app timeNow_def not_ready_def has_window_def
        isConditionTrue_with split: prod.splits)
qed

lemma keeps_not_ready_checks [keeps_rules]:
  "keeps not_ready (CheckAllOperatorsStable cc)"
  "keeps not_ready (CheckPoolsConverged mc)"
  "keeps not_ready (infra_Get cc)"
  unfolding CheckAllOperatorsStable_def CheckPoolsConverged_def infra_Get_def by (intro keeps_rules)+

lemma keeps_not_ready_countStable: "clock_ok (r_client r) \<Longrightarrow> keeps not_ready (countStable r)"
  unfolding keeps_def not_ready_def has_window_def
  by (intro allI impI, elim conjE exE, drule window_countStable, assumption, rule prod.collapse [symmetric]) auto

text \<open>The state after the gate: a True condition comes with a full window.\<close>

definition gated :: "'w rstate \<Rightarrow> bool" where
  "gated s \<longleftrightarrow> has_window s \<and>
     (isConditionTrue (mig s) ConditionReady \<longrightarrow> readyStabilityThreshold \<le> readyStabilityCount s)"

lemma not_ready_gated: "not_ready s \<Longrightarrow> gated s"
  by (simp add: not_ready_def gated_def)

lemma hoare_keeps_gated: "keeps not_ready m \<Longrightarrow> hoare not_ready m (\<lambda>_. gated) (\<lambda>_. gated)"
  by (rule hoareI) (auto dest: keepsD intro: not_ready_gated)

lemma commitReady_gated:
  "hoare (\<lambda>s. has_window s \<and> readyStabilityThreshold \<le> readyStabilityCount s) (commitReady r) (\<lambda>_. gated) (\<lambda>_. gated)"
  by (rule hoareI)
    (auto simp: commitReady_def bnd_app timeNow_def modifyStatus_def setCondition_def gated_def split: prod.splits)

lemma sustainReady_gated:
  assumes "clock_ok (r_client r)"
  shows "hoare not_ready (sustainReady r) (\<lambda>_. gated) (\<lambda>_. gated)"
proof (rule hoareI)
  fix s y s'
  assume s: "not_ready s" and run: "sustainReady r s = (Inr y, s')"
  then obtain t where t: "countStable r s = (Inr (), t)"
    by (auto simp: sustainReady_def bnd_Inr)
  have nr: "not_ready t" using keepsD [OF keeps_not_ready_countStable [OF assms] s t] .
  show "gated s'"
  proof (cases "readyStabilityCount t < readyStabilityThreshold")
    case True
    then have "bnd (setProgressing r ConditionReady (''Waiting for sustained cluster stability ('' @
        itoa_int (readyStabilityCount t) @ ''/'' @ itoa_int readyStabilityThreshold @ '')'')) (\<lambda>_. ret 30) t = (Inr y, s')"
      using run t by (simp add: sustainReady_def bnd_app)
    moreover have "keeps not_ready (bnd (setProgressing r ConditionReady (''Waiting for sustained cluster stability ('' @
        itoa_int (readyStabilityCount t) @ ''/'' @ itoa_int readyStabilityThreshold @ '')'')) (\<lambda>_. ret (30::int)))"
      by (intro keeps_rules) simp
    ultimately show ?thesis using nr by (blast intro: not_ready_gated dest: keepsD)
  next
    case False
    then have "commitReady r t = (Inr y, s')" using run t by (simp add: sustainReady_def bnd_app)
    with hoareD [OF commitReady_gated, of t r y s'] nr False show ?thesis by (auto simp: not_ready_def)
  qed
next
  fix s e s'
  assume s: "not_ready s" and run: "sustainReady r s = (Inl e, s')"
  obtain x t where t: "countStable r s = (x, t)" by fastforce
  with window_countStable [OF assms _ t] s have "x = Inr ()" by (auto simp: not_ready_def has_window_def)
  with run t show "gated s'"
    by (auto simp: sustainReady_def bnd_app commitReady_def timeNow_def modifyStatus_def setCondition_def
        split: prod.splits if_splits)
qed

lemma keeps_readyCheck [keeps_rules]: "keeps not_ready c \<Longrightarrow> keeps not_ready (readyCheck t c)"
  unfolding readyCheck_def by (intro keeps_rules)

lemma hoare_bnd_gated:
  assumes "keeps not_ready m" and "\<And>x. hoare not_ready (f x) (\<lambda>_. gated) (\<lambda>_. gated)"
  shows "hoare not_ready (bnd m f) (\<lambda>_. gated) (\<lambda>_. gated)"
proof -
  have "hoare not_ready m (\<lambda>_. not_ready) (\<lambda>_. gated)"
    by (rule hoareI) (auto dest: keepsD [OF assms(1)] intro: not_ready_gated)
  then show ?thesis using assms(2) by (rule hoare_bnd)
qed

lemma keeps_has_window_enter: "keeps has_window (enterReadyCheck r)"
  unfolding enterReadyCheck_def by (intro keeps_rules)

lemma setProgressing_not_ready:
  "hoare has_window (setProgressing r ConditionReady msg) (\<lambda>_. not_ready) (\<lambda>_. gated)"
  by (rule hoareI) (auto simp: setCondition_def bnd_app timeNow_def not_ready_def isConditionTrue_with split: prod.splits)

lemma enterReadyCheck_total: "enterReadyCheck r s = (Inl e, s') \<Longrightarrow> False"
  by (auto simp: enterReadyCheck_def bnd_app timeNow_def resetReadyStability_def split: prod.splits if_splits)

lemma enterReadyCheck_has_window:
  "hoare has_window (enterReadyCheck r) (\<lambda>_. has_window) (\<lambda>_. gated)"
  by (rule hoareI) (auto dest: keepsD [OF keeps_has_window_enter] enterReadyCheck_total)

lemma ensureReady_gated:
  assumes "clock_ok (r_client r)"
  shows "hoare has_window (ensureReady r) (\<lambda>_. gated) (\<lambda>_. gated)"
proof -
  have blocked: "keeps not_ready (bnd resetReadyStability (\<lambda>_.
      bnd (setProgressing r ConditionReady msg) (\<lambda>_. ret (30::int))))" for msg
    by (intro keeps_rules) simp
  have final: "hoare not_ready (if bs \<noteq> [] then bnd resetReadyStability (\<lambda>_.
      bnd (setProgressing r ConditionReady (''Migration not ready: '' @ join ''; '' bs)) (\<lambda>_. ret 30)) else sustainReady r)
      (\<lambda>_. gated) (\<lambda>_. gated)" for bs
    using hoare_keeps_gated [OF blocked] sustainReady_gated [OF assms] by simp
  show ?thesis
    unfolding ensureReady_def Let_def
    by (rule hoare_bnd [OF enterReadyCheck_has_window], rule hoare_bnd [OF setProgressing_not_ready])
      (intro hoare_bnd_gated final keeps_rules)
qed

text \<open>The states a running operator can be in: at start the window is empty; between two runs of
  the gate anything but the window may change (other handlers, the cluster, the stored object).\<close>

inductive ready_reachable :: "('w, 'b) reconciler_scheme \<Rightarrow> 'w rstate \<Rightarrow> bool" for r where
  start: "\<lbrakk>readyStabilityCount s = 0; lastCountedStabilityCheck s = 0\<rbrakk> \<Longrightarrow> ready_reachable r s"
| gate: "\<lbrakk>ready_reachable r s; ensureReady r s = (x, s')\<rbrakk> \<Longrightarrow> ready_reachable r s'"
| other: "\<lbrakk>ready_reachable r s; readyStabilityCount s' = readyStabilityCount s;
     lastCountedStabilityCheck s' = lastCountedStabilityCheck s\<rbrakk> \<Longrightarrow> ready_reachable r s'"

lemma ready_reachable_window:
  assumes "clock_ok (r_client r)" and "ready_reachable r s"
  shows "has_window s"
  using assms(2)
proof (induction rule: ready_reachable.induct)
  case (start s)
  then show ?case by (auto simp: has_window_def window_def intro!: exI [of _ "[]"])
next
  case (gate s x s')
  have "gated s'"
  proof (cases x)
    case (Inl e)
    with gate hoareD_err [OF ensureReady_gated [OF assms(1)], of s e s'] show ?thesis by simp
  next
    case (Inr y)
    with gate hoareD [OF ensureReady_gated [OF assms(1)], of s y s'] show ?thesis by simp
  qed
  then show ?case by (simp add: gated_def)
next
  case (other s s')
  then show ?case by (auto simp: has_window_def window_def)
qed


text \<open>A world that is only a clock, six seconds further at each reading.\<close>

definition tickClient :: "int migrationClient" where
  "tickClient = \<lparr>mig_get = (\<lambda>_ _ w. (Inr sampleMigration, w)), mig_read = (\<lambda>_ _ w. (Inr sampleMigration, w)),
     mig_statusUpdate = (\<lambda>_ w. (Inr (), w)), mig_patch = (\<lambda>_ w. (Inr (), w)),
     clock = (\<lambda>w. (\<bar>w\<bar> + 6 * second, \<bar>w\<bar> + 6 * second))\<rparr>"

definition tickGate :: "int rstate \<Rightarrow> int rstate" where
  "tickGate s = snd (ensureReady (sampleReconciler tickClient sampleInfra []) s)"


section \<open>A stable cluster becomes ready\<close>

text \<open>While the world stays in \<open>W\<close>, the clock reads between \<open>a\<close> and \<open>b\<close>, all operators are
  stable, all pools have converged, and the infrastructure names only destinations of \<open>m\<close>.\<close>

definition stable_during :: "('w, 'b) reconciler_scheme \<Rightarrow> migration \<Rightarrow> time \<Rightarrow> time \<Rightarrow> 'w set \<Rightarrow> bool" where
  "stable_during r m a b W \<longleftrightarrow> 0 < a \<and> (\<forall>w\<in>W.
     (\<exists>t w'. clock (r_client r) w = (t, w') \<and> a \<le> t \<and> t \<le> b \<and> w' \<in> W) \<and>
     (\<exists>ops w'. clusterOperators_list (r_config r) w = (Inr ops, w') \<and> (\<forall>co\<in>set ops. operatorStable co) \<and> w' \<in> W) \<and>
     (\<exists>pools w'. machineConfigPools_list (r_machineConfig r) w = (Inr pools, w') \<and> (\<forall>p\<in>set pools. poolConverged p) \<and> w' \<in> W) \<and>
     (\<exists>infra w'. infrastructures_get (r_config r) InfrastructureName w = (Inr infra, w') \<and> nonTargetVCenter m infra = [] \<and> w' \<in> W))"

text \<open>A run that succeeds, stays in \<open>W\<close> and leaves the window and the spec as they were in \<open>s0\<close>.\<close>

definition level :: "'w set \<Rightarrow> 'w rstate \<Rightarrow> 'w rstate \<Rightarrow> bool" where
  "level W s0 s \<longleftrightarrow> world s \<in> W \<and> readyStabilityCount s = readyStabilityCount s0 \<and>
     lastCountedStabilityCheck s = lastCountedStabilityCheck s0 \<and>
     lastReadyStabilityCheck s = lastReadyStabilityCheck s0 \<and> spec (mig s) = spec (mig s0)"

definition levels :: "'w set \<Rightarrow> 'w rstate \<Rightarrow> ('w, 'a) handler \<Rightarrow> ('a \<Rightarrow> bool) \<Rightarrow> bool" where
  "levels W s0 c P \<longleftrightarrow> hoare (level W s0) c (\<lambda>x s. P x \<and> level W s0 s) (\<lambda>_ _. False)"

lemma levelsD:
  assumes "levels W s0 c P" and "level W s0 s"
  shows "\<exists>x s'. c s = (Inr x, s') \<and> P x \<and> level W s0 s'"
  using hoareD [OF assms(1) [unfolded levels_def] assms(2)] hoareD_err [OF assms(1) [unfolded levels_def] assms(2)]
  by (cases "c s", cases "fst (c s)") auto

lemma levelsI:
  assumes "\<And>s. level W s0 s \<Longrightarrow> \<exists>x s'. c s = (Inr x, s') \<and> P x \<and> level W s0 s'"
  shows "levels W s0 c P"
  unfolding levels_def by (rule hoareI) (use assms in force)+

lemma levels_time:
  assumes "stable_during r m a b W"
  shows "levels W s0 (timeNow (r_client r)) (\<lambda>t. a \<le> t \<and> t \<le> b)"
  by (rule levelsI) (use assms in \<open>force simp: timeNow_def level_def stable_during_def\<close>)

lemma levels_setCondition:
  assumes "stable_during r m a b W"
  shows "levels W s0 (setCondition r t st why msg) (\<lambda>_. True)"
  by (rule levelsI) (use assms in \<open>force simp: setCondition_def bnd_app timeNow_def level_def stable_during_def\<close>)

lemma levels_readCall:
  assumes "\<And>w. w \<in> W \<Longrightarrow> \<exists>x w'. c w = (Inr x, w') \<and> P x \<and> w' \<in> W"
  shows "levels W s0 (readCall t c) P"
  by (rule levelsI) (use assms in \<open>force simp: readCall_def wrapErr_def attempt_app request_app apiResult_def level_def\<close>)

lemma levels_bnd:
  assumes "levels W s0 c Q" and "\<And>x. Q x \<Longrightarrow> levels W s0 (f x) P"
  shows "levels W s0 (bnd c f) P"
proof (rule levelsI)
  fix s assume "level W s0 s"
  from levelsD [OF assms(1) this] obtain x t where "c s = (Inr x, t)" "Q x" "level W s0 t" by blast
  with levelsD [OF assms(2), of x t] show "\<exists>x s'. bnd c f s = (Inr x, s') \<and> P x \<and> level W s0 s'"
    by (auto simp: bnd_app)
qed

lemma levels_ret: "P x \<Longrightarrow> levels W s0 (ret x) P"
  by (rule levelsI) simp

lemma levels_readyCheck: "levels W s0 c P \<Longrightarrow> levels W s0 (readyCheck t c) P"
  by (rule levelsI) (auto simp: readyCheck_def attempt_app dest!: levelsD)

lemma levels_checks:
  assumes "stable_during r m a b W"
  shows "levels W s0 (CheckAllOperatorsStable (r_config r)) fst"
    and "levels W s0 (CheckPoolsConverged (r_machineConfig r)) fst"
    and "levels W s0 (infra_Get (r_config r)) (\<lambda>infra. nonTargetVCenter m infra = [])"
proof -
  have "levels W s0 (readCall t (clusterOperators_list (r_config r))) (\<lambda>ops. fst (operatorsStable ops))" for t
    by (rule levels_readCall) (use assms in \<open>force simp: stable_during_def operatorsStable_iff\<close>)
  then show "levels W s0 (CheckAllOperatorsStable (r_config r)) fst"
    unfolding CheckAllOperatorsStable_def by (rule levels_bnd) (rule levels_ret)
  have "levels W s0 (readCall t (machineConfigPools_list (r_machineConfig r))) (\<lambda>pools. fst (poolsConverged pools))" for t
    by (rule levels_readCall) (use assms in \<open>force simp: stable_during_def poolsConverged_iff\<close>)
  then show "levels W s0 (CheckPoolsConverged (r_machineConfig r)) fst"
    unfolding CheckPoolsConverged_def by (rule levels_bnd) (rule levels_ret)
  show "levels W s0 (infra_Get (r_config r)) (\<lambda>infra. nonTargetVCenter m infra = [])"
    unfolding infra_Get_def by (rule levels_readCall) (use assms in \<open>force simp: stable_during_def\<close>)
qed

lemma stable_entry:
  assumes "stable_during r m a b W" and "world s \<in> W"
    and "lastReadyStabilityCheck s = 0 \<or> b - lastReadyStabilityCheck s \<le> readyStabilityCheckGap"
  shows "\<exists>t w. enterReadyCheck r s = (Inr (), s\<lparr>world := w, lastReadyStabilityCheck := t\<rparr>) \<and> a \<le> t \<and> t \<le> b \<and> w \<in> W"
proof -
  have clk: "\<exists>t w'. clock (r_client r) w = (t, w') \<and> a \<le> t \<and> t \<le> b \<and> w' \<in> W" if "w \<in> W" for w
    using assms(1) that by (simp add: stable_during_def)
  from clk [OF assms(2)] obtain t w where w: "clock (r_client r) (world s) = (t, w)" "a \<le> t" "t \<le> b" "w \<in> W" by blast
  from clk [OF w(4)] obtain t' w' where w': "clock (r_client r) w = (t', w')" "a \<le> t'" "t' \<le> b" "w' \<in> W" by blast
  from w w' assms(3) show ?thesis by (auto simp: enterReadyCheck_def bnd_app timeNow_def)
qed

text \<open>A stable observation is counted when the one before it is old enough.\<close>

lemma stable_count:
  assumes "stable_during r m a b W" and "world s \<in> W"
    and "lastCountedStabilityCheck s = 0 \<or> readyStabilityObservationInterval \<le> a - lastCountedStabilityCheck s"
  shows "\<exists>t w. countStable r s = (Inr (), s\<lparr>world := w, lastCountedStabilityCheck := t,
     readyStabilityCount := readyStabilityCount s + 1\<rparr>) \<and> a \<le> t \<and> t \<le> b \<and> w \<in> W"
proof -
  have clk: "\<exists>t w'. clock (r_client r) w = (t, w') \<and> a \<le> t \<and> t \<le> b \<and> w' \<in> W" if "w \<in> W" for w
    using assms(1) that by (simp add: stable_during_def)
  from clk [OF assms(2)] obtain t w where w: "clock (r_client r) (world s) = (t, w)" "a \<le> t" "t \<le> b" "w \<in> W" by blast
  from clk [OF w(4)] obtain t' w' where w': "clock (r_client r) w = (t', w')" "a \<le> t'" "t' \<le> b" "w' \<in> W" by blast
  from w w' assms(3) show ?thesis by (auto simp: countStable_def bnd_app timeNow_def)
qed

lemma nonTarget_spec: "spec k = spec m \<Longrightarrow> nonTargetVCenter k infra = nonTargetVCenter m infra"
  by (simp only: nonTargetVCenter_def)

lemma stable_observation:
  assumes st: "stable_during r (mig s) a b W" and "world s \<in> W"
    and "lastReadyStabilityCheck s = 0 \<or> b - lastReadyStabilityCheck s \<le> readyStabilityCheckGap"
    and old: "lastCountedStabilityCheck s = 0 \<or> readyStabilityObservationInterval \<le> a - lastCountedStabilityCheck s"
  shows "\<exists>x s'. ensureReady r s = (Inr x, s') \<and> readyStabilityCount s' = readyStabilityCount s + 1 \<and>
    a \<le> lastCountedStabilityCheck s' \<and> lastCountedStabilityCheck s' \<le> b \<and>
    a \<le> lastReadyStabilityCheck s' \<and> lastReadyStabilityCheck s' \<le> b \<and>
    isConditionTrue (mig s') ConditionReady = (readyStabilityThreshold \<le> readyStabilityCount s + 1)"
proof -
  from stable_entry [OF assms(1-3)] obtain t w where t: "a \<le> t" "t \<le> b" "w \<in> W"
    and run: "enterReadyCheck r s = (Inr (), s\<lparr>world := w, lastReadyStabilityCheck := t\<rparr>)" by blast
  define s0 where "s0 = s\<lparr>world := w, lastReadyStabilityCheck := t\<rparr>"
  have "level W s0 s0" using t by (simp add: level_def s0_def)
  from levelsD [OF levels_setCondition [OF st] this, of ConditionReady ConditionFalse ReasonProgressing] obtain s1 where
    s1: "setProgressing r ConditionReady ''Verifying final cluster state'' s0 = (Inr (), s1)" "level W s0 s1" by auto
  with levelsD [OF levels_readyCheck [OF levels_checks(1) [OF st]]] obtain ops s2 where
    s2: "readyCheck ''checking operator stability'' (CheckAllOperatorsStable (r_config r)) s1 = (Inr ops, s2)" "fst ops" "level W s0 s2"
    by blast
  with levelsD [OF levels_readyCheck [OF levels_checks(2) [OF st]]] obtain pools s3 where
    s3: "readyCheck ''checking machine config pool convergence'' (CheckPoolsConverged (r_machineConfig r)) s2 = (Inr pools, s3)"
      "fst pools" "level W s0 s3" by blast
  with levelsD [OF levels_readyCheck [OF levels_checks(3) [OF st]]] obtain infra s4 where
    s4: "readyCheck ''getting infrastructure for readiness check'' (infra_Get (r_config r)) s3 = (Inr infra, s4)"
      "nonTargetVCenter (mig s) infra = []" "level W s0 s4" by blast
  have "nonTargetVCenter (mig s4) infra = []" using s4(2,3) nonTarget_spec [of "mig s4" "mig s"] by (simp add: level_def s0_def)
  then have "ensureReady r s = sustainReady r s4"
    using run s1(1) s2(1,2) s3(1,2) s4(1) by (simp add: ensureReady_def bnd_app readyBlockers_def s0_def)
  moreover have "lastCountedStabilityCheck s4 = lastCountedStabilityCheck s" "lastReadyStabilityCheck s4 = t"
    "readyStabilityCount s4 = readyStabilityCount s" "world s4 \<in> W" using s4(3) by (simp_all add: level_def s0_def)
  moreover from stable_count [OF st this(4)] old this(1) obtain u v where
    "countStable r s4 = (Inr (), s4\<lparr>world := v, lastCountedStabilityCheck := u, readyStabilityCount := readyStabilityCount s4 + 1\<rparr>)"
    "a \<le> u" "u \<le> b" "v \<in> W" by auto
  ultimately show ?thesis using t
    by (auto simp: sustainReady_def commitReady_def bnd_app timeNow_def modifyStatus_def setCondition_def isConditionTrue_with
        split: prod.splits)
qed

text \<open>
  C10: a stable cluster becomes ready. If the readiness gate runs six times, in a cluster that is
  stable during each run, with every run beginning at least 30 seconds after the end of the
  one before and ending at most 90 seconds after its beginning, and nothing else touches the window in between, then
  every run succeeds and the sixth, and no earlier one, leaves the Ready condition True.
\<close>

theorem stable_cluster_becomes_ready:
  assumes "readyStabilityCount (s 0) = 0" and "lastCountedStabilityCheck (s 0) = 0" and "lastReadyStabilityCheck (s 0) = 0"
    and "\<And>i. i < 6 \<Longrightarrow> stable_during r (mig (s i)) (a i) (b i) (W i) \<and> world (s i) \<in> W i"
    and "\<And>i. i < 5 \<Longrightarrow> a (Suc i) - b i \<ge> 30 * second \<and> b (Suc i) - a i \<le> 90 * second"
    and "\<And>i. i < 5 \<Longrightarrow> (let s' = snd (ensureReady r (s i)); t = s (Suc i) in
       readyStabilityCount t = readyStabilityCount s' \<and> lastCountedStabilityCheck t = lastCountedStabilityCheck s' \<and>
       lastReadyStabilityCheck t = lastReadyStabilityCheck s')"
    and "i < 6"
  shows "(\<exists>x. fst (ensureReady r (s i)) = Inr x) \<and>
    isConditionTrue (mig (snd (ensureReady r (s i)))) ConditionReady = (i = 5)"
proof -
  define out where "out = (\<lambda>i. snd (ensureReady r (s i)))"
  have step: "(\<exists>x. fst (ensureReady r (s i)) = Inr x) \<and> readyStabilityCount (out i) = int i + 1 \<and>
      a i \<le> lastCountedStabilityCheck (out i) \<and> lastCountedStabilityCheck (out i) \<le> b i \<and>
      a i \<le> lastReadyStabilityCheck (out i) \<and> isConditionTrue (mig (out i)) ConditionReady = (6 \<le> int i + 1)"
    if "i < 6" for i
    using that
  proof (induction i)
    case 0
    from stable_observation [of r "s 0" "a 0" "b 0" "W 0"] assms(1-3) assms(4) [of 0]
    show ?case by (auto simp: out_def readyStabilityThreshold_def)
  next
    case (Suc i)
    then have n: "i < 5" by simp
    have prev: "readyStabilityCount (s (Suc i)) = int i + 1" "a i \<le> lastReadyStabilityCheck (s (Suc i))"
      "lastCountedStabilityCheck (s (Suc i)) \<le> b i"
      using Suc assms(6) [OF n] by (simp_all add: out_def Let_def)
    then have gaps: "b (Suc i) - lastReadyStabilityCheck (s (Suc i)) \<le> readyStabilityCheckGap"
      "readyStabilityObservationInterval \<le> a (Suc i) - lastCountedStabilityCheck (s (Suc i))"
      using assms(5) [OF n] by (simp_all add: readyStabilityCheckGap_def readyStabilityObservationInterval_def)
    from stable_observation [of r "s (Suc i)" "a (Suc i)" "b (Suc i)" "W (Suc i)"] gaps assms(4) [OF Suc.prems] prev(1)
    show ?case by (auto simp: out_def readyStabilityThreshold_def)
  qed
  from step [OF assms(7)] assms(7) show ?thesis by (auto simp: out_def)
qed

text \<open>A cluster without operators or pools whose clock stands at the time of the world.\<close>

definition stillReconciler :: "time reconciler" where
  "stillReconciler = sampleReconciler (tickClient\<lparr>clock := (\<lambda>w. (w, w))\<rparr>) sampleInfra []"

definition stillGate :: "time rstate \<Rightarrow> time rstate" where
  "stillGate s = snd (ensureReady stillReconciler s)"

fun stillStates :: "nat \<Rightarrow> time rstate" where
  "stillStates 0 = sampleState (60 * second) sampleMigration"
| "stillStates (Suc n) = (stillGate (stillStates n))\<lparr>world := (int n + 2) * (60 * second), mig := sampleMigration\<rparr>"

theorem stable_cluster_becomes_ready_witness:
  "\<not> isConditionTrue (mig (stillGate (stillStates 4))) ConditionReady \<and>
   isConditionTrue (mig (stillGate (stillStates 5))) ConditionReady"
proof -
  have world: "world (stillStates i) = (int i + 1) * (60 * second)" "mig (stillStates i) = sampleMigration" for i
    by (cases i; simp add: sampleState_def algebra_simps)+
  have stable: "stable_during stillReconciler sampleMigration t t {t}" if "0 < t" for t
    using that by (simp add: stable_during_def stillReconciler_def sampleReconciler_def sampleConfigClient_def
        nonTargetVCenter_def sampleInfra_def sampleMigration_def)
  have "0 < (int i + 1) * (60 * second)" for i by (simp add: second_def)
  note stable = stable [OF this]
  have "isConditionTrue (mig (snd (ensureReady stillReconciler (stillStates i)))) ConditionReady = (i = 5)" if "i < 6" for i
    by (rule stable_cluster_becomes_ready [where s = stillStates and a = "\<lambda>i. (int i + 1) * (60 * second)"
          and b = "\<lambda>i. (int i + 1) * (60 * second)" and W = "\<lambda>i. {(int i + 1) * (60 * second)}", THEN conjunct2])
      (use stable that in \<open>simp_all add: world Let_def algebra_simps second_def stillGate_def\<close>,
       simp_all add: sampleState_def)
  from this [of 4] this [of 5] show ?thesis by (simp add: stillGate_def)
qed

end
