(* ===== verification/Reconcile.thy ===== *)
theory Reconcile
  imports Preflight Destination Cleanup Ready
begin

text \<open>
  The reconcile loop: \<open>Reconcile\<close>, \<open>reconcileWorkflow\<close> and \<open>checkMappingForReconcile\<close>
  (\<open>internal/controller/vmwarecloudfoundationmigration_controller.go\<close>). The request names the
  object; the object read is the state \<open>mig\<close> that the handlers work on, and \<open>base\<close> the status it
  had when it was read. An event recorder is always configured.
\<close>

section \<open>Definitions\<close>

text \<open>A condition that is False for the reason, for the current generation.\<close>

definition alreadyRecorded :: "migration \<Rightarrow> condition_type \<Rightarrow> reason \<Rightarrow> bool" where
  "alreadyRecorded m t why = (case FindStatusCondition (conds m) t of None \<Rightarrow> False
     | Some c \<Rightarrow> cond_status c = ConditionFalse \<and> cond_reason c = why \<and> observedGeneration c = generation m)"

definition refuse :: "('w, 'b) reconciler_scheme \<Rightarrow> migrationStatus \<Rightarrow> migration \<Rightarrow> reason \<Rightarrow> string \<Rightarrow> ('w, result) handler" where
  "refuse r base m why msg =
     (if alreadyRecorded m ConditionAccepted why then ret 0
      else
        bnd (Eventf EventWarning (reason_name why) msg) (\<lambda>_.
        bnd (setCondition r ConditionAccepted ConditionFalse why msg) (\<lambda>_.
        bnd (updateStatus r base) (\<lambda>_.
        ret 0))))"

definition gateReason :: "migration \<Rightarrow> reason" where
  "gateReason m = (if name m = SingletonName then ReasonUnsupportedNamespace else ReasonUnsupportedName)"

definition gateMessage :: "migration \<Rightarrow> string" where
  "gateMessage m =
     (if name m = SingletonName
      then ''only a VmwareCloudFoundationMigration in namespace '' @ quote SingletonNamespace @ '' is reconciled by this operator''
      else ''only a VmwareCloudFoundationMigration named '' @ quote SingletonName @ '' is reconciled by this operator'')"

definition msgDeletionBlocked :: string where
  "msgDeletionBlocked = ''deletion is blocked until the migration completes or an administrator sets the annotation '' @
     AnnotationAllowDeletion @ ''=''  @ quote ''true''"

definition msgPaused :: string where
  "msgPaused = ''Migration is paused; set spec.state to Running to resume''"

definition reconcileDeletion :: "('w, 'b) reconciler_scheme \<Rightarrow> migrationStatus \<Rightarrow> migration \<Rightarrow> ('w, result) handler" where
  "reconcileDeletion r base m =
     bnd (liftE (isCompletionRecordedForSpec (r_hash r) m)) (\<lambda>complete.
     if complete \<or> annotations m AnnotationAllowDeletion = Some ''true'' then
       bnd (wrapErr (''removing finalizer '' @ FinalizerName) (updateRetentionFinalizer (r_hash r) (r_client r) m)) (\<lambda>_. ret 0)
     else refuse r base m ReasonDeletionBlocked msgDeletionBlocked)"

definition reconcileNotRunning :: "('w, 'b) reconciler_scheme \<Rightarrow> migrationStatus \<Rightarrow> migration \<Rightarrow> ('w, result) handler" where
  "reconcileNotRunning r base m =
     bnd (if spec_state (spec m) = MigrationStatePaused \<and> \<not> alreadyRecorded m ConditionReady ReasonPaused then
            bnd (Eventf EventNormal (reason_name ReasonPaused) msgPaused) (\<lambda>_.
            setCondition r ConditionReady ConditionFalse ReasonPaused msgPaused)
          else ret ()) (\<lambda>_.
     bnd (updateStatus r base) (\<lambda>_.
     ret 0))"

definition resumeWorkflow :: "('w, 'b) reconciler_scheme \<Rightarrow> migrationStatus \<Rightarrow> migration \<Rightarrow> ('w, unit) handler" where
  "resumeWorkflow r base m =
     (case FindStatusCondition (conds m) ConditionReady of
        None \<Rightarrow> ret ()
      | Some c \<Rightarrow>
          if cond_reason c = ReasonPaused then
            bnd (Eventf EventNormal (reason_name ReasonProgressing) ''Migration is running'') (\<lambda>_.
            bnd (setProgressing r ConditionReady ''Migration is running'') (\<lambda>_.
            updateStatus r base))
          else ret ())"

definition startWorkflow :: "('w, 'b) reconciler_scheme \<Rightarrow> migrationStatus \<Rightarrow> migration \<Rightarrow> ('w, unit) handler" where
  "startWorkflow r base m =
     (if startTime (status m) \<noteq> None then ret ()
      else
        bnd (timeNow (r_client r)) (\<lambda>now.
        bnd (modifyStatus (startTime_update (\<lambda>_. Some now))) (\<lambda>_.
        bnd (Eventf EventNormal ''MigrationStarted'' ''Migration workflow started'') (\<lambda>_.
        updateStatus r base))))"

text \<open>The result says whether the reconcile stops here.\<close>

definition checkMappingForReconcile :: "('w, 'b) reconciler_scheme \<Rightarrow> migrationStatus \<Rightarrow> ('w, bool) handler" where
  "checkMappingForReconcile r base =
     bnd (gets mig) (\<lambda>m.
     let cond = FindStatusCondition (conds m) ConditionAccepted in
     case ensureMappingImmutable (r_iter r) m of
       Inl e \<Rightarrow>
         bnd (if isMappingRejection cond \<and> map_option observedGeneration cond = Some (generation m) then ret ()
              else Eventf EventWarning (reason_name ReasonMappingRejected) (error_text e)) (\<lambda>_.
         bnd (setCondition r ConditionAccepted ConditionFalse ReasonMappingRejected (error_text e)) (\<lambda>_.
         bnd (updateStatus r base) (\<lambda>_.
         ret True)))
     | Inr _ \<Rightarrow>
         bnd (if isMappingRejection cond
              then modifyStatus (\<lambda>st. st\<lparr>conditions := RemoveStatusCondition (conditions st) ConditionAccepted\<rparr>)
              else ret ()) (\<lambda>_.
         ret False))"

definition conditionOrder :: "condition_type list" where
  "conditionOrder = [ConditionInfrastructurePrepared, ConditionDestinationInitialized, ConditionMultiSiteConfigured,
     ConditionWorkloadMigrated, ConditionSourceCleaned, ConditionReady]"

definition handlers :: "'w rstate ctx \<Rightarrow> ('w, 'b) reconciler_scheme \<Rightarrow> condition_type \<Rightarrow> ('w, result) handler option" where
  "handlers ctx r t = (case t of
      ConditionInfrastructurePrepared \<Rightarrow> Some (ensureInfrastructurePrepared ctx r)
    | ConditionDestinationInitialized \<Rightarrow> Some (ensureDestinationInitialized ctx r)
    | ConditionMultiSiteConfigured \<Rightarrow> Some (ensureMultiSiteConfigured ctx r)
    | ConditionWorkloadMigrated \<Rightarrow> Some (ensureWorkloadMigrated ctx r)
    | ConditionSourceCleaned \<Rightarrow> Some (ensureSourceCleaned ctx r)
    | ConditionReady \<Rightarrow> Some (ensureReady r)
    | _ \<Rightarrow> None)"

text \<open>After the handler: an error is recorded in the condition, and the status is published in
  either case.\<close>

definition recordFailure :: "('w, 'b) reconciler_scheme \<Rightarrow> condition_type \<Rightarrow> error \<Rightarrow> ('w, unit) handler" where
  "recordFailure r t e =
     bnd (setCondition r t ConditionFalse (reasonForError e) (error_text e)) (\<lambda>_.
     Eventf EventWarning ''ConditionFailed'' (''Condition '' @ condition_name t @ '' failed: '' @ error_text e))"

definition publishOutcome ::
  "('w, 'b) reconciler_scheme \<Rightarrow> migrationStatus \<Rightarrow> condition_type \<Rightarrow> error + result \<Rightarrow> ('w, result) handler" where
  "publishOutcome r base t res =
     (case res of
        Inl e \<Rightarrow>
          if is_stopped e then ret 0
          else
            bnd (recordFailure r t e) (\<lambda>_.
            bnd (updateStatus r base) (\<lambda>_.
            fail e))
      | Inr x \<Rightarrow> bnd (updateStatus r base) (\<lambda>_. ret x))"

text \<open>Permission is checked before and after the handler; an error of the second check replaces
  the handler's outcome.\<close>

definition processCondition ::
  "'w rstate ctx \<Rightarrow> ('w, 'b) reconciler_scheme \<Rightarrow> migrationStatus \<Rightarrow> condition_type \<Rightarrow> ('w, result) handler" where
  "processCondition ctx r base t =
     (case handlers ctx r t of
        None \<Rightarrow> fail (Errorf (''no handler for condition '' @ quote (condition_name t)))
      | Some handler \<Rightarrow>
          attempt (Check ctx) (\<lambda>permission.
          case permission of
            Inl e \<Rightarrow> if is_stopped e then ret 0 else fail e
          | Inr _ \<Rightarrow>
              attempt handler (\<lambda>res.
              attempt (Check ctx) (\<lambda>again.
              publishOutcome r base t (case again of Inl e \<Rightarrow> Inl e | Inr _ \<Rightarrow> res)))))"

fun walkConditions ::
  "'w rstate ctx \<Rightarrow> ('w, 'b) reconciler_scheme \<Rightarrow> migrationStatus \<Rightarrow> condition_type list \<Rightarrow> ('w, result) handler" where
  "walkConditions ctx r base [] = bnd (updateStatus r base) (\<lambda>_. ret 0)"
| "walkConditions ctx r base (t # ts) =
     bnd (gets mig) (\<lambda>m.
     if isConditionTrue m t then walkConditions ctx r base ts else processCondition ctx r base t)"

definition runWorkflow :: "'w rstate ctx \<Rightarrow> ('w, 'b) reconciler_scheme \<Rightarrow> migrationStatus \<Rightarrow> ('w, result) handler" where
  "runWorkflow ctx r base =
     bnd (seedReadyCondition r) (\<lambda>_.
     bnd (gets mig) (\<lambda>m.
     walkConditions (executionContext ctx (r_client r) m) r base conditionOrder))"

definition reconcileWorkflow ::
  "'w rstate ctx \<Rightarrow> ('w, 'b) reconciler_scheme \<Rightarrow> migrationStatus \<Rightarrow> migration \<Rightarrow> ('w, result) handler" where
  "reconcileWorkflow ctx r base m =
     (if spec_state (spec m) \<noteq> MigrationStateRunning then reconcileNotRunning r base m
      else
        bnd (resumeWorkflow r base m) (\<lambda>_.
        bnd (startWorkflow r base m) (\<lambda>_.
        bnd (checkMappingForReconcile r base) (\<lambda>stop.
        if stop then ret 0 else runWorkflow ctx r base))))"

definition reconcileObject :: "'w rstate ctx \<Rightarrow> ('w, 'b) reconciler_scheme \<Rightarrow> migration \<Rightarrow> ('w, result) handler" where
  "reconcileObject ctx r m =
     (let base = status m in
      if name m \<noteq> SingletonName \<or> namespace m \<noteq> SingletonNamespace then refuse r base m (gateReason m) (gateMessage m)
      else if deletionTimestamp m = None \<and> FinalizerName \<notin> set (finalizers m) then
        bnd (wrapErr (''adding finalizer '' @ FinalizerName) (updateRetentionFinalizer (r_hash r) (r_client r) m)) (\<lambda>_. ret 0)
      else if deletionTimestamp m \<noteq> None then reconcileDeletion r base m
      else reconcileWorkflow ctx r base m)"

definition Reconcile :: "'w rstate ctx \<Rightarrow> ('w, 'b) reconciler_scheme \<Rightarrow> string \<Rightarrow> string \<Rightarrow> ('w, result) handler" where
  "Reconcile ctx r ns nm =
     attempt (readMigration (mig_get (r_client r) ns nm)) (\<lambda>res.
     case res of
       Inl e \<Rightarrow> if IsNotFound e then ret 0 else fail (Wrapf ''getting migration resource'' e)
     | Inr m \<Rightarrow>
         bnd (modify (\<lambda>s. s\<lparr>mig := m\<rparr>)) (\<lambda>_.
         reconcileObject ctx r m))"

section \<open>Guarding\<close>

lemma keeps_retention [keeps_rules]: "keeps (safe k A) (updateRetentionFinalizer h cl m)"
  unfolding updateRetentionFinalizer_def by (intro keeps_rules) simp_all

lemma keeps_gates [keeps_rules]:
  "keeps (safe k A) (refuse r base m why msg)"
  "keeps (safe k A) (reconcileDeletion r base m)"
  "keeps (safe k A) (reconcileNotRunning r base m)"
  "keeps (safe k A) (resumeWorkflow r base m)"
  "keeps (safe k A) (startWorkflow r base m)"
  "keeps (safe k A) (checkMappingForReconcile r base)"
  "keeps (safe k A) (publishOutcome r base t res)"
  unfolding refuse_def reconcileDeletion_def reconcileNotRunning_def resumeWorkflow_def startWorkflow_def
    checkMappingForReconcile_def publishOutcome_def recordFailure_def Let_def
  by (intro keeps_rules)+

text \<open>The mutations that the handler of a condition may send, each as the handler's own theory
  has it.\<close>

definition phaseStep :: "('w, 'b) reconciler_scheme \<Rightarrow> migration \<Rightarrow> condition_type \<Rightarrow> mutation \<Rightarrow> bool" where
  "phaseStep r m t x = (case t of
      ConditionInfrastructurePrepared \<Rightarrow> probeStep (r_vsphere r) x
    | ConditionDestinationInitialized \<Rightarrow> \<exists>infraID. destinationStep infraID (spec_failureDomains (spec m)) x
    | ConditionMultiSiteConfigured \<Rightarrow> configStep (r_yaml r) (r_iter r) (spec_failureDomains (spec m)) x
    | ConditionWorkloadMigrated \<Rightarrow> workloadStep m x
    | ConditionSourceCleaned \<Rightarrow> cleanupAllowed (r_yaml r) m x
    | _ \<Rightarrow> False)"

lemma phaseStep_simps:
  "phaseStep r m ConditionInfrastructurePrepared = probeStep (r_vsphere r)"
  "phaseStep r m ConditionDestinationInitialized = (\<lambda>x. \<exists>infraID. destinationStep infraID (spec_failureDomains (spec m)) x)"
  "phaseStep r m ConditionMultiSiteConfigured = configStep (r_yaml r) (r_iter r) (spec_failureDomains (spec m))"
  "phaseStep r m ConditionWorkloadMigrated = workloadStep m"
  "phaseStep r m ConditionSourceCleaned = cleanupAllowed (r_yaml r) m"
  "phaseStep r m ConditionReady = (\<lambda>_. False)"
  by (simp_all add: phaseStep_def fun_eq_iff)

lemma phaseStep_spec: "spec m = spec m' \<Longrightarrow> phaseStep r m = phaseStep r m'"
  by (auto simp: phaseStep_def fun_eq_iff workloadStep_def cleanupAllowed_def isConfiguredDestination_def
      split: condition_type.splits mutation.splits)

lemma handler_safe:
  assumes "range_order (r_iter r)" and "handlers (executionContext ctx (r_client r) k) r t = Some h"
    and s: "safe k (phaseStep r (mig s) t) s"
  shows "safe k (phaseStep r (mig s) t) (snd (h s))"
proof (cases t)
  case ConditionInfrastructurePrepared
  with assms show ?thesis
    by (auto simp: handlers_def phaseStep_simps intro!: keeps_snd [OF hc.keeps_ensureInfrastructurePrepared])
next
  case ConditionDestinationInitialized
  with assms show ?thesis
    by (auto simp: handlers_def phaseStep_simps ensureDestinationInitialized_def
        intro!: keeps_snd [OF hc.keeps_initializeDestination])
next
  case ConditionMultiSiteConfigured
  with assms show ?thesis by (auto simp: handlers_def phaseStep_simps intro!: safe_multiSite)
next
  case ConditionWorkloadMigrated
  with assms show ?thesis by (auto simp: handlers_def phaseStep_simps intro!: safe_workload)
next
  case ConditionSourceCleaned
  with assms show ?thesis by (auto simp: handlers_def phaseStep_simps intro!: safe_sourceCleaned)
next
  case ConditionReady
  with assms show ?thesis
    by (auto simp: handlers_def phaseStep_simps intro!: keeps_snd [OF keeps_ensureReady])
qed (use assms in \<open>simp_all add: handlers_def\<close>)

lemma Check_mig: "Check (executionContext ctx cl m) s = (x, t) \<Longrightarrow> mig t = mig s"
  by (auto simp: Check_def executionContext_def WithCheck_def checkPermission_def split: prod.splits sum.splits)

lemma process_safe:
  assumes "range_order (r_iter r)" and s: "safe k (phaseStep r (mig s) t) s"
  shows "safe k (phaseStep r (mig s) t) (snd (processCondition (executionContext ctx (r_client r) k) r base t s))"
proof (cases "handlers (executionContext ctx (r_client r) k) r t")
  case (Some h)
  let ?c = "executionContext ctx (r_client r) k" and ?A = "phaseStep r (mig s) t"
  obtain x s1 where s1: "Check ?c s = (x, s1)" by fastforce
  have ok1: "safe k ?A s1" by (rule keepsD [OF ec.keeps_Check s s1])
  show ?thesis
  proof (cases x)
    case Inl
    then show ?thesis using Some s1 ok1 by (simp add: processCondition_def attempt_app)
  next
    case (Inr u)
    obtain y s2 where s2: "h s1 = (y, s2)" by fastforce
    have "safe k ?A s2"
      using handler_safe [OF assms(1) Some, of s1] ok1 s2 Check_mig [OF s1] by simp
    then have "safe k ?A (snd (attempt (Check ?c) (\<lambda>again.
        publishOutcome r base t (case again of Inl e \<Rightarrow> Inl e | Inr _ \<Rightarrow> y)) s2))"
      by (intro keeps_snd [where P = "safe k ?A"] keeps_rules ec.keeps_Check)
    then show ?thesis using Some s1 s2 Inr by (simp add: processCondition_def attempt_app)
  qed
qed (simp add: processCondition_def s)

section \<open>The first incomplete phase\<close>

definition nextPhase :: "migration \<Rightarrow> condition_type option" where
  "nextPhase m = find (\<lambda>t. \<not> isConditionTrue m t) conditionOrder"

lemma walk_first:
  "walkConditions ctx r base ts s = (case find (\<lambda>t. \<not> isConditionTrue (mig s) t) ts of
     None \<Rightarrow> bnd (updateStatus r base) (\<lambda>_. ret 0) s | Some t \<Rightarrow> processCondition ctx r base t s)"
  by (induction ts) auto

lemma walk_safe:
  assumes "range_order (r_iter r)" and "\<And>A. safe k A s"
  shows "\<exists>A. (A = (\<lambda>_. False) \<or> (\<exists>t. find (\<lambda>t. \<not> isConditionTrue (mig s) t) ts = Some t \<and> A = phaseStep r (mig s) t)) \<and>
    safe k A (snd (walkConditions (executionContext ctx (r_client r) k) r base ts s))"
proof (cases "find (\<lambda>t. \<not> isConditionTrue (mig s) t) ts")
  case None
  have "safe k (\<lambda>_. False) (snd (bnd (updateStatus r base) (\<lambda>_. ret 0) s))"
    by (intro keeps_snd [where P = "safe k (\<lambda>_. False)"] keeps_rules assms)
  with None show ?thesis unfolding walk_first by auto
next
  case (Some t)
  with process_safe [OF assms] show ?thesis unfolding walk_first by auto
qed

section \<open>What a reconcile may do\<close>

text \<open>The migration the handlers see is the one read, up to the conditions Ready and Accepted and
  the start time.\<close>

definition same_work :: "migration \<Rightarrow> migration \<Rightarrow> bool" where
  "same_work m k \<longleftrightarrow> spec k = spec m \<and> uid k = uid m \<and> generation k = generation m \<and>
     status_mappings (status k) = status_mappings (status m) \<and>
     (\<forall>u. u \<noteq> ConditionReady \<longrightarrow> u \<noteq> ConditionAccepted \<longrightarrow> isConditionTrue k u = isConditionTrue m u)"

text \<open>A state without mutations in which every status write is safe.\<close>

definition calm :: "('w, 'z) exec_scheme \<Rightarrow> bool" where
  "calm s \<longleftrightarrow> (\<forall>k. safe k (\<lambda>_. False) s)"

definition begun :: "migration \<Rightarrow> 'w rstate \<Rightarrow> bool" where
  "begun m s \<longleftrightarrow> calm s \<and> same_work m (mig s)"

definition outcome :: "('w, 'b) reconciler_scheme \<Rightarrow> migration \<Rightarrow> 'w rstate \<Rightarrow> bool" where
  "outcome r m s \<longleftrightarrow> calm s \<or> (\<exists>t. nextPhase m = Some t \<and> safe m (phaseStep r m t) s)"

lemma keeps_calm: "(\<And>k A. keeps (safe k A) f) \<Longrightarrow> keeps calm f"
  by (simp add: keeps_def calm_def)

lemma trace_ok_False: "trace_ok k (\<lambda>_. False) tr \<Longrightarrow> trace_ok k' A tr"
  by (induction k "\<lambda>_ :: mutation. False" tr rule: trace_ok.induct) auto

lemma calm_iff: "calm s \<longleftrightarrow> safe k (\<lambda>_. False) s"
  unfolding calm_def safe_def using trace_ok_False by blast

lemma trace_ok_cong: "uid k = uid m \<Longrightarrow> generation k = generation m \<Longrightarrow> trace_ok k A tr = trace_ok m A tr"
proof -
  assume "uid k = uid m" and "generation k = generation m"
  then have "permits k a = permits m a" for a
    by (cases "(m, a)" rule: permits.cases) (auto simp: stillRunning_def)
  then show "trace_ok k A tr = trace_ok m A tr"
    by (induction m A tr rule: trace_ok.induct) auto
qed

lemma held_prims [keeps_rules]:
  "keeps (\<lambda>s. Q (mig s)) (request a c)"
  "keeps (\<lambda>s. Q (mig s)) (readMigration d)"
  "keeps (\<lambda>s. Q (mig s)) (timeNow cl)"
  "keeps (\<lambda>s. Q (mig s)) (Eventf t why note)"
  by (auto simp: keeps_def request_app readMigration_def timeNow_def split: prod.splits)

lemma held_updateStatus [keeps_rules]: "keeps (\<lambda>s. Q (mig s)) (updateStatus r base)"
  unfolding updateStatus_def updateStatusOnce_def by (intro keeps_rules)

lemma same_work_setCondition [keeps_rules]:
  "t = ConditionReady \<or> t = ConditionAccepted \<Longrightarrow> keeps (\<lambda>s. same_work m (mig s)) (setCondition r t st why msg)"
  unfolding setCondition_def
  by (intro keeps_rules keeps_modify) (auto simp: same_work_def isConditionTrue_with)

lemma same_work_status [keeps_rules]:
  "keeps (\<lambda>s. same_work m (mig s)) (modifyStatus (startTime_update f))"
  "keeps (\<lambda>s. same_work m (mig s)) (modifyStatus (\<lambda>st. st\<lparr>conditions := RemoveStatusCondition (conditions st) ConditionAccepted\<rparr>))"
  unfolding modifyStatus_def
  by (intro keeps_modify; simp add: same_work_def isConditionTrue_def conditionTrue_Remove)+

lemma begun_keeps:
  "keeps (begun m) (resumeWorkflow r base k)"
  "keeps (begun m) (startWorkflow r base k)"
  "keeps (begun m) (checkMappingForReconcile r base)"
  "keeps (begun m) (seedReadyCondition r)"
proof -
  have conj: "keeps (begun m) f" if "keeps calm f" and "keeps (\<lambda>s. same_work m (mig s)) f" for f :: "('a, 'c) handler"
    using that by (simp add: keeps_def begun_def)
  show "keeps (begun m) (resumeWorkflow r base k)" "keeps (begun m) (startWorkflow r base k)"
    "keeps (begun m) (checkMappingForReconcile r base)" "keeps (begun m) (seedReadyCondition r)"
    by (intro conj keeps_calm keeps_rules;
        (unfold resumeWorkflow_def startWorkflow_def checkMappingForReconcile_def seedReadyCondition_def Let_def, intro keeps_rules; simp))+
qed

lemma ends_bnd:
  assumes "keeps B f" and "B s" and "\<And>t. B t \<Longrightarrow> Q t"
    and "\<And>x t. f s = (Inr x, t) \<Longrightarrow> B t \<Longrightarrow> Q (snd (g x t))"
  shows "Q (snd (bnd f g s))"
  using assms(3,4) keepsD [OF assms(1,2)] by (cases "f s"; cases "fst (f s)") (auto simp: bnd_app)

lemma runWorkflow_outcome:
  fixes s :: "'w rstate"
  assumes "range_order (r_iter r)" and "begun m s"
  shows "outcome r m (snd (runWorkflow ctx r base s))"
  unfolding runWorkflow_def
proof (rule ends_bnd [OF begun_keeps(4) assms(2)])
  fix x and t :: "'w rstate"
  assume b: "begun m t"
  let ?k = "mig t"
  have same: "same_work m ?k" and safe: "safe ?k A t" for A
    using b by (auto simp: begun_def calm_def safe_def intro: trace_ok_False)
  obtain A where A: "A = (\<lambda>_. False) \<or> (\<exists>u. nextPhase ?k = Some u \<and> A = phaseStep r ?k u)"
    and fin: "safe ?k A (snd (walkConditions (executionContext ctx (r_client r) ?k) r base conditionOrder t))"
    using walk_safe [OF assms(1), of ?k t conditionOrder ctx base] safe unfolding nextPhase_def by blast
  have step: "phaseStep r ?k = phaseStep r m" using same by (intro phaseStep_spec) (simp add: same_work_def)
  have nxt: "nextPhase ?k = Some u \<Longrightarrow> u = ConditionReady \<or> nextPhase m = Some u" for u
    using same by (auto simp: nextPhase_def conditionOrder_def same_work_def split: if_splits)
  have "outcome r m (snd (walkConditions (executionContext ctx (r_client r) ?k) r base conditionOrder t))"
    using A fin step nxt same trace_ok_cong [of ?k m]
    by (auto simp: outcome_def calm_iff [of _ ?k] phaseStep_simps safe_def same_work_def)
  then show "outcome r m (snd (bnd (gets mig) (\<lambda>m. walkConditions (executionContext ctx (r_client r) m) r base conditionOrder) t))"
    by simp
qed (simp add: begun_def outcome_def)

text \<open>The guards of a reconcile: the singleton, not being deleted, protected by the finalizer,
  Running, and with the mapping that was recorded.\<close>

definition admitted :: "('w, 'b) reconciler_scheme \<Rightarrow> migration \<Rightarrow> bool" where
  "admitted r m \<longleftrightarrow> name m = SingletonName \<and> namespace m = SingletonNamespace \<and> deletionTimestamp m = None \<and>
     FinalizerName \<in> set (finalizers m) \<and> spec_state (spec m) = MigrationStateRunning \<and>
     ensureMappingImmutable (r_iter r) m = Inr ()"

lemma checkMapping_passed:
  assumes "checkMappingForReconcile r base s = (Inr False, t)" and "same_work m (mig s)"
  shows "ensureMappingImmutable (r_iter r) m = Inr ()"
proof -
  have "ensureMappingImmutable (r_iter r) (mig s) = Inr ()"
    using assms(1) by (auto simp: checkMappingForReconcile_def Let_def bnd_Inr split: sum.splits)
  with assms(2) show ?thesis by (simp add: ensureMappingImmutable_def same_work_def)
qed

lemma workflow_outcome:
  fixes s :: "'w rstate"
  assumes "range_order (r_iter r)" and "begun m s" and "spec_state (spec m) = MigrationStateRunning"
  shows "calm (snd (reconcileWorkflow ctx r base m s)) \<or>
    (ensureMappingImmutable (r_iter r) m = Inr () \<and> outcome r m (snd (reconcileWorkflow ctx r base m s)))"
    (is "?Q (snd (_ s))")
proof -
  have calm: "?Q t" if "begun m t" for t using that by (simp add: begun_def)
  let ?map = "bnd (checkMappingForReconcile r base) (\<lambda>stop. if stop then ret 0 else runWorkflow ctx r base)"
  have checked: "?Q (snd (?map t))" if "begun m t" for t
    by (rule ends_bnd [OF begun_keeps(3) that calm])
      (use that in \<open>auto simp: begun_def dest: checkMapping_passed intro: runWorkflow_outcome [OF assms(1)]\<close>)
  have started: "?Q (snd (bnd (startWorkflow r base m) (\<lambda>_. ?map) t))" if "begun m t" for t
    by (rule ends_bnd [where Q = ?Q, OF begun_keeps(2) that]) (erule calm, erule checked)
  have "?Q (snd (bnd (resumeWorkflow r base m) (\<lambda>_. bnd (startWorkflow r base m) (\<lambda>_. ?map)) s))"
    by (rule ends_bnd [where Q = ?Q, OF begun_keeps(1) assms(2)]) (erule calm, erule started)
  then show ?thesis using assms(3) by (simp add: reconcileWorkflow_def)
qed

lemma reconcileObject_outcome:
  assumes "range_order (r_iter r)" and "begun m s"
  shows "calm (snd (reconcileObject ctx r m s)) \<or> (admitted r m \<and> outcome r m (snd (reconcileObject ctx r m s)))"
proof (cases "name m = SingletonName \<and> namespace m = SingletonNamespace \<and> deletionTimestamp m = None \<and>
    FinalizerName \<in> set (finalizers m) \<and> spec_state (spec m) = MigrationStateRunning")
  case True
  with workflow_outcome [OF assms, of ctx "status m"] show ?thesis
    by (auto simp: reconcileObject_def admitted_def Let_def)
next
  case False
  then have "keeps calm (reconcileObject ctx r m)"
    unfolding reconcileObject_def reconcileWorkflow_def Let_def by (auto intro!: keeps_calm keeps_rules)
  with assms(2) show ?thesis by (simp add: begun_def keeps_def)
qed

lemma reconcile_outcome:
  assumes "range_order (r_iter r)" and "Reconcile ctx r ns nm s = (res, s')" and "trace s = []"
  shows "(\<forall>k. trace_ok k (\<lambda>_. False) (trace s')) \<or>
    (\<exists>m w t. mig_get (r_client r) ns nm (world s) = (Inr m, w) \<and> admitted r m \<and> nextPhase m = Some t \<and>
       trace_ok m (phaseStep r m t) (trace s'))"
proof -
  obtain x w where get: "mig_get (r_client r) ns nm (world s) = (x, w)" by fastforce
  show ?thesis
  proof (cases x)
    case (Inl e)
    with get assms(2,3) have "trace s' = [MigrationRead None]"
      by (auto simp: Reconcile_def attempt_app readMigration_def apiResult_def split: if_splits prod.splits)
    then show ?thesis by simp
  next
    case (Inr m)
    let ?s = "s\<lparr>world := w, trace := [MigrationRead (Some m)], mig := m\<rparr>"
    have run: "reconcileObject ctx r m ?s = (res, s')"
      using get Inr assms(2,3) by (simp add: Reconcile_def attempt_app readMigration_def apiResult_def bnd_app)
    have "begun m ?s" by (simp add: begun_def calm_def safe_def same_work_def)
    from reconcileObject_outcome [OF assms(1) this, of ctx] run get Inr show ?thesis
      by (auto simp: calm_def outcome_def safe_def)
  qed
qed

text \<open>
  C3: what one reconcile may do. Whatever the API servers answer and however other writers
  interleave, either no mutation is sent at all, or the request named the singleton migration, not
  deleted, protected by the finalizer, in state Running and with the mapping recorded at preflight,
  and every mutation is one that the handler of the first incomplete condition of that object may
  send, directly after a fresh read which found that object unchanged and still Running. In both
  cases every status written extends the status that was read just before it.
\<close>

theorem reconcile_safe:
  assumes "range_order (r_iter r)" and "Reconcile ctx r ns nm s = (res, s')" and "trace s = []"
  shows "(\<forall>k. trace_ok k (\<lambda>_. False) (trace s')) \<or>
    (\<exists>m w t. mig_get (r_client r) ns nm (world s) = (Inr m, w) \<and> admitted r m \<and> nextPhase m = Some t \<and>
       trace_ok m (phaseStep r m t) (trace s'))"
  using assms by (rule reconcile_outcome)

text \<open>A migration that has only its source left to clean up.\<close>

definition sampleCondition :: "condition_type \<Rightarrow> condition_status \<Rightarrow> condition" where
  "sampleCondition t st = \<lparr>cond_type = t, cond_status = st, observedGeneration = 3, lastTransitionTime = 1,
     cond_reason = ReasonCompleted, cond_message = []\<rparr>"

definition lateMigration :: migration where
  "lateMigration = cleanupMigration\<lparr>status := (status cleanupMigration)\<lparr>conditions := map (\<lambda>t. sampleCondition t ConditionTrue)
     [ConditionInfrastructurePrepared, ConditionDestinationInitialized, ConditionMultiSiteConfigured, ConditionWorkloadMigrated] @
     [sampleCondition ConditionReady ConditionFalse],
     sourceVCenter := ''vc1'', startTime := Some 1\<rparr>\<rparr>"

abbreviation lateReconciler :: "migration reconciler" where
  "lateReconciler \<equiv> sampleReconciler sampleClient bothVCenters []"

abbreviation lateCtx :: "migration rstate ctx" where
  "lateCtx \<equiv> executionContext None sampleClient lateMigration"

abbreviation lateState :: "migration rstate" where
  "lateState \<equiv> sampleState lateMigration lateMigration"

text \<open>The part of its reconcile after the guards.\<close>

definition lateRun :: "(error + result) \<times> migration rstate" where
  "lateRun = attempt (Check lateCtx) (\<lambda>permission.
     case permission of
       Inl e \<Rightarrow> if is_stopped e then ret 0 else fail e
     | Inr _ \<Rightarrow>
         attempt (ensureSourceCleaned lateCtx lateReconciler) (\<lambda>res.
         attempt (Check lateCtx) (\<lambda>again.
         publishOutcome lateReconciler (status lateMigration) ConditionSourceCleaned (case again of Inl e \<Rightarrow> Inl e | Inr _ \<Rightarrow> res))))
     (lateState\<lparr>trace := [MigrationRead (Some lateMigration)]\<rparr>)"

lemma late_fields:
  "name lateMigration = SingletonName" "namespace lateMigration = SingletonNamespace" "deletionTimestamp lateMigration = None"
  "finalizers lateMigration = [FinalizerName]" "spec_state (spec lateMigration) = MigrationStateRunning"
  "startTime (status lateMigration) = Some 1" "status_mappings (status lateMigration) = []"
  by (simp_all add: lateMigration_def cleanupMigration_def sampleMigration_def)

lemma late_conditions:
  "FindStatusCondition (conds lateMigration) ConditionReady = Some (sampleCondition ConditionReady ConditionFalse)"
  "FindStatusCondition (conds lateMigration) ConditionAccepted = None"
  "find (\<lambda>t. \<not> isConditionTrue lateMigration t) conditionOrder = Some ConditionSourceCleaned"
  by (simp_all add: lateMigration_def FindStatusCondition_def sampleCondition_def isConditionTrue_def conditionTrue_def conditionOrder_def)

lemma late_clients: "mig_get sampleClient = (\<lambda>_ _ w. (Inr w, w))" "r_client lateReconciler = sampleClient"
  "r_iter lateReconciler = (\<lambda>xs. xs)"
  "world lateState = lateMigration" "trace lateState = []" "mig lateState = lateMigration"
  by (simp_all add: sampleReconciler_def sampleClient_def sampleState_def)

lemma late_reconcile: "Reconcile None lateReconciler SingletonNamespace SingletonName lateState = lateRun"
proof -
  let ?s = "lateState\<lparr>trace := [MigrationRead (Some lateMigration)]\<rparr>"
  have s: "lateState\<lparr>world := lateMigration, trace := [MigrationRead (Some lateMigration)], mig := lateMigration\<rparr> = ?s"
    "lateState\<lparr>trace := [MigrationRead (Some lateMigration)], mig := lateMigration\<rparr> = ?s"
    by (simp_all add: sampleState_def)
  have "Reconcile None lateReconciler SingletonNamespace SingletonName lateState =
      reconcileObject None lateReconciler lateMigration ?s"
    by (simp add: Reconcile_def attempt_app readMigration_def apiResult_def late_clients bnd_app s)
  also have "\<dots> = walkConditions lateCtx lateReconciler (status lateMigration) conditionOrder ?s"
  proof -
    have "ensureMappingImmutable iter lateMigration = Inr ()" for iter
      by (simp add: ensureMappingImmutable_def late_fields)
    then have "checkMappingForReconcile lateReconciler base ?s = (Inr False, ?s)" for base
      by (simp add: checkMappingForReconcile_def late_clients late_conditions isMappingRejection_def)
    moreover have "seedReadyCondition lateReconciler ?s = (Inr (), ?s)"
      by (simp add: seedReadyCondition_def late_clients late_conditions)
    ultimately show ?thesis
      by (simp add: reconcileObject_def reconcileWorkflow_def resumeWorkflow_def startWorkflow_def runWorkflow_def
          Let_def bnd_app late_fields late_conditions late_clients sampleCondition_def)
  qed
  also have "\<dots> = lateRun"
    by (simp add: walk_first late_clients late_conditions processCondition_def handlers_def lateRun_def)
  finally show ?thesis .
qed

theorem reconcile_safe_witness:
  "admitted lateReconciler lateMigration \<and> nextPhase lateMigration = Some ConditionSourceCleaned \<and>
   trace_ok lateMigration (phaseStep lateReconciler lateMigration ConditionSourceCleaned) (trace (snd lateRun))"
proof (intro conjI)
  show "admitted lateReconciler lateMigration"
    by (simp add: admitted_def late_fields ensureMappingImmutable_def)
  show "nextPhase lateMigration = Some ConditionSourceCleaned"
    by (simp add: nextPhase_def late_conditions)
  show "trace_ok lateMigration (phaseStep lateReconciler lateMigration ConditionSourceCleaned) (trace (snd lateRun))"
    using reconcile_safe [of lateReconciler None SingletonNamespace SingletonName lateState "fst lateRun" "snd lateRun"]
    by (auto simp: late_reconcile late_clients late_conditions nextPhase_def range_order_def intro: trace_ok_False)
qed

end
