(* ===== verification/Phases.thy ===== *)
theory Phases
  imports Reconcile
begin

text \<open>
  The order of the phases. An abstract machine completes the conditions of \<open>conditionOrder\<close> one by
  one; every status write of a reconcile is a step of it, through the abstraction that forgets
  everything but the set of conditions that are True. For this the operations below the handlers
  are shown to keep every property of the kind described by the interface \<open>frame\<close>, and the handlers
  are shown to complete no condition but their own.
\<close>

section \<open>Operations below the handlers\<close>

context frame
begin

lemma frame_machine_reads [keeps_rules]:
  "keeps P (GetMachineSet mm nm)"
  "keeps P (ListMachineSets mm)"
  "keeps P (GetControlPlaneMachineSet mm)"
  "keeps P (CheckControlPlaneRolloutStatus mm)"
  "keeps P (IsCPMSUpdatedForFailureDomains mm names)"
  "keeps P (IsCPMSGenerationObserved mm)"
  "keeps P (ListControlPlaneMachines mm)"
  "keeps P (ListMachinesForMachineSet mm nm)"
  "keeps P (CheckMachinesReady mm nm)"
  "keeps P (CheckNodesReady mm nm)"
  "keeps P (CheckMachinesDeleted mm nm)"
  "keeps P (CheckNodesDeletedForMachines mm nm)"
  unfolding GetMachineSet_def ListMachineSets_def GetControlPlaneMachineSet_def CheckControlPlaneRolloutStatus_def
    IsCPMSUpdatedForFailureDomains_def IsCPMSGenerationObserved_def ListControlPlaneMachines_def ListMachinesForMachineSet_def
    machinesetSelectorLabel_def CheckMachinesReady_def CheckNodesReady_def countNode_def CheckMachinesDeleted_def CheckNodesDeletedForMachines_def Let_def split_def
  by (intro keeps_rules)+

lemma frame_machine_writes [keeps_rules]:
  "keeps P (CreateWorkerMachineSet (executionContext ctx cl k) mm nm n fdp tmplp infraID)"
  "keeps P (ScaleMachineSet (executionContext ctx cl k) mm nm n)"
  "keeps P (AnnotateMachineSetLegacyAggregate (executionContext ctx cl k) mm nm)"
  "keeps P (DeleteMachineSet (executionContext ctx cl k) mm nm)"
  "keeps P (DeleteMachineSetsByVCenter (executionContext ctx cl k) mm server)"
  "keeps P (UpdateCPMSFailureDomain (executionContext ctx cl k) mm names)"
  unfolding CreateWorkerMachineSet_def ScaleMachineSet_def AnnotateMachineSetLegacyAggregate_def DeleteMachineSet_def
    DeleteMachineSetsByVCenter_def UpdateCPMSFailureDomain_def Let_def split_def
  by (intro keeps_rules)+

lemma frame_health [keeps_rules]:
  "keeps P (CheckAllOperatorsHealthy cc)"
  "keeps P (CheckAllOperatorsStable cc)"
  "keeps P (CheckPoolsConverged mc)"
  unfolding CheckAllOperatorsHealthy_def CheckAllOperatorsStable_def CheckPoolsConverged_def Let_def split_def
  by (intro keeps_rules)+

lemma frame_configuration [keeps_rules]:
  "keeps P (AddTargetVCenter (executionContext ctx cl k) iter cc infra fds)"
  "keeps P (RemoveSourceVCenter (executionContext ctx cl k) cc infra server)"
  "keeps P (GetVSphereCredsSecret kc)"
  "keeps P (AddTargetVCenterCreds (executionContext ctx cl k) kc sec server u pw)"
  "keeps P (RemoveSourceVCenterCreds (executionContext ctx cl k) kc secp server)"
  "keeps P (SaveToSecret (executionContext ctx cl k) kc md ns nm)"
  "keeps P (GetCloudProviderConfig kc)"
  "keeps P (AddTargetVCenterToConfig (executionContext ctx cl k) iter codec kc cm fds)"
  "keeps P (RemoveSourceVCenterFromConfig (executionContext ctx cl k) codec kc cm server)"
  unfolding AddTargetVCenter_def RemoveSourceVCenter_def GetVSphereCredsSecret_def AddTargetVCenterCreds_def
    RemoveSourceVCenterCreds_def SaveToSecret_def GetCloudProviderConfig_def AddTargetVCenterToConfig_def
    RemoveSourceVCenterFromConfig_def marshalAndUpdateConfig_def Let_def split_def
  by (intro keeps_rules)+

lemma frame_pods [keeps_rules]:
  "keeps P (RestartVSpherePods (executionContext ctx cl k) kc)"
  "keeps P (syncControllerConfig (executionContext ctx cl k) kc)"
  "keeps P (CheckVSpherePodsReady kc)"
  unfolding RestartVSpherePods_def DeletePodsByLabel_def deletePod_def syncControllerConfig_def CheckVSpherePodsReady_def
    checkSelector_def Let_def split_def
  by (intro keeps_rules)+

lemma frame_tags [keeps_rules]:
  "keeps P (ObjectHasTagInCategory vc s nm v)"
  "keeps P (GetVMFolder vc s path)"
  "keeps P (ensureTagCategory (executionContext ctx cl k) vc s nm d cardinality types required)"
  "keeps P (EnsureTag (executionContext ctx cl k) vc s cat nm d)"
  "keeps P (AttachTag (executionContext ctx cl k) vc s i v)"
  "keeps P (CreateVMFolder (executionContext ctx cl k) vc s path)"
  unfolding ObjectHasTagInCategory_def attachedInCategory_def GetVMFolder_def ensureTagCategory_def createCategory_def
    EnsureTag_def createTag_def AttachTag_def CreateVMFolder_def createPart_def vsphereTry_def Let_def
  by (intro keeps_rules)+

lemma frame_layout [keeps_rules]:
  "keeps P (resolveWorkerMachineSetName mm infraID fdName recorded)"
  "keeps P (classifyDestinationLayout mm base sources fd recorded)"
  "keeps P (expectedDestinationNames mm base sources fd recorded)"
  "keeps P (recoverMapping mm m msList infraID sourceFDs recovered mp)"
  unfolding resolveWorkerMachineSetName_def classifyDestinationLayout_def anyCopyExists_def expectedDestinationNames_def
    checkCopy_def deriveCopy_def recoverMapping_def recoverName_def Let_def split_def
  by (intro keeps_rules)+

lemma frame_worker_reads [keeps_rules]:
  "keeps P (missingNames mm names)"
  "keeps P (planMappedWorkerMachineSets mm infraID mappings destFDs infraFDs recorded)"
  "keeps P (workerReadinessFailureDomains mm infraID mappings sourceFDs destFDs recorded)"
  "keeps P (checkWorkerReadiness mm fds infraID recorded)"
  "keeps P (progressFailureDomain mm infraID recorded msList c fd)"
  "keeps P (sourceRemaining mm server)"
  "keeps P (oldMachinesAndNodesDeleted mm sets)"
  "keeps P (oldWorkerStallDetail r sets)"
  unfolding planMappedWorkerMachineSets_def planMapping_def missingNames_def workerReadinessFailureDomains_def readinessMapping_def
    checkWorkerReadiness_def failureDomainReadiness_def machineSetReadiness_def progressFailureDomain_def progressMachineSet_def
    sourceRemaining_def oldMachinesAndNodesDeleted_def oldWorkerStallDetail_def stallMachineSet_def stallEntries_def Let_def split_def
  by (intro keeps_rules)+

lemma frame_memory [keeps_rules]:
  "keeps P (modify (\<lambda>s. s\<lparr>lastStallEventKey := key, lastStallEventTime := time\<rparr>))"
  "keeps P resetReadyStability"
  "keeps P (modify (\<lambda>s. s\<lparr>lastReadyStabilityCheck := now\<rparr>))"
  "keeps P (modify (\<lambda>s. s\<lparr>lastCountedStabilityCheck := now, readyStabilityCount := readyStabilityCount s + 1\<rparr>))"
proof -
  have "P s \<Longrightarrow> P (s\<lparr>readyStabilityCount := 0, lastCountedStabilityCheck := 0\<rparr>)" for s
    using stability [where n = 0 and ?t1.0 = "lastReadyStabilityCheck s" and ?t2.0 = 0, of s] by simp
  moreover have "P s \<Longrightarrow> P (s\<lparr>lastReadyStabilityCheck := now\<rparr>)" for s
    using stability [where n = "readyStabilityCount s" and ?t1.0 = now and ?t2.0 = "lastCountedStabilityCheck s", of s] by simp
  moreover have "P s \<Longrightarrow> P (s\<lparr>lastCountedStabilityCheck := now, readyStabilityCount := readyStabilityCount s + 1\<rparr>)" for s
    using stability [where n = "readyStabilityCount s + 1" and ?t1.0 = "lastReadyStabilityCheck s" and ?t2.0 = now, of s]
    by (cases s) simp
  ultimately show "keeps P (modify (\<lambda>s. s\<lparr>lastStallEventKey := key, lastStallEventTime := time\<rparr>))"
    "keeps P resetReadyStability" "keeps P (modify (\<lambda>s. s\<lparr>lastReadyStabilityCheck := now\<rparr>))"
    "keeps P (modify (\<lambda>s. s\<lparr>lastCountedStabilityCheck := now, readyStabilityCount := readyStabilityCount s + 1\<rparr>))"
    unfolding resetReadyStability_def by (auto intro!: keeps_modify simp: stall)
qed

end

section \<open>Conditions that may be completed\<close>

text \<open>\<open>within T m\<close>: the conditions that are True in \<open>m\<close> are in \<open>T\<close>. \<open>writes_within T tr\<close>: every status
  write makes only conditions of \<open>T\<close> True that were not True in the object read just before it.\<close>

definition within :: "condition_type set \<Rightarrow> migration \<Rightarrow> bool" where
  "within T m \<longleftrightarrow> (\<forall>c \<in> set (conds m). cond_status c = ConditionTrue \<longrightarrow> cond_type c \<in> T)"

definition grows :: "condition_type set \<Rightarrow> migration \<Rightarrow> migration \<Rightarrow> bool" where
  "grows T l k \<longleftrightarrow> (\<forall>u. isConditionTrue k u \<longrightarrow> isConditionTrue l u \<or> u \<in> T)"

fun writes_within :: "condition_type set \<Rightarrow> action list \<Rightarrow> bool" where
  "writes_within T [] = True"
| "writes_within T (StatusUpdateCall k # tr) =
     (writes_within T tr \<and> (\<exists>l tr'. tr = MigrationRead (Some l) # tr' \<and> grows T l k))"
| "writes_within T (_ # tr) = writes_within T tr"

definition staged :: "condition_type set \<Rightarrow> 'w rstate \<Rightarrow> bool" where
  "staged T s \<longleftrightarrow> within T (mig s) \<and> writes_within T (trace s)"

lemma writes_within_other [simp]: "\<not> is_publication a \<Longrightarrow> writes_within T (a # tr) = writes_within T tr"
  by (cases a) auto

lemma within_set:
  "\<forall>c \<in> set cs. cond_status c = ConditionTrue \<longrightarrow> cond_type c \<in> T \<Longrightarrow> cond_status new = ConditionTrue \<longrightarrow> cond_type new \<in> T \<Longrightarrow>
   \<forall>c \<in> set (SetStatusCondition now cs new). cond_status c = ConditionTrue \<longrightarrow> cond_type c \<in> T"
  by (induction now cs new rule: SetStatusCondition.induct) (auto simp: stampCondition_def updateCondition_def)

interpretation st: frame "staged T" T for T
proof unfold_locales
  fix s :: "'a rstate" and ct st now rs msg
  assume "staged T s" and "st = ConditionTrue \<Longrightarrow> ct \<in> T"
  then show "staged T (s\<lparr>mig := withCondition now ct st rs msg (mig s)\<rparr>)"
    using within_set [of "conds (mig s)" T "newCondition (generation (mig s)) ct st rs msg"]
    by (auto simp: staged_def within_def withCondition_def newCondition_def)
qed (simp_all add: staged_def)

lemma staged_mono: "T \<subseteq> U \<Longrightarrow> staged T s \<Longrightarrow> staged U s"
proof -
  assume sub: "T \<subseteq> U"
  then have "grows T l k \<Longrightarrow> grows U l k" for l k by (auto simp: grows_def)
  then have "writes_within T (a # tr) \<Longrightarrow> writes_within U tr \<Longrightarrow> writes_within U (a # tr)" for a tr
    by (cases a) auto
  moreover have "writes_within T (a # tr) \<Longrightarrow> writes_within T tr" for a tr by (cases a) auto
  ultimately have "writes_within T tr \<Longrightarrow> writes_within U tr" for tr by (induction tr) auto
  with sub show "staged T s \<Longrightarrow> staged U s" by (auto simp: staged_def within_def)
qed

lemma staged_record [keeps_rules]:
  "(\<And>st. conditions (f st) = conditions st) \<Longrightarrow> keeps (staged T) (modifyStatus f)"
  unfolding modifyStatus_def by (rule keeps_modify) (simp add: staged_def within_def)

subsection \<open>Status writes\<close>

lemma staged_publish:
  assumes "staged T s" and "trace s = MigrationRead (Some l) # tr" and "grows T l k"
  shows "staged T (snd (request (StatusUpdateCall k) c s))"
  using assms by (auto simp: request_app staged_def split: prod.splits)

lemma staged_read:
  assumes "\<And>l s tr. staged T s \<Longrightarrow> trace s = MigrationRead (Some l) # tr \<Longrightarrow> staged T (snd (f l s))"
  shows "keeps (staged T) (bnd (readMigration d) f)"
proof (rule keepsI)
  fix s :: "'a rstate"
  assume s: "staged T s"
  obtain x t where x: "readMigration d s = (x, t)" by fastforce
  have t: "staged T t" by (rule keepsD [OF st.frame_readMigration s x])
  have "x = Inr l \<Longrightarrow> trace t = MigrationRead (Some l) # trace s" for l
    using x by (auto simp: readMigration_def apiResult_def split: prod.splits sum.splits)
  with assms x t show "staged T (snd (bnd (readMigration d) f s))"
    by (cases x) (auto simp: bnd_app)
qed

lemma merge_grows:
  "foldl (mergeCondition now base gen) (cs, ch) ds = (cs', ch') \<Longrightarrow> conditionTrue cs' u \<Longrightarrow>
     conditionTrue cs u \<or> (\<exists>c \<in> set ds. cond_status c = ConditionTrue \<and> cond_type c = u)"
proof (induction ds arbitrary: cs ch)
  case (Cons d ds)
  obtain cs1 ch1 where d: "mergeCondition now base gen (cs, ch) d = (cs1, ch1)" by fastforce
  then have "conditionTrue cs1 u \<Longrightarrow> conditionTrue cs u \<or> (cond_status d = ConditionTrue \<and> cond_type d = u)"
    by (auto simp: mergeCondition_def conditionTrue_Set split: if_splits)
  with Cons d show ?case by fastforce
qed simp

lemma mergeLatest_grows:
  assumes "mergeLatest hash now m base latest = Inr (k, c)" and "within T m"
  shows "grows T latest (stampUpdate t k)"
proof -
  have cond: "conditionTrue (conds l2) u \<Longrightarrow> conditionTrue (conds l1) u \<or> u \<in> T"
    if "mergeStatusConditions now m l1 base = (l2, c2)" for l1 l2 c2 u
    using that assms(2) merge_grows [of now base "generation l1" "conds l1" False "conds m"]
    by (fastforce simp: mergeStatusConditions_def setConds_def within_def split: prod.splits)
  have clear: "conditionTrue (conds l1) u \<Longrightarrow> conditionTrue (conds latest) u"
    if "clearRecoveredMappingRejection m latest base = (l1, c1)" for l1 c1 u
    using that by (auto simp: clearRecoveredMappingRejection_def setConds_def conditionTrue_Remove Let_def split: if_splits)
  have rest: "mergeProgress m a base = (b, d) \<Longrightarrow> conds b = conds a" "mergeStartTime m a = (b, d) \<Longrightarrow> conds b = conds a"
    "mergeCompletionRecord hash m a ready = Inr (b, d) \<Longrightarrow> conds b = conds a" "mergeMappings m a = (b, d) \<Longrightarrow> conds b = conds a"
    "mergeNames ns a = (b, d) \<Longrightarrow> conds b = conds a" for a b d ready ns
    by (auto simp: mergeProgress_def mergeStartTime_def mergeCompletionRecord_def mergeMappings_def mergeNames_def
        split: if_splits)
  from assms(1) show ?thesis
    unfolding grows_def isConditionTrue_def stampUpdate_def
    by (elim mergeLatest_steps) (use cond clear rest in fastforce)
qed

lemma staged_updateOnce: "within T m \<Longrightarrow> keeps (staged T) (updateStatusOnce r m base)"
  unfolding updateStatusOnce_def
proof (rule staged_read, goal_cases)
  case (1 latest s tr)
  show ?case
  proof (cases "mergeLatest (r_hash r) (fst (clock (r_client r) (world s))) m base latest")
    case (Inl e)
    with 1 show ?thesis by (auto simp: bnd_app timeNow_def st.tick split: prod.splits)
  next
    case (Inr y)
    obtain k c where y: "y = (k, c)" by fastforce
    show ?thesis
      using 1 Inr mergeLatest_grows [OF _ 1(1), of "r_hash r" _ base latest k c]
      by (auto simp: y bnd_app timeNow_def st.tick split: prod.splits intro!: staged_publish)
  qed
qed

lemma staged_writers [keeps_rules]:
  "keeps (staged T) (updateStatus r base)"
  "keeps (staged T) (persistWorkerMachineSetNames r)"
  "keeps (staged T) (persistSourceVCenter r server)"
proof -
  show "keeps (staged T) (updateStatus r base)"
    unfolding updateStatus_def
    by (rule keepsI, simp) (auto simp: staged_def intro!: keeps_snd [OF keeps_retry [OF staged_updateOnce], unfolded staged_def])
  have "keeps (staged T) (publishNamesOnce r m)" for m
    unfolding publishNamesOnce_def
    by (rule staged_read) (auto simp: mergeNames_def grows_def isConditionTrue_def split: prod.splits intro!: staged_publish)
  then show "keeps (staged T) (persistWorkerMachineSetNames r)"
    unfolding persistWorkerMachineSetNames_def by (intro keeps_rules)
  have "keeps (staged T) (recordSourceOnce r m server)" for m
    unfolding recordSourceOnce_def
  proof (rule staged_read, goal_cases)
    case (1 l s tr)
    have rec: "keeps (staged T) (modifyStatus (sourceVCenter_update (\<lambda>_. server)))" by (rule staged_record) simp
    obtain x t where x: "request (StatusUpdateCall (withSource server l))
        (mig_statusUpdate (r_client r) (withSource server l)) s = (x, t)" by fastforce
    have "staged T t"
      using staged_publish [OF 1, of "withSource server l" "mig_statusUpdate (r_client r) (withSource server l)"] x
      by (simp add: grows_def withSource_def isConditionTrue_def)
    with 1(1) x show ?case
      using keeps_snd [OF rec, of s] keeps_snd [OF rec, of t] by (cases x) (simp_all add: bnd_app)
  qed
  then show "keeps (staged T) (persistSourceVCenter r server)"
    unfolding persistSourceVCenter_def by (intro keeps_rules)
qed

section \<open>Handlers complete their own condition only\<close>

lemma staged_preflight:
  "ConditionInfrastructurePrepared \<in> T \<Longrightarrow> keeps (staged T) (ensureInfrastructurePrepared (executionContext ctx cl k) r)"
  unfolding ensureInfrastructurePrepared_def runPreflightChecks_def checkVSphere_def
  by (intro keeps_rules st.frame_setCondition) simp_all

lemma staged_destination:
  "ConditionDestinationInitialized \<in> T \<Longrightarrow> keeps (staged T) (ensureDestinationInitialized (executionContext ctx cl k) r)"
  unfolding ensureDestinationInitialized_def initializeDestination_def initializeFD_def ensureFolderAndOwnership_def
    folderConfigured_def createOrGetFolder_def EnsureClusterOwnershipTag_def AttachClusterOwnershipTag_def ensureFDTags_def
    needsTag_def attachFDTags_def ensureFDTag_def EnsureTagCategory_def AttachFailureDomainTags_def Let_def split_def
  by (intro keeps_rules st.frame_setCondition) simp_all

lemma staged_multiSite:
  "ConditionMultiSiteConfigured \<in> T \<Longrightarrow> keeps (staged T) (ensureMultiSiteConfigured (executionContext ctx cl k) r)"
  unfolding ensureMultiSiteConfigured_def hasTargetVCenterConfiguration_def configureTargets_def addServerCreds_def Let_def split_def
  by (intro keeps_rules st.frame_setCondition) simp_all

lemma staged_cleanup:
  "ConditionSourceCleaned \<in> T \<Longrightarrow> keeps (staged T) (ensureSourceCleaned (executionContext ctx cl k) r)"
  unfolding ensureSourceCleaned_def resolveSourceServer_def cleanServer_def removeSourceServer_def saveMetadata_def
    addMetadataCreds_def Let_def split_def
  by (intro keeps_rules st.frame_setCondition) simp_all

lemma staged_ready: "ConditionReady \<in> T \<Longrightarrow> keeps (staged T) (ensureReady r)"
  unfolding ensureReady_def enterReadyCheck_def readyCheck_def sustainReady_def countStable_def commitReady_def Let_def split_def
  by (intro keeps_rules st.frame_setCondition) simp_all

lemma staged_progress [keeps_rules]:
  "keeps (staged T) (updateWorkloadProgress r infraID server)"
  "keeps (staged T) (recoverUnrecordedDestinationNames mm msList infraID mappings sourceFDs)"
  "keeps (staged T) (recoverMappings r m infraID infraFDs)"
  "keeps (staged T) (recordName nm)"
  unfolding updateWorkloadProgress_def recoverUnrecordedDestinationNames_def recoverMappings_def recoverLegacyName_def
    recordName_def Let_def split_def
  by (intro keeps_rules; simp)+

lemma staged_create [keeps_rules]:
  "keeps (staged T) (createMappedWorkerMachineSets (executionContext ctx cl k) r m infraID mappings infraFDs)"
  unfolding createMappedWorkerMachineSets_def createPlan_def createCopy_def createMissing_def adoptCopy_def recordUnless_def
    Let_def split_def
  by (intro keeps_rules)

lemma staged_exist [keeps_rules]:
  "keeps (staged T) (targetMachineSetsExist (executionContext ctx cl k) r m infraID mappings infraFDs)"
proof -
  have names: "keeps (staged T) (targetsExist mm fd src ns)" for mm fd src ns
    by (induction ns) (simp_all only: targetsExist.simps, (intro keeps_rules; assumption?)+)
  have "keeps (staged T) (targetMachineSetsExistLoop (executionContext ctx cl k) r m infraID infraFDs recorded mps)" for recorded mps
    by (induction mps)
      (simp_all only: targetMachineSetsExistLoop.simps expectedTargets_def Let_def split_def, (intro keeps_rules names; assumption?)+)
  then show ?thesis unfolding targetMachineSetsExist_def by (intro keeps_rules)
qed

lemma staged_workload:
  "ConditionWorkloadMigrated \<in> T \<Longrightarrow> keeps (staged T) (ensureWorkloadMigrated (executionContext ctx cl k) r)"
  unfolding ensureWorkloadMigrated_def migrateWorkers_def awaitWorkers_def ensureCPMSUpdated_def
    ensureWorkloadMigratedRolloutAndScaleDown_def drainSource_def scaleDownSourceMachineSets_def scaleDownGate_def
    scaleDownCovered_def scaleDownWork_def scaleRunning_def reportStall_def deleteSourceMachineSets_def Let_def split_def
  by (intro keeps_rules st.frame_setCondition) simp_all

lemma staged_handler:
  "handlers (executionContext ctx cl k) r t = Some h \<Longrightarrow> t \<in> T \<Longrightarrow> keeps (staged T) h"
  by (auto simp: handlers_def staged_preflight staged_destination staged_multiSite staged_workload staged_cleanup staged_ready
      split: condition_type.splits)

section \<open>A reconcile completes at most its next condition\<close>

lemma staged_process:
  "t \<in> T \<Longrightarrow> keeps (staged T) (processCondition (executionContext ctx cl k) r base t)"
  unfolding processCondition_def publishOutcome_def recordFailure_def
  by (cases "handlers (executionContext ctx cl k) r t") (auto intro!: keeps_rules intro: staged_handler)

lemma staged_retention [keeps_rules]: "keeps (staged T) (updateRetentionFinalizer h cl m)"
  unfolding updateRetentionFinalizer_def by (intro keeps_rules) simp_all

lemma staged_unaccept [keeps_rules]:
  "keeps (staged T) (modifyStatus (\<lambda>st. st\<lparr>conditions := RemoveStatusCondition (conditions st) ConditionAccepted\<rparr>))"
  unfolding modifyStatus_def by (rule keeps_modify) (simp add: staged_def within_def RemoveStatusCondition_def)

lemma staged_gates [keeps_rules]:
  "keeps (staged T) (refuse r base m why msg)"
  "keeps (staged T) (reconcileDeletion r base m)"
  "keeps (staged T) (reconcileNotRunning r base m)"
  "keeps (staged T) (resumeWorkflow r base m)"
  "keeps (staged T) (startWorkflow r base m)"
  "keeps (staged T) (checkMappingForReconcile r base)"
  "keeps (staged T) (seedReadyCondition r)"
  unfolding refuse_def reconcileDeletion_def reconcileNotRunning_def resumeWorkflow_def startWorkflow_def
    checkMappingForReconcile_def seedReadyCondition_def Let_def
  by (intro keeps_rules; simp)+

definition before :: "condition_type \<Rightarrow> condition_type set" where
  "before t = set (takeWhile (\<lambda>u. u \<noteq> t) conditionOrder)"

text \<open>The conditions that a reconcile may add to those in \<open>S\<close>: none, or one whose predecessors are
  all in \<open>S\<close>.\<close>

definition nextOf :: "condition_type set \<Rightarrow> condition_type set \<Rightarrow> bool" where
  "nextOf S X \<longleftrightarrow> X = {} \<or> (\<exists>t \<in> set conditionOrder. X = {t} \<and> before t \<subseteq> S)"

definition advanced :: "condition_type set \<Rightarrow> 'w rstate \<Rightarrow> bool" where
  "advanced S s \<longleftrightarrow> (\<exists>X. nextOf S X \<and> staged (S \<union> X) s)"

lemma advanced_staged: "staged S s \<Longrightarrow> advanced S s"
  unfolding advanced_def nextOf_def by (intro exI [of _ "{}"]) simp

lemma find_first:
  "find Q xs = Some t \<Longrightarrow> t \<in> set xs \<and> (\<forall>u \<in> set (takeWhile (\<lambda>u. u \<noteq> t) xs). \<not> Q u)"
  by (induction xs) (auto split: if_splits)

lemma within_true: "within S m \<Longrightarrow> isConditionTrue m u \<Longrightarrow> u \<in> S"
  by (auto simp: within_def isConditionTrue_def conditionTrue_def FindStatusCondition_def find_Some_iff split: option.splits)

lemma walk_advances:
  assumes "staged S s"
  shows "advanced S (snd (walkConditions (executionContext ctx cl k) r base conditionOrder s))"
proof (cases "find (\<lambda>t. \<not> isConditionTrue (mig s) t) conditionOrder")
  case None
  have "keeps (staged S) (bnd (updateStatus r base) (\<lambda>_. ret 0 :: ('a, result) handler))" by (intro keeps_rules)
  with None assms show ?thesis by (auto simp: walk_first keeps_def intro!: advanced_staged)
next
  case (Some t)
  have "nextOf S {t}"
    using find_first [OF Some] assms within_true [of S "mig s"]
    by (auto simp: nextOf_def before_def staged_def)
  moreover have "staged (S \<union> {t}) (snd (processCondition (executionContext ctx cl k) r base t s))"
    by (rule keeps_snd [OF staged_process]) (auto intro: staged_mono [OF _ assms])
  ultimately show ?thesis using Some by (auto simp: walk_first advanced_def)
qed

lemma object_advances:
  assumes "staged S s"
  shows "advanced S (snd (reconcileObject ctx r m s))"
proof -
  have run: "advanced S (snd (runWorkflow ctx r base t))" if "staged S t" for base t
    unfolding runWorkflow_def
    by (rule ends_bnd [where Q = "advanced S", OF staged_gates(7) that]) (auto intro: advanced_staged walk_advances)
  have map: "advanced S (snd (bnd (checkMappingForReconcile r base) (\<lambda>stop. if stop then ret 0 else runWorkflow ctx r base) t))"
    if "staged S t" for base t
    by (rule ends_bnd [where Q = "advanced S", OF staged_gates(6) that]) (auto intro: advanced_staged run)
  have start: "advanced S (snd (bnd (startWorkflow r base m) (\<lambda>_. bnd (checkMappingForReconcile r base)
      (\<lambda>stop. if stop then ret 0 else runWorkflow ctx r base)) t))" if "staged S t" for base t
    by (rule ends_bnd [where Q = "advanced S", OF staged_gates(5) that]) (auto intro: advanced_staged map)
  have flow: "advanced S (snd (reconcileWorkflow ctx r base m s))" for base
  proof (cases "spec_state (spec m) = MigrationStateRunning")
    case True
    have "advanced S (snd (bnd (resumeWorkflow r base m) (\<lambda>_. bnd (startWorkflow r base m) (\<lambda>_. bnd (checkMappingForReconcile r base)
        (\<lambda>stop. if stop then ret 0 else runWorkflow ctx r base))) s))"
      by (rule ends_bnd [where Q = "advanced S", OF staged_gates(4) assms]) (auto intro: advanced_staged start)
    with True show ?thesis by (simp add: reconcileWorkflow_def)
  next
    case False
    then show ?thesis
      by (auto simp: reconcileWorkflow_def intro!: advanced_staged keeps_snd [OF staged_gates(3)] assms)
  qed
  have "advanced S (snd (bnd (wrapErr u (updateRetentionFinalizer h cl m)) (\<lambda>_. ret 0 :: ('a, result) handler) s))" for u h cl
    by (intro advanced_staged keeps_snd [where P = "staged S"] keeps_rules assms)
  moreover have "advanced S (snd (refuse r base m why msg s))" "advanced S (snd (reconcileDeletion r base m s))" for base why msg
    by (intro advanced_staged keeps_snd [where P = "staged S"] keeps_rules assms)+
  ultimately show ?thesis using flow by (simp add: reconcileObject_def Let_def)
qed

section \<open>The abstract phase machine\<close>

text \<open>The completed conditions are a set; a step leaves it or completes a condition all of whose
  predecessors are completed.\<close>

inductive phase_step :: "condition_type set \<Rightarrow> condition_type set \<Rightarrow> bool" where
  stay: "phase_step S S"
| complete: "t \<in> set conditionOrder \<Longrightarrow> before t \<subseteq> S \<Longrightarrow> phase_step S (insert t S)"

definition phases :: "migration \<Rightarrow> condition_type set" where
  "phases m = {t \<in> set conditionOrder. isConditionTrue m t}"

definition in_order :: "condition_type set \<Rightarrow> bool" where
  "in_order S \<longleftrightarrow> (\<forall>t \<in> S. before t \<subseteq> S)"

text \<open>Whatever the machine reaches from no completed condition, a completed condition has all its
  predecessors completed.\<close>

lemma phase_step_in_order: "phase_step S U \<Longrightarrow> in_order S \<Longrightarrow> in_order U"
  by (induction rule: phase_step.induct) (auto simp: in_order_def)

lemma reachable_in_order: "phase_step\<^sup>*\<^sup>* {} S \<Longrightarrow> in_order S"
  by (induction rule: rtranclp_induct) (simp add: in_order_def, blast intro: phase_step_in_order)

lemma writes_within_append: "writes_within T (tr2 @ tr) \<Longrightarrow> writes_within T tr"
proof (induction tr2)
  case (Cons a tr2)
  then show ?case by (cases a) auto
qed simp

lemma trace_ok_append: "trace_ok m A (tr2 @ tr) \<Longrightarrow> trace_ok m A tr"
proof (induction tr2)
  case (Cons a tr2)
  then show ?case by (cases a) auto
qed simp

lemma phases_write:
  assumes "grows (S \<union> X) l k" and "nextOf S X" and "S \<inter> set conditionOrder \<subseteq> phases l" and "status_ext (status l) (status k)"
  shows "phase_step (phases l) (phases k)"
proof -
  have sub: "phases l \<subseteq> phases k" using assms(4) by (auto simp: phases_def isConditionTrue_def status_ext_def)
  have sup: "phases k \<subseteq> phases l \<union> X" using assms(1,3) by (auto simp: phases_def grows_def)
  have order: "before t \<subseteq> set conditionOrder" for t by (auto simp: before_def dest: set_takeWhileD)
  from assms(2) consider "X = {}" | t where "t \<in> set conditionOrder" "X = {t}" "before t \<subseteq> S"
    unfolding nextOf_def by blast
  then show ?thesis
  proof cases
    case 1
    with sub sup have "phases k = phases l" by blast
    then show ?thesis by (simp add: phase_step.stay)
  next
    case 2
    then have "before t \<subseteq> phases l" using order assms(3) by blast
    moreover have "phases k = phases l \<or> phases k = insert t (phases l)" using sub sup 2 by blast
    ultimately show ?thesis using 2(1) phase_step.intros by metis
  qed
qed

lemma find_distinct: "distinct (map f cs) \<Longrightarrow> c \<in> set cs \<Longrightarrow> find (\<lambda>d. f d = f c) cs = Some c"
  by (induction cs) (auto simp: image_iff)

lemma within_distinct:
  assumes "distinct (map cond_type (conds m))"
  shows "within {u. isConditionTrue m u} m"
proof -
  have "FindStatusCondition (conds m) (cond_type c) = Some c" if "c \<in> set (conds m)" for c
    unfolding FindStatusCondition_def by (rule find_distinct [OF assms that])
  then show ?thesis by (auto simp: within_def isConditionTrue_def conditionTrue_def)
qed

lemma reconcile_write:
  assumes "range_order (r_iter r)" and "Reconcile ctx r ns nm s = (res, s')" and "trace s = []"
    and "mig_get (r_client r) ns nm (world s) = (Inr m, w)" and "distinct (map cond_type (conds m))"
    and "trace s' = tr2 @ StatusUpdateCall k # tr1"
  shows "\<exists>l tr. tr1 = MigrationRead (Some l) # tr \<and> (phases m \<subseteq> phases l \<longrightarrow> phase_step (phases l) (phases k))"
proof -
  let ?S = "{u. isConditionTrue m u}" and ?s = "s\<lparr>world := w, trace := [MigrationRead (Some m)], mig := m\<rparr>"
  have run: "reconcileObject ctx r m ?s = (res, s')"
    using assms(2-4) by (simp add: Reconcile_def attempt_app readMigration_def apiResult_def bnd_app)
  have "staged ?S ?s" using within_distinct [OF assms(5)] by (simp add: staged_def)
  from object_advances [OF this, of ctx r m] run obtain X where X: "nextOf ?S X" and "writes_within (?S \<union> X) (trace s')"
    by (auto simp: advanced_def staged_def)
  then have "writes_within (?S \<union> X) (StatusUpdateCall k # tr1)" unfolding assms(6) by (auto dest: writes_within_append)
  then obtain l tr where tr: "tr1 = MigrationRead (Some l) # tr" and grow: "grows (?S \<union> X) l k" by auto
  obtain j A where "trace_ok j A (trace s')" using reconcile_outcome [OF assms(1-3)] by blast
  then have "trace_ok j A (StatusUpdateCall k # tr1)" unfolding assms(6) by (rule trace_ok_append)
  with tr have ext: "status_ext (status l) (status k)" by simp
  have "phase_step (phases l) (phases k)" if "phases m \<subseteq> phases l"
    by (rule phases_write [OF grow X _ ext]) (use that in \<open>auto simp: phases_def\<close>)
  with tr show ?thesis by blast
qed

text \<open>
  C4: a reconcile refines the phase machine. Every status write of a reconcile, of whatever
  handler and at whatever point, is made from an object read just before it, and if the conditions
  that were True in the copy the reconcile started from are True in that object (which a cache that
  lags behind guarantees, since committed conditions stay), the write is a step of the machine: it
  leaves the completed conditions alone or adds exactly one, whose predecessors in the order are
  all completed.
\<close>

theorem reconcile_refines_phases:
  assumes "range_order (r_iter r)" and "Reconcile ctx r ns nm s = (res, s')" and "trace s = []"
    and "mig_get (r_client r) ns nm (world s) = (Inr m, w)" and "distinct (map cond_type (conds m))"
    and "trace s' = tr2 @ StatusUpdateCall k # tr1"
  shows "\<exists>l tr. tr1 = MigrationRead (Some l) # tr \<and> (phases m \<subseteq> phases l \<longrightarrow> phase_step (phases l) (phases k))"
  using assms by (rule reconcile_write)

text \<open>A paused migration whose preflight is done.\<close>

definition pausedMigration :: migration where
  "pausedMigration = sampleMigration\<lparr>spec := (spec sampleMigration)\<lparr>spec_state := MigrationStatePaused\<rparr>,
     status := (status sampleMigration)\<lparr>conditions := [sampleCondition ConditionInfrastructurePrepared ConditionTrue]\<rparr>\<rparr>"

definition pausedRun :: "(error + result) \<times> migration rstate" where
  "pausedRun = Reconcile None lateReconciler SingletonNamespace SingletonName (sampleState pausedMigration pausedMigration)"

lemma paused_trace:
  "\<exists>k tr. trace (snd pausedRun) = StatusUpdateCall k # MigrationRead (Some pausedMigration) # tr \<and>
     distinct (map cond_type (conds k))"
  by (simp add: pausedRun_def Reconcile_def attempt_app readMigration_def apiResult_def bnd_app reconcileObject_def
      reconcileWorkflow_def reconcileNotRunning_def alreadyRecorded_def FindStatusCondition_def setCondition_def timeNow_def
      updateStatus_def updateStatusOnce_def defaultRetry_def numeral_eq_Suc wrapErr_def request_app mergeLatest_def
      clearRecoveredMappingRejection_def mergeStatusConditions_def mergeCondition_def conditionUnchanged_def
      statusConditionChanged_def conditionTrue_def withCondition_def newCondition_def stampCondition_def mergeProgress_def
      mergeStartTime_def mergeCompletionRecord_def mergeMappings_def mergeNames_def append_missing_def setConds_def
      Let_def bindE_def sampleReconciler_def sampleClient_def sampleState_def pausedMigration_def sampleMigration_def sampleCondition_def
      stampUpdate_def)

theorem reconcile_refines_phases_witness:
  "\<exists>k tr. trace (snd pausedRun) = StatusUpdateCall k # MigrationRead (Some pausedMigration) # tr \<and>
     phase_step (phases pausedMigration) (phases k)"
proof -
  obtain k tr where tr: "trace (snd pausedRun) = [] @ StatusUpdateCall k # MigrationRead (Some pausedMigration) # tr"
    using paused_trace by auto
  have "range_order (r_iter lateReconciler)" by (simp add: late_clients range_order_def)
  moreover have "Reconcile None lateReconciler SingletonNamespace SingletonName (sampleState pausedMigration pausedMigration) =
      (fst pausedRun, snd pausedRun)" by (simp add: pausedRun_def)
  moreover have "trace (sampleState pausedMigration pausedMigration) = []" by (simp add: sampleState_def)
  moreover have "mig_get (r_client lateReconciler) SingletonNamespace SingletonName
      (world (sampleState pausedMigration pausedMigration)) = (Inr pausedMigration, pausedMigration)"
    by (simp add: late_clients sampleState_def)
  moreover have "distinct (map cond_type (conds pausedMigration))" by (simp add: pausedMigration_def)
  ultimately have "\<exists>l tr'. MigrationRead (Some pausedMigration) # tr = MigrationRead (Some l) # tr' \<and>
      (phases pausedMigration \<subseteq> phases l \<longrightarrow> phase_step (phases l) (phases k))"
    using tr by (rule reconcile_refines_phases)
  with tr show ?thesis by auto
qed

end
