(* ===== verification/Metrics.thy ===== *)
theory Metrics
  imports Reconcile
begin

text \<open>
  The exported metrics, \<open>internal/metrics/metrics.go\<close>. The gauges are a record; a gauge vector is a
  map from label values to numbers. A duration is kept in nanoseconds, which \<open>Seconds()\<close> scales, and
  \<open>now\<close> is the time that \<open>time.Since\<close> reads. Registration with the Prometheus registry is not part of
  the state.
\<close>

section \<open>Definitions\<close>

record gauges =
  migrationPhaseGauge :: "string \<rightharpoonup> int"
  conditionStatusGauge :: "string \<times> condition_status \<rightharpoonup> int"
  durationGauge :: int
  workersTotalGauge :: int
  workersReadyGauge :: int
  nodesReadyGauge :: int
  sourceWorkersRemainingGauge :: int
  controlPlaneReplicasGauge :: int
  controlPlaneUpdatedReplicasGauge :: int
  controlPlaneReadyReplicasGauge :: int

definition phaseOrder :: "condition_type list" where
  "phaseOrder = [ConditionInfrastructurePrepared, ConditionDestinationInitialized, ConditionMultiSiteConfigured,
     ConditionWorkloadMigrated, ConditionSourceCleaned]"

definition allPhases :: "string list" where
  "allPhases = [''Pending'', ''InfrastructurePrepared'', ''DestinationInitialized'', ''MultiSiteConfigured'', ''WorkloadMigrated'',
     ''SourceCleaned'', ''Completed'', ''Failed'', ''Paused'']"

definition allConditionStatuses :: "condition_status list" where
  "allConditionStatuses = [ConditionTrue, ConditionFalse, ConditionUnknown]"

text \<open>The loop over the phases; the flag is \<open>started\<close>.\<close>

fun activePhase :: "condition list \<Rightarrow> bool \<Rightarrow> condition_type list \<Rightarrow> string" where
  "activePhase cs started [] = (if started then ''Completed'' else ''Pending'')"
| "activePhase cs started (t # ts) =
     (case FindStatusCondition cs t of
        None \<Rightarrow> if started then condition_name t else activePhase cs started ts
      | Some c \<Rightarrow>
          if cond_status c \<noteq> ConditionTrue then (if cond_reason c = ReasonFailed then ''Failed'' else condition_name t)
          else activePhase cs True ts)"

definition PhaseFromConditions :: "migrationStatus \<Rightarrow> string" where
  "PhaseFromConditions st =
     (case FindStatusCondition (conditions st) ConditionReady of
        None \<Rightarrow> activePhase (conditions st) False phaseOrder
      | Some ready \<Rightarrow>
          if cond_status ready = ConditionTrue then ''Completed''
          else if cond_reason ready = ReasonPaused then ''Paused''
          else activePhase (conditions st) False phaseOrder)"

definition setPhase :: "string \<Rightarrow> gauges \<Rightarrow> string \<Rightarrow> gauges" where
  "setPhase phase g p = g\<lparr>migrationPhaseGauge := (migrationPhaseGauge g)(p \<mapsto> (if phase = p then 1 else 0))\<rparr>"

definition setStatusGauge :: "condition \<Rightarrow> gauges \<Rightarrow> condition_status \<Rightarrow> gauges" where
  "setStatusGauge c g v = g\<lparr>conditionStatusGauge :=
     (conditionStatusGauge g)((condition_name (cond_type c), v) \<mapsto> (if cond_status c = v then 1 else 0))\<rparr>"

definition setDuration :: "time \<Rightarrow> migrationStatus \<Rightarrow> gauges \<Rightarrow> gauges" where
  "setDuration now st g = g\<lparr>durationGauge := (case startTime st of
      None \<Rightarrow> 0
    | Some start \<Rightarrow> (case completionTime st of Some fin \<Rightarrow> fin - start | None \<Rightarrow> now - start))\<rparr>"

definition setWorkers :: "workerProgress \<Rightarrow> gauges \<Rightarrow> gauges" where
  "setWorkers w g = g\<lparr>workersTotalGauge := targetMachinesTotal w, workersReadyGauge := targetMachinesReady w,
     nodesReadyGauge := targetNodesReady w, sourceWorkersRemainingGauge := sourceMachinesRemaining w\<rparr>"

definition setControlPlane :: "controlPlaneProgress \<Rightarrow> gauges \<Rightarrow> gauges" where
  "setControlPlane cp g = g\<lparr>controlPlaneReplicasGauge := cp_replicas cp, controlPlaneUpdatedReplicasGauge := cp_updatedReplicas cp,
     controlPlaneReadyReplicasGauge := cp_readyReplicas cp\<rparr>"

definition setProgress :: "migrationStatus \<Rightarrow> gauges \<Rightarrow> gauges" where
  "setProgress st g = (case progress st of None \<Rightarrow> g | Some p \<Rightarrow>
     (case controlPlane p of None \<Rightarrow> id | Some cp \<Rightarrow> setControlPlane cp)
       ((case workers p of None \<Rightarrow> id | Some w \<Rightarrow> setWorkers w) g))"

definition UpdateMigrationMetrics :: "time \<Rightarrow> migrationStatus \<Rightarrow> gauges \<Rightarrow> gauges" where
  "UpdateMigrationMetrics now st g =
     setProgress st (setDuration now st
       (foldl (\<lambda>g c. foldl (setStatusGauge c) g allConditionStatuses)
         (foldl (setPhase (PhaseFromConditions st)) g allPhases) (conditions st)))"

definition ResetMetrics :: "gauges \<Rightarrow> gauges" where
  "ResetMetrics g = (foldl (\<lambda>g p. g\<lparr>migrationPhaseGauge := (migrationPhaseGauge g)(p \<mapsto> 0)\<rparr>) g allPhases)\<lparr>
     conditionStatusGauge := Map.empty, durationGauge := 0, workersTotalGauge := 0, workersReadyGauge := 0,
     nodesReadyGauge := 0, sourceWorkersRemainingGauge := 0, controlPlaneReplicasGauge := 0,
     controlPlaneUpdatedReplicasGauge := 0, controlPlaneReadyReplicasGauge := 0\<rparr>"

section \<open>The phase\<close>

lemma phase_known: "PhaseFromConditions st \<in> set allPhases"
proof -
  have "set ts \<subseteq> set phaseOrder \<Longrightarrow> activePhase cs started ts \<in> set allPhases" for cs started ts
    by (induction cs started ts rule: activePhase.induct)
      (auto simp: allPhases_def phaseOrder_def condition_name_def split: option.splits)
  then show ?thesis
    by (auto simp: PhaseFromConditions_def split: option.splits) (simp_all add: allPhases_def)
qed

lemma foldl_setPhase:
  "migrationPhaseGauge (foldl (setPhase phase) g ps) p =
     (if p \<in> set ps then Some (if phase = p then 1 else 0) else migrationPhaseGauge g p)"
  by (induction ps arbitrary: g) (auto simp: setPhase_def)

lemma foldl_status_phase:
  "migrationPhaseGauge (foldl (\<lambda>g c. foldl (setStatusGauge c) g vs) g cs) = migrationPhaseGauge g"
proof -
  have "migrationPhaseGauge (foldl (setStatusGauge c) g vs) = migrationPhaseGauge g" for c g
    by (induction vs arbitrary: g) (simp_all add: setStatusGauge_def)
  then show ?thesis by (induction cs arbitrary: g) simp_all
qed

lemma update_phase_gauge:
  "migrationPhaseGauge (UpdateMigrationMetrics now st g) p =
     (if p \<in> set allPhases then Some (if PhaseFromConditions st = p then 1 else 0) else migrationPhaseGauge g p)"
  by (simp add: UpdateMigrationMetrics_def setProgress_def setWorkers_def setControlPlane_def setDuration_def
      foldl_setPhase foldl_status_phase split: option.splits)

text \<open>Once a stage has been entered, the phase is the first stage that is not completed.\<close>

lemma active_first:
  assumes "find (\<lambda>t. \<not> conditionTrue cs t) ts = Some t"
  shows "activePhase cs True ts =
    (if (\<exists>c. FindStatusCondition cs t = Some c \<and> cond_reason c = ReasonFailed) then ''Failed'' else condition_name t)"
  using assms
  by (induction ts) (auto simp: conditionTrue_def split: option.splits if_splits)

lemma active_started:
  "FindStatusCondition cs t0 = Some c0 \<Longrightarrow> activePhase cs started (t0 # ts) = activePhase cs True (t0 # ts)"
  by simp

definition exportedPhase :: "migration \<Rightarrow> condition_type \<Rightarrow> string" where
  "exportedPhase m t =
     (if t = ConditionReady then ''Completed''
      else if (\<exists>c. FindStatusCondition (conds m) t = Some c \<and> cond_reason c = ReasonFailed) then ''Failed''
      else condition_name t)"

lemma active_completed: "list_all (conditionTrue cs) ts \<Longrightarrow> activePhase cs True ts = ''Completed''"
  by (induction ts) (auto simp: conditionTrue_def split: option.splits)

lemma find_append: "find Q (xs @ ys) = (case find Q xs of None \<Rightarrow> find Q ys | Some x \<Rightarrow> Some x)"
  by (induction xs) auto

lemma next_phase_exported:
  assumes "FindStatusCondition (conds m) ConditionInfrastructurePrepared = Some c0" and "nextPhase m = Some t"
    and "\<not> isConditionTrue m ConditionReady"
    and "\<forall>c. FindStatusCondition (conds m) ConditionReady = Some c \<longrightarrow> cond_reason c \<noteq> ReasonPaused"
  shows "PhaseFromConditions (status m) = exportedPhase m t"
proof -
  have order: "conditionOrder = phaseOrder @ [ConditionReady]" by (simp add: conditionOrder_def phaseOrder_def)
  have "PhaseFromConditions (status m) = activePhase (conds m) False phaseOrder"
    using assms(3,4) by (auto simp: PhaseFromConditions_def isConditionTrue_def conditionTrue_def split: option.splits)
  also have "\<dots> = activePhase (conds m) True phaseOrder"
    unfolding phaseOrder_def by (rule active_started [OF assms(1)])
  also have "\<dots> = exportedPhase m t"
  proof (cases "find (\<lambda>t. \<not> conditionTrue (conds m) t) phaseOrder")
    case None
    then have "list_all (conditionTrue (conds m)) phaseOrder" by (auto simp: find_None_iff list_all_iff)
    moreover have "t = ConditionReady"
      using assms(2) None unfolding nextPhase_def order isConditionTrue_def by (auto simp: find_append split: if_splits)
    ultimately show ?thesis by (simp add: active_completed exportedPhase_def)
  next
    case (Some u)
    then have "t = u" using assms(2) unfolding nextPhase_def order isConditionTrue_def by (simp add: find_append)
    moreover have "u \<noteq> ConditionReady" using Some by (auto simp: phaseOrder_def split: if_splits)
    ultimately show ?thesis using active_first [OF Some] by (simp add: exportedPhase_def)
  qed
  finally show ?thesis .
qed


definition freshGauges :: gauges where
  "freshGauges = \<lparr>migrationPhaseGauge = Map.empty, conditionStatusGauge = Map.empty, durationGauge = 0, workersTotalGauge = 0,
     workersReadyGauge = 0, nodesReadyGauge = 0, sourceWorkersRemainingGauge = 0, controlPlaneReplicasGauge = 0,
     controlPlaneUpdatedReplicasGauge = 0, controlPlaneReadyReplicasGauge = 0\<rparr>"


section \<open>Removed conditions\<close>

text \<open>The update writes the status gauges of the conditions that are there and no others: a condition
  that has been removed, as a recovered mapping rejection is, keeps the value exported last.\<close>

lemma removed_condition_gauge:
  assumes "\<forall>c \<in> set (conditions st). condition_name (cond_type c) \<noteq> nm"
  shows "conditionStatusGauge (UpdateMigrationMetrics now st g) (nm, v) = conditionStatusGauge g (nm, v)"
proof -
  have one: "conditionStatusGauge (foldl (setStatusGauge c) g vs) (nm, v) = conditionStatusGauge g (nm, v)"
    if "condition_name (cond_type c) \<noteq> nm" for c g vs
    using that by (induction vs arbitrary: g) (simp_all add: setStatusGauge_def)
  have "conditionStatusGauge (foldl (\<lambda>g c. foldl (setStatusGauge c) g vs) g cs) (nm, v) = conditionStatusGauge g (nm, v)"
    if "\<forall>c \<in> set cs. condition_name (cond_type c) \<noteq> nm" for g vs cs
    using that by (induction cs arbitrary: g) (simp_all add: one)
  moreover have "conditionStatusGauge (foldl (setPhase ph) g ps) = conditionStatusGauge g" for ph g ps
    by (induction ps arbitrary: g) (simp_all add: setPhase_def)
  ultimately show ?thesis
    using assms
    by (simp add: UpdateMigrationMetrics_def setProgress_def setWorkers_def setControlPlane_def setDuration_def split: option.splits)
qed

lemma completed_before_ready:
  "PhaseFromConditions (status (lateMigration\<lparr>status := (status lateMigration)\<lparr>conditions :=
     map (\<lambda>t. sampleCondition t ConditionTrue) phaseOrder @ [sampleCondition ConditionReady ConditionFalse]\<rparr>\<rparr>)) = ''Completed''"
  by (simp add: PhaseFromConditions_def FindStatusCondition_def sampleCondition_def phaseOrder_def)

end
