(* ===== verification/Spec2Isabelle.thy ===== *)
theory Spec2Isabelle
  imports Phases Metrics
begin

text \<open>
  \<^bold>\<open>Verification of the VCF migration operator\<close>

  The program is a Kubernetes operator, written in Go, that moves an OpenShift cluster from one
  vSphere vCenter to others. A user creates one \<open>VmwareCloudFoundationMigration\<close> object; the
  controller reconciles it: it reads the object, walks six conditions in a fixed order, runs the
  handler of the first that is not True, and publishes the status. All state that matters between
  two reconciles is in the stored object, in the cluster and in the vCenters; in memory there is
  only a session cache and the counters of the readiness gate and of stall events.

  \<^bold>\<open>How the code is modelled.\<close> A Go function that can fail is a value of
  \<open>('s, error, 'a) op\<close>, a function from a state to an error or a result and a new state
  (\<open>Prelude\<close>); \<open>bnd\<close> is the check \<open>if err != nil\<close>, \<open>wrapErr\<close> is \<open>fmt.Errorf\<close> with \<open>%w\<close>,
  \<open>attempt\<close> is code that looks at the error itself, \<open>deferred\<close> is a deferred call, and the loops
  over slices are \<open>foldM\<close>, \<open>forM\<close> or structural recursion, so every operation is total. The state
  (\<open>Execution\<close>, \<open>Reconciler\<close>) has the outside world, a trace of the calls made so far (newest
  first), the migration object the reconcile works on, and the in-memory fields. Calls to the
  Kubernetes API, to vCenter and to the clock are record fields of the clients (\<open>Clients\<close>,
  \<open>Execution\<close>): arbitrary functions of the world to an answer and a new world. Nothing is assumed of
  them, so the theorems hold for every answer, every failure and every change that others make
  between two calls; a context that expires is a call that fails. Pointers that may be nil are
  options, maps iterated over in an unspecified order go through the parameter \<open>r_iter\<close>, of which
  \<open>range_order\<close> says that it lists each key once, machine replicas are 32-bit integers with their
  wrap-around (\<open>i32\<close>), and IPv4 addresses are 32-bit words. A panic of the code (a nil
  dereference, an index out of range) is an error value.

  \<^bold>\<open>The theories\<close>, each with the part of \<open>src/internal\<close> (or \<open>src/api\<close>) it models:

  \<^item> \<open>Prelude\<close>: operations with state and errors, the rules for the predicates \<open>keeps\<close> and
    \<open>hoare\<close>, lists without duplicates, 32-bit integers.
  \<^item> \<open>Types\<close>: \<open>api/v1alpha1\<close>, the cluster objects the code reads, errors.
  \<^item> \<open>Names\<close>: names of generated worker machine sets; the families of two destinations never meet,
    and all names fit the label limit (locale \<open>name_family\<close>).
  \<^item> \<open>Conditions\<close>: the condition list of apimachinery (locale \<open>condition_store\<close>).
  \<^item> \<open>Execution\<close>: \<open>execution/permission.go\<close>, \<open>controller/execution.go\<close>, \<open>controller/errors.go\<close>; the
    trace, \<open>trace_ok\<close> (every mutation directly follows a permission read, every status write
    extends what was read just before), and the locale \<open>guarded_ctx\<close> of contexts that carry the
    check.
  \<^item> \<open>Retention\<close>: \<open>controller/retention.go\<close>. The JSON form of the spec and SHA-256 are the
    parameter \<open>r_hash\<close>.
  \<^item> \<open>Clients\<close>: the interfaces of the API clients, and the path functions of Go.
  \<^item> \<open>Machines\<close>, \<open>Health\<close>, \<open>Infra\<close>, \<open>Credentials\<close>, \<open>CloudConfig\<close>: the managers of \<open>openshift/\<close> and
    \<open>metadata/\<close>. The YAML codec is the parameter \<open>r_yaml\<close>.
  \<^item> \<open>Mapping\<close>, \<open>Layout\<close>: \<open>controller/failuredomains.go\<close>.
  \<^item> \<open>Reconciler\<close>: the reconciler struct and its state, conditions, the interface \<open>frame\<close> of
    properties that the operations below the handlers keep, and \<open>handler_ctx\<close>.
  \<^item> \<open>Status\<close>: merging and publishing the status under conflicts (locale \<open>write_order\<close>).
  \<^item> \<open>Sessions\<close>, \<open>Network\<close>, \<open>Probe\<close>, \<open>Tags\<close>: \<open>vsphere/\<close>.
  \<^item> \<open>NetCheck\<close>, \<open>Preflight\<close>: \<open>controller/preflight_netcheck.go\<close>, \<open>controller/preflight.go\<close> and the
    handler of InfrastructurePrepared.
  \<^item> \<open>Destination\<close>, \<open>Cleanup\<close>, \<open>Workers\<close>, \<open>Stall\<close>, \<open>Workload\<close>, \<open>Ready\<close>: the other five handlers of
    \<open>controller/vmwarecloudfoundationmigration_controller.go\<close> and what they call.
  \<^item> \<open>Reconcile\<close>: the gates and the loop of the same file; \<open>Phases\<close>: its abstraction.
  \<^item> \<open>Metrics\<close>: \<open>metrics/metrics.go\<close>.
  \<^item> This theory: the histories of the stored object.

  \<^bold>\<open>What is shown.\<close>

  \<^item> The whole system. \<open>history_in_order\<close> and \<open>mutations_follow_commits\<close> quantify over all histories
    of the stored object, with any number of processes reconciling from stale copies: recorded
    facts stay recorded, conditions complete in order, and the cluster is changed only for a
    phase whose predecessors are recorded.
  \<^item> One reconcile. \<open>reconcile_safe\<close>: no mutation without the singleton, Running, protected and
    unedited object, and then only those of the handler in turn, each directly after a fresh
    permission read. \<open>reconcile_refines_phases\<close>: every status write is a step of the abstract phase
    machine \<open>phase_step\<close>, through the abstraction \<open>phases\<close>.
  \<^item> Each handler: what it may send, and what must have been checked before (\<open>preflight_gate\<close>,
    \<open>destination_initialization\<close>, \<open>multi_site_configuration_steps\<close>, \<open>creation_bounded_and_recorded\<close>,
    \<open>scale_down_gated\<close>, \<open>workload_mutations_allowed\<close>, \<open>source_cleanup_bound\<close>,
    \<open>ready_needs_sustained_stability\<close>), and that a stable cluster does become ready
    (\<open>stable_cluster_becomes_ready\<close>).
  \<^item> Status publication: no interleaving takes a committed success back, and a completion record
    is bound to the spec that completed.
  \<^item> The components: round trips of credentials, configuration and the control plane update;
    exact characterisations of the mapping, coverage, layout and network checks; bounds on names,
    notes and messages; soundness of the session cache; the wait for a probe returns.

  \<^bold>\<open>Proof structure.\<close> Most theorems about effects are \<open>keeps P op\<close> facts, collected in
  \<open>keeps_rules\<close>: an operation is unfolded and its parts are discharged by introduction. The
  invariants are the trace predicate \<open>safe\<close> (in the locale of guarded contexts) and the properties
  of the locale \<open>frame\<close>, interpreted twice: with \<open>unaltered\<close> for what preflight leaves alone, and
  with \<open>staged\<close> for the phases. Every locale is interpreted on the definitions of the model.

  \<^bold>\<open>Hypotheses and bounds.\<close> \<open>range_order\<close> is the specification of iteration over a Go map.
  \<open>clock_ok\<close> (readiness) says that the clock does not run backwards between two reads. Condition
  lists have one entry per type, as the API server enforces. The retry on conflict makes five
  attempts, as \<open>retry.DefaultRetry\<close> does. The wait for a guest polls as often as the context
  allows, a number given by the environment (\<open>wait_ticks\<close>). \<open>separable\<close> (sessions) excludes \<open>#\<close>
  from server and datacenter names.

  \<^bold>\<open>Not modelled.\<close> The wiring of the process (\<open>cmd/main.go\<close>, \<open>SetupWithManager\<close>, scheme and metrics
  registration), which only calls controller-runtime; generated deep copies, since values are
  immutable here; log lines and the helpers that only write them; the status types of a node
  migration engine, which no code uses yet. Addresses that are not IPv4 count as unparseable: the
  code builds networks only from IPv4 addresses. Text is bytes; lower-casing changes the letters of
  ASCII and the two other characters that lower to one.
  Mutexes are left out: the operator runs one reconcile at a time per process, and several
  processes are interleaved through the stored object.
\<close>

section \<open>Histories of the stored migration\<close>

text \<open>
  The versions of the stored object, newest first, from any version whose completed conditions the
  phase machine can reach (a new object has none). Users, and the operator's own patches of the
  metadata, change anything but the status. A status write comes from some run of \<open>Reconcile\<close>, in
  whatever process, whose copy \<open>c\<close> of the object is any version stored so far; the API server
  accepts it only if the version it was computed from, which the run read just before, is still
  the newest, and keeps conditions unique by type (\<open>listType=map\<close>).
\<close>

inductive history :: "('w, 'b) reconciler_scheme \<Rightarrow> migration list \<Rightarrow> bool" for r where
  first: "\<lbrakk>phase_step\<^sup>*\<^sup>* {} (phases m); distinct (map cond_type (conds m))\<rbrakk> \<Longrightarrow> history r [m]"
| edited: "\<lbrakk>history r (l # vs); status m = status l\<rbrakk> \<Longrightarrow> history r (m # l # vs)"
| reconciled: "\<lbrakk>history r (l # vs); c \<in> set (l # vs); mig_get (r_client r) ns nm (world s) = (Inr c, w); trace s = [];
     Reconcile ctx r ns nm s = (res, s'); trace s' = tr2 @ StatusUpdateCall k # MigrationRead (Some l) # tr1;
     distinct (map cond_type (conds k))\<rbrakk> \<Longrightarrow> history r (k # l # vs)"

lemma phases_status: "status m = status l \<Longrightarrow> phases m = phases l"
  by (simp add: phases_def isConditionTrue_def)

lemma phases_ext: "status_ext (status l) (status k) \<Longrightarrow> phases l \<subseteq> phases k"
  by (auto simp: phases_def isConditionTrue_def status_ext_def)

lemma reconcile_write_ext:
  assumes "range_order (r_iter r)" and "Reconcile ctx r ns nm s = (res, s')" and "trace s = []"
    and "trace s' = tr2 @ StatusUpdateCall k # MigrationRead (Some l) # tr1"
  shows "status_ext (status l) (status k)"
proof -
  obtain j A where "trace_ok j A (trace s')" using reconcile_outcome [OF assms(1-3)] by blast
  then have "trace_ok j A (StatusUpdateCall k # MigrationRead (Some l) # tr1)" unfolding assms(4) by (rule trace_ok_append)
  then show ?thesis by simp
qed

text \<open>The newest version extends every other, and the phase machine reaches its conditions.\<close>

lemma history_newest:
  assumes "range_order (r_iter r)" and "history r vs"
  shows "(\<forall>v \<in> set vs. distinct (map cond_type (conds v)) \<and> status_ext (status v) (status (hd vs))) \<and>
    phase_step\<^sup>*\<^sup>* {} (phases (hd vs))"
  using assms(2)
proof (induction rule: history.induct)
  case (first m)
  then show ?case by (simp add: so.ext_refl)
next
  case (edited l vs m)
  then show ?case using phases_status [of m l] by (auto simp: so.ext_refl)
next
  case (reconciled l vs c ns nm s w ctx res s' tr2 k tr1)
  note ext = reconcile_write_ext [OF assms(1) reconciled.hyps(5,4,6)]
  have c: "distinct (map cond_type (conds c))" "phases c \<subseteq> phases l"
    using reconciled.IH reconciled.hyps(2) phases_ext by auto
  from reconcile_write [OF assms(1) reconciled.hyps(5,4,3) c(1) reconciled.hyps(6)] c(2)
  have "phase_step (phases l) (phases k)" by simp
  with reconciled.IH have "phase_step\<^sup>*\<^sup>* {} (phases k)" by (auto intro: rtranclp.rtrancl_into_rtrancl)
  with reconciled.IH reconciled.hyps(7) ext show ?case by (auto simp: so.ext_refl intro: so.ext_trans)
qed

text \<open>
  C1: in every history of the stored migration, however many processes reconcile it from however
  stale copies and whatever users edit in between, completed conditions stay completed, the
  recorded mapping, source vCenter and start time stay recorded, and a condition is completed only
  after all conditions before it in the order of the workflow; in particular the source is never
  recorded as cleaned before the workload is recorded as migrated.
\<close>

theorem history_in_order:
  assumes "range_order (r_iter r)" and "history r (m # vs)"
  shows "list_all (\<lambda>v. status_ext (status v) (status m)) vs \<and> phase_step\<^sup>*\<^sup>* {} (phases m) \<and>
    (\<forall>t \<in> set conditionOrder. isConditionTrue m t \<longrightarrow> (\<forall>u \<in> before t. isConditionTrue m u))"
proof (intro conjI)
  note newest = history_newest [OF assms]
  show "list_all (\<lambda>v. status_ext (status v) (status m)) vs" using newest by (auto simp: list_all_iff)
  show reach: "phase_step\<^sup>*\<^sup>* {} (phases m)" using newest by simp
  show "\<forall>t \<in> set conditionOrder. isConditionTrue m t \<longrightarrow> (\<forall>u \<in> before t. isConditionTrue m u)"
    using reachable_in_order [OF reach] by (auto simp: in_order_def phases_def)
qed

text \<open>A history of two versions: the paused migration, and what its reconcile wrote.\<close>

lemma history_start:
  "history r [pausedMigration]" "history r [lateMigration]"
proof -
  have p: "phases pausedMigration = {ConditionInfrastructurePrepared}"
    by (auto simp: phases_def pausedMigration_def isConditionTrue_def conditionTrue_def FindStatusCondition_def sampleCondition_def
        conditionOrder_def)
  have l: "phases lateMigration = {ConditionWorkloadMigrated, ConditionMultiSiteConfigured, ConditionDestinationInitialized,
      ConditionInfrastructurePrepared}"
    by (auto simp: phases_def lateMigration_def isConditionTrue_def conditionTrue_def FindStatusCondition_def sampleCondition_def
        conditionOrder_def)
  have step: "phase_step\<^sup>*\<^sup>* {} S \<Longrightarrow> before t \<subseteq> S \<Longrightarrow> t \<in> set conditionOrder \<Longrightarrow> phase_step\<^sup>*\<^sup>* {} (insert t S)" for S t
    by (meson phase_step.complete rtranclp.rtrancl_into_rtrancl)
  show "history r [pausedMigration]"
    by (rule history.first) (unfold p, intro step rtranclp.rtrancl_refl, simp_all add: before_def conditionOrder_def pausedMigration_def)
  show "history r [lateMigration]"
    by (rule history.first) (unfold l, intro step rtranclp.rtrancl_refl,
        simp_all add: before_def conditionOrder_def lateMigration_def sampleCondition_def)
qed

theorem history_in_order_witness:
  "\<exists>k. history lateReconciler [k, pausedMigration] \<and> status_ext (status pausedMigration) (status k) \<and>
     phase_step\<^sup>*\<^sup>* {} (phases k)"
proof -
  obtain k tr where tr: "trace (snd pausedRun) = [] @ StatusUpdateCall k # MigrationRead (Some pausedMigration) # tr"
    and "distinct (map cond_type (conds k))" using paused_trace by auto
  then have hist: "history lateReconciler [k, pausedMigration]"
    by (intro history.reconciled [where c = pausedMigration and ns = SingletonNamespace and nm = SingletonName
          and s = "sampleState pausedMigration pausedMigration" and ctx = None and s' = "snd pausedRun"])
      (auto simp: history_start late_clients sampleState_def pausedRun_def intro: prod.collapse [symmetric])
  have "range_order (r_iter lateReconciler)" by (simp add: late_clients range_order_def)
  from history_in_order [OF this hist] hist show ?thesis by auto
qed

section \<open>Changes follow commits\<close>

lemma nextPhase_before: "nextPhase m = Some t \<Longrightarrow> t \<in> set conditionOrder \<and> before t \<subseteq> phases m"
  using find_first [of "\<lambda>t. \<not> isConditionTrue m t" conditionOrder t]
  by (auto simp: nextPhase_def before_def phases_def dest: set_takeWhileD)

lemma trace_ok_mutation: "trace_ok m A tr \<Longrightarrow> MutateCall x \<in> set tr \<Longrightarrow> A x"
  by (induction m A tr rule: trace_ok.induct) auto

text \<open>
  C2: the cluster and the vCenters are changed only for the phase whose predecessors are committed.
  A mutation sent by any reconcile, from however stale a copy of the stored migration, is one that
  the handler of a condition may send for that copy, and all conditions before that one are
  recorded as completed in the newest version of the stored object: nothing is deleted in the
  source before the migration of the workload is recorded.
\<close>

theorem mutations_follow_commits:
  assumes "range_order (r_iter r)" and "history r (m # vs)" and "c \<in> set (m # vs)"
    and "mig_get (r_client r) ns nm (world s) = (Inr c, w)" and "trace s = []"
    and "Reconcile ctx r ns nm s = (res, s')" and "MutateCall x \<in> set (trace s')"
  shows "\<exists>t \<in> set conditionOrder. phaseStep r c t x \<and> admitted r c \<and> \<not> isConditionTrue c t \<and>
    (\<forall>u \<in> before t. isConditionTrue m u)"
proof -
  have "\<not> (\<forall>k. trace_ok k (\<lambda>_. False) (trace s'))" using trace_ok_mutation assms(7) by blast
  with reconcile_outcome [OF assms(1,6,5)] assms(4) obtain t where t: "admitted r c" "nextPhase c = Some t"
    "trace_ok c (phaseStep r c t) (trace s')" by auto
  have "phases c \<subseteq> phases m" using history_newest [OF assms(1,2)] assms(3) phases_ext by auto
  with nextPhase_before [OF t(2)] have "t \<in> set conditionOrder" "\<forall>u \<in> before t. isConditionTrue m u"
    by (auto simp: phases_def)
  moreover have "\<not> isConditionTrue c t" using t(2) by (auto simp: nextPhase_def find_Some_iff)
  ultimately show ?thesis using t(1) trace_ok_mutation [OF t(3) assms(7)] by blast
qed

text \<open>The late migration's reconcile changes the configuration of its source vCenter.\<close>

lemma since_mutated:
  "list_ex is_mutation (trace s) \<Longrightarrow> (\<And>tr. keeps (since tr) f) \<Longrightarrow> list_ex is_mutation (trace (snd (f s)))"
  using keeps_snd [of "since (trace s)" f s] by (auto simp: since_def suffix_def)

lemma bnd_mutated:
  "list_ex is_mutation (trace (snd (m s))) \<Longrightarrow> (\<And>x tr. keeps (since tr) (f x)) \<Longrightarrow> list_ex is_mutation (trace (snd (bnd m f s)))"
  by (auto simp: bnd_app intro!: since_mutated split: prod.splits sum.splits)

lemma attempt_mutated:
  "list_ex is_mutation (trace (snd (m s))) \<Longrightarrow> (\<And>x tr. keeps (since tr) (f x)) \<Longrightarrow> list_ex is_mutation (trace (snd (attempt m f s)))"
  by (auto simp: attempt_app intro!: since_mutated split: prod.splits)

lemma late_progress: "world s = lateMigration \<Longrightarrow> \<exists>t. setProgressing lateReconciler u msg s = (Inr (), t) \<and> world t = lateMigration"
  by (simp add: setCondition_def bnd_app timeNow_def sampleReconciler_def sampleClient_def)

lemma late_infra: "world s = lateMigration \<Longrightarrow> \<exists>t. infra_Get (r_config lateReconciler) s = (Inr bothVCenters, t) \<and> world t = lateMigration"
  by (simp add: infra_Get_def readCall_def wrapErr_def attempt_app request_app apiResult_def sampleReconciler_def sampleConfigClient_def)

lemma late_removal:
  assumes "world s = lateMigration"
  shows "list_ex is_mutation (trace (snd (removeSourceServer lateCtx lateReconciler bothVCenters ''vc1'' s)))"
proof -
  obtain t where t: "setProgressing lateReconciler ConditionSourceCleaned ''Removing source vCenter from Infrastructure'' s = (Inr (), t)"
      "world t = lateMigration"
    using late_progress [OF assms] by blast
  have "list_ex is_mutation (trace (snd (RemoveSourceVCenter lateCtx (r_config lateReconciler) bothVCenters ''vc1'' t)))"
    using t(2) by (simp add: RemoveSourceVCenter_def bothVCenters_def removeSource_def sampleServerFD_def bnd_app Check_def
        executionContext_def WithCheck_def checkPermission_def sampleClient_def late_fields stillRunning_def apiResult_def
        wrapErr_def attempt_app request_app sampleReconciler_def sampleConfigClient_def)
  then have "list_ex is_mutation (trace (snd (wrapErr u (RemoveSourceVCenter lateCtx (r_config lateReconciler) bothVCenters ''vc1'') t)))" for u
    by simp
  then show ?thesis
    unfolding removeSourceServer_def creds_defs config_defs readCall_def
    by (subst bnd_app) (simp only: t prod.case sum.case, rule bnd_mutated, simp, intro keeps_rules)
qed

lemma late_cleanup:
  assumes "world p = lateMigration" and "mig p = lateMigration"
  shows "list_ex is_mutation (trace (snd (ensureSourceCleaned lateCtx lateReconciler p)))"
proof -
  have src: "sourceVCenter (status lateMigration) = ''vc1''" "\<not> isConfiguredDestination lateMigration ''vc1''"
    by (simp_all add: lateMigration_def cleanupMigration_def isConfiguredDestination_def sampleServerFD_def)
  obtain t where t: "setProgressing lateReconciler ConditionSourceCleaned ''Cleaning up source vCenter'' p = (Inr (), t)"
    "world t = lateMigration" using late_progress [OF assms(1)] by blast
  obtain q where q: "infra_Get (r_config lateReconciler) t = (Inr bothVCenters, q)" "world q = lateMigration"
    using late_infra [OF t(2)] by blast
  have run: "ensureSourceCleaned lateCtx lateReconciler p = cleanServer lateCtx lateReconciler lateMigration bothVCenters ''vc1'' q"
    using assms(2) by (simp add: ensureSourceCleaned_def resolveSourceServer_def src bnd_app wrapErr_def attempt_app t(1) q(1))
  show ?thesis unfolding run cleanServer_def by (rule bnd_mutated, rule late_removal [OF q(2)], intro keeps_rules since_cleanup)
qed

lemma late_mutates: "\<exists>x. MutateCall x \<in> set (trace (snd lateRun))"
proof -
  let ?s = "lateState\<lparr>trace := [MigrationRead (Some lateMigration)]\<rparr>"
  obtain p where p: "Check lateCtx ?s = (Inr (), p)" "world p = lateMigration" "mig p = lateMigration"
    by (simp add: Check_def executionContext_def WithCheck_def checkPermission_def sampleClient_def sampleState_def
        late_fields stillRunning_def apiResult_def)
  have "list_ex is_mutation (trace (snd lateRun))"
    unfolding lateRun_def publishOutcome_def recordFailure_def updateStatus_def updateStatusOnce_def
    by (subst attempt_app) (simp only: p(1) prod.case sum.case, rule attempt_mutated, rule late_cleanup [OF p(2,3)], intro keeps_rules)
  then show ?thesis by (auto simp: list_ex_iff elim: is_mutation.elims)
qed

theorem mutations_follow_commits_witness:
  "\<exists>x. MutateCall x \<in> set (trace (snd lateRun)) \<and>
     (\<exists>t \<in> set conditionOrder. phaseStep lateReconciler lateMigration t x \<and> \<not> isConditionTrue lateMigration t)"
proof -
  obtain x where x: "MutateCall x \<in> set (trace (snd lateRun))" using late_mutates by blast
  have "range_order (r_iter lateReconciler)" by (simp add: late_clients range_order_def)
  moreover have "mig_get (r_client lateReconciler) SingletonNamespace SingletonName (world lateState) = (Inr lateMigration, lateMigration)"
    by (simp add: late_clients)
  moreover have "Reconcile None lateReconciler SingletonNamespace SingletonName lateState = (fst lateRun, snd lateRun)"
    by (simp add: late_reconcile)
  ultimately show ?thesis
    using mutations_follow_commits [OF _ history_start(2), of lateReconciler lateMigration SingletonNamespace SingletonName lateState
        lateMigration None "fst lateRun" "snd lateRun" x] x by (auto simp: late_clients)
qed

end
